(* ===== verification/Prelude.thy ===== *)
theory Prelude
  imports Main "HOL-Library.Word" "HOL-Library.Monad_Syntax"
begin

text \<open>
  Shared vocabulary of the development: the machine integers of the C code, the \<open>errno\<close>
  values it returns, the overwrite of a byte array at an offset (what \<open>memcpy\<close> into a static
  buffer does), and the generic lemmas on lists, options and words that the component theories
  use.  The named collections declared here are filled by the components:
  \<^item> \<open>errno_defs\<close>: the numeric values of the error codes;
  \<^item> \<open>seq_simps\<close>: facts on the 4-bit sequence numbers;
  \<^item> \<open>frame_simps\<close>: what an operation leaves unchanged (frame rules of the state records).
\<close>

named_theorems errno_defs
named_theorems seq_simps
named_theorems frame_simps

unbundle bit_operations_syntax

section \<open>Machine integers\<close>

type_synonym byte = "8 word"
type_synonym u16 = "16 word"
type_synonym u32 = "32 word"

text \<open>High and low byte of a 16-bit value, and the value they make up.\<close>

definition hi_byte :: "u16 \<Rightarrow> byte" where
  "hi_byte x = ucast (drop_bit 8 x)"

definition lo_byte :: "u16 \<Rightarrow> byte" where
  "lo_byte x = ucast x"

definition mk_u16 :: "byte \<Rightarrow> byte \<Rightarrow> u16" where
  "mk_u16 hi lo = push_bit 8 (ucast hi) OR ucast lo"

text \<open>Byte swap: \<open>sys_cpu_to_be16\<close> and \<open>sys_be16_to_cpu\<close> on a little-endian CPU.\<close>

definition bswap16 :: "u16 \<Rightarrow> u16" where
  "bswap16 x = mk_u16 (lo_byte x) (hi_byte x)"

lemma hi_byte_mk_u16 [simp]: "hi_byte (mk_u16 h l) = h"
  unfolding hi_byte_def mk_u16_def
  by (rule bit_word_eqI) (auto simp: bit_simps dest: bit_imp_le_length)

lemma lo_byte_mk_u16 [simp]: "lo_byte (mk_u16 h l) = l"
  unfolding lo_byte_def mk_u16_def
  by (rule bit_word_eqI) (auto simp: bit_simps)

lemma mk_u16_hi_lo [simp]: "mk_u16 (hi_byte x) (lo_byte x) = x"
  unfolding hi_byte_def lo_byte_def mk_u16_def
  by (rule bit_word_eqI) (auto simp: bit_simps)

lemma bswap16_mk_u16 [simp]: "bswap16 (mk_u16 h l) = mk_u16 l h"
  by (simp add: bswap16_def)

lemma bswap16_bswap16 [simp]: "bswap16 (bswap16 x) = x"
  by (simp add: bswap16_def)

lemma mk_u16_eq_iff [simp]: "mk_u16 h l = mk_u16 h' l' \<longleftrightarrow> h = h' \<and> l = l'"
  by (metis hi_byte_mk_u16 lo_byte_mk_u16)

lemma unat_word_of_nat_16: "n < 65536 \<Longrightarrow> unat (word_of_nat n :: u16) = n"
  by (simp add: unat_of_nat take_bit_eq_mod)

lemma and_0x0F: "x AND 0x0F = take_bit 4 (x :: byte)"
  by (simp add: take_bit_eq_mask mask_eq_exp_minus_1)

lemma and_0x03: "x AND 3 = take_bit 2 (x :: byte)"
  by (simp add: take_bit_eq_mask mask_eq_exp_minus_1)

lemma and_0xFF: "x AND 0xFF = take_bit 8 (x :: u16)"
  by (simp add: take_bit_eq_mask mask_eq_exp_minus_1)

lemma and_1_neq_0: "drop_bit n x AND 1 \<noteq> 0 \<longleftrightarrow> bit (x :: byte) n"
  by (simp add: bit_iff_and_drop_bit_eq_1 and_one_eq odd_iff_mod_2_eq_one)

lemma bit_of_bool: "bit (of_bool b :: 'a::len word) n \<longleftrightarrow> b \<and> n = 0"
  by (cases b) (auto simp: bit_simps)

lemma ucast_take_bit_nibble:
  "ucast (take_bit 4 b) = (ucast b :: 4 word)"
  "ucast (take_bit 4 (drop_bit 4 b)) = (ucast (drop_bit 4 b) :: 4 word)"
  "ucast (take_bit 2 (drop_bit 6 b)) = (ucast (drop_bit 6 b) :: 2 word)" for b :: byte
  by (auto intro!: bit_word_eqI simp: bit_simps)

lemma take_bit_ucast_nibble: "take_bit 4 (ucast t :: byte) = ucast t" for t :: "4 word"
  by (rule bit_word_eqI) (auto simp: bit_simps dest: bit_imp_le_length)

lemma ucast_ucast_nibble [simp]: "ucast (ucast t :: byte) = t" for t :: "4 word"
  by (rule bit_word_eqI) (auto simp: bit_simps)

lemma ucast_take_bit_8: "ucast (take_bit 8 x) = lo_byte x"
  unfolding lo_byte_def by (rule bit_word_eqI) (auto simp: bit_simps)

text \<open>The masks the C code writes, as bit-truncations.\<close>

lemmas mask_simps =
  and_0x0F and_0x03 and_0xFF and_1_neq_0 ucast_take_bit_nibble take_bit_ucast_nibble
  ucast_take_bit_8

lemma mod_add_cancel_le:
  assumes "(a + i) mod m = (a + j) mod m" and "i \<le> j" and "j < m"
  shows "i = (j :: nat)"
proof (rule ccontr)
  assume "i \<noteq> j"
  have "m dvd (a + j) - (a + i)"
    using assms(1,2) by (subst mod_eq_dvd_iff_nat [symmetric]) auto
  then have "m dvd j - i" by simp
  then have "m \<le> j - i" using \<open>i \<noteq> j\<close> assms(2) by (simp add: dvd_imp_le)
  then show False using assms(3) by simp
qed

lemma mod_add_cancel_less:
  "(a + i) mod m = (a + j) mod m \<Longrightarrow> i < m \<Longrightarrow> j < m \<Longrightarrow> i = (j :: nat)"
  by (metis mod_add_cancel_le nat_le_linear)

section \<open>Error codes\<close>

text \<open>The values of \<open>errno.h\<close>; functions return their negation.\<close>

definition EIO :: int where [errno_defs]: "EIO = 5"
definition EAGAIN :: int where [errno_defs]: "EAGAIN = 11"
definition ENODEV :: int where [errno_defs]: "ENODEV = 19"
definition EINVAL :: int where [errno_defs]: "EINVAL = 22"
definition ENOSPC :: int where [errno_defs]: "ENOSPC = 28"
definition EBADMSG :: int where [errno_defs]: "EBADMSG = 77"
definition ETIMEDOUT :: int where [errno_defs]: "ETIMEDOUT = 116"
definition EMSGSIZE :: int where [errno_defs]: "EMSGSIZE = 122"
definition ENOTSUP :: int where [errno_defs]: "ENOTSUP = 134"

section \<open>Byte arrays\<close>

text \<open>Store \<open>bs\<close> into the array \<open>xs\<close> at offset \<open>off\<close>; meaningful when it fits.\<close>

definition overwrite :: "nat \<Rightarrow> 'a list \<Rightarrow> 'a list \<Rightarrow> 'a list" where
  "overwrite off bs xs = take off xs @ bs @ drop (off + length bs) xs"

lemma length_overwrite [simp]:
  "off + length bs \<le> length xs \<Longrightarrow> length (overwrite off bs xs) = length xs"
  by (simp add: overwrite_def)

lemma overwrite_Nil [simp]: "overwrite off [] xs = xs"
  by (simp add: overwrite_def)

lemma take_overwrite_0 [simp]: "take (length bs) (overwrite 0 bs xs) = bs"
  by (simp add: overwrite_def)

lemma take_overwrite_snoc:
  assumes "off + length bs \<le> length xs"
  shows "take (off + length bs) (overwrite off bs xs) = take off xs @ bs"
  using assms by (simp add: overwrite_def)

lemma take_overwrite_below:
  assumes "k \<le> off" "off \<le> length xs"
  shows "take k (overwrite off bs xs) = take k xs"
  using assms by (simp add: overwrite_def)

section \<open>size_t\<close>

text \<open>\<open>size_t\<close> is 32 bits wide on the target: sums and differences wrap.\<close>

definition size_add :: "nat \<Rightarrow> nat \<Rightarrow> nat" where
  "size_add a b = (a + b) mod 2 ^ 32"

definition size_sub :: "nat \<Rightarrow> nat \<Rightarrow> nat" where
  "size_sub a b = (a + (2 ^ 32 - b mod 2 ^ 32)) mod 2 ^ 32"

lemma size_add_small [simp]: "a + b < 2 ^ 32 \<Longrightarrow> size_add a b = a + b"
  by (simp add: size_add_def)

lemma size_sub_le [simp]:
  assumes "b \<le> a" and "a < 2 ^ 32"
  shows "size_sub a b = a - b"
proof -
  have b: "b mod 2 ^ 32 = b" using assms by simp
  have "a + (2 ^ 32 - b) = (a - b) + 2 ^ 32" using assms by simp
  then have "size_sub a b = ((a - b) + 2 ^ 32) mod 2 ^ 32" by (simp only: size_sub_def b)
  also have "\<dots> = a - b" using assms by (simp only: mod_add_self2) simp
  finally show ?thesis .
qed

lemma size_sub_wrap:
  assumes "a < b" and "b < 2 ^ 32"
  shows "size_sub a b = 2 ^ 32 - (b - a)"
  using assms by (simp add: size_sub_def)

section \<open>Lists and options\<close>

lemma take_append_take_drop: "take k xs @ take n (drop k xs) = take (k + n) xs"
  by (simp add: take_add)

lemma drop_eq_Nil_length: "n < length xs \<Longrightarrow> drop n xs \<noteq> []"
  by simp

lemma bind_Some_iff: "Option.bind m f = Some y \<longleftrightarrow> (\<exists>x. m = Some x \<and> f x = Some y)"
  by (cases m) auto

lemma bind_Some_map: "Option.bind m (\<lambda>x. Some (f x)) = map_option f m"
  by (cases m) auto

end
