(* ===== verification/Link_Protocol.thy ===== *)
theory Link_Protocol
  imports Prelude
begin

text \<open>
  The common link protocol: the constants and header structures of
  \<open>include/embedded80211/serial.h\<close> (device side) and the pure framing primitives of
  \<open>include/embedded80211/bus.h\<close> (host side).

  Bit-fields keep their widths: the 4-bit traffic type, reserved and sequence fields are
  \<open>4 word\<close>, the error field is \<open>2 word\<close>, one-bit flags are \<open>bool\<close> and the payload length is
  a \<open>16 word\<close>.  The device transmits its header by copying the bytes of
  \<open>struct SerialHeader\<close>; \<open>SerialHeader_bytes\<close> is that memory image on the little-endian ARM
  target (bit-fields allocated from the least significant bit, \<open>length\<close> stored low byte
  first), which is the layout the comment on \<open>struct bus_header\<close> states.

  The wire contract that both codecs implement is the locale \<open>wire_codec\<close>; the two
  interpretations are \<open>host_codec\<close> and \<open>device_codec\<close>.  The 4-bit wrap-around counter, written
  out at three places in the sources, is the locale \<open>seq_counter\<close>.
\<close>

unbundle bit_operations_syntax

section \<open>Constants (serial.h)\<close>

abbreviation (input) SERIAL_PROTOCOL_VERSION :: byte where
  "SERIAL_PROTOCOL_VERSION \<equiv> 1"

abbreviation (input) SERIAL_MAX_PAYLOAD_LEN :: nat where
  "SERIAL_MAX_PAYLOAD_LEN \<equiv> 4096"

abbreviation (input) SEQUENCE_NUMBER_MAX :: byte where
  "SEQUENCE_NUMBER_MAX \<equiv> 15"

datatype ParsingState =
    PARSING_STATE_TYPE
  | PARSING_STATE_SEQUENCE_NUMBER
  | PARSING_STATE_LENGTH1
  | PARSING_STATE_LENGTH2
  | PARSING_STATE_DATA

text \<open>
  A traffic type is what the 4-bit header field can hold; the enumerators name the values
  0 to 8, and \<open>SERIAL_TYPE_UNKNOWN\<close> is the first value without a meaning.
\<close>

type_synonym SerialType = "4 word"

abbreviation (input) SERIAL_TYPE_WIFI_MGMT :: SerialType where "SERIAL_TYPE_WIFI_MGMT \<equiv> 0"
abbreviation (input) SERIAL_TYPE_WIFI_DATA :: SerialType where "SERIAL_TYPE_WIFI_DATA \<equiv> 1"
abbreviation (input) SERIAL_TYPE_NET_IF_MGMT :: SerialType where "SERIAL_TYPE_NET_IF_MGMT \<equiv> 2"
abbreviation (input) SERIAL_TYPE_HCI :: SerialType where "SERIAL_TYPE_HCI \<equiv> 3"
abbreviation (input) SERIAL_TYPE_THREAD :: SerialType where "SERIAL_TYPE_THREAD \<equiv> 4"
abbreviation (input) SERIAL_TYPE_NET_OFFLOADING :: SerialType where "SERIAL_TYPE_NET_OFFLOADING \<equiv> 5"
abbreviation (input) SERIAL_TYPE_AT_CMD :: SerialType where "SERIAL_TYPE_AT_CMD \<equiv> 6"
abbreviation (input) SERIAL_TYPE_PROTOCOL_INFO :: SerialType where "SERIAL_TYPE_PROTOCOL_INFO \<equiv> 7"
abbreviation (input) SERIAL_TYPE_VSERIAL :: SerialType where "SERIAL_TYPE_VSERIAL \<equiv> 8"
abbreviation (input) SERIAL_TYPE_UNKNOWN :: SerialType where "SERIAL_TYPE_UNKNOWN \<equiv> 9"

type_synonym ErrorType = "2 word"

abbreviation (input) ERROR_TYPE_NO_ERROR :: ErrorType where "ERROR_TYPE_NO_ERROR \<equiv> 0"
abbreviation (input) ERROR_TYPE_INCORRECT_SEQUENCE_NUMBER :: ErrorType where
  "ERROR_TYPE_INCORRECT_SEQUENCE_NUMBER \<equiv> 1"
abbreviation (input) ERROR_TYPE_OUT_OF_BUFFERS :: ErrorType where "ERROR_TYPE_OUT_OF_BUFFERS \<equiv> 2"
abbreviation (input) ERROR_TYPE_LENGTH_TOO_LONG :: ErrorType where "ERROR_TYPE_LENGTH_TOO_LONG \<equiv> 3"

section \<open>The device's header (serial.h)\<close>

record SerialHeader =
  sh_type :: SerialType
  sh_no_ack :: bool
  sh_host :: bool
  sh_error :: ErrorType
  sh_reserved :: "4 word"
  sh_sequence_number :: "4 word"
  sh_length :: u16

text \<open>The object representation: \<open>(const uint8_t *)&hdr\<close>, four bytes.\<close>

definition SerialHeader_byte0 :: "SerialHeader \<Rightarrow> byte" where
  "SerialHeader_byte0 h =
     ucast (sh_type h) OR push_bit 4 (of_bool (sh_no_ack h)) OR
     push_bit 5 (of_bool (sh_host h)) OR push_bit 6 (ucast (sh_error h))"

definition SerialHeader_byte1 :: "SerialHeader \<Rightarrow> byte" where
  "SerialHeader_byte1 h = ucast (sh_reserved h) OR push_bit 4 (ucast (sh_sequence_number h))"

definition SerialHeader_bytes :: "SerialHeader \<Rightarrow> byte list" where
  "SerialHeader_bytes h =
     [SerialHeader_byte0 h, SerialHeader_byte1 h, lo_byte (sh_length h), hi_byte (sh_length h)]"

text \<open>
  Stores through byte pointers into the header, as the receive interrupt does:
  \<open>*(uint8_t *)&hdr = b\<close>, \<open>*((uint8_t *)&hdr + 1) = b\<close>, and the two bytes of \<open>length\<close>.
\<close>

definition set_header_byte0 :: "byte \<Rightarrow> SerialHeader \<Rightarrow> SerialHeader" where
  "set_header_byte0 b h = h\<lparr>sh_type := ucast b, sh_no_ack := bit b 4, sh_host := bit b 5,
     sh_error := ucast (drop_bit 6 b)\<rparr>"

definition set_header_byte1 :: "byte \<Rightarrow> SerialHeader \<Rightarrow> SerialHeader" where
  "set_header_byte1 b h = h\<lparr>sh_reserved := ucast b, sh_sequence_number := ucast (drop_bit 4 b)\<rparr>"

definition set_length_byte0 :: "byte \<Rightarrow> SerialHeader \<Rightarrow> SerialHeader" where
  "set_length_byte0 b h = h\<lparr>sh_length := mk_u16 (hi_byte (sh_length h)) b\<rparr>"

definition set_length_byte1 :: "byte \<Rightarrow> SerialHeader \<Rightarrow> SerialHeader" where
  "set_length_byte1 b h = h\<lparr>sh_length := mk_u16 b (lo_byte (sh_length h))\<rparr>"

section \<open>The host's header and framing primitives (bus.h)\<close>

record bus_header =
  bh_type :: "4 word"
  bh_no_ack :: bool
  bh_host :: bool
  bh_error :: "2 word"
  bh_reserved :: "4 word"
  bh_seq :: "4 word"
  bh_length :: u16

definition bus_header_encode :: "bus_header \<Rightarrow> byte list" where
  "bus_header_encode h =
     [push_bit 6 (ucast (bh_error h)) OR push_bit 5 (of_bool (bh_host h)) OR
        push_bit 4 (of_bool (bh_no_ack h)) OR (ucast (bh_type h) AND 0x0F),
      push_bit 4 (ucast (bh_seq h)) OR (ucast (bh_reserved h) AND 0x0F),
      ucast (drop_bit 8 (bh_length h)),
      ucast (bh_length h AND 0xFF)]"

definition bus_header_decode :: "byte list \<Rightarrow> bus_header" where
  "bus_header_decode inp =
     \<lparr>bh_type = ucast (inp ! 0 AND 0x0F),
      bh_no_ack = (drop_bit 4 (inp ! 0) AND 1 \<noteq> 0),
      bh_host = (drop_bit 5 (inp ! 0) AND 1 \<noteq> 0),
      bh_error = ucast (drop_bit 6 (inp ! 0) AND 3),
      bh_reserved = ucast (inp ! 1 AND 0x0F),
      bh_seq = ucast (drop_bit 4 (inp ! 1) AND 0x0F),
      bh_length = push_bit 8 (ucast (inp ! 2)) OR ucast (inp ! 3)\<rparr>"

definition bus_seq_next :: "byte \<Rightarrow> byte" where
  "bus_seq_next seq = (if SEQUENCE_NUMBER_MAX \<le> seq then 0 else seq + 1)"

definition bus_validate_tx :: "SerialType \<Rightarrow> u16 \<Rightarrow> int" where
  "bus_validate_tx ty len =
     (if SERIAL_MAX_PAYLOAD_LEN < unat len then - EMSGSIZE
      else if len = 0 \<and> ty \<noteq> SERIAL_TYPE_PROTOCOL_INFO then - EINVAL
      else 0)"

definition bus_validate_rx :: "bus_header \<Rightarrow> int" where
  "bus_validate_rx h =
     (if bh_reserved h \<noteq> 0 then - EINVAL
      else if SERIAL_TYPE_UNKNOWN \<le> bh_type h then - EINVAL
      else if SERIAL_MAX_PAYLOAD_LEN < unat (bh_length h) then - EMSGSIZE
      else 0)"

section \<open>The wire contract\<close>

text \<open>
  A header codec: every header is four bytes on the wire, decoding inverts encoding, and
  every four bytes are the image of a header.
\<close>

locale wire_codec =
  fixes enc :: "'h \<Rightarrow> byte list"
    and dec :: "byte list \<Rightarrow> 'h"
  assumes enc_length: "length (enc h) = 4"
    and dec_enc: "dec (enc h) = h"
    and enc_dec: "length bs = 4 \<Longrightarrow> enc (dec bs) = bs"
begin

lemma enc_inject: "enc h = enc h' \<longleftrightarrow> h = h'"
  by (metis dec_enc)

text \<open>Parsing a stream: the first four bytes give the header back, the rest is untouched.\<close>

lemma dec_stream: "dec (take 4 (enc h @ rest)) = h" "drop 4 (enc h @ rest) = rest"
  by (simp_all add: enc_length dec_enc)

lemma wire_ambiguity_free:
  assumes "enc h @ xs = enc h' @ ys"
  shows "h = h' \<and> xs = ys"
proof -
  have "enc h = enc h' \<and> xs = ys"
    using assms by (subst (asm) append_eq_append_conv) (simp_all add: enc_length)
  then show ?thesis by (simp add: enc_inject)
qed

end

section \<open>Both codecs implement the wire contract\<close>

text \<open>
  Packing of the first two header bytes.  Host and device write the same byte with the
  operands of the disjunction in a different order.
\<close>

definition pack_flags :: "4 word \<Rightarrow> bool \<Rightarrow> bool \<Rightarrow> 2 word \<Rightarrow> byte" where
  "pack_flags t na ho er =
     ucast t OR push_bit 4 (of_bool na) OR push_bit 5 (of_bool ho) OR push_bit 6 (ucast er)"

definition pack_seq :: "4 word \<Rightarrow> 4 word \<Rightarrow> byte" where
  "pack_seq r s = ucast r OR push_bit 4 (ucast s)"

lemma bit_pack_flags:
  "bit (pack_flags t na ho er) n \<longleftrightarrow>
     (if n < 4 then bit t n else if n = 4 then na else if n = 5 then ho
      else if n < 8 then bit er (n - 6) else False)"
  unfolding pack_flags_def
  by (auto simp: bit_simps bit_of_bool dest: bit_imp_le_length)

lemma bit_pack_seq:
  "bit (pack_seq r s) n \<longleftrightarrow>
     (if n < 4 then bit r n else if n < 8 then bit s (n - 4) else False)"
  unfolding pack_seq_def
  by (auto simp: bit_simps dest: bit_imp_le_length)

lemma unpack_flags [simp]:
  "ucast (pack_flags t na ho er) = t"
  "bit (pack_flags t na ho er) 4 = na"
  "bit (pack_flags t na ho er) 5 = ho"
  "ucast (drop_bit 6 (pack_flags t na ho er)) = er"
  by (auto intro!: bit_word_eqI simp: bit_simps bit_pack_flags)

lemma unpack_seq [simp]:
  "ucast (pack_seq r s) = r"
  "ucast (drop_bit 4 (pack_seq r s)) = s"
  by (auto intro!: bit_word_eqI simp: bit_simps bit_pack_seq)

lemma pack_flags_unpack [simp]:
  "pack_flags (ucast b) (bit b 4) (bit b 5) (ucast (drop_bit 6 b)) = b"
proof (rule bit_word_eqI)
  fix n :: nat
  assume "n < LENGTH(8)"
  then show "bit (pack_flags (ucast b) (bit b 4) (bit b 5) (ucast (drop_bit 6 b))) n = bit b n"
    by (cases "n = 4"; cases "n = 5") (auto simp: bit_pack_flags bit_simps)
qed

lemma pack_seq_unpack [simp]: "pack_seq (ucast b) (ucast (drop_bit 4 b)) = b"
  by (rule bit_word_eqI) (auto simp: bit_pack_seq bit_simps)

lemma bus_header_encode_eq:
  "bus_header_encode h =
     [pack_flags (bh_type h) (bh_no_ack h) (bh_host h) (bh_error h),
      pack_seq (bh_reserved h) (bh_seq h), hi_byte (bh_length h), lo_byte (bh_length h)]"
  unfolding bus_header_encode_def mask_simps pack_flags_def pack_seq_def hi_byte_def
  by (simp add: or.commute or.left_commute del: of_bool_eq split del: if_split)

lemma bus_header_decode_eq:
  "bus_header_decode inp =
     \<lparr>bh_type = ucast (inp ! 0), bh_no_ack = bit (inp ! 0) 4, bh_host = bit (inp ! 0) 5,
      bh_error = ucast (drop_bit 6 (inp ! 0)), bh_reserved = ucast (inp ! 1),
      bh_seq = ucast (drop_bit 4 (inp ! 1)), bh_length = mk_u16 (inp ! 2) (inp ! 3)\<rparr>"
  unfolding bus_header_decode_def mask_simps mk_u16_def by simp

lemma SerialHeader_bytes_eq:
  "SerialHeader_bytes h =
     [pack_flags (sh_type h) (sh_no_ack h) (sh_host h) (sh_error h),
      pack_seq (sh_reserved h) (sh_sequence_number h),
      lo_byte (sh_length h), hi_byte (sh_length h)]"
  by (simp add: SerialHeader_bytes_def SerialHeader_byte0_def SerialHeader_byte1_def
      pack_flags_def pack_seq_def)

lemma length_4_conv: "length bs = 4 \<longleftrightarrow> (\<exists>a b c d. bs = [a, b, c, d])"
  by (auto simp: length_Suc_conv numeral_eq_Suc)

lemma length_bus_header_encode [simp]: "length (bus_header_encode h) = 4"
  by (simp add: bus_header_encode_def)

lemma length_SerialHeader_bytes [simp]: "length (SerialHeader_bytes h) = 4"
  by (simp add: SerialHeader_bytes_def)

interpretation host_codec: wire_codec bus_header_encode bus_header_decode
  by unfold_locales
    (auto simp: bus_header_encode_eq bus_header_decode_eq length_4_conv)

text \<open>
  The device keeps \<open>length\<close> in CPU order once a header has been received and puts it into
  big-endian order (\<open>sys_cpu_to_be16\<close>) when it builds one to send; \<open>device_wire\<close> is the wire
  image of a header kept in CPU order.  \<open>device_header_rx\<close> is what the receive interrupt makes
  of four header bytes: the stores of the parser followed by \<open>sys_be16_to_cpu\<close>.
\<close>

definition device_wire :: "SerialHeader \<Rightarrow> byte list" where
  "device_wire h = SerialHeader_bytes (h\<lparr>sh_length := bswap16 (sh_length h)\<rparr>)"

definition device_header_rx :: "SerialHeader \<Rightarrow> byte list \<Rightarrow> SerialHeader" where
  "device_header_rx h0 bs =
     (let h = set_length_byte1 (bs ! 3) (set_length_byte0 (bs ! 2)
                (set_header_byte1 (bs ! 1) (set_header_byte0 (bs ! 0) h0)))
      in h\<lparr>sh_length := bswap16 (sh_length h)\<rparr>)"

lemma device_wire_eq:
  "device_wire h =
     [pack_flags (sh_type h) (sh_no_ack h) (sh_host h) (sh_error h),
      pack_seq (sh_reserved h) (sh_sequence_number h),
      hi_byte (sh_length h), lo_byte (sh_length h)]"
  by (simp add: device_wire_def SerialHeader_bytes_eq bswap16_def)

lemma length_device_wire [simp]: "length (device_wire h) = 4"
  by (simp add: device_wire_eq)

lemma device_header_rx_eq:
  "device_header_rx h0 bs =
     \<lparr>sh_type = ucast (bs ! 0), sh_no_ack = bit (bs ! 0) 4, sh_host = bit (bs ! 0) 5,
      sh_error = ucast (drop_bit 6 (bs ! 0)), sh_reserved = ucast (bs ! 1),
      sh_sequence_number = ucast (drop_bit 4 (bs ! 1)), sh_length = mk_u16 (bs ! 2) (bs ! 3)\<rparr>"
  by (cases h0) (simp add: device_header_rx_def set_header_byte0_def set_header_byte1_def
      set_length_byte0_def set_length_byte1_def Let_def)

interpretation device_codec: wire_codec device_wire "device_header_rx h0"
  by unfold_locales (auto simp: device_wire_eq device_header_rx_eq length_4_conv)

text \<open>The host's view of a device header and back.\<close>

definition host_view :: "SerialHeader \<Rightarrow> bus_header" where
  "host_view h = \<lparr>bh_type = sh_type h, bh_no_ack = sh_no_ack h, bh_host = sh_host h,
     bh_error = sh_error h, bh_reserved = sh_reserved h, bh_seq = sh_sequence_number h,
     bh_length = sh_length h\<rparr>"

definition device_view :: "bus_header \<Rightarrow> SerialHeader" where
  "device_view h = \<lparr>sh_type = bh_type h, sh_no_ack = bh_no_ack h, sh_host = bh_host h,
     sh_error = bh_error h, sh_reserved = bh_reserved h, sh_sequence_number = bh_seq h,
     sh_length = bh_length h\<rparr>"

lemma view_inverse [simp]: "host_view (device_view h) = h" "device_view (host_view g) = g"
  by (simp_all add: host_view_def device_view_def)

section \<open>Sequence numbers\<close>

locale seq_counter =
  fixes nxt :: "byte \<Rightarrow> byte"
  assumes nxt_wrap: "SEQUENCE_NUMBER_MAX \<le> s \<Longrightarrow> nxt s = 0"
    and nxt_step: "s < SEQUENCE_NUMBER_MAX \<Longrightarrow> nxt s = s + 1"
begin

lemma nxt_in_range: "nxt s \<le> SEQUENCE_NUMBER_MAX"
proof (cases "s < 15")
  case True
  then show ?thesis by (simp add: nxt_step inc_le)
next
  case False
  then show ?thesis by (simp add: nxt_wrap not_less)
qed

lemma unat_nxt:
  assumes "s \<le> SEQUENCE_NUMBER_MAX"
  shows "unat (nxt s) = (unat s + 1) mod 16"
proof (cases "s < 15")
  case True
  then have "unat s < 15" by (simp add: word_less_nat_alt)
  with True show ?thesis by (simp add: nxt_step unat_word_ariths)
next
  case False
  with assms have "s = 15" by simp
  then show ?thesis by (simp add: nxt_wrap)
qed

lemma funpow_nxt_in_range:
  "s \<le> SEQUENCE_NUMBER_MAX \<Longrightarrow> (nxt ^^ n) s \<le> SEQUENCE_NUMBER_MAX"
  by (induction n) (simp_all add: nxt_in_range)

text \<open>After \<open>n\<close> frames the counter is the start plus \<open>n\<close>, modulo 16.\<close>

lemma unat_funpow_nxt:
  assumes "s \<le> SEQUENCE_NUMBER_MAX"
  shows "unat ((nxt ^^ n) s) = (unat s + n) mod 16"
proof (induction n)
  case 0
  have "unat s \<le> unat (15 :: byte)" using assms by (simp only: word_le_nat_alt)
  then show ?case by simp
next
  case (Suc n)
  then show ?case
    by (simp add: unat_nxt funpow_nxt_in_range assms mod_Suc_eq)
qed

lemma funpow_nxt_period:
  assumes "s \<le> SEQUENCE_NUMBER_MAX"
  shows "(nxt ^^ 16) s = s"
proof -
  have "unat s \<le> unat (15 :: byte)" using assms by (simp only: word_le_nat_alt)
  then have "unat ((nxt ^^ 16) s) = unat s"
    by (simp only: unat_funpow_nxt [OF assms]) simp
  then show ?thesis by (simp only: word_unat_eq_iff)
qed

text \<open>Any sixteen consecutive frames carry distinct numbers.\<close>

lemma funpow_nxt_distinct:
  assumes "s \<le> SEQUENCE_NUMBER_MAX" and "i < 16" and "j < 16"
    and "(nxt ^^ i) s = (nxt ^^ j) s"
  shows "i = j"
proof -
  have "(unat s + i) mod 16 = (unat s + j) mod 16"
    using assms(4) unat_funpow_nxt [OF assms(1)] by metis
  then show ?thesis using assms(2,3) by (rule mod_add_cancel_less)
qed

end

interpretation bus_seq: seq_counter bus_seq_next
  by unfold_locales (auto simp: bus_seq_next_def)

text \<open>
  The device writes the same conditional expression inline, for \<open>tx_sequence_number\<close> in
  \<open>serial_send_frame\<close> and for \<open>rx_sequence_number\<close> in \<open>serial_work_handler\<close>.
\<close>

definition sequence_number_advance :: "byte \<Rightarrow> byte" where
  "sequence_number_advance s = (if SEQUENCE_NUMBER_MAX \<le> s then 0 else s + 1)"

interpretation device_seq: seq_counter sequence_number_advance
  by unfold_locales (auto simp: sequence_number_advance_def)

lemma sequence_number_advance_range [seq_simps, simp]: "sequence_number_advance s \<le> 15"
  by (rule device_seq.nxt_in_range)

lemma bus_seq_next_range [seq_simps, simp]: "bus_seq_next s \<le> 15"
  by (rule bus_seq.nxt_in_range)

section \<open>The two ends agree\<close>

text \<open>
  C9. The wire format of the two ends is the same.  The four bytes the host encodes are parsed by
  the device's receive interrupt into the same header, whatever the previous header left in the
  structure; the four bytes the device writes decode on the host to the same header; and the
  host's encoding of a decoded header gives the bytes back, so no bit of a header is lost.
\<close>

theorem header_codecs_agree:
  "device_header_rx h0 (bus_header_encode h) = device_view h \<and>
   bus_header_decode (device_wire g) = host_view g \<and>
   bus_header_decode (bus_header_encode h) = h \<and>
   bus_header_encode (bus_header_decode [b0, b1, b2, b3]) = [b0, b1, b2, b3]"
proof (intro conjI)
  show "bus_header_decode (bus_header_encode h) = h"
    by (rule host_codec.dec_enc)
  show "bus_header_encode (bus_header_decode [b0, b1, b2, b3]) = [b0, b1, b2, b3]"
    by (rule host_codec.enc_dec) simp
qed (simp_all add: device_header_rx_eq bus_header_encode_eq device_view_def bus_header_decode_eq
    device_wire_eq host_view_def)

text \<open>
  Both ends number frames alike: from a number in range, after \<open>n\<close> frames both counters stand
  at the start plus \<open>n\<close> modulo 16, and sixteen consecutive frames carry sixteen different numbers.
\<close>

lemma sequence_numbers_agree:
  assumes "s \<le> SEQUENCE_NUMBER_MAX"
  shows "unat ((bus_seq_next ^^ n) s) = (unat s + n) mod 16 \<and>
    (sequence_number_advance ^^ n) s = (bus_seq_next ^^ n) s \<and>
    distinct (map (\<lambda>i. (bus_seq_next ^^ i) s) [0..<16])"
proof (intro conjI)
  show n: "unat ((bus_seq_next ^^ n) s) = (unat s + n) mod 16"
    by (rule bus_seq.unat_funpow_nxt [OF assms])
  show "(sequence_number_advance ^^ n) s = (bus_seq_next ^^ n) s"
    using n device_seq.unat_funpow_nxt [OF assms, of n] by (simp add: word_unat_eq_iff)
  show "distinct (map (\<lambda>i. (bus_seq_next ^^ i) s) [0..<16])"
    using bus_seq.funpow_nxt_distinct [OF assms] by (simp add: distinct_map inj_on_def)
qed

lemma sequence_numbers_agree_witness:
  "unat ((bus_seq_next ^^ 40) 14) = 6 \<and>
   (sequence_number_advance ^^ 40) 14 = (bus_seq_next ^^ 40) 14 \<and>
   distinct (map (\<lambda>i. (bus_seq_next ^^ i) 14) [0..<16])"
  using sequence_numbers_agree [of 14 40] by simp

end
