(* ===== verification/Uart.thy ===== *)
theory Uart
  imports Link_Protocol
begin

text \<open>
  The UART driver and the clock of Zephyr, which are not part of the sources, and the blocking
  transmit loop that the device (\<open>serial_data_tx\<close> in \<open>device/serial/serial.c\<close>) and the host
  (\<open>bus_data_tx\<close> in \<open>host/bus.c\<close>) both contain.

  The driver is a parameter: a record of functions over a world type \<open>'w\<close> that holds whatever
  the driver, the hardware and the clock remember.  What the code relies on is stated as named
  hypotheses over these functions:
  \<^item> \<open>fifo_fill_law\<close>: \<open>uart_fifo_fill\<close> accepts a prefix of the bytes it is given and returns its
    length, or a negative error;
  \<^item> \<open>fifo_read_law\<close>: \<open>uart_fifo_read\<close> takes bytes off the front of the receive FIFO, as many as
    are there up to the number asked for;
  \<^item> \<open>clock_law\<close>: \<open>k_uptime_get\<close> reads a millisecond clock that never goes back and
    \<open>k_busy_wait\<close> lets at least the given number of microseconds pass;
  \<^item> \<open>tx_ready\<close>: the transmit FIFO always has room for at least one byte.
  The loop has no bound of its own, so it is a partial function; that it returns is a theorem
  under \<open>clock_law\<close>.
\<close>

type_synonym dev = nat

record 'w uart_ops =
  uart_fifo_fill :: "dev \<Rightarrow> byte list \<Rightarrow> 'w \<Rightarrow> int \<times> 'w"
  uart_fifo_read :: "dev \<Rightarrow> nat \<Rightarrow> 'w \<Rightarrow> (int \<times> byte list) \<times> 'w"
  uart_irq_rx_enable :: "dev \<Rightarrow> 'w \<Rightarrow> 'w"
  uart_irq_callback_user_data_set :: "dev \<Rightarrow> 'w \<Rightarrow> 'w"
  device_is_ready :: "dev \<Rightarrow> 'w \<Rightarrow> bool"
  k_uptime_get :: "'w \<Rightarrow> int \<times> 'w"
  k_busy_wait :: "nat \<Rightarrow> 'w \<Rightarrow> 'w"

section \<open>The transmit loop\<close>

text \<open>
  \<open>while (written < len)\<close>: fill the FIFO, count what it took, give up after \<open>tmo\<close> milliseconds
  of a full FIFO.  The mutex around the loop does not change what one call computes.
\<close>

partial_function (option) data_tx_loop ::
  "('w, 'z) uart_ops_scheme \<Rightarrow> int \<Rightarrow> dev \<Rightarrow> byte list \<Rightarrow> nat \<Rightarrow> int \<Rightarrow> 'w \<Rightarrow> (int \<times> 'w) option"
where
  "data_tx_loop os tmo dev data written start w =
     (if written < length data then
        (case uart_fifo_fill os dev (drop written data) w of (n, w1) \<Rightarrow>
           if n < 0 then Some (n, w1)
           else if 0 < n then data_tx_loop os tmo dev data (written + nat n) start w1
           else (case k_uptime_get os w1 of (now, w2) \<Rightarrow>
             if tmo < now - start then Some (- ENOSPC, w2)
             else data_tx_loop os tmo dev data written start (k_busy_wait os 10 w2)))
      else Some (0, w))"

definition SERIAL_TX_TIMEOUT_MS :: int where
  "SERIAL_TX_TIMEOUT_MS = 500"

definition serial_data_tx ::
  "('w, 'z) uart_ops_scheme \<Rightarrow> dev \<Rightarrow> byte list \<Rightarrow> 'w \<Rightarrow> (int \<times> 'w) option" where
  "serial_data_tx os dev data w =
     (case k_uptime_get os w of (start, w1) \<Rightarrow>
        data_tx_loop os SERIAL_TX_TIMEOUT_MS dev data 0 start w1)"

definition BUS_TX_TIMEOUT_MS :: int where
  "BUS_TX_TIMEOUT_MS = 500"

definition bus_data_tx ::
  "('w, 'z) uart_ops_scheme \<Rightarrow> dev \<Rightarrow> byte list \<Rightarrow> 'w \<Rightarrow> (int \<times> 'w) option" where
  "bus_data_tx os dev data w =
     (case k_uptime_get os w of (start, w1) \<Rightarrow>
        data_tx_loop os BUS_TX_TIMEOUT_MS dev data 0 start w1)"

section \<open>What the code relies on\<close>

definition fifo_fill_law ::
  "('w, 'z) uart_ops_scheme \<Rightarrow> (dev \<Rightarrow> 'w \<Rightarrow> byte list) \<Rightarrow> bool" where
  "fifo_fill_law os sent \<longleftrightarrow>
     (\<forall>d data w. case uart_fifo_fill os d data w of (n, w') \<Rightarrow>
        n \<le> int (length data) \<and> sent d w' = sent d w @ take (nat n) data) \<and>
     (\<forall>d w. sent d (snd (k_uptime_get os w)) = sent d w) \<and>
     (\<forall>d us w. sent d (k_busy_wait os us w) = sent d w)"

definition clock_law :: "('w, 'z) uart_ops_scheme \<Rightarrow> ('w \<Rightarrow> nat) \<Rightarrow> bool" where
  "clock_law os now_us \<longleftrightarrow>
     (\<forall>w. fst (k_uptime_get os w) = int (now_us (snd (k_uptime_get os w)) div 1000)) \<and>
     (\<forall>w. now_us w \<le> now_us (snd (k_uptime_get os w))) \<and>
     (\<forall>us w. now_us w + us \<le> now_us (k_busy_wait os us w)) \<and>
     (\<forall>d data w. now_us w \<le> now_us (snd (uart_fifo_fill os d data w)))"

definition tx_ready :: "('w, 'z) uart_ops_scheme \<Rightarrow> bool" where
  "tx_ready os \<longleftrightarrow> (\<forall>d data w. data \<noteq> [] \<longrightarrow> 0 < fst (uart_fifo_fill os d data w))"

definition fifo_read_law ::
  "('w, 'z) uart_ops_scheme \<Rightarrow> (dev \<Rightarrow> 'w \<Rightarrow> byte list) \<Rightarrow> bool" where
  "fifo_read_law os pending \<longleftrightarrow>
     (\<forall>d n w. case uart_fifo_read os d n w of ((k, bs), w') \<Rightarrow>
        k = int (length bs) \<and> bs = take n (pending d w) \<and> pending d w' = drop n (pending d w))"

section \<open>Properties of the loop\<close>

text \<open>One unfolding of the loop, by what the driver answers.\<close>

lemma data_tx_loop_done: "length data \<le> written \<Longrightarrow> data_tx_loop os tmo d data written start w = Some (0, w)"
  by (simp add: data_tx_loop.simps)

lemma fifo_fill_lawD:
  assumes "fifo_fill_law os sent" and "uart_fifo_fill os d data w = (n, w')"
  shows "n \<le> int (length data)" and "sent d w' = sent d w @ take (nat n) data"
  using assms by (auto simp: fifo_fill_law_def split: prod.splits)

lemma fifo_fill_law_clock:
  assumes "fifo_fill_law os sent"
  shows "sent d (snd (k_uptime_get os w)) = sent d w" and "sent d (k_busy_wait os us w) = sent d w"
  using assms by (auto simp: fifo_fill_law_def)

text \<open>
  The postcondition of a transmission from offset \<open>written\<close>: the bytes accepted are a prefix of
  what was left, all of it when the result is 0, and the result is never positive.
\<close>

definition tx_post ::
  "(dev \<Rightarrow> 'w \<Rightarrow> byte list) \<Rightarrow> dev \<Rightarrow> byte list \<Rightarrow> 'w \<Rightarrow> int \<times> 'w \<Rightarrow> bool" where
  "tx_post sent d todo w x \<longleftrightarrow>
     (\<exists>k \<le> length todo. sent d (snd x) = sent d w @ take k todo \<and>
        (fst x = 0 \<longleftrightarrow> k = length todo) \<and> fst x \<le> 0)"

lemma tx_post_stop:
  "r < 0 \<Longrightarrow> todo \<noteq> [] \<Longrightarrow> sent d w' = sent d w \<Longrightarrow> tx_post sent d todo w (r, w')"
  unfolding tx_post_def by (intro exI [of _ 0]) simp

lemma tx_post_advance:
  assumes "tx_post sent d (drop m todo) w1 x" and "m \<le> length todo"
    and "sent d w1 = sent d w @ take m todo"
  shows "tx_post sent d todo w x"
proof -
  from assms(1) obtain k where k: "k \<le> length todo - m"
    "sent d (snd x) = sent d w1 @ take k (drop m todo)"
    "fst x = 0 \<longleftrightarrow> k = length todo - m" "fst x \<le> 0"
    by (auto simp: tx_post_def)
  with assms(2,3) show ?thesis
    unfolding tx_post_def
    by (intro exI [of _ "m + k"]) (auto simp: take_append_take_drop)
qed

lemma data_tx_loop_post:
  fixes os :: "('w, 'z) uart_ops_scheme"
  assumes ret: "data_tx_loop os tmo d data written start w = Some x"
  shows "fifo_fill_law os sent \<longrightarrow> written \<le> length data \<longrightarrow> tx_post sent d (drop written data) w x"
proof (rule data_tx_loop.raw_induct [where
      P = "\<lambda>os tmo d data written start w x. fifo_fill_law os sent \<longrightarrow>
         written \<le> length data \<longrightarrow> tx_post sent d (drop written data) w x", OF _ ret],
    intro impI)
  fix f and os :: "('w, 'z) uart_ops_scheme" and tmo d data written start w x
  assume IH: "\<And>os tmo d data written start w x. f os tmo d data written start w = Some x \<Longrightarrow>
       fifo_fill_law os sent \<longrightarrow> written \<le> length data \<longrightarrow> tx_post sent d (drop written data) w x"
    and eq: "(if written < length data then
        (case uart_fifo_fill os d (drop written data) w of (n, w1) \<Rightarrow>
           if n < 0 then Some (n, w1)
           else if 0 < n then f os tmo d data (written + nat n) start w1
           else (case k_uptime_get os w1 of (now, w2) \<Rightarrow>
             if tmo < now - start then Some (- ENOSPC, w2)
             else f os tmo d data written start (k_busy_wait os 10 w2)))
      else Some (0, w)) = Some x"
    and law: "fifo_fill_law os sent" and le: "written \<le> length data"
  show "tx_post sent d (drop written data) w x"
  proof (cases "written < length data")
    case False
    with eq show ?thesis by (auto simp: tx_post_def)
  next
    case True
    obtain n w1 where fill: "uart_fifo_fill os d (drop written data) w = (n, w1)" by fastforce
    obtain now w2 where up: "k_uptime_get os w1 = (now, w2)" by fastforce
    note n = fifo_fill_lawD [OF law fill]
    have w2: "sent d w2 = sent d w1" using fifo_fill_law_clock(1) [OF law, of d w1] up by simp
    consider "n < 0" | "0 < n" | "n = 0" "tmo < now - start" | "n = 0" "\<not> tmo < now - start"
      by linarith
    then show ?thesis
    proof cases
      case 1
      with eq True fill n(2) show ?thesis by (auto intro!: tx_post_stop)
    next
      case 2
      then have rec: "f os tmo d data (written + nat n) start w1 = Some x"
        using eq True fill by simp
      have "tx_post sent d (drop (written + nat n) data) w1 x"
        using IH [OF rec] law n(1) 2 by auto
      then have "tx_post sent d (drop (nat n) (drop written data)) w1 x"
        by (simp only: drop_drop add.commute)
      then show ?thesis
        by (rule tx_post_advance) (use 2 n in auto)
    next
      case 3
      with eq True fill up n(2) w2 show ?thesis by (auto intro!: tx_post_stop simp: errno_defs)
    next
      case 4
      then have rec: "f os tmo d data written start (k_busy_wait os 10 w2) = Some x"
        using eq True fill up by simp
      have "sent d (k_busy_wait os 10 w2) = sent d w"
        using n(2) w2 4 fifo_fill_law_clock(2) [OF law] by simp
      with IH [OF rec] law le show ?thesis by (simp add: tx_post_def)
    qed
  qed
qed

lemma serial_data_tx_post:
  assumes "fifo_fill_law os sent" and "serial_data_tx os d data w = Some x"
  shows "tx_post sent d data w x"
proof -
  obtain start w1 where up: "k_uptime_get os w = (start, w1)" by fastforce
  then have "sent d w1 = sent d w" using fifo_fill_law_clock(1) [OF assms(1), of d w] by simp
  moreover have "data_tx_loop os SERIAL_TX_TIMEOUT_MS d data 0 start w1 = Some x"
    using assms(2) up by (simp add: serial_data_tx_def)
  ultimately show ?thesis
    using data_tx_loop_post [of os SERIAL_TX_TIMEOUT_MS d data 0 start w1 x sent] assms(1)
    by (simp add: tx_post_def)
qed

lemma bus_data_tx_eq_serial_data_tx: "bus_data_tx = serial_data_tx"
  by (intro ext) (simp add: bus_data_tx_def serial_data_tx_def BUS_TX_TIMEOUT_MS_def
      SERIAL_TX_TIMEOUT_MS_def)

subsection \<open>The loop returns\<close>

lemma clock_lawD:
  assumes "clock_law os now_us" and "k_uptime_get os w = (t, w')"
  shows "t = int (now_us w' div 1000)" and "now_us w \<le> now_us w'"
  using assms unfolding clock_law_def by (metis fst_conv snd_conv)+

lemma clock_law_fill:
  "clock_law os now_us \<Longrightarrow> uart_fifo_fill os d data w = (n, w') \<Longrightarrow> now_us w \<le> now_us w'"
  unfolding clock_law_def by (metis snd_conv)

lemma clock_law_wait: "clock_law os now_us \<Longrightarrow> now_us w + us \<le> now_us (k_busy_wait os us w)"
  unfolding clock_law_def by blast

text \<open>
  Time left before the loop gives up, in microseconds: it shrinks in every round in which the
  FIFO takes nothing, and the bytes left shrink in every other round.
\<close>

lemma data_tx_loop_returns:
  assumes clk: "clock_law os now_us"
  shows "\<exists>r w'. data_tx_loop os tmo d data written start w = Some (r, w')"
proof (induction "(length data - written, nat ((start + tmo + 1) * 1000) - now_us w)"
    arbitrary: written w rule: wf_induct_rule [OF wf_lex_prod [OF wf_less_than wf_less_than]])
  case (1 written w)
  note IH = this
  show ?case
  proof (cases "written < length data")
    case False
    then show ?thesis by (simp add: data_tx_loop_done)
  next
    case True
    obtain n w1 where fill: "uart_fifo_fill os d (drop written data) w = (n, w1)" by fastforce
    obtain now w2 where up: "k_uptime_get os w1 = (now, w2)" by fastforce
    let ?w3 = "k_busy_wait os 10 w2"
    consider "n < 0" | "0 < n" | "n = 0" "tmo < now - start" | "n = 0" "\<not> tmo < now - start"
      by linarith
    then show ?thesis
    proof cases
      case 2
      have "\<exists>r w'. data_tx_loop os tmo d data (written + nat n) start w1 = Some (r, w')"
        by (rule IH) (use True 2 in auto)
      then show ?thesis using 2 True fill by (subst data_tx_loop.simps) simp
    next
      case 4
      have "int (now_us w2) div 1000 \<le> start + tmo"
        using 4 clock_lawD(1) [OF clk up] by (simp add: zdiv_int)
      then have "int (now_us w2) < (start + tmo + 1) * 1000" by simp
      then have "now_us w2 < nat ((start + tmo + 1) * 1000)" by linarith
      moreover have "now_us w < now_us ?w3"
        using clock_law_fill [OF clk fill] clock_lawD(2) [OF clk up] clock_law_wait [OF clk, of w2 10]
        by linarith
      moreover have "now_us w \<le> now_us w2"
        using clock_law_fill [OF clk fill] clock_lawD(2) [OF clk up] by linarith
      ultimately have "\<exists>r w'. data_tx_loop os tmo d data written start ?w3 = Some (r, w')"
        by (intro IH) auto
      then show ?thesis using 4 True fill up by (subst data_tx_loop.simps) simp
    qed (use True fill up in \<open>subst data_tx_loop.simps; simp\<close>)+
  qed
qed

lemma serial_data_tx_returns:
  assumes "clock_law os now_us"
  shows "\<exists>r w'. serial_data_tx os d data w = Some (r, w')"
  using data_tx_loop_returns [OF assms] by (simp add: serial_data_tx_def split: prod.splits)

subsection \<open>A FIFO that always has room\<close>

lemma data_tx_loop_ready:
  assumes law: "fifo_fill_law os sent" and rdy: "tx_ready os"
  shows "written \<le> length data \<Longrightarrow>
    \<exists>w'. data_tx_loop os tmo d data written start w = Some (0, w')"
proof (induction "length data - written" arbitrary: written w rule: less_induct)
  case less
  show ?case
  proof (cases "written < length data")
    case False
    then show ?thesis by (simp add: data_tx_loop_done)
  next
    case True
    obtain n w1 where fill: "uart_fifo_fill os d (drop written data) w = (n, w1)" by fastforce
    have n: "0 < n" "n \<le> int (length data - written)"
      using rdy True fill fifo_fill_lawD(1) [OF law fill]
      by (auto simp: tx_ready_def dest!: spec [where x = d] spec [where x = "drop written data"]
          spec [where x = w])
    then have "\<exists>w'. data_tx_loop os tmo d data (written + nat n) start w1 = Some (0, w')"
      by (intro less.hyps) (use True in auto)
    then show ?thesis using n True fill by (subst data_tx_loop.simps) simp
  qed
qed

lemma serial_data_tx_ready:
  assumes "fifo_fill_law os sent" and "tx_ready os"
  obtains w' where "serial_data_tx os d data w = Some (0, w')"
    and "sent d w' = sent d w @ data"
proof -
  obtain start w1 where up: "k_uptime_get os w = (start, w1)" by fastforce
  obtain w' where tx: "serial_data_tx os d data w = Some (0, w')"
    using data_tx_loop_ready [OF assms, of 0 data SERIAL_TX_TIMEOUT_MS d start w1] up
    by (auto simp: serial_data_tx_def)
  moreover have "sent d w' = sent d w @ data"
    using serial_data_tx_post [OF assms(1) tx] by (auto simp: tx_post_def)
  ultimately show ?thesis using that by blast
qed

section \<open>A concrete UART\<close>

text \<open>
  A UART with unbounded FIFOs and a clock that counts microseconds: an instance in which the
  named hypotheses hold, used to exhibit concrete runs.
\<close>

record sim_world =
  sim_rx :: "dev \<Rightarrow> byte list"
  sim_tx :: "dev \<Rightarrow> byte list"
  sim_us :: nat

definition sim_uart :: "sim_world uart_ops" where
  "sim_uart =
     \<lparr>uart_fifo_fill = (\<lambda>d data w. (int (length data), w\<lparr>sim_tx := (sim_tx w)(d := sim_tx w d @ data)\<rparr>)),
      uart_fifo_read = (\<lambda>d n w. ((int (length (take n (sim_rx w d))), take n (sim_rx w d)),
                               w\<lparr>sim_rx := (sim_rx w)(d := drop n (sim_rx w d))\<rparr>)),
      uart_irq_rx_enable = (\<lambda>d w. w),
      uart_irq_callback_user_data_set = (\<lambda>d w. w),
      device_is_ready = (\<lambda>d w. True),
      k_uptime_get = (\<lambda>w. (int (sim_us w div 1000), w)),
      k_busy_wait = (\<lambda>us w. w\<lparr>sim_us := sim_us w + us\<rparr>)\<rparr>"

definition sim_idle :: sim_world where
  "sim_idle = \<lparr>sim_rx = (\<lambda>_. []), sim_tx = (\<lambda>_. []), sim_us = 0\<rparr>"

lemma sim_uart_laws:
  "fifo_fill_law sim_uart (\<lambda>d w. sim_tx w d)"
  "fifo_read_law sim_uart (\<lambda>d w. sim_rx w d)"
  "clock_law sim_uart sim_us"
  "tx_ready sim_uart"
  by (auto simp: fifo_fill_law_def fifo_read_law_def clock_law_def tx_ready_def sim_uart_def)

text \<open>A UART whose transmit FIFO never drains: the wedged peer the time-out is for.\<close>

definition stuck_uart :: "sim_world uart_ops" where
  "stuck_uart = sim_uart\<lparr>uart_fifo_fill := (\<lambda>d data w. (0, w))\<rparr>"

lemma stuck_uart_laws:
  "fifo_fill_law stuck_uart (\<lambda>d w. sim_tx w d)" "clock_law stuck_uart sim_us"
  by (auto simp: fifo_fill_law_def clock_law_def stuck_uart_def sim_uart_def)

section \<open>The transmit contract\<close>

text \<open>
  C24. With a clock that advances, transmission always returns, on the device and on the host; what
  has reached the FIFO is a prefix of the data, the whole of it exactly when the result is 0, and
  every other result is negative.
\<close>

theorem transmission_returns:
  assumes fill: "fifo_fill_law os sent" and clk: "clock_law os now_us"
  shows "\<exists>r w' k. serial_data_tx os d data w = Some (r, w') \<and> bus_data_tx os d data w = Some (r, w') \<and>
     k \<le> length data \<and> sent d w' = sent d w @ take k data \<and> r \<le> 0 \<and> (r = 0 \<longleftrightarrow> k = length data)"
proof -
  obtain r w' where ret: "serial_data_tx os d data w = Some (r, w')"
    using serial_data_tx_returns [OF clk] by blast
  with serial_data_tx_post [OF fill ret] show ?thesis
    by (auto simp: tx_post_def bus_data_tx_eq_serial_data_tx)
qed

text \<open>A FIFO that takes everything gives 0 and all of the data; one that never drains an error.\<close>

theorem transmission_returns_witness:
  "(\<exists>w'. serial_data_tx sim_uart 0 [1, 2, 3] sim_idle = Some (0, w') \<and> sim_tx w' 0 = [1, 2, 3]) \<and>
   (\<exists>r w'. serial_data_tx stuck_uart 0 [1, 2, 3] sim_idle = Some (r, w') \<and> r < 0)"
proof
  obtain r w' k where tx: "serial_data_tx sim_uart 0 [1, 2, 3] sim_idle = Some (r, w')"
    and k: "sim_tx w' 0 = sim_tx sim_idle 0 @ take k [1, 2, 3]" "r = 0 \<longleftrightarrow> k = length [1 :: byte, 2, 3]"
    using transmission_returns [OF sim_uart_laws(1,3), of 0 "[1, 2, 3]" sim_idle] by blast
  have "r = 0"
    using tx by (simp add: serial_data_tx_def sim_uart_def data_tx_loop.simps [of _ _ _ "[1, 2, 3]"])
  with tx k show "\<exists>w'. serial_data_tx sim_uart 0 [1, 2, 3] sim_idle = Some (0, w') \<and> sim_tx w' 0 = [1, 2, 3]"
    by (simp add: sim_idle_def)
next
  have "fifo_fill_law stuck_uart (\<lambda>d w. [])"
    by (simp add: fifo_fill_law_def stuck_uart_def)
  then obtain r w' k where tx: "serial_data_tx stuck_uart 0 [1, 2, 3] sim_idle = Some (r, w')"
    and k: "[] = [] @ take k [1 :: byte, 2, 3]" "r \<le> 0" "r = 0 \<longleftrightarrow> k = length [1 :: byte, 2, 3]"
    using transmission_returns [OF _ stuck_uart_laws(2), of "\<lambda>d w. []" 0 "[1, 2, 3]" sim_idle] by blast
  from k have "r < 0" by auto
  with tx show "\<exists>r w'. serial_data_tx stuck_uart 0 [1, 2, 3] sim_idle = Some (r, w') \<and> r < 0" by blast
qed

end
