(* ===== verification/Device_State.thy ===== *)
theory Device_State
  imports Uart
begin

text \<open>
  The state of the co-processor (device role) and the interface between the serial layer and its
  clients.

  \<open>('w, 'e) device\<close> collects the static variables of \<open>device/serial/serial.c\<close>,
  \<open>device/serial/uart.c\<close>, \<open>device/serial/serial_usb.c\<close>, \<open>device/multiplexer.c\<close> and of the
  technology proxies.  \<open>world\<close> is the state of the UART drivers and the clock, \<open>env\<close> the state of
  the radio stacks the proxies call (Bluetooth controller, network stack); calls of one do not
  touch the other.  The receive buffers of the proxies are byte arrays in \<open>mem\<close>, addressed by
  pointers (buffer, offset), since the serial layer writes through pointers the proxies hand out.
  A store outside its buffer, or through a pointer that was never set, is undefined behaviour in
  C; the model records it in \<open>mem_fault\<close>.

  The contract a client offers to the serial layer is the locale \<open>serial_client\<close>; every proxy
  theory interprets it on its own three callbacks.
\<close>

section \<open>Configuration and static objects\<close>

record kconfig =
  CONFIG_SERIAL_PROXY_WIFI_MGMT :: bool
  CONFIG_SERIAL_PROXY_WIFI_DATA :: bool
  CONFIG_SERIAL_PROXY_NET_IF_MGMT :: bool
  CONFIG_SERIAL_PROXY_BT :: bool
  CONFIG_SERIAL_PROXY_OT :: bool
  CONFIG_SERIAL_PROXY_VSERIAL :: bool
  CONFIG_SERIAL_MUX_IFACE_UART :: bool
  CONFIG_SERIAL_MUX_IFACE_USB :: bool
  CONFIG_SERIAL_MUX_WIFI_MGMT_IFACE_USB :: bool
  CONFIG_SERIAL_MUX_WIFI_DATA_IFACE_USB :: bool
  CONFIG_SERIAL_MUX_NET_IF_MGMT_IFACE_USB :: bool
  CONFIG_SERIAL_MUX_BT_IFACE_USB :: bool
  CONFIG_SERIAL_MUX_OT_IFACE_USB :: bool
  CONFIG_SERIAL_MUX_VSERIAL_IFACE_USB :: bool
  CONFIG_VSERIAL_RX_BUF_SIZE :: nat
  CONFIG_VSERIAL_TX_BUF_SIZE :: nat
  sizeof_WifiMgmtRequest :: u32

datatype buf_id =
    Wifi_mgmt_rx_buffer
  | Wifi_data_tx_buffer
  | Net_if_mgmt_rx_buffer
  | Hci_rx_buffer
  | Ot_scratch
  | Vserial_tx_buf

type_synonym ptr = "buf_id \<times> nat"

fun buf_size :: "kconfig \<Rightarrow> buf_id \<Rightarrow> nat" where
  "buf_size kc Wifi_mgmt_rx_buffer = unat (sizeof_WifiMgmtRequest kc)"
| "buf_size kc Wifi_data_tx_buffer = 1600"
| "buf_size kc Net_if_mgmt_rx_buffer = 512"
| "buf_size kc Hci_rx_buffer = 512"
| "buf_size kc Ot_scratch = 256"
| "buf_size kc Vserial_tx_buf = CONFIG_VSERIAL_TX_BUF_SIZE kc"

record serial_config =
  serial_dev :: "dev option"
  parsing_state :: ParsingState
  serial_header :: SerialHeader
  bytes_read :: nat
  rx_sequence_number :: byte
  tx_sequence_number :: byte

datatype serial_mux_iface_id = SERIAL_MUX_IFACE_UART | SERIAL_MUX_IFACE_USB

text \<open>The two static \<open>struct serial_config\<close> objects, \<open>config_serial_uart\<close> and \<open>config_serial\<close>.\<close>

datatype cfg_ptr = Config_serial_uart | Config_serial

record mux_iface_entry =
  registered :: bool
  mux_dev :: "dev option"
  mux_config :: "cfg_ptr option"

section \<open>The device\<close>

record ('w, 'e) device =
  world :: 'w
  env :: 'e
  mem :: "buf_id \<Rightarrow> byte list"
  mem_fault :: bool
  serial_configs :: "cfg_ptr \<Rightarrow> serial_config"
  work_submitted :: "cfg_ptr \<Rightarrow> bool"
  mux_ifaces :: "serial_mux_iface_id \<Rightarrow> mux_iface_entry"
  wifi_mgmt_message_length :: nat
  wifi_mgmt_event :: bool
  wifi_data_message_length :: nat
  net_if_mgmt_message_length :: nat
  net_if_mgmt_event :: bool
  hci_rx_buffer_len :: nat
  vserial_rx_ring :: "byte list"
  vserial_callback :: "('e \<Rightarrow> 'e) option"
  wifi_dev :: "nat option"

text \<open>
  The calls the proxies make into the Bluetooth and network stacks, which are not part of the
  sources: functions over \<open>env\<close>.  Buffers and packets of those stacks are handles.
\<close>

datatype bt_buf_type = BT_BUF_CMD | BT_BUF_ACL_OUT

record 'e env_ops =
  bt_buf_get_tx :: "bt_buf_type \<Rightarrow> byte list \<Rightarrow> 'e \<Rightarrow> nat option \<times> 'e"
  bt_send :: "nat \<Rightarrow> 'e \<Rightarrow> int \<times> 'e"
  net_buf_unref :: "nat \<Rightarrow> 'e \<Rightarrow> 'e"
  bt_enable_raw :: "'e \<Rightarrow> int \<times> 'e"
  hci_fifo_get :: "'e \<Rightarrow> (nat \<times> byte list) option \<times> 'e"
  net_if_lookup_by_dev :: "nat \<Rightarrow> 'e \<Rightarrow> nat option"
  net_pkt_alloc_with_buffer :: "nat \<Rightarrow> nat \<Rightarrow> 'e \<Rightarrow> nat option \<times> 'e"
  net_pkt_write :: "nat option \<Rightarrow> byte list \<Rightarrow> 'e \<Rightarrow> 'e"
  net_send_data :: "nat option \<Rightarrow> 'e \<Rightarrow> int \<times> 'e"
  net_pkt_unref :: "nat option \<Rightarrow> 'e \<Rightarrow> 'e"
  vserial_is_ready :: "'e \<Rightarrow> bool"

text \<open>Every buffer has the size its declaration gives it.\<close>

definition mem_ok :: "kconfig \<Rightarrow> ('w, 'e) device \<Rightarrow> bool" where
  "mem_ok kc s \<longleftrightarrow> (\<forall>b. length (mem s b) = buf_size kc b)"

text \<open>A store of \<open>bs\<close> at \<open>p + off\<close>; storing nothing touches nothing.\<close>

definition mem_write :: "ptr option \<Rightarrow> nat \<Rightarrow> byte list \<Rightarrow> ('w, 'e) device \<Rightarrow> ('w, 'e) device" where
  "mem_write p off bs s =
     (if bs = [] then s
      else case p of None \<Rightarrow> s\<lparr>mem_fault := True\<rparr>
      | Some (b, o0) \<Rightarrow>
          if o0 + off + length bs \<le> length (mem s b)
          then s\<lparr>mem := (mem s)(b := overwrite (o0 + off) bs (mem s b))\<rparr>
          else s\<lparr>mem_fault := True\<rparr>)"

definition upd_config ::
  "cfg_ptr \<Rightarrow> (serial_config \<Rightarrow> serial_config) \<Rightarrow> ('w, 'e) device \<Rightarrow> ('w, 'e) device" where
  "upd_config c f s = s\<lparr>serial_configs := (serial_configs s)(c := f (serial_configs s c))\<rparr>"

lemma upd_config_frame [frame_simps, simp]:
  "world (upd_config c f s) = world s"
  "env (upd_config c f s) = env s"
  "mem (upd_config c f s) = mem s"
  "mem_fault (upd_config c f s) = mem_fault s"
  "work_submitted (upd_config c f s) = work_submitted s"
  "mux_ifaces (upd_config c f s) = mux_ifaces s"
  "serial_configs (upd_config c f s) = (serial_configs s)(c := f (serial_configs s c))"
  by (simp_all add: upd_config_def)

lemma upd_config_proxies [frame_simps, simp]:
  "wifi_mgmt_message_length (upd_config c f s) = wifi_mgmt_message_length s"
  "wifi_mgmt_event (upd_config c f s) = wifi_mgmt_event s"
  "wifi_data_message_length (upd_config c f s) = wifi_data_message_length s"
  "net_if_mgmt_message_length (upd_config c f s) = net_if_mgmt_message_length s"
  "net_if_mgmt_event (upd_config c f s) = net_if_mgmt_event s"
  "hci_rx_buffer_len (upd_config c f s) = hci_rx_buffer_len s"
  "vserial_rx_ring (upd_config c f s) = vserial_rx_ring s"
  "vserial_callback (upd_config c f s) = vserial_callback s"
  "wifi_dev (upd_config c f s) = wifi_dev s"
  by (simp_all add: upd_config_def)

lemma mem_write_frame [frame_simps, simp]:
  "world (mem_write p off bs s) = world s"
  "env (mem_write p off bs s) = env s"
  "serial_configs (mem_write p off bs s) = serial_configs s"
  "work_submitted (mem_write p off bs s) = work_submitted s"
  "mux_ifaces (mem_write p off bs s) = mux_ifaces s"
  by (simp_all add: mem_write_def split: option.splits prod.splits)

lemma mem_ok_upd_config [simp]: "mem_ok kc (upd_config c f s) = mem_ok kc s"
  by (simp add: mem_ok_def)

lemma mem_ok_world [simp]: "mem_ok kc (s\<lparr>world := w\<rparr>) = mem_ok kc s"
  by (simp add: mem_ok_def)

lemma mem_ok_mem_write [intro]: "mem_ok kc s \<Longrightarrow> mem_ok kc (mem_write p off bs s)"
  by (auto simp: mem_ok_def mem_write_def split: option.splits)

lemma mem_write_fits:
  assumes "o0 + off + length bs \<le> length (mem s b)"
  shows "mem_write (Some (b, o0)) off bs s = s\<lparr>mem := (mem s)(b := overwrite (o0 + off) bs (mem s b))\<rparr>"
  using assms by (cases s) (auto simp: mem_write_def)

lemma mem_write_Nil [simp]: "mem_write p off [] s = s"
  by (simp add: mem_write_def)

section \<open>Clients of the serial layer\<close>

text \<open>
  \<open>struct client_callbacks\<close>: three function pointers, each of which may be null.
  \<open>acquire_buffer\<close> receives the current value of the caller's pointer variable and returns its
  new value with the result.
\<close>

type_synonym ('w, 'e) acquire_fn = "ptr option \<Rightarrow> nat \<Rightarrow> ('w, 'e) device \<Rightarrow> bool \<times> ptr option"
type_synonym ('w, 'e) client_fn = "nat \<Rightarrow> ('w, 'e) device \<Rightarrow> ('w, 'e) device"

record ('w, 'e) client_callbacks =
  acquire_buffer :: "('w, 'e) acquire_fn option"
  commit_data :: "('w, 'e) client_fn option"
  message_complete :: "('w, 'e) client_fn option"

text \<open>
  The parts of the state a client callback may not touch: the UART world, the serial
  configurations, the work queue, the multiplexer table and the fault flag.
\<close>

definition same_link :: "('w, 'e) device \<Rightarrow> ('w, 'e) device \<Rightarrow> bool" where
  "same_link s t \<longleftrightarrow> world t = world s \<and> serial_configs t = serial_configs s \<and>
     work_submitted t = work_submitted s \<and> mux_ifaces t = mux_ifaces s \<and>
     mem_fault t = mem_fault s"

lemma same_link_refl [simp]: "same_link s s"
  by (simp add: same_link_def)

lemma same_link_trans: "same_link s t \<Longrightarrow> same_link t u \<Longrightarrow> same_link s u"
  by (simp add: same_link_def)

lemma same_linkD:
  assumes "same_link s t"
  shows "world t = world s" "serial_configs t = serial_configs s"
    "work_submitted t = work_submitted s" "mux_ifaces t = mux_ifaces s" "mem_fault t = mem_fault s"
  using assms by (simp_all add: same_link_def)

text \<open>
  What the serial layer relies on.  \<open>idle\<close> says that no bytes of a message are held by the
  client, \<open>base\<close> is the buffer it hands out and \<open>cap\<close> its capacity.  An idle client accepts any
  message up to its capacity and points at the start of its buffer; it rejects longer ones;
  its callbacks leave the link state alone; and its answers do not depend on the link state or
  the buffer contents.
\<close>

locale serial_client =
  fixes kc :: kconfig
    and acquire :: "('w, 'e) acquire_fn"
    and commit complete :: "('w, 'e) client_fn"
    and base :: buf_id
    and cap :: nat
    and idle :: "('w, 'e) device \<Rightarrow> bool"
  assumes acquire_idle: "idle s \<Longrightarrow> n \<le> cap \<Longrightarrow> acquire p n s = (True, Some (base, 0))"
    and acquire_too_long: "idle s \<Longrightarrow> cap < n \<Longrightarrow> n < 2 ^ 16 \<Longrightarrow> acquire p n s = (False, p)"
    and cap_le_size: "cap \<le> buf_size kc base"
    and commit_frame: "same_link s (commit n s)"
    and complete_frame: "same_link s (complete n s)"
    and commit_mem: "mem (commit n s) = mem s"
    and complete_mem: "mem (complete n s) = mem s"
    and acquire_link: "acquire p n (s\<lparr>world := w, serial_configs := c\<rparr>) = acquire p n s"
    and idle_link: "idle (s\<lparr>world := w, mem := m, serial_configs := c\<rparr>) = idle s"

end
