(* ===== verification/Ot_Proxy.thy ===== *)
theory Ot_Proxy
  imports Device_State
begin

text \<open>
  \<open>device/ot_proxy.c\<close>: the OpenThread proxy is a stub that takes Spinel frames of up to 256
  bytes into a scratch buffer and drops them.
\<close>

definition ot_proxy_acquire_buffer :: "('w, 'e) acquire_fn" where
  "ot_proxy_acquire_buffer data len s =
     (if 256 < len then (False, data) else (True, Some (Ot_scratch, 0)))"

definition ot_proxy_commit_data :: "('w, 'e) client_fn" where
  "ot_proxy_commit_data len s = s"

definition ot_proxy_message_complete :: "('w, 'e) client_fn" where
  "ot_proxy_message_complete len s = s"

interpretation ot: serial_client kc ot_proxy_acquire_buffer ot_proxy_commit_data
  ot_proxy_message_complete Ot_scratch 256 "\<lambda>_. True"
  by unfold_locales
    (auto simp: ot_proxy_acquire_buffer_def ot_proxy_commit_data_def ot_proxy_message_complete_def)

end
