(* ===== verification/Vserial.thy ===== *)
theory Vserial
  imports Device_State
begin

text \<open>
  \<open>device/vserial.c\<close>: the virtual serial port.  Frames of type VSERIAL are received into
  \<open>tx_buf\<close> and, when complete, appended to the receive ring from which the application polls
  single characters.  The ring is the byte list \<open>vserial_rx_ring\<close> of at most
  \<open>CONFIG_VSERIAL_RX_BUF_SIZE\<close> bytes; \<open>ring_buf_put\<close> stores as many bytes as fit and
  \<open>ring_buf_get\<close> takes bytes off the front.
\<close>

definition ring_buf_put :: "nat \<Rightarrow> byte list \<Rightarrow> byte list \<Rightarrow> nat \<times> byte list" where
  "ring_buf_put sz ring data =
     (let k = min (sz - length ring) (length data) in (k, ring @ take k data))"

definition ring_buf_get :: "byte list \<Rightarrow> nat \<Rightarrow> byte list \<times> byte list" where
  "ring_buf_get ring n = (take n ring, drop n ring)"

definition vserial_poll_in :: "('w, 'e) device \<Rightarrow> (int \<times> byte option) \<times> ('w, 'e) device" where
  "vserial_poll_in s =
     (case ring_buf_get (vserial_rx_ring s) 1 of (got, rest) \<Rightarrow>
        let s' = s\<lparr>vserial_rx_ring := rest\<rparr>
        in if 0 < length got then ((0, Some (hd got)), s') else ((-1, None), s'))"

definition vserial_poll_out :: "byte \<Rightarrow> ('w, 'e) device \<Rightarrow> ('w, 'e) device" where
  "vserial_poll_out c s = s"

definition vserial_init :: "('w, 'e) device \<Rightarrow> int \<times> ('w, 'e) device" where
  "vserial_init s = (0, s\<lparr>vserial_rx_ring := []\<rparr>)"

definition vserial_acquire_buffer :: "kconfig \<Rightarrow> ('w, 'e) acquire_fn" where
  "vserial_acquire_buffer kc data len s =
     (if CONFIG_VSERIAL_TX_BUF_SIZE kc < len then (False, data)
      else (True, Some (Vserial_tx_buf, 0)))"

definition vserial_commit_data :: "('w, 'e) client_fn" where
  "vserial_commit_data len s = s"

definition vserial_message_complete :: "'e env_ops \<Rightarrow> kconfig \<Rightarrow> ('w, 'e) client_fn" where
  "vserial_message_complete eo kc len s =
     (if CONFIG_VSERIAL_RX_BUF_SIZE kc < len then s
      else
        let put = ring_buf_put (CONFIG_VSERIAL_RX_BUF_SIZE kc) (vserial_rx_ring s)
                    (take len (mem s Vserial_tx_buf));
            s1 = s\<lparr>vserial_rx_ring := snd put\<rparr>
        in (case vserial_callback s1 of None \<Rightarrow> s1
            | Some cb \<Rightarrow> if vserial_is_ready eo (env s1) then s1\<lparr>env := cb (env s1)\<rparr> else s1))"

lemma vserial_message_complete_frame:
  "same_link s (vserial_message_complete eo kc n s)"
  "mem (vserial_message_complete eo kc n s) = mem s"
  by (auto simp: vserial_message_complete_def same_link_def Let_def split: option.splits)

interpretation vserial: serial_client kc "vserial_acquire_buffer kc" vserial_commit_data
  "vserial_message_complete eo kc" Vserial_tx_buf "CONFIG_VSERIAL_TX_BUF_SIZE kc" "\<lambda>_. True"
  by unfold_locales
    (auto simp: vserial_acquire_buffer_def vserial_commit_data_def mem_ok_def
      vserial_message_complete_frame)

section \<open>The ring\<close>

lemma length_ring_buf_put:
  "length ring \<le> sz \<Longrightarrow> length (snd (ring_buf_put sz ring data)) \<le> sz"
  by (auto simp: ring_buf_put_def Let_def)

lemma ring_buf_put_fits:
  "length ring + length data \<le> sz \<Longrightarrow> ring_buf_put sz ring data = (length data, ring @ data)"
  by (simp add: ring_buf_put_def Let_def)

definition vserial_inv :: "kconfig \<Rightarrow> ('w, 'e) device \<Rightarrow> bool" where
  "vserial_inv kc s \<longleftrightarrow> length (vserial_rx_ring s) \<le> CONFIG_VSERIAL_RX_BUF_SIZE kc"

lemma vserial_inv_message_complete:
  "vserial_inv kc s \<Longrightarrow> vserial_inv kc (vserial_message_complete eo kc len s)"
  by (auto simp: vserial_inv_def vserial_message_complete_def Let_def length_ring_buf_put
      split: option.splits)

lemma vserial_inv_poll_in: "vserial_inv kc s \<Longrightarrow> vserial_inv kc (snd (vserial_poll_in s))"
  by (auto simp: vserial_inv_def vserial_poll_in_def ring_buf_get_def Let_def)

text \<open>Polling until the ring is empty.\<close>

fun vserial_poll_all :: "nat \<Rightarrow> ('w, 'e) device \<Rightarrow> byte list \<times> ('w, 'e) device" where
  "vserial_poll_all 0 s = ([], s)"
| "vserial_poll_all (Suc k) s =
     (case vserial_poll_in s of
        ((r, Some c), s') \<Rightarrow> (case vserial_poll_all k s' of (cs, t) \<Rightarrow> (c # cs, t))
      | ((r, None), s') \<Rightarrow> ([], s'))"

lemma vserial_poll_in_Cons:
  "vserial_rx_ring s = c # cs \<Longrightarrow> vserial_poll_in s = ((0, Some c), s\<lparr>vserial_rx_ring := cs\<rparr>)"
  by (simp add: vserial_poll_in_def ring_buf_get_def)

lemma vserial_poll_in_Nil: "vserial_rx_ring s = [] \<Longrightarrow> vserial_poll_in s = ((-1, None), s)"
  by (cases s) (simp add: vserial_poll_in_def ring_buf_get_def)

lemma vserial_poll_all_ring:
  "vserial_rx_ring s = cs @ rest \<Longrightarrow> n = length cs \<Longrightarrow>
     vserial_poll_all n s = (cs, s\<lparr>vserial_rx_ring := rest\<rparr>)"
proof (induction cs arbitrary: s n)
  case Nil
  then show ?case by (cases s) simp
next
  case (Cons c cs)
  then show ?case by (simp add: vserial_poll_in_Cons)
qed

end
