(* ===== verification/Bt_Proxy.thy ===== *)
theory Bt_Proxy
  imports Device_State
begin

text \<open>
  \<open>device/bt_proxy.c\<close>, host to controller: link frames of type HCI are accumulated in
  \<open>hci_rx_buffer\<close>, validated as H:4 packets and handed to the controller.  The thread that
  forwards controller packets to the host is in \<open>Bt_Bridge\<close>, since it transmits through the
  multiplexer.
\<close>

definition BT_HCI_H4_CMD :: byte where "BT_HCI_H4_CMD = 1"
definition BT_HCI_H4_ACL :: byte where "BT_HCI_H4_ACL = 2"

definition BT_PROXY_BUFFER_SIZE :: nat where "BT_PROXY_BUFFER_SIZE = 512"

lemmas bt_consts = BT_HCI_H4_CMD_def BT_HCI_H4_ACL_def BT_PROXY_BUFFER_SIZE_def

definition bt_proxy_acquire_buffer :: "('w, 'e) acquire_fn" where
  "bt_proxy_acquire_buffer data len s =
     (if BT_PROXY_BUFFER_SIZE < size_add (hci_rx_buffer_len s) len then (False, data)
      else (True, Some (Hci_rx_buffer, hci_rx_buffer_len s)))"

definition bt_proxy_commit_data :: "('w, 'e) client_fn" where
  "bt_proxy_commit_data len s = s\<lparr>hci_rx_buffer_len := size_add (hci_rx_buffer_len s) len\<rparr>"

definition hci_packet_validate :: "byte list \<Rightarrow> byte \<Rightarrow> nat \<Rightarrow> int" where
  "hci_packet_validate hci_rx_buffer h4_type len =
     (if h4_type = BT_HCI_H4_CMD then
        (if len = 4 + unat (hci_rx_buffer ! 3) then 0 else - EINVAL)
      else if h4_type = BT_HCI_H4_ACL then
        (if len = 6 + unat (mk_u16 (hci_rx_buffer ! 4) (hci_rx_buffer ! 3)) then 0 else - EINVAL)
      else - ENOTSUP)"

definition bt_proxy_message_complete :: "'e env_ops \<Rightarrow> ('w, 'e) client_fn" where
  "bt_proxy_message_complete eo len s =
     (if len < 2 \<or> BT_PROXY_BUFFER_SIZE < len then s\<lparr>hci_rx_buffer_len := 0\<rparr>
      else
        let hci_rx_buffer = mem s Hci_rx_buffer; h4_type = hci_rx_buffer ! 0 in
        if hci_packet_validate hci_rx_buffer h4_type len \<noteq> 0 then s\<lparr>hci_rx_buffer_len := 0\<rparr>
        else
          let buf_type = (if h4_type = BT_HCI_H4_CMD then BT_BUF_CMD else BT_BUF_ACL_OUT) in
          (case bt_buf_get_tx eo buf_type (take (len - 1) (drop 1 hci_rx_buffer)) (env s) of
             (None, e1) \<Rightarrow> s\<lparr>env := e1, hci_rx_buffer_len := 0\<rparr>
           | (Some buf, e1) \<Rightarrow>
               (case bt_send eo buf e1 of (err, e2) \<Rightarrow>
                  s\<lparr>env := (if err \<noteq> 0 then net_buf_unref eo buf e2 else e2),
                    hci_rx_buffer_len := 0\<rparr>)))"

lemma bt_proxy_message_complete_frame:
  "same_link s (bt_proxy_message_complete eo n s)"
  "mem (bt_proxy_message_complete eo n s) = mem s"
  "hci_rx_buffer_len (bt_proxy_message_complete eo n s) = 0"
  by (auto simp: bt_proxy_message_complete_def same_link_def Let_def
      split: option.splits prod.splits)

interpretation bt: serial_client kc bt_proxy_acquire_buffer bt_proxy_commit_data
  "bt_proxy_message_complete eo" Hci_rx_buffer 512 "\<lambda>s. hci_rx_buffer_len s = 0"
  by unfold_locales
    (auto simp: bt_proxy_acquire_buffer_def bt_proxy_commit_data_def mem_ok_def same_link_def
      bt_consts bt_proxy_message_complete_frame [unfolded same_link_def])

end
