(* ===== verification/Message_Buffers.thy ===== *)
theory Message_Buffers
  imports Device_State
begin

text \<open>
  The receive buffers of the two request/response proxies, \<open>device/wifi_mgmt_proxy.c\<close> and
  \<open>device/net_if_mgmt_proxy.c\<close>, and of \<open>device/wifi_data.c\<close>: the three callbacks each of them
  registers with the multiplexer.  The two management proxies differ only in the buffer and its
  size; a completed message is signalled to the proxy's thread through an event bit.

  \<open>wifi_data_acquire_buffer\<close> returns without setting the caller's pointer, so the Wi-Fi data
  proxy does not satisfy the client contract and has no interpretation here.
\<close>

section \<open>Wi-Fi management\<close>

definition wifi_mgmt_acquire_buffer :: "kconfig \<Rightarrow> ('w, 'e) acquire_fn" where
  "wifi_mgmt_acquire_buffer kc data len s =
     (if size_sub (unat (sizeof_WifiMgmtRequest kc)) (wifi_mgmt_message_length s) < len
      then (False, data)
      else (True, Some (Wifi_mgmt_rx_buffer, wifi_mgmt_message_length s)))"

definition wifi_mgmt_commit_data :: "('w, 'e) client_fn" where
  "wifi_mgmt_commit_data len s =
     s\<lparr>wifi_mgmt_message_length := size_add (wifi_mgmt_message_length s) len\<rparr>"

definition wifi_mgmt_message_complete :: "('w, 'e) client_fn" where
  "wifi_mgmt_message_complete len s = s\<lparr>wifi_mgmt_event := True\<rparr>"

lemma unat_u32_less: "unat (x :: u32) < 2 ^ 32"
  using unsigned_less [of x] by simp

interpretation wifi_mgmt: serial_client kc "wifi_mgmt_acquire_buffer kc" wifi_mgmt_commit_data
  wifi_mgmt_message_complete Wifi_mgmt_rx_buffer "unat (sizeof_WifiMgmtRequest kc)"
  "\<lambda>s. wifi_mgmt_message_length s = 0"
  by unfold_locales
    (auto simp: wifi_mgmt_acquire_buffer_def wifi_mgmt_commit_data_def mem_ok_def same_link_def
      wifi_mgmt_message_complete_def size_sub_le [OF _ unat_u32_less])

section \<open>Network interface management\<close>

definition net_if_mgmt_acquire_buffer :: "('w, 'e) acquire_fn" where
  "net_if_mgmt_acquire_buffer data len s =
     (if size_sub 512 (net_if_mgmt_message_length s) < len then (False, data)
      else (True, Some (Net_if_mgmt_rx_buffer, net_if_mgmt_message_length s)))"

definition net_if_mgmt_commit_data :: "('w, 'e) client_fn" where
  "net_if_mgmt_commit_data len s =
     s\<lparr>net_if_mgmt_message_length := size_add (net_if_mgmt_message_length s) len\<rparr>"

definition net_if_mgmt_message_complete :: "('w, 'e) client_fn" where
  "net_if_mgmt_message_complete len s = s\<lparr>net_if_mgmt_event := True\<rparr>"

interpretation net_if: serial_client kc net_if_mgmt_acquire_buffer net_if_mgmt_commit_data
  net_if_mgmt_message_complete Net_if_mgmt_rx_buffer 512
  "\<lambda>s. net_if_mgmt_message_length s = 0"
  by unfold_locales
    (auto simp: net_if_mgmt_acquire_buffer_def net_if_mgmt_commit_data_def mem_ok_def
      same_link_def net_if_mgmt_message_complete_def)

section \<open>Wi-Fi data\<close>

definition wifi_data_acquire_buffer :: "('w, 'e) acquire_fn" where
  "wifi_data_acquire_buffer data len s =
     (if size_sub 1600 (wifi_data_message_length s) < len then (False, data) else (True, data))"

definition wifi_data_commit_data :: "('w, 'e) client_fn" where
  "wifi_data_commit_data len s =
     s\<lparr>wifi_data_message_length := size_add (wifi_data_message_length s) len\<rparr>"

text \<open>
  The message is read from offset 4 of the buffer; a read past its end, or through a null
  \<open>wifi_dev\<close>, is recorded as a fault.
\<close>

definition wifi_data_message_complete :: "'e env_ops \<Rightarrow> ('w, 'e) client_fn" where
  "wifi_data_message_complete eo len s =
     (case wifi_dev s of
        None \<Rightarrow> s\<lparr>mem_fault := True\<rparr>
      | Some d \<Rightarrow>
          (case net_if_lookup_by_dev eo d (env s) of
             None \<Rightarrow> s
           | Some iface \<Rightarrow>
               (case net_pkt_alloc_with_buffer eo iface len (env s) of (pkt, e1) \<Rightarrow>
                  let ml = size_add (wifi_data_message_length s) len;
                      buf = mem s Wifi_data_tx_buffer;
                      e2 = net_pkt_write eo pkt (take ml (drop 4 buf)) e1;
                      sent = net_send_data eo pkt e2;
                      e3 = (if fst sent < 0 then net_pkt_unref eo pkt (snd sent) else snd sent)
                  in s\<lparr>mem_fault := mem_fault s \<or> length buf < 4 + ml,
                       wifi_data_message_length := 0, env := e3\<rparr>)))"

end
