(* ===== verification/Multiplexer.thy ===== *)
theory Multiplexer
  imports Ot_Proxy Vserial Bt_Proxy Message_Buffers
begin

text \<open>
  \<open>device/multiplexer.c\<close>: the table of client callbacks per traffic type, the table of
  registered serial interfaces and the routing of outgoing traffic.  \<open>serial_mux_send\<close>, which
  transmits, is in theory \<open>Serial\<close> next to the frame transmission it calls.  The \<open>#if\<close> blocks of
  the C file are conditionals on the \<open>kconfig\<close> record.
\<close>

unbundle bit_operations_syntax

section \<open>The callback table\<close>

definition no_callbacks :: "('w, 'e) client_callbacks" where
  "no_callbacks = \<lparr>acquire_buffer = None, commit_data = None, message_complete = None\<rparr>"

definition mux_callbacks :: "'e env_ops \<Rightarrow> kconfig \<Rightarrow> SerialType \<Rightarrow> ('w, 'e) client_callbacks" where
  "mux_callbacks eo kc ty =
     (if CONFIG_SERIAL_PROXY_WIFI_MGMT kc \<and> ty = SERIAL_TYPE_WIFI_MGMT then
        \<lparr>acquire_buffer = Some (wifi_mgmt_acquire_buffer kc),
         commit_data = Some wifi_mgmt_commit_data,
         message_complete = Some wifi_mgmt_message_complete\<rparr>
      else if CONFIG_SERIAL_PROXY_WIFI_DATA kc \<and> ty = SERIAL_TYPE_WIFI_DATA then
        \<lparr>acquire_buffer = Some wifi_data_acquire_buffer,
         commit_data = Some wifi_data_commit_data,
         message_complete = Some (wifi_data_message_complete eo)\<rparr>
      else if CONFIG_SERIAL_PROXY_NET_IF_MGMT kc \<and> ty = SERIAL_TYPE_NET_IF_MGMT then
        \<lparr>acquire_buffer = Some net_if_mgmt_acquire_buffer,
         commit_data = Some net_if_mgmt_commit_data,
         message_complete = Some net_if_mgmt_message_complete\<rparr>
      else if CONFIG_SERIAL_PROXY_BT kc \<and> ty = SERIAL_TYPE_HCI then
        \<lparr>acquire_buffer = Some bt_proxy_acquire_buffer,
         commit_data = Some bt_proxy_commit_data,
         message_complete = Some (bt_proxy_message_complete eo)\<rparr>
      else if CONFIG_SERIAL_PROXY_OT kc \<and> ty = SERIAL_TYPE_THREAD then
        \<lparr>acquire_buffer = Some ot_proxy_acquire_buffer,
         commit_data = Some ot_proxy_commit_data,
         message_complete = Some ot_proxy_message_complete\<rparr>
      else if CONFIG_SERIAL_PROXY_VSERIAL kc \<and> ty = SERIAL_TYPE_VSERIAL then
        \<lparr>acquire_buffer = Some (vserial_acquire_buffer kc),
         commit_data = Some vserial_commit_data,
         message_complete = Some (vserial_message_complete eo kc)\<rparr>
      else no_callbacks)"

definition serial_mux_get_callbacks ::
  "'e env_ops \<Rightarrow> kconfig \<Rightarrow> SerialType \<Rightarrow> ('w, 'e) client_callbacks option" where
  "serial_mux_get_callbacks eo kc ty =
     (if SERIAL_TYPE_UNKNOWN \<le> ty then None
      else if acquire_buffer (mux_callbacks eo kc ty :: ('w, 'e) client_callbacks) = None \<or>
              commit_data (mux_callbacks eo kc ty :: ('w, 'e) client_callbacks) = None \<or>
              message_complete (mux_callbacks eo kc ty :: ('w, 'e) client_callbacks) = None
           then None
      else Some (mux_callbacks eo kc ty))"

section \<open>Interfaces\<close>

fun serial_mux_iface_enabled :: "kconfig \<Rightarrow> serial_mux_iface_id \<Rightarrow> bool" where
  "serial_mux_iface_enabled kc SERIAL_MUX_IFACE_UART = CONFIG_SERIAL_MUX_IFACE_UART kc"
| "serial_mux_iface_enabled kc SERIAL_MUX_IFACE_USB = CONFIG_SERIAL_MUX_IFACE_USB kc"

definition serial_mux_route_for_type :: "kconfig \<Rightarrow> SerialType \<Rightarrow> serial_mux_iface_id" where
  "serial_mux_route_for_type kc ty =
     (if ty = SERIAL_TYPE_WIFI_MGMT then
        (if CONFIG_SERIAL_MUX_WIFI_MGMT_IFACE_USB kc then SERIAL_MUX_IFACE_USB else SERIAL_MUX_IFACE_UART)
      else if ty = SERIAL_TYPE_WIFI_DATA then
        (if CONFIG_SERIAL_MUX_WIFI_DATA_IFACE_USB kc then SERIAL_MUX_IFACE_USB else SERIAL_MUX_IFACE_UART)
      else if ty = SERIAL_TYPE_NET_IF_MGMT then
        (if CONFIG_SERIAL_MUX_NET_IF_MGMT_IFACE_USB kc then SERIAL_MUX_IFACE_USB else SERIAL_MUX_IFACE_UART)
      else if ty = SERIAL_TYPE_HCI then
        (if CONFIG_SERIAL_MUX_BT_IFACE_USB kc then SERIAL_MUX_IFACE_USB else SERIAL_MUX_IFACE_UART)
      else if ty = SERIAL_TYPE_THREAD then
        (if CONFIG_SERIAL_MUX_OT_IFACE_USB kc then SERIAL_MUX_IFACE_USB else SERIAL_MUX_IFACE_UART)
      else if ty = SERIAL_TYPE_VSERIAL then
        (if CONFIG_SERIAL_MUX_VSERIAL_IFACE_USB kc then SERIAL_MUX_IFACE_USB else SERIAL_MUX_IFACE_UART)
      else SERIAL_MUX_IFACE_UART)"

definition serial_mux_register_interface ::
  "kconfig \<Rightarrow> serial_mux_iface_id \<Rightarrow> dev option \<Rightarrow> cfg_ptr option \<Rightarrow> ('w, 'e) device
     \<Rightarrow> int \<times> ('w, 'e) device" where
  "serial_mux_register_interface kc iface_id dev config s =
     (if dev = None \<or> config = None then (- EINVAL, s)
      else if \<not> serial_mux_iface_enabled kc iface_id then (- ENOTSUP, s)
      else (0, s\<lparr>mux_ifaces := (mux_ifaces s)(iface_id :=
                  \<lparr>registered = True, mux_dev = dev, mux_config = config\<rparr>)\<rparr>))"

text \<open>The loop over the traffic types 0 to 8, and the bit of PROTOCOL_INFO.\<close>

definition serial_mux_supported_types_mask :: "'e env_ops \<Rightarrow> kconfig \<Rightarrow> u16" where
  "serial_mux_supported_types_mask eo kc =
     foldl (\<lambda>mask i.
        if (serial_mux_get_callbacks eo kc (word_of_nat i) :: (unit, 'e) client_callbacks option) \<noteq> None
        then mask OR push_bit i 1 else mask) 0 [0..<9] OR push_bit 7 1"

section \<open>Properties\<close>

text \<open>Which proxies answer: the callbacks of an enabled proxy, nothing otherwise.\<close>

definition proxy_enabled :: "kconfig \<Rightarrow> SerialType \<Rightarrow> bool" where
  "proxy_enabled kc ty \<longleftrightarrow>
     ty = SERIAL_TYPE_WIFI_MGMT \<and> CONFIG_SERIAL_PROXY_WIFI_MGMT kc \<or>
     ty = SERIAL_TYPE_WIFI_DATA \<and> CONFIG_SERIAL_PROXY_WIFI_DATA kc \<or>
     ty = SERIAL_TYPE_NET_IF_MGMT \<and> CONFIG_SERIAL_PROXY_NET_IF_MGMT kc \<or>
     ty = SERIAL_TYPE_HCI \<and> CONFIG_SERIAL_PROXY_BT kc \<or>
     ty = SERIAL_TYPE_THREAD \<and> CONFIG_SERIAL_PROXY_OT kc \<or>
     ty = SERIAL_TYPE_VSERIAL \<and> CONFIG_SERIAL_PROXY_VSERIAL kc"

lemma get_callbacks_eq:
  "serial_mux_get_callbacks eo kc ty =
     (if proxy_enabled kc ty then Some (mux_callbacks eo kc ty) else None)"
  by (auto simp: serial_mux_get_callbacks_def mux_callbacks_def no_callbacks_def proxy_enabled_def
      word_le_nat_alt)

text \<open>An entry of the table is all set or all null.\<close>

lemma mux_callbacks_total:
  assumes "serial_mux_get_callbacks eo kc ty = Some cb"
  obtains acq com fin where
    "cb = \<lparr>acquire_buffer = Some acq, commit_data = Some com, message_complete = Some fin\<rparr>"
  using assms by (auto simp: get_callbacks_eq mux_callbacks_def proxy_enabled_def split: if_splits)

lemma bit_foldl_mask:
  "bit (foldl (\<lambda>mask i. if P i then mask OR push_bit i 1 else mask) m xs :: u16) n \<longleftrightarrow>
     bit m n \<or> (n < 16 \<and> n \<in> set xs \<and> P n)"
proof (induction xs arbitrary: m)
  case (Cons x xs)
  show ?case
    by (simp add: Cons.IH) (auto simp: bit_simps)
qed simp

lemma bit_push_bit_1: "bit (push_bit k (1 :: u16)) n \<longleftrightarrow> n = k \<and> n < 16"
  by (auto simp: bit_simps)

lemma bit_supported_types_mask:
  "bit (serial_mux_supported_types_mask eo kc) n \<longleftrightarrow>
     n = 7 \<or> (n < 9 \<and> proxy_enabled kc (word_of_nat n))"
  unfolding serial_mux_supported_types_mask_def bit_or_iff bit_foldl_mask get_callbacks_eq
    bit_push_bit_1
  by auto

end
