(* ===== verification/Serial.thy ===== *)
theory Serial
  imports Multiplexer
begin

text \<open>
  \<open>device/serial/serial.c\<close>, the device's end of the link, with \<open>serial_mux_send\<close> of
  \<open>device/multiplexer.c\<close> and the two interface initialisations \<open>device/serial/uart.c\<close> and
  \<open>device/serial/serial_usb.c\<close>.

  Every operation is a function on the device state; it returns an option because the transmit
  loop and the two receive loops are unbounded (\<open>None\<close>: the code does not return).  The receive
  interrupt handler \<open>uart_irq_callback\<close> and the work handler \<open>serial_work_handler\<close> are atomic
  steps: the work queue runs at a cooperative priority, and the interrupt handler does nothing
  while a payload is being read.
\<close>

unbundle bit_operations_syntax

section \<open>Frame transmission\<close>

definition serial_send_frame ::
  "'w uart_ops \<Rightarrow> cfg_ptr option \<Rightarrow> SerialType \<Rightarrow> ErrorType \<Rightarrow> bool \<Rightarrow> byte list option \<Rightarrow> nat
     \<Rightarrow> ('w, 'e) device \<Rightarrow> (int \<times> ('w, 'e) device) option" where
  "serial_send_frame os config ty error no_ack payload len s =
     (case config of None \<Rightarrow> Some (- ENODEV, s) | Some c \<Rightarrow>
       (case serial_dev (serial_configs s c) of None \<Rightarrow> Some (- ENODEV, s) | Some dev \<Rightarrow>
         if SERIAL_MAX_PAYLOAD_LEN < len then Some (- EMSGSIZE, s)
         else
           let hdr = \<lparr>sh_type = ty, sh_no_ack = no_ack, sh_host = True, sh_error = error,
                      sh_reserved = 0,
                      sh_sequence_number = ucast (tx_sequence_number (serial_configs s c)),
                      sh_length = bswap16 (word_of_nat len)\<rparr>
           in do {
             (_, w1) \<leftarrow> serial_data_tx os dev (SerialHeader_bytes hdr) (world s);
             w2 \<leftarrow> (case payload of
                     Some p \<Rightarrow> if 0 < len
                               then map_option snd (serial_data_tx os dev (take len p) w1)
                               else Some w1
                   | None \<Rightarrow> Some w1);
             Some (0, upd_config c
                        (\<lambda>cf. cf\<lparr>tx_sequence_number := sequence_number_advance (tx_sequence_number cf)\<rparr>)
                        (s\<lparr>world := w2\<rparr>))
           }))"

definition serial_mux_send ::
  "'w uart_ops \<Rightarrow> kconfig \<Rightarrow> SerialType \<Rightarrow> byte list option \<Rightarrow> nat
     \<Rightarrow> ('w, 'e) device \<Rightarrow> (int \<times> ('w, 'e) device) option" where
  "serial_mux_send os kc ty payload len s =
     (let iface = mux_ifaces s (serial_mux_route_for_type kc ty) in
      if \<not> registered iface \<or> mux_config iface = None then Some (- ENODEV, s)
      else serial_send_frame os (mux_config iface) ty ERROR_TYPE_NO_ERROR False payload len s)"

definition ack_header :: "SerialType \<Rightarrow> 4 word \<Rightarrow> ErrorType \<Rightarrow> SerialHeader" where
  "ack_header ty sequence_number error =
     \<lparr>sh_type = ty, sh_no_ack = False, sh_host = True, sh_error = error, sh_reserved = 0,
      sh_sequence_number = sequence_number, sh_length = bswap16 0\<rparr>"

definition send_ack ::
  "'w uart_ops \<Rightarrow> dev \<Rightarrow> SerialType \<Rightarrow> byte \<Rightarrow> ErrorType \<Rightarrow> ('w, 'e) device
     \<Rightarrow> ('w, 'e) device option" where
  "send_ack os dev ty sequence_number error s =
     do { (_, w) \<leftarrow> serial_data_tx os dev
             (SerialHeader_bytes (ack_header ty (ucast sequence_number) error)) (world s);
          Some (s\<lparr>world := w\<rparr>) }"

section \<open>The receive interrupt: header bytes\<close>

text \<open>
  One header byte.  \<open>None\<close> only if sending the LENGTH_TOO_LONG acknowledgement does not return.
\<close>

definition uart_irq_byte ::
  "'w uart_ops \<Rightarrow> dev \<Rightarrow> cfg_ptr \<Rightarrow> byte \<Rightarrow> ('w, 'e) device \<Rightarrow> ('w, 'e) device option" where
  "uart_irq_byte os dev c b s =
     (case parsing_state (serial_configs s c) of
        PARSING_STATE_TYPE \<Rightarrow>
          Some (upd_config c (\<lambda>cf. cf\<lparr>serial_header := set_header_byte0 b (serial_header cf),
             parsing_state := PARSING_STATE_SEQUENCE_NUMBER, bytes_read := 0\<rparr>) s)
      | PARSING_STATE_SEQUENCE_NUMBER \<Rightarrow>
          Some (upd_config c (\<lambda>cf. cf\<lparr>serial_header := set_header_byte1 b (serial_header cf),
             parsing_state := PARSING_STATE_LENGTH1\<rparr>) s)
      | PARSING_STATE_LENGTH1 \<Rightarrow>
          Some (upd_config c (\<lambda>cf. cf\<lparr>serial_header := set_length_byte0 b (serial_header cf),
             parsing_state := PARSING_STATE_LENGTH2\<rparr>) s)
      | PARSING_STATE_LENGTH2 \<Rightarrow>
          (let h1 = set_length_byte1 b (serial_header (serial_configs s c));
               h2 = h1\<lparr>sh_length := bswap16 (sh_length h1)\<rparr>;
               to = (\<lambda>st t. upd_config c (\<lambda>cf. cf\<lparr>serial_header := h2, parsing_state := st\<rparr>) t)
           in if sh_length h2 = 0 then
                (if sh_type h2 = SERIAL_TYPE_PROTOCOL_INFO then Some (to PARSING_STATE_DATA s)
                 else Some (to PARSING_STATE_TYPE s))
              else if SERIAL_MAX_PAYLOAD_LEN < unat (sh_length h2) then
                do { (_, w) \<leftarrow> serial_data_tx os dev
                        (SerialHeader_bytes (ack_header (sh_type h2) (sh_sequence_number h2)
                           ERROR_TYPE_LENGTH_TOO_LONG)) (world s);
                     Some (to PARSING_STATE_TYPE (s\<lparr>world := w\<rparr>)) }
              else Some (to PARSING_STATE_DATA s))
      | PARSING_STATE_DATA \<Rightarrow> Some s)"

partial_function (option) uart_irq_loop ::
  "'w uart_ops \<Rightarrow> dev \<Rightarrow> cfg_ptr \<Rightarrow> ('w, 'e) device \<Rightarrow> ('w, 'e) device option" where
  "uart_irq_loop os dev c s =
     (if parsing_state (serial_configs s c) \<noteq> PARSING_STATE_DATA then
        (case uart_fifo_read os dev 1 (world s) of ((k, bs), w1) \<Rightarrow>
           if k \<noteq> 1 then Some (s\<lparr>world := w1\<rparr>)
           else do { s1 \<leftarrow> uart_irq_byte os dev c (hd bs) (s\<lparr>world := w1\<rparr>);
                     uart_irq_loop os dev c s1 })
      else Some s)"

definition uart_irq_callback ::
  "'w uart_ops \<Rightarrow> dev \<Rightarrow> cfg_ptr \<Rightarrow> ('w, 'e) device \<Rightarrow> ('w, 'e) device option" where
  "uart_irq_callback os dev c s =
     do { s1 \<leftarrow> uart_irq_loop os dev c s;
          Some (if parsing_state (serial_configs s1 c) = PARSING_STATE_DATA
                then s1\<lparr>work_submitted := (work_submitted s1)(c := True)\<rparr> else s1) }"

section \<open>The work handler: payloads\<close>

definition serial_get_supported_types_mask :: "'e env_ops \<Rightarrow> kconfig \<Rightarrow> u16" where
  "serial_get_supported_types_mask eo kc = serial_mux_supported_types_mask eo kc"

definition protocol_info_payload :: "u16 \<Rightarrow> byte \<Rightarrow> byte list" where
  "protocol_info_payload supported_types rx_seq =
     [SERIAL_PROTOCOL_VERSION, ucast (supported_types AND 0xFF),
      ucast (drop_bit 8 supported_types AND 0xFF), rx_seq]"

definition handle_protocol_info ::
  "'w uart_ops \<Rightarrow> 'e env_ops \<Rightarrow> kconfig \<Rightarrow> cfg_ptr \<Rightarrow> ('w, 'e) device
     \<Rightarrow> ('w, 'e) device option" where
  "handle_protocol_info os eo kc c s =
     map_option snd (serial_send_frame os (Some c) SERIAL_TYPE_PROTOCOL_INFO ERROR_TYPE_NO_ERROR
       False (Some (protocol_info_payload (serial_get_supported_types_mask eo kc)
                      (rx_sequence_number (serial_configs s c)))) 4 s)"

text \<open>
  One round of the \<open>while\<close> loop returns whether the loop goes on (\<open>continue\<close> or the end of the
  body) or stops (\<open>break\<close>), and the new value of the local variable \<open>data_buffer\<close>.
\<close>

definition reset_parser :: "serial_config \<Rightarrow> serial_config" where
  "reset_parser cf = cf\<lparr>parsing_state := PARSING_STATE_TYPE, bytes_read := 0\<rparr>"

definition clear_length :: "serial_config \<Rightarrow> serial_config" where
  "clear_length cf = cf\<lparr>serial_header := (serial_header cf)\<lparr>sh_length := 0\<rparr>\<rparr>"

definition work_protocol_info_step ::
  "'w uart_ops \<Rightarrow> 'e env_ops \<Rightarrow> kconfig \<Rightarrow> dev \<Rightarrow> cfg_ptr \<Rightarrow> nat \<Rightarrow> ('w, 'e) device
     \<Rightarrow> (bool \<times> ('w, 'e) device) option" where
  "work_protocol_info_step os eo kc dev c buffer_size s =
     (case uart_fifo_read os dev (min buffer_size 64) (world s) of ((n, _), w1) \<Rightarrow>
        if n < 0 then Some (False, s\<lparr>world := w1\<rparr>)
        else
          let s1 = upd_config c (\<lambda>cf. cf\<lparr>bytes_read := bytes_read cf + nat n\<rparr>) (s\<lparr>world := w1\<rparr>);
              cf1 = serial_configs s1 c
          in if unat (sh_length (serial_header cf1)) \<le> bytes_read cf1 then
               do { s2 \<leftarrow> handle_protocol_info os eo kc c s1;
                    Some (True, upd_config c (clear_length \<circ> reset_parser) s2) }
             else Some (True, s1))"

definition work_drop_step ::
  "'w uart_ops \<Rightarrow> dev \<Rightarrow> cfg_ptr \<Rightarrow> SerialType \<Rightarrow> nat \<Rightarrow> ('w, 'e) device
     \<Rightarrow> (bool \<times> ('w, 'e) device) option" where
  "work_drop_step os dev c frame_type buffer_size s =
     (case uart_fifo_read os dev (min buffer_size 64) (world s) of ((n, _), w1) \<Rightarrow>
        if n < 0 then Some (False, s\<lparr>world := w1\<rparr>)
        else
          let s1 = upd_config c (\<lambda>cf. cf\<lparr>bytes_read := bytes_read cf + nat n\<rparr>) (s\<lparr>world := w1\<rparr>);
              cf1 = serial_configs s1 c
          in if unat (sh_length (serial_header cf1)) \<le> bytes_read cf1 then
               do { s2 \<leftarrow> send_ack os dev frame_type
                       (ucast (sh_sequence_number (serial_header cf1))) ERROR_TYPE_LENGTH_TOO_LONG s1;
                    Some (True, upd_config c reset_parser s2) }
             else Some (True, s1))"

text \<open>The last bytes of a payload have arrived: check the sequence number and deliver.\<close>

definition work_complete ::
  "'w uart_ops \<Rightarrow> dev \<Rightarrow> cfg_ptr \<Rightarrow> SerialType \<Rightarrow> ('w, 'e) client_fn \<Rightarrow> ('w, 'e) client_fn
     \<Rightarrow> ('w, 'e) device \<Rightarrow> ('w, 'e) device option" where
  "work_complete os dev c frame_type commit complete s =
     (let cf = serial_configs s c; hdr = serial_header cf in
      if rx_sequence_number cf \<noteq> ucast (sh_sequence_number hdr) then
        do { s1 \<leftarrow> send_ack os dev frame_type (rx_sequence_number cf)
                ERROR_TYPE_INCORRECT_SEQUENCE_NUMBER s;
             Some (upd_config c (\<lambda>cf. cf\<lparr>rx_sequence_number := 0\<rparr>) s1) }
      else
        let len = unat (sh_length hdr);
            s1 = upd_config c
                   (\<lambda>cf. cf\<lparr>rx_sequence_number := sequence_number_advance (rx_sequence_number cf)\<rparr>)
                   (complete len (commit len s))
        in if \<not> sh_no_ack hdr
           then send_ack os dev frame_type (ucast (sh_sequence_number hdr)) ERROR_TYPE_NO_ERROR s1
           else Some s1)"

definition work_client_step ::
  "'w uart_ops \<Rightarrow> dev \<Rightarrow> cfg_ptr \<Rightarrow> SerialType \<Rightarrow> ('w, 'e) acquire_fn \<Rightarrow> ('w, 'e) client_fn
     \<Rightarrow> ('w, 'e) client_fn \<Rightarrow> nat \<Rightarrow> ptr option \<Rightarrow> ('w, 'e) device
     \<Rightarrow> (bool \<times> ptr option \<times> ('w, 'e) device) option" where
  "work_client_step os dev c frame_type acquire commit complete buffer_size data_buffer s =
     (case acquire data_buffer buffer_size s of
        (False, p) \<Rightarrow>
          do { s1 \<leftarrow> send_ack os dev frame_type
                  (ucast (sh_sequence_number (serial_header (serial_configs s c))))
                  ERROR_TYPE_OUT_OF_BUFFERS s;
               Some (False, p, upd_config c reset_parser s1) }
      | (True, p) \<Rightarrow>
          (case uart_fifo_read os dev buffer_size (world s) of ((n, bs), w1) \<Rightarrow>
             let s1 = mem_write p (bytes_read (serial_configs s c)) bs (s\<lparr>world := w1\<rparr>) in
             if n \<le> 0 then Some (False, p, s1)
             else
               let s2 = upd_config c (\<lambda>cf. cf\<lparr>bytes_read := bytes_read cf + nat n\<rparr>) s1;
                   cf2 = serial_configs s2 c
               in if unat (sh_length (serial_header cf2)) \<le> bytes_read cf2 then
                    do { s3 \<leftarrow> work_complete os dev c frame_type commit complete s2;
                         Some (True, p, upd_config c reset_parser s3) }
                  else Some (True, p, commit (nat n) s2)))"

definition serial_work_step ::
  "'w uart_ops \<Rightarrow> 'e env_ops \<Rightarrow> kconfig \<Rightarrow> dev \<Rightarrow> cfg_ptr \<Rightarrow> SerialType
     \<Rightarrow> ('w, 'e) client_callbacks option \<Rightarrow> ptr option \<Rightarrow> ('w, 'e) device
     \<Rightarrow> (bool \<times> ptr option \<times> ('w, 'e) device) option" where
  "serial_work_step os eo kc dev c frame_type callbacks data_buffer s =
     (let cf = serial_configs s c;
          buffer_size = unat (sh_length (serial_header cf)) - bytes_read cf
      in if frame_type = SERIAL_TYPE_PROTOCOL_INFO then
           map_option (\<lambda>(go, t). (go, data_buffer, t))
             (work_protocol_info_step os eo kc dev c buffer_size s)
         else
           (let drop_frame = map_option (\<lambda>(go, t). (go, data_buffer, t))
                               (work_drop_step os dev c frame_type buffer_size s)
            in if SERIAL_TYPE_UNKNOWN \<le> frame_type then drop_frame
               else (case callbacks of
                       None \<Rightarrow> drop_frame
                     | Some cb \<Rightarrow>
                         (case (acquire_buffer cb, commit_data cb, message_complete cb) of
                            (Some acq, Some com, Some fin) \<Rightarrow>
                              work_client_step os dev c frame_type acq com fin buffer_size
                                data_buffer s
                          | _ \<Rightarrow> drop_frame))))"

partial_function (option) serial_work_loop ::
  "'w uart_ops \<Rightarrow> 'e env_ops \<Rightarrow> kconfig \<Rightarrow> dev \<Rightarrow> cfg_ptr \<Rightarrow> SerialType
     \<Rightarrow> ('w, 'e) client_callbacks option \<Rightarrow> ptr option \<Rightarrow> ('w, 'e) device
     \<Rightarrow> ('w, 'e) device option" where
  "serial_work_loop os eo kc dev c frame_type callbacks data_buffer s =
     (if bytes_read (serial_configs s c) < unat (sh_length (serial_header (serial_configs s c))) then
        do { x \<leftarrow> serial_work_step os eo kc dev c frame_type callbacks data_buffer s;
             (if fst x then
                serial_work_loop os eo kc dev c frame_type callbacks (fst (snd x)) (snd (snd x))
              else Some (snd (snd x))) }
      else Some s)"

definition serial_work_handler ::
  "'w uart_ops \<Rightarrow> 'e env_ops \<Rightarrow> kconfig \<Rightarrow> cfg_ptr \<Rightarrow> ('w, 'e) device
     \<Rightarrow> ('w, 'e) device option" where
  "serial_work_handler os eo kc c s =
     (let frame_type = sh_type (serial_header (serial_configs s c));
          callbacks = serial_mux_get_callbacks eo kc frame_type
      in if frame_type = SERIAL_TYPE_PROTOCOL_INFO \<and> sh_length (serial_header (serial_configs s c)) = 0
         then map_option (upd_config c (clear_length \<circ> reset_parser)) (handle_protocol_info os eo kc c s)
         else
           (case serial_dev (serial_configs s c) of
              None \<Rightarrow> Some (s\<lparr>mem_fault := True\<rparr>)
            | Some dev \<Rightarrow>
                do { s1 \<leftarrow> serial_work_loop os eo kc dev c frame_type callbacks None s;
                     Some (s1\<lparr>world := uart_irq_rx_enable os dev (world s1)\<rparr>) }))"

section \<open>Initialisation\<close>

definition initialize_uart :: "'w uart_ops \<Rightarrow> cfg_ptr \<Rightarrow> ('w, 'e) device \<Rightarrow> ('w, 'e) device" where
  "initialize_uart os c s =
     (let s1 = upd_config c (\<lambda>cf. cf\<lparr>parsing_state := PARSING_STATE_TYPE, bytes_read := 0,
                  rx_sequence_number := 0, tx_sequence_number := 0\<rparr>) s;
          s2 = s1\<lparr>work_submitted := (work_submitted s1)(c := False)\<rparr>
      in case serial_dev (serial_configs s2 c) of
           None \<Rightarrow> s2\<lparr>mem_fault := True\<rparr>
         | Some dev \<Rightarrow>
             s2\<lparr>world := uart_irq_rx_enable os dev
                  (uart_irq_callback_user_data_set os dev (world s2))\<rparr>)"

definition init_uart :: "'w uart_ops \<Rightarrow> kconfig \<Rightarrow> dev \<Rightarrow> ('w, 'e) device \<Rightarrow> int \<times> ('w, 'e) device" where
  "init_uart os kc uart_dev s =
     (if \<not> device_is_ready os uart_dev (world s) then (- ENODEV, s)
      else (0, snd (serial_mux_register_interface kc SERIAL_MUX_IFACE_UART (Some uart_dev)
                 (Some Config_serial_uart) (initialize_uart os Config_serial_uart s))))"

definition init_serial_usb :: "'w uart_ops \<Rightarrow> kconfig \<Rightarrow> dev \<Rightarrow> ('w, 'e) device \<Rightarrow> int \<times> ('w, 'e) device" where
  "init_serial_usb os kc cdc_acm_dev s =
     (if \<not> device_is_ready os cdc_acm_dev (world s) then (- ENODEV, s)
      else (0, snd (serial_mux_register_interface kc SERIAL_MUX_IFACE_USB (Some cdc_acm_dev)
                 (Some Config_serial) (initialize_uart os Config_serial s))))"

end
