(* ===== verification/Serial_Irq.thy ===== *)
theory Serial_Irq
  imports Serial
begin

text \<open>
  Properties of the device's transmission and of its receive interrupt.  \<open>link_law\<close> collects
  what a run on a quiet link relies on: the driver laws of theory \<open>Uart\<close>, and that no byte
  arrives while the handler under study runs.  The central lemma is \<open>uart_irq_loop_header\<close>: from
  the start of a frame, the interrupt handler consumes exactly the four header bytes, stores the
  header they encode and goes to the state that header calls for.
\<close>

section \<open>A quiet link\<close>

definition quiet_law ::
  "'w uart_ops \<Rightarrow> (dev \<Rightarrow> 'w \<Rightarrow> byte list) \<Rightarrow> (dev \<Rightarrow> 'w \<Rightarrow> byte list) \<Rightarrow> bool" where
  "quiet_law os sent pending \<longleftrightarrow>
     (\<forall>d d' n w. sent d (snd (uart_fifo_read os d' n w)) = sent d w) \<and>
     (\<forall>d d' bs w. pending d (snd (uart_fifo_fill os d' bs w)) = pending d w) \<and>
     (\<forall>d w. pending d (snd (k_uptime_get os w)) = pending d w) \<and>
     (\<forall>d us w. pending d (k_busy_wait os us w) = pending d w) \<and>
     (\<forall>d d' w. pending d (uart_irq_rx_enable os d' w) = pending d w \<and>
               sent d (uart_irq_rx_enable os d' w) = sent d w)"

definition link_law ::
  "'w uart_ops \<Rightarrow> (dev \<Rightarrow> 'w \<Rightarrow> byte list) \<Rightarrow> (dev \<Rightarrow> 'w \<Rightarrow> byte list) \<Rightarrow> bool" where
  "link_law os sent pending \<longleftrightarrow>
     fifo_fill_law os sent \<and> fifo_read_law os pending \<and> tx_ready os \<and> quiet_law os sent pending"

lemma sim_uart_quiet: "quiet_law sim_uart (\<lambda>d w. sim_tx w d) (\<lambda>d w. sim_rx w d)"
  by (auto simp: quiet_law_def sim_uart_def)

lemma sim_uart_link: "link_law sim_uart (\<lambda>d w. sim_tx w d) (\<lambda>d w. sim_rx w d)"
  by (simp add: link_law_def sim_uart_laws sim_uart_quiet)

lemma data_tx_loop_keeps:
  assumes "\<And>d bs w. f (snd (uart_fifo_fill os d bs w)) = f w"
    and "\<And>w. f (snd (k_uptime_get os w)) = f w"
    and "\<And>us w. f (k_busy_wait os us w) = f w"
    and ret: "data_tx_loop os tmo d data written start w = Some x"
  shows "f (snd x) = f w"
proof -
  let ?keeps = "\<lambda>os. (\<forall>d bs w. f (snd (uart_fifo_fill os d bs w)) = f w) \<and>
     (\<forall>w. f (snd (k_uptime_get os w)) = f w) \<and> (\<forall>us w. f (k_busy_wait os us w) = f w)"
  have "?keeps os \<longrightarrow> f (snd x) = f w"
    by (rule data_tx_loop.raw_induct [where
          P = "\<lambda>os tmo d data written start w x. ?keeps os \<longrightarrow> f (snd x) = f w", OF _ ret])
      (auto split: if_splits prod.splits; metis snd_conv)
  with assms(1-3) show ?thesis by simp
qed

lemma serial_data_tx_link:
  assumes law: "link_law os sent pending"
  obtains w' where "serial_data_tx os d data w = Some (0, w')"
    and "sent d w' = sent d w @ data" and "pending d w' = pending d w"
proof -
  obtain w' where tx: "serial_data_tx os d data w = Some (0, w')" and sent: "sent d w' = sent d w @ data"
    using law serial_data_tx_ready [of os sent d data w] by (auto simp: link_law_def)
  obtain start w1 where up: "k_uptime_get os w = (start, w1)" by fastforce
  have "pending d (snd (0 :: int, w')) = pending d w1"
    by (rule data_tx_loop_keeps [of _ os SERIAL_TX_TIMEOUT_MS d data 0 start])
      (use law tx up in \<open>auto simp: link_law_def quiet_law_def serial_data_tx_def\<close>)
  moreover have "pending d w1 = pending d w"
    using law up unfolding link_law_def quiet_law_def by (metis snd_conv)
  ultimately show ?thesis using that [OF tx sent] by simp
qed

lemma fifo_read_lawD:
  assumes "fifo_read_law os pending" and "uart_fifo_read os d n w = ((k, bs), w')"
  shows "k = int (length bs) \<and> bs = take n (pending d w) \<and> pending d w' = drop n (pending d w)"
proof -
  have "case uart_fifo_read os d n w of ((k, bs), w') \<Rightarrow>
      k = int (length bs) \<and> bs = take n (pending d w) \<and> pending d w' = drop n (pending d w)"
    by (rule assms(1) [unfolded fifo_read_law_def, rule_format])
  with assms(2) show ?thesis by simp
qed

lemma fifo_read_link:
  assumes "link_law os sent pending" and "uart_fifo_read os d n w = ((k, bs), w')"
  shows "k = int (length bs)" "bs = take n (pending d w)" "pending d w' = drop n (pending d w)"
    "sent d w' = sent d w"
proof -
  show "k = int (length bs)" "bs = take n (pending d w)" "pending d w' = drop n (pending d w)"
    using assms fifo_read_lawD [of os pending d n w k bs w'] by (auto simp: link_law_def)
  show "sent d w' = sent d w"
    using assms unfolding link_law_def quiet_law_def by (metis snd_conv)
qed

lemma link_irq_rx_enable:
  assumes "link_law os sent pending"
  shows "sent d (uart_irq_rx_enable os d' w) = sent d w"
    "pending d (uart_irq_rx_enable os d' w) = pending d w"
  using assms by (auto simp: link_law_def quiet_law_def)

section \<open>Transmission\<close>

text \<open>The wire image of an acknowledgement.\<close>

definition ack_bytes :: "SerialType \<Rightarrow> 4 word \<Rightarrow> ErrorType \<Rightarrow> byte list" where
  "ack_bytes ty seq error = SerialHeader_bytes (ack_header ty seq error)"

lemma ack_bytes_decode:
  "bus_header_decode (ack_bytes ty seq error) =
     \<lparr>bh_type = ty, bh_no_ack = False, bh_host = True, bh_error = error, bh_reserved = 0,
      bh_seq = seq, bh_length = 0\<rparr>"
  by (simp add: ack_bytes_def ack_header_def SerialHeader_bytes_eq bus_header_decode_eq bswap16_def
      hi_byte_def lo_byte_def mk_u16_def)

lemma send_ack_link:
  assumes "link_law os sent pending"
  obtains w' where "send_ack os dev ty seq error s = Some (s\<lparr>world := w'\<rparr>)"
    and "sent dev w' = sent dev (world s) @ ack_bytes ty (ucast seq) error"
    and "pending dev w' = pending dev (world s)"
proof -
  obtain w' where "serial_data_tx os dev (ack_bytes ty (ucast seq) error) (world s) = Some (0, w')"
    "sent dev w' = sent dev (world s) @ ack_bytes ty (ucast seq) error"
    "pending dev w' = pending dev (world s)"
    by (rule serial_data_tx_link [OF assms])
  then show ?thesis by (intro that [of w']) (simp_all add: send_ack_def ack_bytes_def)
qed

text \<open>The header of an outgoing frame as the host reads it.\<close>

definition frame_header :: "SerialType \<Rightarrow> ErrorType \<Rightarrow> bool \<Rightarrow> byte \<Rightarrow> nat \<Rightarrow> bus_header" where
  "frame_header ty error no_ack seq len =
     \<lparr>bh_type = ty, bh_no_ack = no_ack, bh_host = True, bh_error = error, bh_reserved = 0,
      bh_seq = ucast seq, bh_length = word_of_nat len\<rparr>"

lemma SerialHeader_bytes_frame:
  "SerialHeader_bytes
     \<lparr>sh_type = ty, sh_no_ack = no_ack, sh_host = True, sh_error = error, sh_reserved = 0,
      sh_sequence_number = ucast seq, sh_length = bswap16 (word_of_nat len)\<rparr> =
   bus_header_encode (frame_header ty error no_ack seq len)"
  by (simp add: SerialHeader_bytes_eq bus_header_encode_eq frame_header_def bswap16_def)

lemma serial_send_frame_errors:
  "serial_send_frame os None ty error no_ack payload len s = Some (- ENODEV, s)"
  "serial_dev (serial_configs s c) = None \<Longrightarrow>
     serial_send_frame os (Some c) ty error no_ack payload len s = Some (- ENODEV, s)"
  "serial_dev (serial_configs s c) = Some dev \<Longrightarrow> SERIAL_MAX_PAYLOAD_LEN < len \<Longrightarrow>
     serial_send_frame os (Some c) ty error no_ack payload len s = Some (- EMSGSIZE, s)"
  by (simp_all add: serial_send_frame_def)

lemma serial_send_frame_eq:
  assumes dev: "serial_dev (serial_configs s c) = Some dev"
    and len: "length p \<le> SERIAL_MAX_PAYLOAD_LEN"
  shows "serial_send_frame os (Some c) ty error no_ack (Some p) (length p) s =
    do { (_, w1) \<leftarrow> serial_data_tx os dev
           (bus_header_encode (frame_header ty error no_ack (tx_sequence_number (serial_configs s c)) (length p)))
           (world s);
         w2 \<leftarrow> (if p \<noteq> [] then map_option snd (serial_data_tx os dev p w1) else Some w1);
         Some (0, upd_config c
           (\<lambda>cf. cf\<lparr>tx_sequence_number := sequence_number_advance (tx_sequence_number cf)\<rparr>)
           (s\<lparr>world := w2\<rparr>)) }"
  using len by (simp add: serial_send_frame_def dev SerialHeader_bytes_frame [symmetric] Let_def
      cong: if_cong)

text \<open>
  A frame goes out as one header and its payload, back to back, and advances the transmit
  sequence number.
\<close>

lemma serial_send_frame_ok:
  assumes law: "link_law os sent pending"
    and dev: "serial_dev (serial_configs s c) = Some dev"
    and len: "length p \<le> SERIAL_MAX_PAYLOAD_LEN"
  obtains w' where
    "serial_send_frame os (Some c) ty error no_ack (Some p) (length p) s =
       Some (0, upd_config c
         (\<lambda>cf. cf\<lparr>tx_sequence_number := sequence_number_advance (tx_sequence_number cf)\<rparr>)
         (s\<lparr>world := w'\<rparr>))"
    and "sent dev w' = sent dev (world s) @
       bus_header_encode (frame_header ty error no_ack (tx_sequence_number (serial_configs s c)) (length p))
       @ p"
    and "pending dev w' = pending dev (world s)"
proof -
  let ?h = "bus_header_encode (frame_header ty error no_ack (tx_sequence_number (serial_configs s c)) (length p))"
  obtain w1 where w1: "serial_data_tx os dev ?h (world s) = Some (0, w1)"
    "sent dev w1 = sent dev (world s) @ ?h" "pending dev w1 = pending dev (world s)"
    by (rule serial_data_tx_link [OF law])
  obtain w2 where w2: "serial_data_tx os dev p w1 = Some (0, w2)"
    "sent dev w2 = sent dev w1 @ p" "pending dev w2 = pending dev w1"
    by (rule serial_data_tx_link [OF law])
  let ?adv = "upd_config c
      (\<lambda>cf. cf\<lparr>tx_sequence_number := sequence_number_advance (tx_sequence_number cf)\<rparr>)"
  have eq: "serial_send_frame os (Some c) ty error no_ack (Some p) (length p) s =
      Option.bind (if p \<noteq> [] then map_option snd (serial_data_tx os dev p w1) else Some w1)
        (\<lambda>w. Some (0, ?adv (s\<lparr>world := w\<rparr>)))"
    using w1(1) by (simp add: serial_send_frame_eq [OF dev len])
  show ?thesis
  proof (cases "p = []")
    case True
    with w1 eq show ?thesis by (intro that [of w1]) simp_all
  next
    case False
    with w1 w2 eq show ?thesis by (intro that [of w2]) simp_all
  qed
qed

section \<open>Header reception\<close>

definition header_next_state :: "SerialHeader \<Rightarrow> ParsingState" where
  "header_next_state h =
     (if sh_length h = 0 then
        (if sh_type h = SERIAL_TYPE_PROTOCOL_INFO then PARSING_STATE_DATA else PARSING_STATE_TYPE)
      else if SERIAL_MAX_PAYLOAD_LEN < unat (sh_length h) then PARSING_STATE_TYPE
      else PARSING_STATE_DATA)"

definition header_reply :: "SerialHeader \<Rightarrow> byte list" where
  "header_reply h =
     (if SERIAL_MAX_PAYLOAD_LEN < unat (sh_length h)
      then ack_bytes (sh_type h) (sh_sequence_number h) ERROR_TYPE_LENGTH_TOO_LONG else [])"

lemma uart_irq_loop_byte:
  assumes law: "link_law os sent pending"
    and st: "parsing_state (serial_configs s c) \<noteq> PARSING_STATE_DATA"
    and pend: "pending dev (world s) = b # rest"
  obtains w1 where "sent dev w1 = sent dev (world s)" "pending dev w1 = rest"
    "uart_irq_loop os dev c s =
       Option.bind (uart_irq_byte os dev c b (s\<lparr>world := w1\<rparr>)) (uart_irq_loop os dev c)"
proof -
  obtain k bs w1 where rd: "uart_fifo_read os dev 1 (world s) = ((k, bs), w1)"
    by (metis prod.collapse)
  note r = fifo_read_link [OF law rd]
  show ?thesis
    by (rule that [of w1]) (use r pend st rd in \<open>simp_all add: uart_irq_loop.simps [of os dev c s]\<close>)
qed

lemma uart_irq_loop_empty:
  assumes law: "link_law os sent pending" and "pending dev (world s) = []"
    and st: "parsing_state (serial_configs s c) \<noteq> PARSING_STATE_DATA"
  obtains w1 where "sent dev w1 = sent dev (world s)" "pending dev w1 = []"
    "uart_irq_loop os dev c s = Some (s\<lparr>world := w1\<rparr>)"
proof -
  obtain k bs w1 where rd: "uart_fifo_read os dev 1 (world s) = ((k, bs), w1)"
    by (metis prod.collapse)
  note r = fifo_read_link [OF law rd]
  show ?thesis
    by (rule that [of w1]) (use r assms rd in \<open>simp_all add: uart_irq_loop.simps [of os dev c s]\<close>)
qed

lemma uart_irq_loop_data:
  "parsing_state (serial_configs s c) = PARSING_STATE_DATA \<Longrightarrow> uart_irq_loop os dev c s = Some s"
  by (simp add: uart_irq_loop.simps)

text \<open>The first three header bytes only move the parser; the fourth decides.\<close>

lemma upd_config_comp [simp]:
  "upd_config c f ((upd_config c g s)\<lparr>world := w\<rparr>) = upd_config c (f \<circ> g) (s\<lparr>world := w\<rparr>)"
  by (simp add: upd_config_def)

lemma upd_config_cong: "f (serial_configs s c) = g (serial_configs s c) \<Longrightarrow> upd_config c f s = upd_config c g s"
  by (simp add: upd_config_def)

lemma uart_irq_loop_header:
  assumes law: "link_law os sent pending"
    and st: "parsing_state (serial_configs s c) = PARSING_STATE_TYPE"
    and pend: "pending dev (world s) = hdr @ rest" and len: "length hdr = 4"
  defines "h \<equiv> device_header_rx (serial_header (serial_configs s c)) hdr"
  obtains w1 where "pending dev w1 = rest" "sent dev w1 = sent dev (world s) @ header_reply h"
    "uart_irq_loop os dev c s = uart_irq_loop os dev c
       (upd_config c (\<lambda>cf. cf\<lparr>serial_header := h, parsing_state := header_next_state h,
          bytes_read := 0\<rparr>) (s\<lparr>world := w1\<rparr>))"
proof -
  from len obtain b0 b1 b2 b3 where hdr: "hdr = [b0, b1, b2, b3]" by (auto simp: length_4_conv)
  let ?f0 = "\<lambda>cf. cf\<lparr>serial_header := set_header_byte0 b0 (serial_header cf),
      parsing_state := PARSING_STATE_SEQUENCE_NUMBER, bytes_read := 0\<rparr>"
  let ?f1 = "\<lambda>cf. cf\<lparr>serial_header := set_header_byte1 b1 (serial_header cf),
      parsing_state := PARSING_STATE_LENGTH1\<rparr>"
  let ?f2 = "\<lambda>cf. cf\<lparr>serial_header := set_length_byte0 b2 (serial_header cf),
      parsing_state := PARSING_STATE_LENGTH2\<rparr>"
  let ?fin = "\<lambda>cf. cf\<lparr>serial_header := h, parsing_state := header_next_state h, bytes_read := 0\<rparr>"
  obtain w1 where w1: "sent dev w1 = sent dev (world s)" "pending dev w1 = b1 # b2 # b3 # rest"
    "uart_irq_loop os dev c s = uart_irq_loop os dev c (upd_config c ?f0 (s\<lparr>world := w1\<rparr>))"
    using uart_irq_loop_byte [OF law, of s c dev b0 "b1 # b2 # b3 # rest"] st pend hdr
    by (auto simp: uart_irq_byte_def)
  let ?s1 = "upd_config c ?f0 (s\<lparr>world := w1\<rparr>)"
  obtain w2 where w2: "sent dev w2 = sent dev w1" "pending dev w2 = b2 # b3 # rest"
    "uart_irq_loop os dev c ?s1 = uart_irq_loop os dev c (upd_config c (?f1 \<circ> ?f0) (s\<lparr>world := w2\<rparr>))"
    using uart_irq_loop_byte [OF law, of ?s1 c dev b1 "b2 # b3 # rest"] w1(2)
    by (auto simp: uart_irq_byte_def)
  let ?s2 = "upd_config c (?f1 \<circ> ?f0) (s\<lparr>world := w2\<rparr>)"
  obtain w3 where w3: "sent dev w3 = sent dev w2" "pending dev w3 = b3 # rest"
    "uart_irq_loop os dev c ?s2 = uart_irq_loop os dev c (upd_config c (?f2 \<circ> (?f1 \<circ> ?f0)) (s\<lparr>world := w3\<rparr>))"
    using uart_irq_loop_byte [OF law, of ?s2 c dev b2 "b3 # rest"] w2(2)
    by (auto simp: uart_irq_byte_def)
  let ?s3 = "upd_config c (?f2 \<circ> (?f1 \<circ> ?f0)) (s\<lparr>world := w3\<rparr>)"
  obtain w4 where w4: "sent dev w4 = sent dev w3" "pending dev w4 = rest"
    "uart_irq_loop os dev c ?s3 =
       Option.bind (uart_irq_byte os dev c b3 (?s3\<lparr>world := w4\<rparr>)) (uart_irq_loop os dev c)"
    using uart_irq_loop_byte [OF law, of ?s3 c dev b3 rest] w3(2) by auto
  obtain w5 where w5: "serial_data_tx os dev (ack_bytes (sh_type h) (sh_sequence_number h) 3) w4 = Some (0, w5)"
    "sent dev w5 = sent dev w4 @ ack_bytes (sh_type h) (sh_sequence_number h) 3"
    "pending dev w5 = pending dev w4"
    by (rule serial_data_tx_link [OF law])
  let ?w = "if 4096 < unat (sh_length h) then w5 else w4"
  have "uart_irq_byte os dev c b3 (?s3\<lparr>world := w4\<rparr>) = Some (upd_config c ?fin (s\<lparr>world := ?w\<rparr>))"
    using w5(1) by (auto simp: uart_irq_byte_def h_def hdr device_header_rx_def header_next_state_def
        ack_bytes_def Let_def intro!: upd_config_cong)
  then have "uart_irq_loop os dev c s = uart_irq_loop os dev c (upd_config c ?fin (s\<lparr>world := ?w\<rparr>))"
    using w1(3) w2(3) w3(3) w4(3) by simp
  moreover have "pending dev ?w = rest" "sent dev ?w = sent dev (world s) @ header_reply h"
    using w1 w2 w3 w4 w5 by (auto simp: header_reply_def)
  ultimately show ?thesis using that by blast
qed

section \<open>A peer that does not read\<close>

text \<open>A FIFO that takes nothing and leaves the drivers' state alone.\<close>

definition tx_wedged :: "'w uart_ops \<Rightarrow> bool" where
  "tx_wedged os \<longleftrightarrow> (\<forall>d data w. uart_fifo_fill os d data w = (0, w))"

lemma serial_data_tx_wedged:
  assumes fill: "fifo_fill_law os sent" and clk: "clock_law os now_us" and wedged: "tx_wedged os"
    and data: "data \<noteq> []"
  obtains w' where "serial_data_tx os d data w = Some (- ENOSPC, w')" "sent d w' = sent d w"
proof -
  obtain start w1 where up: "k_uptime_get os w = (start, w1)" by fastforce
  obtain x where ret: "data_tx_loop os SERIAL_TX_TIMEOUT_MS d data 0 start w1 = Some x"
    using data_tx_loop_returns [OF clk] by blast
  have "sent d (snd x) = sent d w1"
    by (rule data_tx_loop_keeps [OF _ _ _ ret])
      (use wedged fill fifo_fill_law_clock [OF fill] in \<open>auto simp: tx_wedged_def\<close>)
  moreover have "tx_wedged os \<longrightarrow> written = 0 \<longrightarrow> data \<noteq> [] \<longrightarrow> fst x = - ENOSPC"
    if "data_tx_loop os SERIAL_TX_TIMEOUT_MS d data written start w1 = Some x" for written
    by (rule data_tx_loop.raw_induct [where
          P = "\<lambda>os tmo d data written start w x. tx_wedged os \<longrightarrow> written = 0 \<longrightarrow> data \<noteq> [] \<longrightarrow>
            fst x = - ENOSPC", OF _ that])
      (auto simp: tx_wedged_def split: if_splits prod.splits)
  moreover have "sent d w1 = sent d w" using fifo_fill_law_clock(1) [OF fill, of d w] up by simp
  ultimately show ?thesis
    using that [of "snd x"] ret wedged data by (auto simp: serial_data_tx_def up prod_eq_iff)
qed

end
