(* ===== verification/Bus.thy ===== *)
theory Bus
  imports Serial_Irq
begin

text \<open>
  \<open>host/bus.c\<close>: the host's end of the link.  The record \<open>('w, 'h) host\<close> is \<open>struct bus_state\<close>
  with the UART world and, as \<open>app\<close>, the state behind the registered receive handlers.

  A thread that waits for a frame blocks in \<open>k_sem_take\<close>.  What happens meanwhile is a script, a
  list of events: bytes arrive and the receive interrupt and the work item run, or the timeout
  expires (an exhausted script expires too, since all waits are bounded).  The theorems quantify
  over all scripts.  As on the device, an operation returns an option because the transmit loop
  and the receive loops are unbounded.
\<close>

unbundle bit_operations_syntax

section \<open>State\<close>

type_synonym 'h rx_handler = "byte list \<Rightarrow> nat \<Rightarrow> nat option \<Rightarrow> 'h \<Rightarrow> 'h"

record ('w, 'h) host =
  bworld :: 'w
  app :: 'h
  uart :: "dev option"
  bus_parse :: ParsingState
  hdr :: bus_header
  bus_bytes_read :: nat
  rx_buf :: "byte list"
  rx_work :: bool
  tx_seq :: byte
  rx_seq :: byte
  rx_sem :: nat
  request_pending :: bool
  last_hdr :: bus_header
  supported_types :: u16
  handler :: "SerialType \<Rightarrow> 'h rx_handler option"
  handler_user :: "SerialType \<Rightarrow> nat option"
  opened :: bool

abbreviation (input) E80211_BUS_RX_BUF_SIZE :: nat where
  "E80211_BUS_RX_BUF_SIZE \<equiv> 4096"

section \<open>Transmission\<close>

definition bus_send_raw ::
  "'w uart_ops \<Rightarrow> bus_header \<Rightarrow> byte list option \<Rightarrow> nat \<Rightarrow> ('w, 'h) host \<Rightarrow> ('w, 'h) host option" where
  "bus_send_raw os h payload len b =
     (case uart b of None \<Rightarrow> None | Some dev \<Rightarrow>
        do { (_, w1) \<leftarrow> bus_data_tx os dev (bus_header_encode h) (bworld b);
             w2 \<leftarrow> (case payload of
                     Some p \<Rightarrow> if 0 < len then map_option snd (bus_data_tx os dev (take len p) w1)
                               else Some w1
                   | None \<Rightarrow> Some w1);
             Some (b\<lparr>bworld := w2\<rparr>) })"

definition bus_send_ack ::
  "'w uart_ops \<Rightarrow> SerialType \<Rightarrow> 4 word \<Rightarrow> ErrorType \<Rightarrow> ('w, 'h) host \<Rightarrow> ('w, 'h) host option" where
  "bus_send_ack os ty seq error b =
     bus_send_raw os \<lparr>bh_type = ty, bh_no_ack = False, bh_host = False, bh_error = error,
        bh_reserved = 0, bh_seq = seq, bh_length = 0\<rparr> None 0 b"

section \<open>Reception\<close>

definition bus_rx_byte :: "'w uart_ops \<Rightarrow> byte \<Rightarrow> ('w, 'h) host \<Rightarrow> ('w, 'h) host option" where
  "bus_rx_byte os x b =
     (case bus_parse b of
        PARSING_STATE_TYPE \<Rightarrow>
          Some (b\<lparr>hdr := (hdr b)\<lparr>bh_type := ucast (x AND 0x0F),
                    bh_no_ack := (drop_bit 4 x AND 1 \<noteq> 0),
                    bh_host := (drop_bit 5 x AND 1 \<noteq> 0),
                    bh_error := ucast (drop_bit 6 x AND 3)\<rparr>,
                  bus_bytes_read := 0, bus_parse := PARSING_STATE_SEQUENCE_NUMBER\<rparr>)
      | PARSING_STATE_SEQUENCE_NUMBER \<Rightarrow>
          Some (b\<lparr>hdr := (hdr b)\<lparr>bh_reserved := ucast (x AND 0x0F),
                    bh_seq := ucast (drop_bit 4 x AND 0x0F)\<rparr>,
                  bus_parse := PARSING_STATE_LENGTH1\<rparr>)
      | PARSING_STATE_LENGTH1 \<Rightarrow>
          Some (b\<lparr>hdr := (hdr b)\<lparr>bh_length := push_bit 8 (ucast x)\<rparr>,
                  bus_parse := PARSING_STATE_LENGTH2\<rparr>)
      | PARSING_STATE_LENGTH2 \<Rightarrow>
          (let b1 = b\<lparr>hdr := (hdr b)\<lparr>bh_length := bh_length (hdr b) OR ucast x\<rparr>\<rparr> in
           if bh_length (hdr b1) = 0 then Some (b1\<lparr>bus_parse := PARSING_STATE_DATA\<rparr>)
           else if SERIAL_MAX_PAYLOAD_LEN < unat (bh_length (hdr b1)) then
             do { b2 \<leftarrow> bus_send_ack os (bh_type (hdr b1)) (bh_seq (hdr b1)) ERROR_TYPE_LENGTH_TOO_LONG b1;
                  Some (b2\<lparr>bus_parse := PARSING_STATE_TYPE\<rparr>) }
           else Some (b1\<lparr>bus_parse := PARSING_STATE_DATA\<rparr>))
      | PARSING_STATE_DATA \<Rightarrow> Some (b\<lparr>bus_parse := PARSING_STATE_TYPE\<rparr>))"

partial_function (option) bus_rx_isr_loop ::
  "'w uart_ops \<Rightarrow> dev \<Rightarrow> ('w, 'h) host \<Rightarrow> ('w, 'h) host option" where
  "bus_rx_isr_loop os dev b =
     (if bus_parse b \<noteq> PARSING_STATE_DATA then
        (case uart_fifo_read os dev 1 (bworld b) of ((k, bs), w1) \<Rightarrow>
           if k \<noteq> 1 then Some (b\<lparr>bworld := w1\<rparr>)
           else do { b1 \<leftarrow> bus_rx_byte os (hd bs) (b\<lparr>bworld := w1\<rparr>); bus_rx_isr_loop os dev b1 })
      else Some b)"

definition bus_rx_isr :: "'w uart_ops \<Rightarrow> dev \<Rightarrow> ('w, 'h) host \<Rightarrow> ('w, 'h) host option" where
  "bus_rx_isr os dev b =
     do { b1 \<leftarrow> bus_rx_isr_loop os dev b;
          Some (if bus_parse b1 = PARSING_STATE_DATA then b1\<lparr>rx_work := True\<rparr> else b1) }"

text \<open>The payload loop of the work item.\<close>

partial_function (option) bus_rx_payload ::
  "'w uart_ops \<Rightarrow> dev \<Rightarrow> ('w, 'h) host \<Rightarrow> ('w, 'h) host option" where
  "bus_rx_payload os dev b =
     (if bus_bytes_read b < unat (bh_length (hdr b)) then
        (case uart_fifo_read os dev (unat (bh_length (hdr b)) - bus_bytes_read b) (bworld b) of
           ((n, bs), w1) \<Rightarrow>
             let b1 = b\<lparr>bworld := w1, rx_buf := overwrite (bus_bytes_read b) bs (rx_buf b)\<rparr> in
             if n \<le> 0 then Some b1
             else bus_rx_payload os dev (b1\<lparr>bus_bytes_read := bus_bytes_read b1 + nat n\<rparr>))
      else Some b)"

definition k_sem_give :: "('w, 'h) host \<Rightarrow> ('w, 'h) host" where
  "k_sem_give b = b\<lparr>rx_sem := min 1 (rx_sem b + 1)\<rparr>"

definition call_handler :: "SerialType \<Rightarrow> nat \<Rightarrow> ('w, 'h) host \<Rightarrow> ('w, 'h) host" where
  "call_handler ty len b =
     (case handler b ty of None \<Rightarrow> b
      | Some cb \<Rightarrow> b\<lparr>app := cb (rx_buf b) len (handler_user b ty) (app b)\<rparr>)"

definition bus_rx_work :: "'w uart_ops \<Rightarrow> ('w, 'h) host \<Rightarrow> ('w, 'h) host option" where
  "bus_rx_work os b =
     (case uart b of None \<Rightarrow> None | Some dev \<Rightarrow>
        do { b1 \<leftarrow> bus_rx_payload os dev b;
             (if bus_bytes_read b1 < unat (bh_length (hdr b1)) then Some b1
              else if bus_validate_rx (hdr b1) \<noteq> 0 then
                Some (b1\<lparr>bus_parse := PARSING_STATE_TYPE, bus_bytes_read := 0\<rparr>)
              else if bh_length (hdr b1) = 0 then
                Some ((if request_pending b1 then k_sem_give (b1\<lparr>last_hdr := hdr b1\<rparr>) else b1)
                        \<lparr>bus_parse := PARSING_STATE_TYPE, bus_bytes_read := 0\<rparr>)
              else
                do { b2 \<leftarrow> (if \<not> bh_no_ack (hdr b1)
                           then bus_send_ack os (bh_type (hdr b1)) (bh_seq (hdr b1)) ERROR_TYPE_NO_ERROR b1
                           else Some b1);
                     Some ((if request_pending b2 then k_sem_give (b2\<lparr>last_hdr := hdr b2\<rparr>)
                            else call_handler (bh_type (hdr b)) (unat (bh_length (hdr b2))) b2)
                             \<lparr>bus_parse := PARSING_STATE_TYPE, bus_bytes_read := 0\<rparr>) }) })"

text \<open>A receive event on the host: the interrupt handler, then the queued work item.\<close>

definition bus_rx_event :: "'w uart_ops \<Rightarrow> ('w, 'h) host \<Rightarrow> ('w, 'h) host option" where
  "bus_rx_event os b =
     (case uart b of None \<Rightarrow> None | Some dev \<Rightarrow>
        do { b1 \<leftarrow> bus_rx_isr os dev b;
             (if rx_work b1 then bus_rx_work os (b1\<lparr>rx_work := False\<rparr>) else Some b1) })"

section \<open>Waiting\<close>

datatype 'w bus_event = Rx_arrival "'w \<Rightarrow> 'w" | Timeout_expires

type_synonym 'w script = "'w bus_event list"

fun k_sem_take ::
  "'w uart_ops \<Rightarrow> 'w script \<Rightarrow> ('w, 'h) host \<Rightarrow> (int \<times> 'w script \<times> ('w, 'h) host) option" where
  "k_sem_take os [] b =
     (if 0 < rx_sem b then Some (0, [], b\<lparr>rx_sem := rx_sem b - 1\<rparr>) else Some (- EAGAIN, [], b))"
| "k_sem_take os (ev # sc) b =
     (if 0 < rx_sem b then Some (0, ev # sc, b\<lparr>rx_sem := rx_sem b - 1\<rparr>)
      else (case ev of
              Timeout_expires \<Rightarrow> Some (- EAGAIN, sc, b)
            | Rx_arrival f \<Rightarrow>
                do { b1 \<leftarrow> bus_rx_event os (b\<lparr>bworld := f (bworld b)\<rparr>); k_sem_take os sc b1 }))"

text \<open>\<open>while (k_sem_take(&bus.rx_sem, K_NO_WAIT) == 0)\<close>: empty the semaphore.\<close>

definition drain_sem :: "('w, 'h) host \<Rightarrow> ('w, 'h) host" where
  "drain_sem b = b\<lparr>rx_sem := 0\<rparr>"

section \<open>Operations\<close>

definition BUS_SYNC_RETRIES :: nat where "BUS_SYNC_RETRIES = 4"

fun bus_sync_attempts ::
  "'w uart_ops \<Rightarrow> nat \<Rightarrow> 'w script \<Rightarrow> ('w, 'h) host \<Rightarrow> (int \<times> 'w script \<times> ('w, 'h) host) option" where
  "bus_sync_attempts os 0 sc b = Some (- ETIMEDOUT, sc, b)"
| "bus_sync_attempts os (Suc n) sc b =
     do { b1 \<leftarrow> bus_send_raw os
            \<lparr>bh_type = SERIAL_TYPE_PROTOCOL_INFO, bh_no_ack = True, bh_host = False, bh_error = 0,
             bh_reserved = 0, bh_seq = ucast (tx_seq b), bh_length = 0\<rparr> None 0
            ((drain_sem b)\<lparr>request_pending := True\<rparr>);
          (r, sc2, b2) \<leftarrow> k_sem_take os sc b1;
          (if r \<noteq> 0 then bus_sync_attempts os n sc2 (b2\<lparr>request_pending := False\<rparr>)
           else if bh_type (last_hdr b2) = SERIAL_TYPE_PROTOCOL_INFO \<and> bh_length (last_hdr b2) = 4 then
             (let p = rx_buf b2; b3 = b2\<lparr>request_pending := False\<rparr> in
              if p ! 0 \<noteq> SERIAL_PROTOCOL_VERSION then Some (- ENOTSUP, sc2, b3)
              else Some (0, sc2, b3\<lparr>supported_types := ucast (p ! 1) OR push_bit 8 (ucast (p ! 2)),
                                   tx_seq := p ! 3\<rparr>))
           else bus_sync_attempts os n sc2 (b2\<lparr>request_pending := False\<rparr>)) }"

definition bus_sync ::
  "'w uart_ops \<Rightarrow> 'w script \<Rightarrow> ('w, 'h) host \<Rightarrow> (int \<times> 'w script \<times> ('w, 'h) host) option" where
  "bus_sync os sc b = bus_sync_attempts os BUS_SYNC_RETRIES sc b"

text \<open>\<open>chosen\<close> is the UART the device tree names, if any.\<close>

definition bus_open ::
  "'w uart_ops \<Rightarrow> dev option \<Rightarrow> 'w script \<Rightarrow> ('w, 'h) host \<Rightarrow> (int \<times> 'w script \<times> ('w, 'h) host) option" where
  "bus_open os chosen sc b =
     (if opened b then Some (0, sc, b)
      else (case chosen of None \<Rightarrow> Some (- ENODEV, sc, b)
            | Some dev \<Rightarrow>
                let b1 = b\<lparr>uart := Some dev\<rparr> in
                if \<not> device_is_ready os dev (bworld b1) then Some (- ENODEV, sc, b1)
                else
                  let b2 = b1\<lparr>bus_parse := PARSING_STATE_TYPE, bus_bytes_read := 0, rx_seq := 0,
                             tx_seq := 0, opened := True, rx_work := False,
                             bworld := uart_irq_rx_enable os dev
                                         (uart_irq_callback_user_data_set os dev (bworld b1))\<rparr>
                  in bus_sync os sc b2))"

definition bus_register_handler ::
  "int \<Rightarrow> 'h rx_handler option \<Rightarrow> ('w, 'h) host \<Rightarrow> int \<times> ('w, 'h) host" where
  "bus_register_handler ty cb b =
     (if ty < 0 \<or> 9 \<le> ty then (- EINVAL, b)
      else (0, b\<lparr>handler := (handler b)(word_of_int ty := cb)\<rparr>))"

definition bus_set_handler_user :: "int \<Rightarrow> nat option \<Rightarrow> ('w, 'h) host \<Rightarrow> ('w, 'h) host" where
  "bus_set_handler_user ty user b =
     (if 0 \<le> ty \<and> ty < 9 then b\<lparr>handler_user := (handler_user b)(word_of_int ty := user)\<rparr> else b)"

definition tx_header :: "int \<Rightarrow> byte \<Rightarrow> nat \<Rightarrow> bus_header" where
  "tx_header ty seq len =
     \<lparr>bh_type = word_of_int ty, bh_no_ack = False, bh_host = False, bh_error = 0, bh_reserved = 0,
      bh_seq = ucast seq, bh_length = word_of_nat len\<rparr>"

definition bus_send ::
  "'w uart_ops \<Rightarrow> int \<Rightarrow> byte list option \<Rightarrow> nat \<Rightarrow> ('w, 'h) host \<Rightarrow> (int \<times> ('w, 'h) host) option" where
  "bus_send os ty payload len b =
     (if \<not> opened b then Some (- ENODEV, b)
      else if ty < 0 \<or> 9 \<le> ty then Some (- EINVAL, b)
      else if bus_validate_tx (word_of_int ty) (word_of_nat len) \<noteq> 0 then Some (- EINVAL, b)
      else map_option (Pair 0)
             (bus_send_raw os (tx_header ty (tx_seq b) len) payload len
                (b\<lparr>tx_seq := bus_seq_next (tx_seq b)\<rparr>)))"

text \<open>
  \<open>bus_request\<close>: the inner \<open>while (true)\<close> ends with the result of the request or with \<open>None\<close> for
  the \<open>break\<close> after a resynchronisation.  The result carries what was copied to \<open>resp\<close>, if
  anything (\<open>resp\<close> and \<open>resp_len\<close> are not null when \<open>want\<close> holds).
\<close>

type_synonym ('w, 'h) request_result = "(int \<times> byte list option) \<times> 'w script \<times> ('w, 'h) host"

partial_function (option) bus_request_wait ::
  "'w uart_ops \<Rightarrow> SerialType \<Rightarrow> bool \<Rightarrow> bool \<Rightarrow> 'w script \<Rightarrow> ('w, 'h) host
     \<Rightarrow> ((int \<times> byte list option) option \<times> 'w script \<times> ('w, 'h) host) option" where
  "bus_request_wait os ty want retried sc b =
     do { x \<leftarrow> k_sem_take os sc b;
          (case x of (r, sc1, b1) \<Rightarrow>
            if r \<noteq> 0 then Some (Some (- ETIMEDOUT, None), sc1, b1\<lparr>request_pending := False\<rparr>)
            else
              let last = last_hdr b1 in
              if bh_length last = 0 then
                (if bh_error last = ERROR_TYPE_INCORRECT_SEQUENCE_NUMBER \<and> \<not> retried then
                   do { y \<leftarrow> bus_sync os sc1 (b1\<lparr>request_pending := False\<rparr>);
                        (case y of (e, sc2, b2) \<Rightarrow>
                           if e \<noteq> 0 then Some (Some (- ETIMEDOUT, None), sc2, b2)
                           else Some (None, sc2, b2)) }
                 else bus_request_wait os ty want retried sc1 b1)
              else if bh_type last = ty then
                Some (Some (0, if want
                               then Some (take (min (unat (bh_length last)) E80211_BUS_RX_BUF_SIZE) (rx_buf b1))
                               else None), sc1, b1\<lparr>request_pending := False\<rparr>)
              else bus_request_wait os ty want retried sc1
                     (call_handler (bh_type last) (unat (bh_length last)) b1)) }"

text \<open>\<open>for (attempt = 0; attempt < 2 && !retried; attempt++)\<close>, with \<open>n\<close> attempts left.\<close>

fun bus_request_attempts ::
  "'w uart_ops \<Rightarrow> int \<Rightarrow> byte list option \<Rightarrow> nat \<Rightarrow> bool \<Rightarrow> bool \<Rightarrow> nat \<Rightarrow> 'w script \<Rightarrow> ('w, 'h) host
     \<Rightarrow> ('w, 'h) request_result option" where
  "bus_request_attempts os ty req req_len want retried 0 sc b =
     Some ((- ETIMEDOUT, None), sc, b\<lparr>request_pending := False\<rparr>)"
| "bus_request_attempts os ty req req_len want retried (Suc n) sc b =
     (if retried then Some ((- ETIMEDOUT, None), sc, b\<lparr>request_pending := False\<rparr>)
      else
        do { b1 \<leftarrow> bus_send_raw os (tx_header ty (tx_seq b) req_len) req req_len
                 (b\<lparr>tx_seq := bus_seq_next (tx_seq b), request_pending := True\<rparr>);
             x \<leftarrow> bus_request_wait os (word_of_int ty) want retried sc b1;
             (case x of
                (Some res, sc2, b2) \<Rightarrow> Some (res, sc2, b2)
              | (None, sc2, b2) \<Rightarrow> bus_request_attempts os ty req req_len want True n sc2 b2) })"

definition bus_request ::
  "'w uart_ops \<Rightarrow> int \<Rightarrow> byte list option \<Rightarrow> nat \<Rightarrow> bool \<Rightarrow> 'w script \<Rightarrow> ('w, 'h) host
     \<Rightarrow> ('w, 'h) request_result option" where
  "bus_request os ty req req_len want sc b =
     (if \<not> opened b then Some ((- ENODEV, None), sc, b)
      else if ty < 0 \<or> 9 \<le> ty then Some ((- EINVAL, None), sc, b)
      else if bus_validate_tx (word_of_int ty) (word_of_nat req_len) \<noteq> 0 then Some ((- EINVAL, None), sc, b)
      else bus_request_attempts os ty req req_len want False 2 sc b)"

definition bus_supported_types :: "('w, 'h) host \<Rightarrow> u16" where
  "bus_supported_types b = supported_types b"

end
