(* ===== verification/Bus_Rx.thy ===== *)
theory Bus_Rx
  imports Bus
begin

text \<open>
  Properties of the host's transmission and reception: a frame goes out in one piece, a header
  is decoded as \<open>bus_header_decode\<close> does, and a frame from the device wakes the requester or
  reaches the handler of its type.
\<close>

section \<open>Transmission\<close>

lemma bus_data_tx_link:
  assumes "link_law os sent pending"
  obtains w' where "bus_data_tx os d data w = Some (0, w')"
    and "sent d w' = sent d w @ data" and "pending d w' = pending d w"
  unfolding bus_data_tx_eq_serial_data_tx by (rule serial_data_tx_link [OF assms])

text \<open>What \<open>bus_send_raw\<close> puts on the wire.\<close>

definition raw_frame :: "bus_header \<Rightarrow> byte list option \<Rightarrow> nat \<Rightarrow> byte list" where
  "raw_frame h payload len =
     bus_header_encode h @ (case payload of None \<Rightarrow> [] | Some p \<Rightarrow> take len p)"

lemma bus_send_raw_link:
  assumes law: "link_law os sent pending" and dev: "uart b = Some dev"
  obtains w where "bus_send_raw os h payload len b = Some (b\<lparr>bworld := w\<rparr>)"
    "sent dev w = sent dev (bworld b) @ raw_frame h payload len"
    "pending dev w = pending dev (bworld b)"
proof -
  obtain w1 where w1: "bus_data_tx os dev (bus_header_encode h) (bworld b) = Some (0, w1)"
    "sent dev w1 = sent dev (bworld b) @ bus_header_encode h" "pending dev w1 = pending dev (bworld b)"
    by (rule bus_data_tx_link [OF law])
  show ?thesis
  proof (cases "payload = None \<or> len = 0")
    case True
    with w1 dev show ?thesis
      by (intro that [of w1]) (auto simp: bus_send_raw_def raw_frame_def split: option.splits)
  next
    case False
    then obtain p where p: "payload = Some p" "0 < len" by auto
    obtain w2 where w2: "bus_data_tx os dev (take len p) w1 = Some (0, w2)"
      "sent dev w2 = sent dev w1 @ take len p" "pending dev w2 = pending dev w1"
      by (rule bus_data_tx_link [OF law])
    with w1 dev p show ?thesis
      by (intro that [of w2]) (auto simp: bus_send_raw_def raw_frame_def)
  qed
qed

text \<open>The host's acknowledgement.\<close>

definition host_ack :: "SerialType \<Rightarrow> 4 word \<Rightarrow> ErrorType \<Rightarrow> bus_header" where
  "host_ack ty seq error =
     \<lparr>bh_type = ty, bh_no_ack = False, bh_host = False, bh_error = error, bh_reserved = 0,
      bh_seq = seq, bh_length = 0\<rparr>"

lemma bus_send_ack_link:
  assumes law: "link_law os sent pending" and dev: "uart b = Some dev"
  obtains w where "bus_send_ack os ty seq error b = Some (b\<lparr>bworld := w\<rparr>)"
    "sent dev w = sent dev (bworld b) @ bus_header_encode (host_ack ty seq error)"
    "pending dev w = pending dev (bworld b)"
proof -
  obtain w where "bus_send_raw os (host_ack ty seq error) None 0 b = Some (b\<lparr>bworld := w\<rparr>)"
    "sent dev w = sent dev (bworld b) @ raw_frame (host_ack ty seq error) None 0"
    "pending dev w = pending dev (bworld b)"
    by (rule bus_send_raw_link [OF law dev])
  then show ?thesis
    by (intro that [of w]) (simp_all add: bus_send_ack_def host_ack_def raw_frame_def)
qed

section \<open>Headers\<close>

definition bus_next_state :: "bus_header \<Rightarrow> ParsingState" where
  "bus_next_state h =
     (if SERIAL_MAX_PAYLOAD_LEN < unat (bh_length h) then PARSING_STATE_TYPE else PARSING_STATE_DATA)"

definition bus_header_reply :: "bus_header \<Rightarrow> byte list" where
  "bus_header_reply h =
     (if SERIAL_MAX_PAYLOAD_LEN < unat (bh_length h)
      then bus_header_encode (host_ack (bh_type h) (bh_seq h) ERROR_TYPE_LENGTH_TOO_LONG) else [])"

lemma bus_rx_isr_loop_byte:
  assumes law: "link_law os sent pending" and st: "bus_parse b \<noteq> PARSING_STATE_DATA"
    and pend: "pending dev (bworld b) = x # rest"
  obtains w1 where "sent dev w1 = sent dev (bworld b)" "pending dev w1 = rest"
    "bus_rx_isr_loop os dev b =
       Option.bind (bus_rx_byte os x (b\<lparr>bworld := w1\<rparr>)) (bus_rx_isr_loop os dev)"
proof -
  obtain k bs w1 where rd: "uart_fifo_read os dev 1 (bworld b) = ((k, bs), w1)"
    by (metis prod.collapse)
  note r = fifo_read_link [OF law rd]
  show ?thesis
    by (rule that [of w1]) (use r pend st rd in \<open>simp_all add: bus_rx_isr_loop.simps [of os dev b]\<close>)
qed

lemma bus_rx_isr_loop_empty:
  assumes law: "link_law os sent pending" and st: "bus_parse b \<noteq> PARSING_STATE_DATA"
    and pend: "pending dev (bworld b) = []"
  obtains w1 where "sent dev w1 = sent dev (bworld b)" "pending dev w1 = []"
    "bus_rx_isr_loop os dev b = Some (b\<lparr>bworld := w1\<rparr>)"
proof -
  obtain k bs w1 where rd: "uart_fifo_read os dev 1 (bworld b) = ((k, bs), w1)"
    by (metis prod.collapse)
  note r = fifo_read_link [OF law rd]
  show ?thesis
    by (rule that [of w1]) (use r pend st rd in \<open>simp_all add: bus_rx_isr_loop.simps [of os dev b]\<close>)
qed

lemma bus_rx_isr_loop_data: "bus_parse b = PARSING_STATE_DATA \<Longrightarrow> bus_rx_isr_loop os dev b = Some b"
  by (simp add: bus_rx_isr_loop.simps)

text \<open>The header in \<open>bus_state\<close> after \<open>k\<close> of the four bytes.\<close>

definition hdr1 :: "byte \<Rightarrow> bus_header \<Rightarrow> bus_header" where
  "hdr1 x h = h\<lparr>bh_type := ucast x, bh_no_ack := bit x 4, bh_host := bit x 5,
                 bh_error := ucast (drop_bit 6 x)\<rparr>"

definition hdr2 :: "byte \<Rightarrow> bus_header \<Rightarrow> bus_header" where
  "hdr2 x h = h\<lparr>bh_reserved := ucast x, bh_seq := ucast (drop_bit 4 x)\<rparr>"

lemma bus_rx_byte_header:
  "bus_parse b = PARSING_STATE_TYPE \<Longrightarrow> bus_rx_byte os x b =
     Some (b\<lparr>hdr := hdr1 x (hdr b), bus_bytes_read := 0, bus_parse := PARSING_STATE_SEQUENCE_NUMBER\<rparr>)"
  "bus_parse b = PARSING_STATE_SEQUENCE_NUMBER \<Longrightarrow> bus_rx_byte os x b =
     Some (b\<lparr>hdr := hdr2 x (hdr b), bus_parse := PARSING_STATE_LENGTH1\<rparr>)"
  "bus_parse b = PARSING_STATE_LENGTH1 \<Longrightarrow> bus_rx_byte os x b =
     Some (b\<lparr>hdr := (hdr b)\<lparr>bh_length := push_bit 8 (ucast x)\<rparr>, bus_parse := PARSING_STATE_LENGTH2\<rparr>)"
  by (simp_all add: bus_rx_byte_def hdr1_def hdr2_def mask_simps)

lemma bus_header_decode_steps:
  "(hdr2 x1 (hdr1 x0 h))\<lparr>bh_length := push_bit 8 (ucast x2) OR ucast x3\<rparr> =
     bus_header_decode [x0, x1, x2, x3]"
  by (cases h) (simp add: hdr1_def hdr2_def bus_header_decode_eq mk_u16_def)

lemma bus_rx_isr_loop_header:
  assumes law: "link_law os sent pending" and dev: "uart b = Some dev"
    and st: "bus_parse b = PARSING_STATE_TYPE"
    and pend: "pending dev (bworld b) = wire @ rest" and len: "length wire = 4"
  defines "h \<equiv> bus_header_decode wire"
  obtains w where "pending dev w = rest" "sent dev w = sent dev (bworld b) @ bus_header_reply h"
    "bus_rx_isr_loop os dev b = bus_rx_isr_loop os dev
       (b\<lparr>bworld := w, bus_parse := bus_next_state h, hdr := h, bus_bytes_read := 0\<rparr>)"
proof -
  from len obtain x0 x1 x2 x3 where wire: "wire = [x0, x1, x2, x3]" by (auto simp: length_4_conv)
  obtain w1 where w1: "sent dev w1 = sent dev (bworld b)" "pending dev w1 = x1 # x2 # x3 # rest"
    "bus_rx_isr_loop os dev b =
       Option.bind (bus_rx_byte os x0 (b\<lparr>bworld := w1\<rparr>)) (bus_rx_isr_loop os dev)"
    by (rule bus_rx_isr_loop_byte [OF law, of b dev x0 "x1 # x2 # x3 # rest"]) (use st pend wire in auto)
  let ?b1 = "b\<lparr>bworld := w1, bus_parse := PARSING_STATE_SEQUENCE_NUMBER, hdr := hdr1 x0 (hdr b),
      bus_bytes_read := 0\<rparr>"
  obtain w2 where w2: "sent dev w2 = sent dev (bworld ?b1)" "pending dev w2 = x2 # x3 # rest"
    "bus_rx_isr_loop os dev ?b1 =
       Option.bind (bus_rx_byte os x1 (?b1\<lparr>bworld := w2\<rparr>)) (bus_rx_isr_loop os dev)"
    by (rule bus_rx_isr_loop_byte [OF law, of ?b1 dev x1 "x2 # x3 # rest"]) (use w1(2) in auto)
  let ?b2 = "b\<lparr>bworld := w2, bus_parse := PARSING_STATE_LENGTH1, hdr := hdr2 x1 (hdr1 x0 (hdr b)),
      bus_bytes_read := 0\<rparr>"
  obtain w3 where w3: "sent dev w3 = sent dev (bworld ?b2)" "pending dev w3 = x3 # rest"
    "bus_rx_isr_loop os dev ?b2 =
       Option.bind (bus_rx_byte os x2 (?b2\<lparr>bworld := w3\<rparr>)) (bus_rx_isr_loop os dev)"
    by (rule bus_rx_isr_loop_byte [OF law, of ?b2 dev x2 "x3 # rest"]) (use w2(2) in auto)
  let ?b3 = "b\<lparr>bworld := w3, bus_parse := PARSING_STATE_LENGTH2,
      hdr := (hdr2 x1 (hdr1 x0 (hdr b)))\<lparr>bh_length := push_bit 8 (ucast x2)\<rparr>, bus_bytes_read := 0\<rparr>"
  obtain w4 where w4: "sent dev w4 = sent dev (bworld ?b3)" "pending dev w4 = rest"
    "bus_rx_isr_loop os dev ?b3 =
       Option.bind (bus_rx_byte os x3 (?b3\<lparr>bworld := w4\<rparr>)) (bus_rx_isr_loop os dev)"
    by (rule bus_rx_isr_loop_byte [OF law, of ?b3 dev x3 rest]) (use w3(2) in auto)
  have h: "(hdr2 x1 (hdr1 x0 (hdr b)))\<lparr>bh_length := push_bit 8 (ucast x2) OR ucast x3\<rparr> = h"
    unfolding h_def wire by (rule bus_header_decode_steps)
  let ?b4 = "b\<lparr>bworld := w4, bus_parse := PARSING_STATE_LENGTH2, hdr := h, bus_bytes_read := 0\<rparr>"
  have dev4: "uart ?b4 = Some dev" using dev by simp
  obtain w5 where w5: "bus_send_ack os (bh_type h) (bh_seq h) 3 ?b4 = Some (?b4\<lparr>bworld := w5\<rparr>)"
    "sent dev w5 = sent dev (bworld ?b4) @ bus_header_encode (host_ack (bh_type h) (bh_seq h) 3)"
    "pending dev w5 = pending dev (bworld ?b4)"
    by (rule bus_send_ack_link [OF law dev4])
  let ?w = "if 4096 < unat (bh_length h) then w5 else w4"
  have e4: "bus_rx_byte os x3 (?b3\<lparr>bworld := w4\<rparr>) =
      Some (b\<lparr>bworld := ?w, bus_parse := bus_next_state h, hdr := h, bus_bytes_read := 0\<rparr>)"
    using w5(1) h by (cases b) (auto simp: bus_rx_byte_def bus_next_state_def Let_def)
  have e1: "bus_rx_byte os x0 (b\<lparr>bworld := w1\<rparr>) = Some ?b1"
    using st by (cases b) (simp add: bus_rx_byte_header)
  have e2: "bus_rx_byte os x1 (?b1\<lparr>bworld := w2\<rparr>) = Some ?b2"
    by (cases b) (simp add: bus_rx_byte_header)
  have e3: "bus_rx_byte os x2 (?b2\<lparr>bworld := w3\<rparr>) = Some ?b3"
    by (cases b) (simp add: bus_rx_byte_header)
  have "bus_rx_isr_loop os dev b = bus_rx_isr_loop os dev
       (b\<lparr>bworld := ?w, bus_parse := bus_next_state h, hdr := h, bus_bytes_read := 0\<rparr>)"
    by (simp only: w1(3) e1 w2(3) e2 w3(3) e3 w4(3) e4 Option.bind.simps)
  moreover have "pending dev ?w = rest" "sent dev ?w = sent dev (bworld b) @ bus_header_reply h"
    using w1 w2 w3 w4 w5 by (auto simp: bus_header_reply_def)
  ultimately show ?thesis using that by blast
qed

section \<open>Frames\<close>

text \<open>The bus at rest: open, waiting for a header.\<close>

definition bus_ready :: "('w, 'h) host \<Rightarrow> dev \<Rightarrow> bool" where
  "bus_ready b dev \<longleftrightarrow> uart b = Some dev \<and> bus_parse b = PARSING_STATE_TYPE \<and> \<not> rx_work b \<and>
     length (rx_buf b) = E80211_BUS_RX_BUF_SIZE"

text \<open>A complete frame from the device is all there is in the host's FIFO.\<close>

definition device_frame ::
  "(dev \<Rightarrow> 'w \<Rightarrow> byte list) \<Rightarrow> ('w, 'h) host \<Rightarrow> dev \<Rightarrow> bus_header \<Rightarrow> byte list \<Rightarrow> bool" where
  "device_frame pending b dev h payload \<longleftrightarrow>
     pending dev (bworld b) = bus_header_encode h @ payload \<and>
     length payload = unat (bh_length h) \<and> bus_validate_rx h = 0"

lemma bus_validate_rx_iff:
  "bus_validate_rx h = 0 \<longleftrightarrow>
     bh_reserved h = 0 \<and> bh_type h < SERIAL_TYPE_UNKNOWN \<and> unat (bh_length h) \<le> SERIAL_MAX_PAYLOAD_LEN"
  by (auto simp: bus_validate_rx_def errno_defs not_le)

lemma bus_rx_payload_done:
  "\<not> bus_bytes_read b < unat (bh_length (hdr b)) \<Longrightarrow> bus_rx_payload os dev b = Some b"
  by (simp add: bus_rx_payload.simps)

text \<open>A payload that is completely in the FIFO is read by one round of the payload loop.\<close>

lemma bus_rx_payload_full:
  assumes law: "link_law os sent pending" and pend: "pending dev (bworld b) = payload"
    and len: "length payload = unat (bh_length (hdr b))" and start: "bus_bytes_read b = 0"
  obtains w where
    "bus_rx_payload os dev b =
       Some (b\<lparr>bworld := w, bus_bytes_read := length payload, rx_buf := overwrite 0 payload (rx_buf b)\<rparr>)"
    "pending dev w = []" "sent dev w = sent dev (bworld b)"
proof (cases "payload = []")
  case True
  with pend len start show ?thesis
    by (intro that [of "bworld b"]) (simp_all add: bus_rx_payload.simps [of os dev b])
next
  case False
  obtain n bs w where rd: "uart_fifo_read os dev (unat (bh_length (hdr b))) (bworld b) = ((n, bs), w)"
    by (metis prod.collapse)
  note r = fifo_read_link [OF law rd]
  have bs: "bs = payload" "n = int (length payload)" using r(1,2) pend len by auto
  let ?b1 = "b\<lparr>bworld := w, bus_bytes_read := length payload, rx_buf := overwrite 0 payload (rx_buf b)\<rparr>"
  have nz: "0 < unat (bh_length (hdr b))" using False len by (metis length_greater_0_conv)
  have stop: "bus_rx_payload os dev ?b1 = Some ?b1"
    by (rule bus_rx_payload_done) (simp add: len)
  have "bus_rx_payload os dev b = bus_rx_payload os dev ?b1"
    using rd bs nz start False
    by (subst bus_rx_payload.simps) (cases b, simp add: Let_def)
  with stop r pend len show ?thesis by (intro that [of w]) auto
qed

text \<open>What the work item does with a valid frame.\<close>

definition frame_taken :: "bus_header \<Rightarrow> ('w, 'h) host \<Rightarrow> ('w, 'h) host" where
  "frame_taken h b =
     (if request_pending b then b\<lparr>last_hdr := h, rx_sem := min 1 (rx_sem b + 1)\<rparr>
      else if bh_length h = 0 then b else call_handler (bh_type h) (unat (bh_length h)) b)"

definition frame_reply :: "bus_header \<Rightarrow> byte list" where
  "frame_reply h =
     (if bh_length h = 0 \<or> bh_no_ack h then []
      else bus_header_encode (host_ack (bh_type h) (bh_seq h) ERROR_TYPE_NO_ERROR))"

lemma bus_rx_event_frame:
  assumes law: "link_law os sent pending" and rdy: "bus_ready b dev"
    and fr: "device_frame pending b dev h payload"
  obtains w where
    "bus_rx_event os b = Some (frame_taken h (b\<lparr>bworld := w, hdr := h, bus_bytes_read := 0,
        rx_buf := overwrite 0 payload (rx_buf b)\<rparr>))"
    "pending dev w = []" "sent dev w = sent dev (bworld b) @ frame_reply h"
proof -
  have dev: "uart b = Some dev" and st: "bus_parse b = PARSING_STATE_TYPE" and wk: "\<not> rx_work b"
    using rdy by (simp_all add: bus_ready_def)
  have pend: "pending dev (bworld b) = bus_header_encode h @ payload"
    and len: "length payload = unat (bh_length h)" and val: "bus_validate_rx h = 0"
    using fr by (simp_all add: device_frame_def)
  have nxt: "bus_next_state h = PARSING_STATE_DATA" "bus_header_reply h = []"
    using val by (simp_all add: bus_validate_rx_iff bus_next_state_def bus_header_reply_def)
  obtain w1 where w1: "pending dev w1 = payload"
    "sent dev w1 = sent dev (bworld b) @ bus_header_reply (bus_header_decode (bus_header_encode h))"
    "bus_rx_isr_loop os dev b = bus_rx_isr_loop os dev
       (b\<lparr>bworld := w1, bus_parse := bus_next_state (bus_header_decode (bus_header_encode h)),
          hdr := bus_header_decode (bus_header_encode h), bus_bytes_read := 0\<rparr>)"
    by (rule bus_rx_isr_loop_header [OF law dev st pend]) simp_all
  let ?b1 = "b\<lparr>bworld := w1, bus_parse := PARSING_STATE_DATA, hdr := h, bus_bytes_read := 0\<rparr>"
  have isr: "bus_rx_isr os dev b = Some (?b1\<lparr>rx_work := True\<rparr>)"
    using w1(3) by (simp add: bus_rx_isr_def host_codec.dec_enc nxt bus_rx_isr_loop_data)
  obtain w2 where w2: "bus_rx_payload os dev ?b1 = Some (?b1\<lparr>bworld := w2,
      bus_bytes_read := length payload, rx_buf := overwrite 0 payload (rx_buf ?b1)\<rparr>)"
    "pending dev w2 = []" "sent dev w2 = sent dev (bworld ?b1)"
    by (rule bus_rx_payload_full [OF law, of dev ?b1 payload]) (use w1(1) len in simp_all)
  let ?b2 = "b\<lparr>bworld := w2, bus_parse := PARSING_STATE_DATA, hdr := h,
      bus_bytes_read := length payload, rx_buf := overwrite 0 payload (rx_buf b)\<rparr>"
  have dev2: "uart ?b2 = Some dev" using dev by simp
  obtain w3 where w3: "bus_send_ack os (bh_type h) (bh_seq h) 0 ?b2 = Some (?b2\<lparr>bworld := w3\<rparr>)"
    "sent dev w3 = sent dev (bworld ?b2) @ bus_header_encode (host_ack (bh_type h) (bh_seq h) 0)"
    "pending dev w3 = pending dev (bworld ?b2)"
    by (rule bus_send_ack_link [OF law dev2])
  let ?w = "if bh_length h = 0 \<or> bh_no_ack h then w2 else w3"
  have b1: "(?b1\<lparr>rx_work := True\<rparr>)\<lparr>rx_work := False\<rparr> = ?b1" using wk by (cases b) simp
  have b2: "?b1\<lparr>bworld := w2, bus_bytes_read := length payload,
      rx_buf := overwrite 0 payload (rx_buf ?b1)\<rparr> = ?b2"
    by (cases b) simp
  have "bus_rx_event os b = bus_rx_work os ?b1" using isr b1 dev by (simp add: bus_rx_event_def)
  also have "\<dots> = Some (frame_taken h (b\<lparr>bworld := ?w, hdr := h, bus_bytes_read := 0,
        rx_buf := overwrite 0 payload (rx_buf b)\<rparr>))"
    using w2(1) [unfolded b2] w3(1) dev len val st
    by (cases b) (auto simp: bus_rx_work_def frame_taken_def k_sem_give_def call_handler_def
        split: option.splits)
  finally show ?thesis
    by (rule that) (use w1 w2 w3 nxt in \<open>auto simp: frame_reply_def host_codec.dec_enc\<close>)
qed

end
