(* ===== verification/Bus_Inv.thy ===== *)
theory Bus_Inv
  imports Bus_Rx
begin

text \<open>
  The invariant of the host's bus, that every receive event returns and keeps it, and that every
  blocking operation returns, whatever arrives and in whatever order.
\<close>

definition bus_inv :: "('w, 'h) host \<Rightarrow> bool" where
  "bus_inv b \<longleftrightarrow>
     length (rx_buf b) = E80211_BUS_RX_BUF_SIZE \<and> rx_sem b \<le> 1 \<and>
     (bus_parse b = PARSING_STATE_DATA \<longrightarrow>
        unat (bh_length (hdr b)) \<le> SERIAL_MAX_PAYLOAD_LEN \<and>
        bus_bytes_read b \<le> unat (bh_length (hdr b))) \<and>
     (bus_parse b \<noteq> PARSING_STATE_DATA \<longrightarrow> bus_bytes_read b = 0) \<and>
     (rx_work b \<longrightarrow> bus_parse b = PARSING_STATE_DATA)"

text \<open>What reception leaves alone.\<close>

definition bus_frame :: "('w, 'h) host \<Rightarrow> ('w, 'h) host \<Rightarrow> bool" where
  "bus_frame b b' \<longleftrightarrow> uart b' = uart b \<and> tx_seq b' = tx_seq b \<and> opened b' = opened b \<and>
     request_pending b' = request_pending b \<and> handler b' = handler b \<and>
     handler_user b' = handler_user b \<and> supported_types b' = supported_types b"

lemma bus_frame_refl [simp]: "bus_frame b b"
  by (simp add: bus_frame_def)

lemma bus_frame_trans: "bus_frame a b \<Longrightarrow> bus_frame b c \<Longrightarrow> bus_frame a c"
  by (simp add: bus_frame_def)

section \<open>The interrupt handler\<close>

lemma bus_rx_byte_inv:
  assumes law: "link_law os sent pending" and dev: "uart b = Some dev" and inv: "bus_inv b"
    and st: "bus_parse b \<noteq> PARSING_STATE_DATA"
  obtains b' where "bus_rx_byte os x b = Some b'" "bus_inv b'" "bus_frame b b'"
    "pending dev (bworld b') = pending dev (bworld b)" "rx_sem b' = rx_sem b" "\<not> rx_work b'"
proof -
  have wk: "\<not> rx_work b" using inv st by (auto simp: bus_inv_def)
  let ?b1 = "b\<lparr>hdr := (hdr b)\<lparr>bh_length := bh_length (hdr b) OR ucast x\<rparr>\<rparr>"
  have dev1: "uart ?b1 = Some dev" using dev by simp
  obtain w where w: "bus_send_ack os (bh_type (hdr ?b1)) (bh_seq (hdr ?b1)) 3 ?b1 = Some (?b1\<lparr>bworld := w\<rparr>)"
    "pending dev w = pending dev (bworld ?b1)"
    by (rule bus_send_ack_link [OF law dev1])
  show ?thesis
    using st inv wk w
    by (cases "bus_parse b"; cases "bh_length (hdr ?b1) = 0"; cases "4096 < unat (bh_length (hdr ?b1))")
      (auto intro!: that simp: bus_rx_byte_def bus_inv_def bus_frame_def Let_def)
qed

lemma bus_rx_isr_loop_inv:
  assumes law: "link_law os sent pending"
  shows "uart b = Some dev \<Longrightarrow> bus_inv b \<Longrightarrow>
    \<exists>b'. bus_rx_isr_loop os dev b = Some b' \<and> bus_inv b' \<and> bus_frame b b' \<and> rx_sem b' = rx_sem b"
proof (induction "length (pending dev (bworld b))" arbitrary: b rule: less_induct)
  case less
  consider "bus_parse b = PARSING_STATE_DATA"
    | "bus_parse b \<noteq> PARSING_STATE_DATA" "pending dev (bworld b) = []"
    | x rest where "bus_parse b \<noteq> PARSING_STATE_DATA" "pending dev (bworld b) = x # rest"
    by (cases "pending dev (bworld b)") auto
  then show ?case
  proof cases
    case 1
    then show ?thesis using less.prems by (simp add: bus_rx_isr_loop_data)
  next
    case 2
    obtain w where "bus_rx_isr_loop os dev b = Some (b\<lparr>bworld := w\<rparr>)"
      by (rule bus_rx_isr_loop_empty [OF law 2])
    then show ?thesis using less.prems by (auto simp: bus_inv_def bus_frame_def)
  next
    case 3
    obtain w where w: "pending dev w = rest"
      "bus_rx_isr_loop os dev b = Option.bind (bus_rx_byte os x (b\<lparr>bworld := w\<rparr>)) (bus_rx_isr_loop os dev)"
      by (rule bus_rx_isr_loop_byte [OF law 3])
    have b1: "uart (b\<lparr>bworld := w\<rparr>) = Some dev" "bus_inv (b\<lparr>bworld := w\<rparr>)"
      "bus_parse (b\<lparr>bworld := w\<rparr>) \<noteq> PARSING_STATE_DATA"
      using less.prems 3 by (auto simp: bus_inv_def)
    obtain b' where b': "bus_rx_byte os x (b\<lparr>bworld := w\<rparr>) = Some b'" "bus_inv b'"
      "bus_frame (b\<lparr>bworld := w\<rparr>) b'" "pending dev (bworld b') = pending dev (bworld (b\<lparr>bworld := w\<rparr>))"
      "rx_sem b' = rx_sem (b\<lparr>bworld := w\<rparr>)" "\<not> rx_work b'"
      by (rule bus_rx_byte_inv [OF law b1])
    have "\<exists>t. bus_rx_isr_loop os dev b' = Some t \<and> bus_inv t \<and> bus_frame b' t \<and> rx_sem t = rx_sem b'"
      by (rule less.hyps) (use b' w 3 b1 in \<open>auto simp: bus_frame_def\<close>)
    then show ?thesis using w b' by (auto simp: bus_frame_def)
  qed
qed

section \<open>The work item\<close>

text \<open>While a payload is read: everything but the payload's progress stays.\<close>

lemma bus_rx_payload_inv:
  assumes law: "link_law os sent pending"
  shows "bus_inv b \<Longrightarrow> bus_parse b = PARSING_STATE_DATA \<Longrightarrow>
    \<exists>b'. bus_rx_payload os dev b = Some b' \<and> bus_inv b' \<and> bus_frame b b' \<and>
      bus_parse b' = PARSING_STATE_DATA \<and> rx_sem b' = rx_sem b \<and> rx_work b' = rx_work b"
proof (induction "unat (bh_length (hdr b)) - bus_bytes_read b" arbitrary: b rule: less_induct)
  case less
  show ?case
  proof (cases "bus_bytes_read b < unat (bh_length (hdr b))")
    case False
    then show ?thesis using less.prems by (simp add: bus_rx_payload_done)
  next
    case True
    let ?k = "unat (bh_length (hdr b)) - bus_bytes_read b"
    obtain n bs w where rd: "uart_fifo_read os dev ?k (bworld b) = ((n, bs), w)" by (metis prod.collapse)
    note r = fifo_read_link [OF law rd]
    have lbs: "length bs \<le> ?k" "n = int (length bs)" using r(1,2) by auto
    let ?b1 = "b\<lparr>bworld := w, rx_buf := overwrite (bus_bytes_read b) bs (rx_buf b)\<rparr>"
    let ?b2 = "?b1\<lparr>bus_bytes_read := bus_bytes_read ?b1 + nat n\<rparr>"
    have fit: "bus_bytes_read b + length bs \<le> length (rx_buf b)"
      using less.prems lbs True by (auto simp: bus_inv_def)
    have eq: "bus_rx_payload os dev b = (if n \<le> 0 then Some ?b1 else bus_rx_payload os dev ?b2)"
      using True rd by (subst bus_rx_payload.simps) (simp add: Let_def)
    show ?thesis
    proof (cases "n \<le> 0")
      case True
      then show ?thesis using eq less.prems fit by (auto simp: bus_inv_def bus_frame_def)
    next
      case False
      then have "0 < length bs" using lbs(2) by linarith
      then have "unat (bh_length (hdr b)) - (bus_bytes_read b + length bs) < ?k" using True by linarith
      then have "\<exists>b'. bus_rx_payload os dev ?b2 = Some b' \<and> bus_inv b' \<and> bus_frame ?b2 b' \<and>
          bus_parse b' = PARSING_STATE_DATA \<and> rx_sem b' = rx_sem ?b2 \<and> rx_work b' = rx_work ?b2"
        by (intro less.hyps) (use True False lbs less.prems fit in \<open>auto simp: bus_inv_def\<close>)
      then show ?thesis using eq False by (auto simp: bus_frame_def)
    qed
  qed
qed

lemma call_handler_frame [simp]:
  "bus_inv (call_handler ty n b) = bus_inv b" "bus_frame a (call_handler ty n b) = bus_frame a b"
  "rx_sem (call_handler ty n b) = rx_sem b" "bus_parse (call_handler ty n b) = bus_parse b"
  "rx_work (call_handler ty n b) = rx_work b" "request_pending (call_handler ty n b) = request_pending b"
  "bworld (call_handler ty n b) = bworld b" "uart (call_handler ty n b) = uart b"
  by (simp_all add: call_handler_def bus_inv_def bus_frame_def split: option.splits)

lemma call_handler_reset:
  "(call_handler ty n b)\<lparr>bus_parse := p, bus_bytes_read := k\<rparr> =
     call_handler ty n (b\<lparr>bus_parse := p, bus_bytes_read := k\<rparr>)"
  by (cases b) (simp add: call_handler_def split: option.splits)

lemma bus_rx_work_inv:
  assumes law: "link_law os sent pending" and dev: "uart b = Some dev" and inv: "bus_inv b"
    and st: "bus_parse b = PARSING_STATE_DATA" and wk: "\<not> rx_work b"
  obtains b' where "bus_rx_work os b = Some b'" "bus_inv b'" "bus_frame b b'" "rx_sem b' \<le> rx_sem b + 1"
proof -
  obtain b1 where b1: "bus_rx_payload os dev b = Some b1" "bus_inv b1" "bus_frame b b1"
    "bus_parse b1 = PARSING_STATE_DATA" "rx_sem b1 = rx_sem b" "rx_work b1 = rx_work b"
    using bus_rx_payload_inv [OF law inv st] by auto
  have dev1: "uart b1 = Some dev" using b1(3) dev by (simp add: bus_frame_def)
  obtain w where w: "bus_send_ack os (bh_type (hdr b1)) (bh_seq (hdr b1)) 0 b1 = Some (b1\<lparr>bworld := w\<rparr>)"
    by (rule bus_send_ack_link [OF law dev1])
  let ?reset = "\<lambda>b. b\<lparr>bus_parse := PARSING_STATE_TYPE, bus_bytes_read := 0\<rparr>"
  let ?b2 = "if \<not> bh_no_ack (hdr b1) then b1\<lparr>bworld := w\<rparr> else b1"
  let ?done = "if bh_length (hdr b1) = 0
     then ?reset (if request_pending b1 then k_sem_give (b1\<lparr>last_hdr := hdr b1\<rparr>) else b1)
     else ?reset (if request_pending ?b2 then k_sem_give (?b2\<lparr>last_hdr := hdr ?b2\<rparr>)
                  else call_handler (bh_type (hdr b)) (unat (bh_length (hdr ?b2))) ?b2)"
  let ?b' = "if bus_bytes_read b1 < unat (bh_length (hdr b1)) then b1
     else if bus_validate_rx (hdr b1) \<noteq> 0 then ?reset b1 else ?done"
  have "bus_rx_work os b = Some ?b'" using dev b1(1) w by (simp add: bus_rx_work_def)
  moreover have "bus_inv ?b'" "bus_frame b ?b'" "rx_sem ?b' \<le> rx_sem b + 1"
    using b1(2-6) wk
    by (auto simp: k_sem_give_def call_handler_reset) (auto simp: bus_inv_def bus_frame_def)
  ultimately show ?thesis by (rule that)
qed

section \<open>Events and waits\<close>

lemma bus_rx_event_inv:
  assumes law: "link_law os sent pending" and dev: "uart b = Some dev" and inv: "bus_inv b"
  obtains b' where "bus_rx_event os b = Some b'" "bus_inv b'" "bus_frame b b'" "rx_sem b' \<le> rx_sem b + 1"
proof -
  obtain b1 where b1: "bus_rx_isr_loop os dev b = Some b1" "bus_inv b1" "bus_frame b b1" "rx_sem b1 = rx_sem b"
    using bus_rx_isr_loop_inv [OF law dev inv] by auto
  have dev1: "uart b1 = Some dev" using b1(3) dev by (simp add: bus_frame_def)
  show ?thesis
  proof (cases "bus_parse b1 = PARSING_STATE_DATA")
    case False
    then have "\<not> rx_work b1" using b1(2) by (auto simp: bus_inv_def)
    with False b1 dev show ?thesis
      by (intro that [of b1]) (simp_all add: bus_rx_event_def bus_rx_isr_def)
  next
    case True
    let ?b2 = "b1\<lparr>rx_work := False\<rparr>"
    have b2: "uart ?b2 = Some dev" "bus_inv ?b2" "bus_parse ?b2 = PARSING_STATE_DATA" "\<not> rx_work ?b2"
      using b1(2) dev1 True by (auto simp: bus_inv_def)
    obtain b' where "bus_rx_work os ?b2 = Some b'" "bus_inv b'" "bus_frame ?b2 b'" "rx_sem b' \<le> rx_sem ?b2 + 1"
      by (rule bus_rx_work_inv [OF law b2])
    with True b1 dev show ?thesis
      by (intro that [of b']) (simp_all add: bus_rx_event_def bus_rx_isr_def bus_frame_def)
  qed
qed

text \<open>
  A wait always returns; it succeeds only by consuming an event or the semaphore, so that script
  length plus semaphore count goes down.
\<close>

lemma k_sem_take_inv:
  assumes law: "link_law os sent pending"
  shows "uart b = Some dev \<Longrightarrow> bus_inv b \<Longrightarrow>
    \<exists>r sc' b'. k_sem_take os sc b = Some (r, sc', b') \<and> bus_inv b' \<and> bus_frame b b' \<and>
      (r = 0 \<longrightarrow> length sc' + rx_sem b' < length sc + rx_sem b) \<and> length sc' \<le> length sc"
proof (induction sc arbitrary: b)
  case Nil
  then show ?case by (auto simp: bus_inv_def bus_frame_def errno_defs)
next
  case (Cons ev sc)
  consider "0 < rx_sem b" | "rx_sem b = 0" "ev = Timeout_expires" | f where "rx_sem b = 0" "ev = Rx_arrival f"
    by (cases ev) auto
  then show ?case
  proof cases
    case 1
    then show ?thesis using Cons.prems by (auto simp: bus_inv_def bus_frame_def)
  next
    case 2
    then show ?thesis using Cons.prems by (auto simp: bus_frame_def errno_defs)
  next
    case 3
    let ?b = "b\<lparr>bworld := f (bworld b)\<rparr>"
    have b: "uart ?b = Some dev" "bus_inv ?b" using Cons.prems by (auto simp: bus_inv_def)
    obtain b1 where b1: "bus_rx_event os ?b = Some b1" "bus_inv b1" "bus_frame ?b b1" "rx_sem b1 \<le> rx_sem ?b + 1"
      by (rule bus_rx_event_inv [OF law b])
    obtain r sc' b' where t: "k_sem_take os sc b1 = Some (r, sc', b')" "bus_inv b'" "bus_frame b1 b'"
      "r = 0 \<longrightarrow> length sc' + rx_sem b' < length sc + rx_sem b1" "length sc' \<le> length sc"
      using Cons.IH [of b1] b1 b by (auto simp: bus_frame_def)
    have "k_sem_take os (ev # sc) b = Some (r, sc', b')" using 3 b1(1) t(1) by simp
    moreover have "bus_frame b b'" using b1(3) t(3) by (auto simp: bus_frame_def)
    ultimately show ?thesis using t b1(4) 3 by auto
  qed
qed

section \<open>The blocking operations return\<close>

lemma bus_send_raw_inv:
  assumes law: "link_law os sent pending" and dev: "uart b = Some dev" and inv: "bus_inv b"
  obtains b' where "bus_send_raw os h payload len b = Some b'" "bus_inv b'" "bus_frame b b'"
    "rx_sem b' = rx_sem b" "request_pending b' = request_pending b" "tx_seq b' = tx_seq b"
proof -
  obtain w where "bus_send_raw os h payload len b = Some (b\<lparr>bworld := w\<rparr>)"
    by (rule bus_send_raw_link [OF law dev])
  with inv show ?thesis by (intro that [of "b\<lparr>bworld := w\<rparr>"]) (auto simp: bus_inv_def bus_frame_def)
qed

lemma bus_sync_attempts_returns:
  assumes law: "link_law os sent pending"
  shows "uart b = Some dev \<Longrightarrow> bus_inv b \<Longrightarrow>
    \<exists>r sc' b'. bus_sync_attempts os n sc b = Some (r, sc', b') \<and> bus_inv b' \<and> uart b' = Some dev \<and>
      (0 < n \<longrightarrow> \<not> request_pending b') \<and> length sc' \<le> length sc \<and>
      r \<in> {0, - ENOTSUP, - ETIMEDOUT} \<and> opened b' = opened b"
proof (induction n arbitrary: sc b)
  case (Suc n)
  let ?q = "\<lparr>bh_type = 7, bh_no_ack = True, bh_host = False, bh_error = 0, bh_reserved = 0,
             bh_seq = ucast (tx_seq b), bh_length = 0\<rparr> :: bus_header"
  let ?b0 = "(drain_sem b)\<lparr>request_pending := True\<rparr>"
  have b0: "uart ?b0 = Some dev" "bus_inv ?b0" using Suc.prems by (auto simp: drain_sem_def bus_inv_def)
  obtain b1 where b1: "bus_send_raw os ?q None 0 ?b0 = Some b1" "bus_inv b1" "bus_frame ?b0 b1"
    by (rule bus_send_raw_inv [OF law b0])
  have dev1: "uart b1 = Some dev" using b1(3) Suc.prems by (simp add: bus_frame_def drain_sem_def)
  obtain r sc2 b2 where b2: "k_sem_take os sc b1 = Some (r, sc2, b2)" "bus_inv b2" "bus_frame b1 b2"
    "length sc2 \<le> length sc"
    using k_sem_take_inv [OF law dev1 b1(2), of sc] by blast
  let ?b3 = "b2\<lparr>request_pending := False\<rparr>"
  have b3: "uart ?b3 = Some dev" "bus_inv ?b3" "opened ?b3 = opened b"
    using b2(2,3) dev1 b1(3) by (auto simp: bus_inv_def bus_frame_def drain_sem_def)
  have retry: "\<exists>r sc' b'. bus_sync_attempts os n sc2 ?b3 = Some (r, sc', b') \<and> bus_inv b' \<and>
      uart b' = Some dev \<and> \<not> request_pending b' \<and> length sc' \<le> length sc \<and>
      r \<in> {0, - ENOTSUP, - ETIMEDOUT} \<and> opened b' = opened b"
    using Suc.IH [OF b3(1,2), of sc2] b2(4) b3 by (cases n) auto
  show ?case
    using retry b1(1) b2 b3
    by (auto simp: Let_def) (auto simp: bus_inv_def)
qed simp

lemma bus_sync_returns:
  assumes "link_law os sent pending" and "uart b = Some dev" and "bus_inv b"
  shows "\<exists>r sc' b'. bus_sync os sc b = Some (r, sc', b') \<and> bus_inv b' \<and> uart b' = Some dev \<and>
      \<not> request_pending b' \<and> length sc' \<le> length sc \<and> r \<in> {0, - ENOTSUP, - ETIMEDOUT} \<and>
      opened b' = opened b"
  using bus_sync_attempts_returns [OF assms, of BUS_SYNC_RETRIES sc]
  by (simp add: bus_sync_def BUS_SYNC_RETRIES_def)

lemma bus_request_wait_returns:
  assumes law: "link_law os sent pending"
  shows "uart b = Some dev \<Longrightarrow> bus_inv b \<Longrightarrow>
    \<exists>res sc' b'. bus_request_wait os ty want retried sc b = Some (res, sc', b') \<and> bus_inv b' \<and>
      uart b' = Some dev \<and> \<not> request_pending b' \<and> opened b' = opened b \<and>
      (\<forall>x. res = Some x \<longrightarrow> fst x \<in> {0, - ETIMEDOUT})"
proof (induction "length sc + rx_sem b" arbitrary: sc b rule: less_induct)
  case less
  obtain r sc1 b1 where t: "k_sem_take os sc b = Some (r, sc1, b1)" "bus_inv b1" "bus_frame b b1"
    "r = 0 \<longrightarrow> length sc1 + rx_sem b1 < length sc + rx_sem b"
    using k_sem_take_inv [OF law less.prems, of sc] by blast
  let ?b2 = "b1\<lparr>request_pending := False\<rparr>" and ?last = "last_hdr b1"
  have b2: "uart ?b2 = Some dev" "bus_inv ?b2" "opened ?b2 = opened b" "uart b1 = Some dev" "opened b1 = opened b"
    using t(2,3) less.prems by (auto simp: bus_inv_def bus_frame_def)
  note unf = bus_request_wait.simps [of os ty want retried sc b]
  consider "r \<noteq> 0"
    | "r = 0" "bh_length ?last = 0" "bh_error ?last = 1" "\<not> retried"
    | "r = 0" "bh_length ?last = 0" "bh_error ?last \<noteq> 1 \<or> retried"
    | "r = 0" "bh_length ?last \<noteq> 0" "bh_type ?last = ty"
    | "r = 0" "bh_length ?last \<noteq> 0" "bh_type ?last \<noteq> ty"
    by blast
  then show ?case
  proof cases
    case 1
    then show ?thesis using unf t b2 by simp
  next
    case 2
    then show ?thesis using unf t(1) bus_sync_returns [OF law b2(1,2), of sc1] b2(3) by (auto simp: Let_def)
  next
    case 3
    have "\<exists>res sc' b'. bus_request_wait os ty want retried sc1 b1 = Some (res, sc', b') \<and> bus_inv b' \<and>
      uart b' = Some dev \<and> \<not> request_pending b' \<and> opened b' = opened b1 \<and>
      (\<forall>x. res = Some x \<longrightarrow> fst x \<in> {0, - ETIMEDOUT})"
      by (rule less.hyps) (use 3 t b2 in auto)
    then show ?thesis using unf t(1) 3 b2(5) by (auto simp: Let_def)
  next
    case 4
    then show ?thesis using unf t b2 by (simp add: Let_def)
  next
    case 5
    let ?b3 = "call_handler (bh_type ?last) (unat (bh_length ?last)) b1"
    have o3: "opened ?b3 = opened b1" by (simp add: call_handler_def split: option.splits)
    have "\<exists>res sc' b'. bus_request_wait os ty want retried sc1 ?b3 = Some (res, sc', b') \<and> bus_inv b' \<and>
      uart b' = Some dev \<and> \<not> request_pending b' \<and> opened b' = opened ?b3 \<and>
      (\<forall>x. res = Some x \<longrightarrow> fst x \<in> {0, - ETIMEDOUT})"
      by (rule less.hyps) (use 5 t b2 in auto)
    then show ?thesis using unf t(1) 5 b2(5) o3 by (auto simp: Let_def)
  qed
qed

end
