(* ===== verification/Bus_Requests.thy ===== *)
theory Bus_Requests
  imports Bus_Inv
begin

text \<open>
  The host's operations on concrete exchanges: what a request, a synchronisation or an unsolicited
  frame amounts to, and that a request returns whatever the device does.
\<close>

section \<open>A concrete host\<close>

text \<open>A host whose handlers record the payloads they are given, for concrete runs.\<close>

definition no_header :: bus_header where
  "no_header = \<lparr>bh_type = 0, bh_no_ack = False, bh_host = False, bh_error = 0, bh_reserved = 0,
     bh_seq = 0, bh_length = 0\<rparr>"

definition sim_host :: "byte list \<Rightarrow> (sim_world, byte list list) host" where
  "sim_host rx =
     \<lparr>bworld = sim_idle\<lparr>sim_rx := (\<lambda>_. rx)\<rparr>, app = [], uart = Some 0, bus_parse = PARSING_STATE_TYPE,
      hdr = no_header, bus_bytes_read = 0, rx_buf = replicate 4096 0, rx_work = False,
      tx_seq = 0, rx_seq = 0, rx_sem = 0, request_pending = False, last_hdr = no_header,
      supported_types = 0, handler = (\<lambda>_. Some (\<lambda>buf n u a. a @ [take n buf])),
      handler_user = (\<lambda>_. None), opened = True\<rparr>"

definition sim_bring :: "byte list \<Rightarrow> sim_world \<Rightarrow> sim_world" where
  "sim_bring bs w = w\<lparr>sim_rx := (\<lambda>d. sim_rx w d @ bs)\<rparr>"

lemma sim_host_simps [simp]:
  "bus_ready (sim_host rx) 0" "bus_inv (sim_host rx)" "opened (sim_host rx)" "rx_sem (sim_host rx) = 0"
  "\<not> request_pending (sim_host rx)" "uart (sim_host rx) = Some 0" "tx_seq (sim_host rx) = 0"
  "sim_rx (bworld (sim_host rx)) d = rx" "sim_tx (bworld (sim_host rx)) d = []"
  "handler (sim_host rx) ty = Some (\<lambda>buf n u a. a @ [take n buf])" "app (sim_host rx) = []"
  by (simp_all add: sim_host_def bus_ready_def bus_inv_def sim_idle_def)

section \<open>A frame arrives during a wait\<close>

text \<open>The bytes \<open>bs\<close> from the device appear in the host's FIFO.\<close>

definition brings ::
  "(dev \<Rightarrow> 'w \<Rightarrow> byte list) \<Rightarrow> (dev \<Rightarrow> 'w \<Rightarrow> byte list) \<Rightarrow> dev \<Rightarrow> byte list \<Rightarrow> ('w \<Rightarrow> 'w) \<Rightarrow> bool" where
  "brings sent pending dev bs f \<longleftrightarrow>
     (\<forall>w. pending dev (f w) = pending dev w @ bs \<and> sent dev (f w) = sent dev w)"

definition valid_frame :: "bus_header \<Rightarrow> byte list \<Rightarrow> bool" where
  "valid_frame h payload \<longleftrightarrow> length payload = unat (bh_length h) \<and> bus_validate_rx h = 0"

text \<open>The state after a frame has been received.\<close>

definition took :: "'w \<Rightarrow> bus_header \<Rightarrow> byte list \<Rightarrow> ('w, 'h) host \<Rightarrow> ('w, 'h) host" where
  "took w h payload b =
     b\<lparr>bworld := w, hdr := h, bus_bytes_read := 0, rx_buf := overwrite 0 payload (rx_buf b), last_hdr := h\<rparr>"

lemma took_simps [simp]:
  "bworld (took w h p b) = w" "last_hdr (took w h p b) = h" "uart (took w h p b) = uart b"
  "rx_buf (took w h p b) = overwrite 0 p (rx_buf b)" "rx_sem (took w h p b) = rx_sem b"
  "request_pending (took w h p b) = request_pending b" "tx_seq (took w h p b) = tx_seq b"
  "app (took w h p b) = app b" "opened (took w h p b) = opened b" "rx_work (took w h p b) = rx_work b"
  "supported_types (took w h p b) = supported_types b" "bus_parse (took w h p b) = bus_parse b"
  by (simp_all add: took_def)

lemma bus_ready_took:
  "bus_ready b dev \<Longrightarrow> valid_frame h p \<Longrightarrow> bus_ready (took w h p b) dev"
  by (auto simp: bus_ready_def valid_frame_def bus_validate_rx_iff)

lemma k_sem_take_frame:
  assumes law: "link_law os sent pending" and rdy: "bus_ready b dev"
    and req: "request_pending b" "rx_sem b = 0" and empty: "pending dev (bworld b) = []"
    and f: "brings sent pending dev (bus_header_encode h @ payload) f" and val: "valid_frame h payload"
  obtains w where "k_sem_take os (Rx_arrival f # sc) b = Some (0, sc, took w h payload b)"
    "pending dev w = []" "sent dev w = sent dev (bworld b) @ frame_reply h"
proof -
  let ?b = "b\<lparr>bworld := f (bworld b)\<rparr>"
  have rdy': "bus_ready ?b dev" using rdy by (simp add: bus_ready_def)
  have fr: "device_frame pending ?b dev h payload"
    using f val empty by (simp add: device_frame_def brings_def valid_frame_def)
  obtain w where w: "bus_rx_event os ?b = Some (frame_taken h (?b\<lparr>bworld := w, hdr := h, bus_bytes_read := 0,
        rx_buf := overwrite 0 payload (rx_buf ?b)\<rparr>))"
    "pending dev w = []" "sent dev w = sent dev (bworld ?b) @ frame_reply h"
    by (rule bus_rx_event_frame [OF law rdy' fr])
  have b1: "frame_taken h (?b\<lparr>bworld := w, hdr := h, bus_bytes_read := 0,
        rx_buf := overwrite 0 payload (rx_buf ?b)\<rparr>) = (took w h payload b)\<lparr>rx_sem := 1\<rparr>"
    using req by (cases b) (simp add: frame_taken_def took_def)
  have take: "k_sem_take os sc (c\<lparr>rx_sem := 1\<rparr>) = Some (0, sc, c\<lparr>rx_sem := 0\<rparr>)" for c :: "('a, 'b) host"
    by (cases sc) simp_all
  have sem: "(took w h payload b)\<lparr>rx_sem := 0\<rparr> = took w h payload b"
    using req by (cases b) (simp add: took_def)
  have "k_sem_take os (Rx_arrival f # sc) b = Some (0, sc, took w h payload b)"
    using w(1) b1 take [of "took w h payload b"] sem req by simp
  moreover have "sent dev w = sent dev (bworld b) @ frame_reply h"
    using w(3) f by (simp add: brings_def)
  ultimately show ?thesis using that w(2) by blast
qed

section \<open>Unsolicited frames\<close>

text \<open>
  C26. A data frame that arrives while no request is pending is acknowledged and handed, once, to
  the handler registered for its type, with the payload at the start of the buffer and its length;
  the bus is then ready for the next frame and its other state is unchanged.
\<close>

theorem host_frame_dispatched:
  assumes law: "link_law os sent pending" and rdy: "bus_ready b dev" and req: "\<not> request_pending b"
    and fr: "device_frame pending b dev h payload" and data: "bh_length h \<noteq> 0"
    and cb: "handler b (bh_type h) = Some cb"
  shows "\<exists>b' buf. bus_rx_event os b = Some b' \<and> bus_ready b' dev \<and>
     app b' = cb buf (length payload) (handler_user b (bh_type h)) (app b) \<and>
     take (length payload) buf = payload \<and> length buf = E80211_BUS_RX_BUF_SIZE \<and>
     tx_seq b' = tx_seq b \<and> rx_sem b' = rx_sem b \<and> \<not> request_pending b' \<and>
     pending dev (bworld b') = [] \<and>
     sent dev (bworld b') = sent dev (bworld b) @
       (if bh_no_ack h then [] else bus_header_encode (host_ack (bh_type h) (bh_seq h) ERROR_TYPE_NO_ERROR))"
proof -
  obtain w where w: "bus_rx_event os b = Some (frame_taken h (b\<lparr>bworld := w, hdr := h, bus_bytes_read := 0,
        rx_buf := overwrite 0 payload (rx_buf b)\<rparr>))"
    "pending dev w = []" "sent dev w = sent dev (bworld b) @ frame_reply h"
    by (rule bus_rx_event_frame [OF law rdy fr])
  have len: "unat (bh_length h) = length payload" "length (overwrite 0 payload (rx_buf b)) = 4096"
    using fr rdy by (auto simp: device_frame_def bus_ready_def bus_validate_rx_iff)
  let ?b' = "frame_taken h (b\<lparr>bworld := w, hdr := h, bus_bytes_read := 0,
        rx_buf := overwrite 0 payload (rx_buf b)\<rparr>)"
  show ?thesis
    by (rule exI [of _ ?b'], rule exI [of _ "overwrite 0 payload (rx_buf b)"])
      (use w req data cb len rdy in \<open>simp add: frame_taken_def call_handler_def bus_ready_def frame_reply_def\<close>)
qed

section \<open>Requests\<close>

text \<open>
  C12. A request returns, whatever the device sends or fails to send and in whatever order: with
  every finite script of events the call ends, with -ENODEV exactly when the bus is not open, with
  -EINVAL exactly when type or length are not allowed, and otherwise with 0 or -ETIMEDOUT; an error
  that the device reports is never the result.  The request is no longer pending, and the invariant
  of the bus holds.
\<close>

theorem bus_request_returns:
  assumes law: "link_law os sent pending" and dev: "uart b = Some dev" and inv: "bus_inv b"
    and idle: "\<not> request_pending b"
  shows "\<exists>r resp sc' b'. bus_request os ty req req_len want sc b = Some ((r, resp), sc', b') \<and>
     (r = - ENODEV \<longleftrightarrow> \<not> opened b) \<and>
     (r = - EINVAL \<longleftrightarrow> opened b \<and>
        (ty < 0 \<or> 9 \<le> ty \<or> bus_validate_tx (word_of_int ty) (word_of_nat req_len) \<noteq> 0)) \<and>
     r \<in> {0, - ENODEV, - EINVAL, - ETIMEDOUT} \<and> bus_inv b' \<and> \<not> request_pending b'"
proof -
  have att: "\<exists>r resp sc' b'. bus_request_attempts os ty req req_len want True n sc b = Some ((r, resp), sc', b') \<and>
      r \<in> {0, - ETIMEDOUT} \<and> bus_inv b' \<and> \<not> request_pending b'"
    if "bus_inv b" for n sc and b :: "('a, 'b) host"
    using that by (cases n) (auto simp: bus_inv_def)
  let ?b0 = "b\<lparr>tx_seq := bus_seq_next (tx_seq b), request_pending := True\<rparr>"
  have b0: "uart ?b0 = Some dev" "bus_inv ?b0" using dev inv by (auto simp: bus_inv_def)
  obtain b1 where b1: "bus_send_raw os (tx_header ty (tx_seq b) req_len) req req_len ?b0 = Some b1"
    "bus_inv b1" "bus_frame ?b0 b1"
    by (rule bus_send_raw_inv [OF law b0])
  have dev1: "uart b1 = Some dev" using b1(3) dev by (simp add: bus_frame_def)
  obtain res sc2 b2 where w: "bus_request_wait os (word_of_int ty) want False sc b1 = Some (res, sc2, b2)"
    "bus_inv b2" "\<not> request_pending b2" "\<forall>x. res = Some x \<longrightarrow> fst x \<in> {0, - ETIMEDOUT}"
    using bus_request_wait_returns [OF law dev1 b1(2)] by blast
  have "\<exists>r resp sc' b'. bus_request_attempts os ty req req_len want False 2 sc b = Some ((r, resp), sc', b') \<and>
      r \<in> {0, - ETIMEDOUT} \<and> bus_inv b' \<and> \<not> request_pending b'"
    using b1(1) w att [OF w(2), of 1 sc2] by (cases res) (auto simp: numeral_2_eq_2)
  then show ?thesis using inv idle by (fastforce simp: bus_request_def errno_defs)
qed

text \<open>
  The normal exchange: the device acknowledges the request and then sends a frame of the same
  type.  The call returns 0 with exactly the payload of that frame; on the wire are the request
  frame with the current sequence number and the acknowledgement of the response; the sequence
  number has advanced by one.
\<close>

lemma bus_request_answered:
  assumes law: "link_law os sent pending" and rdy: "bus_ready b dev" and op: "opened b"
    and sem: "rx_sem b = 0" and empty: "pending dev (bworld b) = []"
    and ty: "0 \<le> ty" "ty < 9" and req: "0 < length req" "length req \<le> SERIAL_MAX_PAYLOAD_LEN"
    and f1: "brings sent pending dev (bus_header_encode ack) f1" and ack: "valid_frame ack []"
      "bh_error ack = ERROR_TYPE_NO_ERROR"
    and f2: "brings sent pending dev (bus_header_encode h @ payload) f2" and h: "valid_frame h payload"
      "bh_type h = word_of_int ty" "payload \<noteq> []"
  shows "\<exists>b'. bus_request os ty (Some req) (length req) True (Rx_arrival f1 # Rx_arrival f2 # sc) b =
       Some ((0, Some payload), sc, b') \<and>
     tx_seq b' = bus_seq_next (tx_seq b) \<and> \<not> request_pending b' \<and> bus_ready b' dev \<and>
     app b' = app b \<and> opened b' \<and> rx_sem b' = 0 \<and> pending dev (bworld b') = [] \<and>
     sent dev (bworld b') = sent dev (bworld b) @
       bus_header_encode (tx_header ty (tx_seq b) (length req)) @ req @
       (if bh_no_ack h then [] else bus_header_encode (host_ack (bh_type h) (bh_seq h) ERROR_TYPE_NO_ERROR))"
proof -
  let ?b0 = "b\<lparr>tx_seq := bus_seq_next (tx_seq b), request_pending := True\<rparr>"
  have dev: "uart ?b0 = Some dev" using rdy by (simp add: bus_ready_def)
  have nack: "bh_length ack = 0" "frame_reply ack = []"
    using ack by (auto simp: valid_frame_def unat_eq_0 frame_reply_def)
  have nh: "bh_length h \<noteq> 0" "length payload = unat (bh_length h)" "unat (bh_length h) \<le> 4096"
    using h by (auto simp: valid_frame_def bus_validate_rx_iff)
  obtain w where w: "bus_send_raw os (tx_header ty (tx_seq b) (length req)) (Some req) (length req) ?b0 =
      Some (?b0\<lparr>bworld := w\<rparr>)"
    "sent dev w = sent dev (bworld ?b0) @ raw_frame (tx_header ty (tx_seq b) (length req)) (Some req) (length req)"
    "pending dev w = pending dev (bworld ?b0)"
    by (rule bus_send_raw_link [OF law dev])
  let ?b1 = "?b0\<lparr>bworld := w\<rparr>"
  have r1: "bus_ready ?b1 dev" using rdy by (simp add: bus_ready_def)
  obtain w1 where w1: "k_sem_take os (Rx_arrival f1 # Rx_arrival f2 # sc) ?b1 = Some (0, Rx_arrival f2 # sc, took w1 ack [] ?b1)"
    "pending dev w1 = []" "sent dev w1 = sent dev (bworld ?b1) @ frame_reply ack"
    by (rule k_sem_take_frame [OF law r1]) (use f1 ack sem w(3) empty in auto)
  let ?b2 = "took w1 ack [] ?b1"
  have r2: "bus_ready ?b2 dev" by (rule bus_ready_took [OF r1 ack(1)])
  obtain w2 where w2: "k_sem_take os (Rx_arrival f2 # sc) ?b2 = Some (0, sc, took w2 h payload ?b2)"
    "pending dev w2 = []" "sent dev w2 = sent dev (bworld ?b2) @ frame_reply h"
    by (rule k_sem_take_frame [OF law r2]) (use f2 h sem w1(2) in auto)
  let ?b3 = "took w2 h payload ?b2"
  have r3: "bus_ready ?b3 dev" by (rule bus_ready_took [OF r2 h(1)])
  have buf: "take (min (unat (bh_length h)) 4096) (rx_buf ?b3) = payload"
    using nh by (simp add: min_absorb1 flip: nh(2))
  have wait2: "bus_request_wait os (word_of_int ty) True False (Rx_arrival f2 # sc) ?b2 =
      Some (Some (0, Some payload), sc, ?b3\<lparr>request_pending := False\<rparr>)"
    unfolding bus_request_wait.simps [of _ _ _ _ _ ?b2] w2(1) using nh(1) h(2) buf by (simp add: Let_def)
  have wait1: "bus_request_wait os (word_of_int ty) True False (Rx_arrival f1 # Rx_arrival f2 # sc) ?b1 =
      Some (Some (0, Some payload), sc, ?b3\<lparr>request_pending := False\<rparr>)"
    unfolding bus_request_wait.simps [of _ _ _ _ _ ?b1] w1(1) using nack(1) ack(2) wait2 by (simp add: Let_def)
  have val: "bus_validate_tx (word_of_int ty) (word_of_nat (length req)) = 0"
    using req by (auto simp: bus_validate_tx_def unat_word_of_nat_16 word_of_nat_eq_0_iff dest: dvd_imp_le)
  have "bus_request os ty (Some req) (length req) True (Rx_arrival f1 # Rx_arrival f2 # sc) b =
      Some ((0, Some payload), sc, ?b3\<lparr>request_pending := False\<rparr>)"
    using op ty val w(1) wait1 by (simp add: bus_request_def numeral_2_eq_2)
  moreover have "bus_ready (?b3\<lparr>request_pending := False\<rparr>) dev" using r3 by (simp add: bus_ready_def)
  ultimately show ?thesis
    using w w1 w2 nack(2) nh(1) op sem by (auto simp: raw_frame_def frame_reply_def)
qed

text \<open>A device frame for concrete runs.\<close>

definition reply_header :: "SerialType \<Rightarrow> ErrorType \<Rightarrow> 4 word \<Rightarrow> nat \<Rightarrow> bus_header" where
  "reply_header ty error seq n =
     \<lparr>bh_type = ty, bh_no_ack = False, bh_host = True, bh_error = error, bh_reserved = 0, bh_seq = seq,
      bh_length = word_of_nat n\<rparr>"

lemma reply_header_simps [simp]:
  "bh_type (reply_header ty e q n) = ty" "bh_error (reply_header ty e q n) = e"
  "bh_seq (reply_header ty e q n) = q" "\<not> bh_no_ack (reply_header ty e q n)"
  "bh_length (reply_header ty e q n) = word_of_nat n"
  by (simp_all add: reply_header_def)

lemma sim_valid_frame:
  "length p = n \<Longrightarrow> n \<le> 4096 \<Longrightarrow> ty < 9 \<Longrightarrow> valid_frame (reply_header ty e q n) p"
  by (simp add: valid_frame_def bus_validate_rx_iff unat_word_of_nat_16) (simp add: reply_header_def)

lemma sim_brings: "brings (\<lambda>d w. sim_tx w d) (\<lambda>d w. sim_rx w d) dev bs (sim_bring bs)"
  by (simp add: brings_def sim_bring_def)

theorem host_frame_dispatched_witness:
  "\<exists>b'. bus_rx_event sim_uart (sim_host (bus_header_encode (reply_header 8 0 2 3) @ [7, 8, 9])) = Some b' \<and>
     app b' = [[7, 8, 9]] \<and> sim_tx (bworld b') 0 = bus_header_encode (host_ack 8 2 0)"
proof -
  let ?b = "sim_host (bus_header_encode (reply_header 8 0 2 3) @ [7, 8, 9])"
  have fr: "device_frame (\<lambda>d w. sim_rx w d) ?b 0 (reply_header 8 0 2 3) [7, 8, 9]"
    using sim_valid_frame [of "[7, 8, 9]" 3 8 0 2] by (simp add: device_frame_def valid_frame_def)
  have hd: "handler ?b (bh_type (reply_header 8 0 2 3)) = Some (\<lambda>buf n u a. a @ [take n buf])" by simp
  show ?thesis
    using host_frame_dispatched [OF sim_uart_link _ _ fr _ hd] by auto
qed

theorem bus_request_returns_witness:
  "\<exists>r resp sc' b'. bus_request sim_uart 0 (Some [1, 2]) 2 True
      [Rx_arrival (sim_bring [255, 255, 3]), Timeout_expires] (sim_host []) = Some ((r, resp), sc', b') \<and>
     \<not> request_pending b'"
  using bus_request_returns [OF sim_uart_link, of "sim_host []" 0 0 "Some [1, 2]" 2 True
      "[Rx_arrival (sim_bring [255, 255, 3]), Timeout_expires]"]
  by auto

section \<open>Synchronisation\<close>

text \<open>The PROTOCOL_INFO query.\<close>

definition sync_query :: "byte \<Rightarrow> bus_header" where
  "sync_query seq = \<lparr>bh_type = SERIAL_TYPE_PROTOCOL_INFO, bh_no_ack = True, bh_host = False,
     bh_error = 0, bh_reserved = 0, bh_seq = ucast seq, bh_length = 0\<rparr>"

lemma mk_u16_or: "ucast l OR push_bit 8 (ucast h) = mk_u16 h l" for h l :: byte
  by (simp add: mk_u16_def or.commute)

lemma bus_sync_link:
  assumes law: "link_law os sent pending" and rdy: "bus_ready b dev" and empty: "pending dev (bworld b) = []"
    and f: "brings sent pending dev (bus_header_encode h @ [v, l, m, q]) f"
    and h: "valid_frame h [v, l, m, q]" "bh_type h = SERIAL_TYPE_PROTOCOL_INFO"
  obtains w where
    "bus_sync os (Rx_arrival f # sc) b =
       Some (if v \<noteq> SERIAL_PROTOCOL_VERSION then - ENOTSUP else 0, sc,
         (let b' = (took w h [v, l, m, q] b)\<lparr>rx_sem := 0, request_pending := False\<rparr> in
          if v \<noteq> SERIAL_PROTOCOL_VERSION then b'
          else b'\<lparr>supported_types := mk_u16 m l, tx_seq := q\<rparr>))"
    "pending dev w = []"
    "sent dev w = sent dev (bworld b) @ bus_header_encode (sync_query (tx_seq b)) @ frame_reply h"
proof -
  let ?b0 = "(drain_sem b)\<lparr>request_pending := True\<rparr>" and ?p = "[v, l, m, q]"
  have dev: "uart ?b0 = Some dev" using rdy by (simp add: bus_ready_def drain_sem_def)
  obtain w where w: "bus_send_raw os (sync_query (tx_seq b)) None 0 ?b0 = Some (?b0\<lparr>bworld := w\<rparr>)"
    "sent dev w = sent dev (bworld ?b0) @ raw_frame (sync_query (tx_seq b)) None 0"
    "pending dev w = pending dev (bworld ?b0)"
    by (rule bus_send_raw_link [OF law dev])
  let ?b1 = "?b0\<lparr>bworld := w\<rparr>"
  have r1: "bus_ready ?b1 dev" using rdy by (simp add: bus_ready_def drain_sem_def)
  obtain w1 where w1: "k_sem_take os (Rx_arrival f # sc) ?b1 = Some (0, sc, took w1 h ?p ?b1)"
    "pending dev w1 = []" "sent dev w1 = sent dev (bworld ?b1) @ frame_reply h"
    by (rule k_sem_take_frame [OF law r1]) (use f h w(3) empty in \<open>auto simp: drain_sem_def\<close>)
  have len: "bh_length h = 4"
    using h(1) by (auto simp: valid_frame_def intro: unat_eq_nat_uint word_unat_eq_iff [THEN iffD2])
  have nth: "overwrite 0 [x0, x1, x2, x3] xs ! 0 = x0" "overwrite 0 [x0, x1, x2, x3] xs ! Suc 0 = x1"
    "overwrite 0 [x0, x1, x2, x3] xs ! 2 = x2" "overwrite 0 [x0, x1, x2, x3] xs ! 3 = x3"
    for x0 x1 x2 x3 :: byte and xs
    by (simp_all add: overwrite_def)
  have took: "(took w1 h ?p ?b1)\<lparr>request_pending := False\<rparr> = (took w1 h ?p b)\<lparr>rx_sem := 0, request_pending := False\<rparr>"
    by (cases b) (simp add: took_def drain_sem_def)
  have "bus_sync os (Rx_arrival f # sc) b = bus_sync_attempts os (Suc 3) (Rx_arrival f # sc) b"
    by (simp add: bus_sync_def BUS_SYNC_RETRIES_def)
  also have "\<dots> = Some (if v \<noteq> 1 then - ENOTSUP else 0, sc,
         (let b' = (took w1 h ?p b)\<lparr>rx_sem := 0, request_pending := False\<rparr> in
          if v \<noteq> 1 then b' else b'\<lparr>supported_types := mk_u16 m l, tx_seq := q\<rparr>))"
    unfolding bus_sync_attempts.simps(2) sync_query_def [symmetric] w(1) Option.bind.simps w1(1)
    using h(2) len by (simp add: Let_def took nth mk_u16_or)
  finally have "bus_sync os (Rx_arrival f # sc) b =
       Some (if v \<noteq> 1 then - ENOTSUP else 0, sc,
         (let b' = (took w1 h ?p b)\<lparr>rx_sem := 0, request_pending := False\<rparr> in
          if v \<noteq> 1 then b' else b'\<lparr>supported_types := mk_u16 m l, tx_seq := q\<rparr>))" .
  moreover have "sent dev w1 = sent dev (bworld b) @ bus_header_encode (sync_query (tx_seq b)) @ frame_reply h"
    using w(2) w1(3) by (simp add: raw_frame_def drain_sem_def)
  ultimately show ?thesis using that w1(2) by blast
qed

text \<open>
  Synchronisation: a PROTOCOL_INFO response with the protocol version of this bus makes
  \<open>bus_sync\<close> return 0 with the sequence number and the traffic types the device announced, having
  sent one query and used no sequence number; another version gives -ENOTSUP and leaves both
  alone.
\<close>

lemma bus_sync_adopts:
  assumes law: "link_law os sent pending" and rdy: "bus_ready b dev" and empty: "pending dev (bworld b) = []"
    and f: "brings sent pending dev (bus_header_encode h @ [v, l, m, q]) f"
    and h: "valid_frame h [v, l, m, q]" "bh_type h = SERIAL_TYPE_PROTOCOL_INFO"
  shows "\<exists>b'. bus_sync os (Rx_arrival f # sc) b =
       Some (if v = SERIAL_PROTOCOL_VERSION then 0 else - ENOTSUP, sc, b') \<and>
     tx_seq b' = (if v = SERIAL_PROTOCOL_VERSION then q else tx_seq b) \<and>
     supported_types b' = (if v = SERIAL_PROTOCOL_VERSION then mk_u16 m l else supported_types b) \<and>
     \<not> request_pending b' \<and> bus_ready b' dev \<and> pending dev (bworld b') = [] \<and>
     sent dev (bworld b') = sent dev (bworld b) @ bus_header_encode (sync_query (tx_seq b)) @ frame_reply h"
proof -
  obtain w where w: "bus_sync os (Rx_arrival f # sc) b =
       Some (if v \<noteq> 1 then - ENOTSUP else 0, sc,
         (let b' = (took w h [v, l, m, q] b)\<lparr>rx_sem := 0, request_pending := False\<rparr> in
          if v \<noteq> 1 then b' else b'\<lparr>supported_types := mk_u16 m l, tx_seq := q\<rparr>))"
    "pending dev w = []"
    "sent dev w = sent dev (bworld b) @ bus_header_encode (sync_query (tx_seq b)) @ frame_reply h"
    by (rule bus_sync_link [OF law rdy empty f h])
  have "bus_ready (took w h [v, l, m, q] b) dev" by (rule bus_ready_took [OF rdy h(1)])
  with w show ?thesis by (cases "v = 1") (simp_all add: Let_def bus_ready_def)
qed

lemma bus_sync_adopts_witness:
  "\<exists>b'. bus_sync sim_uart [Rx_arrival (sim_bring (bus_header_encode (reply_header 7 0 0 4) @ [1, 255, 1, 9]))]
        (sim_host []) = Some (0, [], b') \<and> tx_seq b' = 9 \<and> supported_types b' = mk_u16 1 255"
proof -
  have h: "valid_frame (reply_header 7 0 0 4) [1, 255, 1, 9]" by (rule sim_valid_frame) simp_all
  show ?thesis
    using bus_sync_adopts [OF sim_uart_link _ _ sim_brings h, of "sim_host []" 0 "[]"] by auto
qed

section \<open>The missing retry\<close>

text \<open>
  C31. When the device answers a request with INCORRECT_SEQUENCE_NUMBER and the resynchronisation
  that follows succeeds, the request is not sent again: the call returns -ETIMEDOUT at once, with
  the new sequence number adopted and the request frame on the wire exactly once, although
  the loop is there to retry exactly once.
\<close>

theorem bus_request_no_retry:
  assumes law: "link_law os sent pending" and rdy: "bus_ready b dev" and op: "opened b"
    and sem: "rx_sem b = 0" and empty: "pending dev (bworld b) = []"
    and ty: "0 \<le> ty" "ty < 9" and req: "0 < length req" "length req \<le> SERIAL_MAX_PAYLOAD_LEN"
    and f1: "brings sent pending dev (bus_header_encode nack) f1" and nack: "valid_frame nack []"
      "bh_error nack = ERROR_TYPE_INCORRECT_SEQUENCE_NUMBER"
    and f2: "brings sent pending dev (bus_header_encode h @ [SERIAL_PROTOCOL_VERSION, l, m, q]) f2"
    and h: "valid_frame h [SERIAL_PROTOCOL_VERSION, l, m, q]" "bh_type h = SERIAL_TYPE_PROTOCOL_INFO"
  shows "\<exists>b'. bus_request os ty (Some req) (length req) True (Rx_arrival f1 # Rx_arrival f2 # sc) b =
       Some ((- ETIMEDOUT, None), sc, b') \<and> tx_seq b' = q \<and>
     sent dev (bworld b') = sent dev (bworld b) @
       bus_header_encode (tx_header ty (tx_seq b) (length req)) @ req @
       bus_header_encode (sync_query (bus_seq_next (tx_seq b))) @ frame_reply h"
proof -
  let ?b0 = "b\<lparr>tx_seq := bus_seq_next (tx_seq b), request_pending := True\<rparr>" and ?p = "[1, l, m, q]"
  have dev: "uart ?b0 = Some dev" using rdy by (simp add: bus_ready_def)
  have n: "bh_length nack = 0" "frame_reply nack = []"
    using nack by (auto simp: valid_frame_def unat_eq_0 frame_reply_def)
  obtain w where w: "bus_send_raw os (tx_header ty (tx_seq b) (length req)) (Some req) (length req) ?b0 =
      Some (?b0\<lparr>bworld := w\<rparr>)"
    "sent dev w = sent dev (bworld ?b0) @ raw_frame (tx_header ty (tx_seq b) (length req)) (Some req) (length req)"
    "pending dev w = pending dev (bworld ?b0)"
    by (rule bus_send_raw_link [OF law dev])
  let ?b1 = "?b0\<lparr>bworld := w\<rparr>"
  have r1: "bus_ready ?b1 dev" using rdy by (simp add: bus_ready_def)
  obtain w1 where w1: "k_sem_take os (Rx_arrival f1 # Rx_arrival f2 # sc) ?b1 = Some (0, Rx_arrival f2 # sc, took w1 nack [] ?b1)"
    "pending dev w1 = []" "sent dev w1 = sent dev (bworld ?b1) @ frame_reply nack"
    by (rule k_sem_take_frame [OF law r1]) (use f1 nack sem w(3) empty in auto)
  let ?b2 = "(took w1 nack [] ?b1)\<lparr>request_pending := False\<rparr>"
  have r2: "bus_ready ?b2 dev" "pending dev (bworld ?b2) = []"
    using bus_ready_took [OF r1 nack(1), of w1] w1(2) by (simp_all add: bus_ready_def)
  obtain w2 where w2: "bus_sync os (Rx_arrival f2 # sc) ?b2 =
       Some (if (1 :: byte) \<noteq> 1 then - ENOTSUP else 0, sc,
         (let b' = (took w2 h ?p ?b2)\<lparr>rx_sem := 0, request_pending := False\<rparr> in
          if (1 :: byte) \<noteq> 1 then b' else b'\<lparr>supported_types := mk_u16 m l, tx_seq := q\<rparr>))"
    "sent dev w2 = sent dev (bworld ?b2) @ bus_header_encode (sync_query (tx_seq ?b2)) @ frame_reply h"
    by (rule bus_sync_link [OF law r2 f2 h])
  let ?b3 = "(took w2 h ?p ?b2)\<lparr>rx_sem := 0, request_pending := False, supported_types := mk_u16 m l, tx_seq := q\<rparr>"
  have wait: "bus_request_wait os (word_of_int ty) True False (Rx_arrival f1 # Rx_arrival f2 # sc) ?b1 =
      Some (None, sc, ?b3)"
    unfolding bus_request_wait.simps [of _ _ _ _ _ ?b1] w1(1) using n(1) nack(2) w2(1) by (simp add: Let_def)
  have val: "bus_validate_tx (word_of_int ty) (word_of_nat (length req)) = 0"
    using req by (auto simp: bus_validate_tx_def unat_word_of_nat_16 word_of_nat_eq_0_iff dest: dvd_imp_le)
  have "bus_request os ty (Some req) (length req) True (Rx_arrival f1 # Rx_arrival f2 # sc) b =
      Some ((- ETIMEDOUT, None), sc, ?b3\<lparr>request_pending := False\<rparr>)"
    using op ty val w(1) wait by (simp add: bus_request_def numeral_2_eq_2)
  then show ?thesis
    using w w1 w2(2) n(2) by (auto simp: raw_frame_def)
qed

theorem bus_request_no_retry_witness:
  "\<exists>b'. bus_request sim_uart 2 (Some [8, 1]) 2 True
        [Rx_arrival (sim_bring (bus_header_encode (reply_header 2 1 5 0))),
         Rx_arrival (sim_bring (bus_header_encode (reply_header 7 0 0 4) @ [1, 255, 1, 5]))] (sim_host []) =
       Some ((- ETIMEDOUT, None), [], b') \<and> tx_seq b' = 5"
proof -
  have nack: "valid_frame (reply_header 2 1 5 0) []" and h: "valid_frame (reply_header 7 0 0 4) [1, 255, 1, 5]"
    by (rule sim_valid_frame; simp)+
  show ?thesis
    using bus_request_no_retry [where b = "sim_host []" and dev = 0 and ty = 2 and req = "[8, 1]" and sc = "[]",
        OF sim_uart_link _ _ _ _ _ _ _ _ sim_brings nack _ sim_brings h]
    by (auto simp: numeral_2_eq_2)
qed

section \<open>Length truncation\<close>

text \<open>
  \<open>bus_send\<close> checks and announces the length modulo 65536: with a payload of between 65537 and
  69632 bytes it reports success and sends all of the payload behind a header that announces 65536
  bytes less.
\<close>

lemma bus_send_truncates_length:
  assumes law: "link_law os sent pending" and dev: "uart b = Some dev" and op: "opened b"
    and ty: "0 \<le> ty" "ty < 9" and len: "65536 < length p" "length p \<le> 65536 + SERIAL_MAX_PAYLOAD_LEN"
  shows "\<exists>b'. bus_send os ty (Some p) (length p) b = Some (0, b') \<and>
     sent dev (bworld b') = sent dev (bworld b) @
       bus_header_encode (tx_header ty (tx_seq b) (length p - 65536)) @ p"
proof -
  let ?b0 = "b\<lparr>tx_seq := bus_seq_next (tx_seq b)\<rparr>"
  have wrap: "(word_of_nat (length p) :: u16) = word_of_nat (length p - 65536)"
  proof -
    have "(word_of_nat (length p - 65536 + 65536) :: u16) = word_of_nat (length p - 65536) + word_of_nat 65536"
      by (simp only: of_nat_add)
    then show ?thesis using len by simp
  qed
  have n: "unat (word_of_nat (length p) :: u16) = length p - 65536"
    unfolding wrap using len by (intro unat_word_of_nat_16) simp
  have nz: "(word_of_nat (length p) :: u16) \<noteq> 0"
  proof
    assume "(word_of_nat (length p) :: u16) = 0"
    with n have "length p - 65536 = 0" by simp
    with len show False by simp
  qed
  have val: "bus_validate_tx (word_of_int ty) (word_of_nat (length p)) = 0"
    using n nz len by (auto simp: bus_validate_tx_def)
  have hd: "tx_header ty (tx_seq b) (length p) = tx_header ty (tx_seq b) (length p - 65536)"
    unfolding tx_header_def wrap ..
  obtain w where "bus_send_raw os (tx_header ty (tx_seq b) (length p)) (Some p) (length p) ?b0 = Some (?b0\<lparr>bworld := w\<rparr>)"
    "sent dev w = sent dev (bworld ?b0) @ raw_frame (tx_header ty (tx_seq b) (length p)) (Some p) (length p)"
    by (rule bus_send_raw_link [OF law, of ?b0]) (use dev in simp)
  then show ?thesis
    using op ty val hd by (simp add: bus_send_def raw_frame_def)
qed

lemma bus_send_truncates_length_witness:
  "\<exists>b'. bus_send sim_uart 8 (Some (replicate 65537 0)) 65537 (sim_host []) = Some (0, b') \<and>
     sim_tx (bworld b') 0 = bus_header_encode (tx_header 8 0 1) @ replicate 65537 0"
  using bus_send_truncates_length [OF sim_uart_link, of "sim_host []" 0 8 "replicate 65537 0"]
  by (auto simp del: replicate.simps)

end
