(* ===== verification/Serial_Work.thy ===== *)
theory Serial_Work
  imports Serial_Irq
begin

text \<open>
  Properties of the work handler: what happens to a frame whose payload is in the receive FIFO.
  The lemmas are proved once, for any client that satisfies the contract \<open>serial_client\<close>, and
  hold for each proxy through its interpretation.
\<close>

text \<open>
  A frame of type \<open>ty\<close> with payload length \<open>n\<close> is being received and \<open>k\<close> bytes of it have been
  read; \<open>k = 0\<close> when the header has just been completed.
\<close>

definition frame_at ::
  "('w, 'e) device \<Rightarrow> cfg_ptr \<Rightarrow> dev \<Rightarrow> SerialType \<Rightarrow> nat \<Rightarrow> nat \<Rightarrow> bool" where
  "frame_at s c dev ty n k \<longleftrightarrow>
     serial_dev (serial_configs s c) = Some dev \<and> bytes_read (serial_configs s c) = k \<and>
     sh_type (serial_header (serial_configs s c)) = ty \<and>
     unat (sh_length (serial_header (serial_configs s c))) = n \<and> k < n"

text \<open>
  The state after \<open>bs\<close> has been stored at offset \<open>off\<close> of a buffer as bytes \<open>k\<close> and following of the
  payload.  A client that hands out the start of its buffer gets them at offset \<open>k\<close> (\<open>received\<close>).
\<close>

definition stored ::
  "'w \<Rightarrow> cfg_ptr \<Rightarrow> buf_id \<Rightarrow> nat \<Rightarrow> nat \<Rightarrow> byte list \<Rightarrow> ('w, 'e) device \<Rightarrow> ('w, 'e) device" where
  "stored w c b off k bs s =
     upd_config c (\<lambda>cf. cf\<lparr>bytes_read := k + length bs\<rparr>)
       (s\<lparr>world := w, mem := (mem s)(b := overwrite off bs (mem s b))\<rparr>)"

definition received ::
  "'w \<Rightarrow> cfg_ptr \<Rightarrow> buf_id \<Rightarrow> nat \<Rightarrow> byte list \<Rightarrow> ('w, 'e) device \<Rightarrow> ('w, 'e) device" where
  "received w c b k bs s =
     upd_config c (\<lambda>cf. cf\<lparr>bytes_read := k + length bs\<rparr>)
       (s\<lparr>world := w, mem := (mem s)(b := overwrite k bs (mem s b))\<rparr>)"

lemma received_stored: "received w c b k bs s = stored w c b k k bs s"
  by (simp add: received_def stored_def)

text \<open>The parser after a frame: ready for a header, expecting sequence number \<open>rx\<close>.\<close>

definition frame_done ::
  "'w \<Rightarrow> cfg_ptr \<Rightarrow> byte \<Rightarrow> ('w, 'e) device \<Rightarrow> ('w, 'e) device" where
  "frame_done w c rx s =
     upd_config c (\<lambda>cf. cf\<lparr>rx_sequence_number := rx, parsing_state := PARSING_STATE_TYPE,
        bytes_read := 0\<rparr>) (s\<lparr>world := w\<rparr>)"

lemma frame_done_config [simp]:
  "world (frame_done w c rx s) = w"
  "serial_configs (frame_done w c rx s) c =
     (serial_configs s c)\<lparr>rx_sequence_number := rx, parsing_state := PARSING_STATE_TYPE, bytes_read := 0\<rparr>"
  by (simp_all add: frame_done_def)

lemma stored_config:
  "serial_header (serial_configs (stored w c b off k bs s) c) = serial_header (serial_configs s c)"
  "rx_sequence_number (serial_configs (stored w c b off k bs s) c) = rx_sequence_number (serial_configs s c)"
  "bytes_read (serial_configs (stored w c b off k bs s) c) = k + length bs"
  "world (stored w c b off k bs s) = w"
  by (simp_all add: stored_def)

lemma received_config:
  "serial_header (serial_configs (received w c b k bs s) c) = serial_header (serial_configs s c)"
  "rx_sequence_number (serial_configs (received w c b k bs s) c) = rx_sequence_number (serial_configs s c)"
  "serial_dev (serial_configs (received w c b k bs s) c) = serial_dev (serial_configs s c)"
  "parsing_state (serial_configs (received w c b k bs s) c) = parsing_state (serial_configs s c)"
  "bytes_read (serial_configs (received w c b k bs s) c) = k + length bs"
  "world (received w c b k bs s) = w"
  "mem (received w c b k bs s) = (mem s)(b := overwrite k bs (mem s b))"
  by (simp_all add: received_def)

definition callbacks_of ::
  "('w, 'e) acquire_fn \<Rightarrow> ('w, 'e) client_fn \<Rightarrow> ('w, 'e) client_fn \<Rightarrow> ('w, 'e) client_callbacks" where
  "callbacks_of acq com fin =
     \<lparr>acquire_buffer = Some acq, commit_data = Some com, message_complete = Some fin\<rparr>"

lemma serial_work_step_client:
  assumes "ty \<noteq> SERIAL_TYPE_PROTOCOL_INFO" and "ty < SERIAL_TYPE_UNKNOWN"
  shows "serial_work_step os eo kc dev c ty (Some (callbacks_of acq com fin)) p s =
     work_client_step os dev c ty acq com fin
       (unat (sh_length (serial_header (serial_configs s c))) - bytes_read (serial_configs s c)) p s"
proof -
  have "\<not> SERIAL_TYPE_UNKNOWN \<le> ty" using assms(2) by simp
  with assms(1) show ?thesis by (simp add: serial_work_step_def callbacks_of_def Let_def)
qed

lemma mem_write_stored:
  assumes "off + k + length bs \<le> length (mem s b)" and "bytes_read (serial_configs s c) = k"
  shows "upd_config c (\<lambda>cf. cf\<lparr>bytes_read := bytes_read cf + length bs\<rparr>)
     (mem_write (Some (b, off)) k bs (s\<lparr>world := w\<rparr>)) = stored w c b (off + k) k bs s"
  using assms by (simp add: mem_write_fits stored_def)

section \<open>Completing a frame\<close>

lemma work_complete_in_sequence:
  assumes law: "link_law os sent pending"
    and seq: "rx_sequence_number (serial_configs s c) =
                ucast (sh_sequence_number (serial_header (serial_configs s c)))"
    and link: "same_link s (complete n (commit n s))"
    and n: "n = unat (sh_length (serial_header (serial_configs s c)))"
  obtains w where
    "map_option (upd_config c reset_parser) (work_complete os dev c ty commit complete s) =
       Some (frame_done w c (sequence_number_advance (rx_sequence_number (serial_configs s c)))
               (complete n (commit n s)))"
    "pending dev w = pending dev (world s)"
    "sent dev w = sent dev (world s) @
       (if sh_no_ack (serial_header (serial_configs s c)) then []
        else ack_bytes ty (sh_sequence_number (serial_header (serial_configs s c))) ERROR_TYPE_NO_ERROR)"
proof -
  let ?cf = "serial_configs s c"
  let ?adv = "\<lambda>cf. cf\<lparr>rx_sequence_number := sequence_number_advance (rx_sequence_number cf)\<rparr>"
  let ?t = "complete n (commit n s)"
  note same = same_linkD [OF link]
  obtain w where w: "send_ack os dev ty (ucast (sh_sequence_number (serial_header ?cf))) 0
      (upd_config c ?adv ?t) = Some ((upd_config c ?adv ?t)\<lparr>world := w\<rparr>)"
    "sent dev w = sent dev (world (upd_config c ?adv ?t)) @
       ack_bytes ty (ucast (ucast (sh_sequence_number (serial_header ?cf)) :: byte)) 0"
    "pending dev w = pending dev (world (upd_config c ?adv ?t))"
    by (rule send_ack_link [OF law])
  let ?w = "if sh_no_ack (serial_header ?cf) then world s else w"
  have "work_complete os dev c ty commit complete s = Some ((upd_config c ?adv ?t)\<lparr>world := ?w\<rparr>)"
    using seq n w(1) same(1) by (auto simp: work_complete_def Let_def)
  moreover have "upd_config c reset_parser ((upd_config c ?adv ?t)\<lparr>world := ?w\<rparr>) =
      frame_done ?w c (sequence_number_advance (rx_sequence_number ?cf)) ?t"
    unfolding frame_done_def upd_config_comp
    by (rule upd_config_cong) (simp add: reset_parser_def same(2))
  ultimately show ?thesis
    by (intro that [of ?w]) (use w same(1) in \<open>auto simp: ucast_ucast_nibble\<close>)
qed

lemma work_complete_wrong_sequence:
  assumes law: "link_law os sent pending"
    and seq: "rx_sequence_number (serial_configs s c) \<noteq>
                ucast (sh_sequence_number (serial_header (serial_configs s c)))"
  obtains w where
    "map_option (upd_config c reset_parser) (work_complete os dev c ty commit complete s) =
       Some (frame_done w c 0 s)"
    "pending dev w = pending dev (world s)"
    "sent dev w = sent dev (world s) @
       ack_bytes ty (ucast (rx_sequence_number (serial_configs s c))) ERROR_TYPE_INCORRECT_SEQUENCE_NUMBER"
proof -
  obtain w where w: "send_ack os dev ty (rx_sequence_number (serial_configs s c)) 1 s = Some (s\<lparr>world := w\<rparr>)"
    "sent dev w = sent dev (world s) @ ack_bytes ty (ucast (rx_sequence_number (serial_configs s c))) 1"
    "pending dev w = pending dev (world s)"
    by (rule send_ack_link [OF law])
  have "upd_config c reset_parser (upd_config c (\<lambda>cf. cf\<lparr>rx_sequence_number := 0\<rparr>) (s\<lparr>world := w\<rparr>)) =
      frame_done w c 0 s"
    by (simp add: frame_done_def upd_config_def reset_parser_def)
  with w seq show ?thesis
    by (intro that [of w]) (simp_all add: work_complete_def Let_def)
qed

section \<open>Any client\<close>

text \<open>The loop runs its body again after a completed frame; these are its two exits.\<close>

lemma work_client_step_no_buffer:
  assumes law: "link_law os sent pending" and acq: "acq p k s = (False, p')"
  obtains w where
    "work_client_step os dev c ty acq com fin k p s =
       Some (False, p', upd_config c reset_parser (s\<lparr>world := w\<rparr>))"
    "pending dev w = pending dev (world s)"
    "sent dev w = sent dev (world s) @
       ack_bytes ty (sh_sequence_number (serial_header (serial_configs s c))) ERROR_TYPE_OUT_OF_BUFFERS"
proof -
  let ?q = "sh_sequence_number (serial_header (serial_configs s c))"
  obtain w where "send_ack os dev ty (ucast ?q) 2 s = Some (s\<lparr>world := w\<rparr>)"
    "sent dev w = sent dev (world s) @ ack_bytes ty (ucast (ucast ?q :: byte)) 2"
    "pending dev w = pending dev (world s)"
    by (rule send_ack_link [OF law])
  with acq show ?thesis by (intro that [of w]) (simp_all add: work_client_step_def)
qed

lemma work_client_step_starved:
  assumes law: "link_law os sent pending" and acq: "acq p k s = (True, p')"
    and empty: "pending dev (world s) = []"
  obtains w where
    "work_client_step os dev c ty acq com fin k p s = Some (False, p', s\<lparr>world := w\<rparr>)"
    "pending dev w = []" "sent dev w = sent dev (world s)"
proof -
  obtain n bs w where rd: "uart_fifo_read os dev k (world s) = ((n, bs), w)" by (metis prod.collapse)
  note r = fifo_read_link [OF law rd]
  show ?thesis
    by (rule that [of w]) (use r acq empty rd in \<open>simp_all add: work_client_step_def Let_def\<close>)
qed

text \<open>
  One round on a non-empty FIFO: all that is left of the payload, or all that is there, is stored;
  \<open>fin_round\<close> is what follows.
\<close>

lemma work_client_step_read:
  assumes law: "link_law os sent pending"
    and acq: "acq p (n - k) s = (True, Some (b, off))" and st: "frame_at s c dev ty n k"
    and fits: "off + n \<le> length (mem s b)"
    and bs: "bs = take (n - k) (pending dev (world s))" "bs \<noteq> []"
  obtains w where
    "work_client_step os dev c ty acq com fin (n - k) p s =
       (if k + length bs = n then
          map_option (\<lambda>t. (True, Some (b, off), t))
            (map_option (upd_config c reset_parser)
              (work_complete os dev c ty com fin (stored w c b (off + k) k bs s)))
        else Some (True, Some (b, off), com (length bs) (stored w c b (off + k) k bs s)))"
    "pending dev w = drop (n - k) (pending dev (world s))" "sent dev w = sent dev (world s)"
proof -
  obtain m xs w where rd: "uart_fifo_read os dev (n - k) (world s) = ((m, xs), w)"
    by (metis prod.collapse)
  note r = fifo_read_link [OF law rd]
  have xs: "xs = bs" "m = int (length bs)" using r(1,2) bs by auto
  have n: "unat (sh_length (serial_header (serial_configs s c))) = n"
    "bytes_read (serial_configs s c) = k" "k + length bs \<le> n"
    using st bs by (auto simp: frame_at_def)
  have s2: "upd_config c (\<lambda>cf. cf\<lparr>bytes_read := bytes_read cf + length bs\<rparr>)
      (mem_write (Some (b, off)) k bs (s\<lparr>world := w\<rparr>)) = stored w c b (off + k) k bs s"
    using mem_write_stored [of off k bs s b c w] n fits by simp
  have le: "(n \<le> k + length bs) = (k + length bs = n)" using n(3) by auto
  have "work_client_step os dev c ty acq com fin (n - k) p s =
       (if k + length bs = n then
          map_option (\<lambda>t. (True, Some (b, off), t))
            (map_option (upd_config c reset_parser)
              (work_complete os dev c ty com fin (stored w c b (off + k) k bs s)))
        else Some (True, Some (b, off), com (length bs) (stored w c b (off + k) k bs s)))"
    using acq rd xs bs(2) n(1,2) s2 le
    by (simp add: work_client_step_def Let_def stored_config bind_Some_map option.map_comp comp_def)
  then show ?thesis by (rule that) (use r in auto)
qed

lemma serial_work_loop_again:
  assumes "bytes_read (serial_configs s c) < unat (sh_length (serial_header (serial_configs s c)))"
  shows "serial_work_loop os eo kc dev c ty cbs p s =
     Option.bind (serial_work_step os eo kc dev c ty cbs p s)
       (\<lambda>x. if fst x then serial_work_loop os eo kc dev c ty cbs (fst (snd x)) (snd (snd x))
            else Some (snd (snd x)))"
  using assms by (simp add: serial_work_loop.simps [of os eo kc dev c ty cbs p s])

lemma serial_work_handler_client:
  assumes "serial_mux_get_callbacks eo kc ty = Some cbs" and "frame_at s c dev ty n k"
  shows "serial_work_handler os eo kc c s =
     map_option (\<lambda>t. t\<lparr>world := uart_irq_rx_enable os dev (world t)\<rparr>)
       (serial_work_loop os eo kc dev c ty (Some cbs) None s)"
  using assms by (auto simp: serial_work_handler_def frame_at_def Let_def bind_Some_map)

text \<open>
  After a completed frame the loop condition still holds, because the header keeps its length:
  on an empty FIFO the second round asks the client for a buffer and leaves.
\<close>

lemma serial_work_loop_reentry:
  assumes law: "link_law os sent pending"
    and ty: "ty \<noteq> SERIAL_TYPE_PROTOCOL_INFO" "ty < SERIAL_TYPE_UNKNOWN"
    and cf: "bytes_read (serial_configs t c) = 0" "parsing_state (serial_configs t c) = PARSING_STATE_TYPE"
      "unat (sh_length (serial_header (serial_configs t c))) = n" "0 < n"
    and empty: "pending dev (world t) = []"
  obtains w where
    "serial_work_loop os eo kc dev c ty (Some (callbacks_of acq com fin)) p t = Some (t\<lparr>world := w\<rparr>)"
    "pending dev w = []"
    "sent dev w = sent dev (world t) @
       (if fst (acq p n t) then []
        else ack_bytes ty (sh_sequence_number (serial_header (serial_configs t c))) ERROR_TYPE_OUT_OF_BUFFERS)"
proof -
  obtain ok p' where acq: "acq p n t = (ok, p')" by fastforce
  have loop: "serial_work_loop os eo kc dev c ty (Some (callbacks_of acq com fin)) p t = Some u"
    if "work_client_step os dev c ty acq com fin n p t = Some (False, p', u)" for u
    using that cf ty by (subst serial_work_loop_again) (simp_all add: serial_work_step_client)
  have reset: "upd_config c reset_parser (t\<lparr>world := w\<rparr>) = t\<lparr>world := w\<rparr>" for w
    using cf by (simp add: upd_config_def reset_parser_def fun_upd_idem)
  show ?thesis
  proof (cases ok)
    case True
    with acq have "acq p n t = (True, p')" by simp
    then obtain w where "work_client_step os dev c ty acq com fin n p t = Some (False, p', t\<lparr>world := w\<rparr>)"
      "pending dev w = []" "sent dev w = sent dev (world t)"
      by (rule work_client_step_starved [OF law _ empty])
    with loop acq True show ?thesis by (intro that [of w]) simp_all
  next
    case False
    with acq have "acq p n t = (False, p')" by simp
    then obtain w where "work_client_step os dev c ty acq com fin n p t =
        Some (False, p', upd_config c reset_parser (t\<lparr>world := w\<rparr>))"
      "pending dev w = pending dev (world t)"
      "sent dev w = sent dev (world t) @
        ack_bytes ty (sh_sequence_number (serial_header (serial_configs t c))) 2"
      by (rule work_client_step_no_buffer [OF law])
    with loop acq False empty show ?thesis by (intro that [of w]) (simp_all add: reset)
  qed
qed

lemma serial_work_loop_starved:
  assumes law: "link_law os sent pending"
    and ty: "ty \<noteq> SERIAL_TYPE_PROTOCOL_INFO" "ty < SERIAL_TYPE_UNKNOWN"
    and st: "frame_at t c dev ty n k" and acq: "acq p (n - k) t = (True, p')"
    and empty: "pending dev (world t) = []"
  obtains w where
    "serial_work_loop os eo kc dev c ty (Some (callbacks_of acq com fin)) p t = Some (t\<lparr>world := w\<rparr>)"
    "pending dev w = []" "sent dev w = sent dev (world t)"
proof -
  from acq empty obtain w where
    w: "work_client_step os dev c ty acq com fin (n - k) p t = Some (False, p', t\<lparr>world := w\<rparr>)"
    "pending dev w = []" "sent dev w = sent dev (world t)"
    by (rule work_client_step_starved [OF law])
  then have "serial_work_loop os eo kc dev c ty (Some (callbacks_of acq com fin)) p t = Some (t\<lparr>world := w\<rparr>)"
    using st ty by (subst serial_work_loop_again) (simp_all add: serial_work_step_client frame_at_def)
  with w show ?thesis by (intro that)
qed

lemma frame_done_world [simp]: "(frame_done w c rx s)\<lparr>world := w'\<rparr> = frame_done w' c rx s"
  by (simp add: frame_done_def upd_config_def)

text \<open>The first round of a frame whose payload is there, up to the re-entry.\<close>

lemma serial_work_loop_first:
  assumes "work_client_step os dev c ty acq com fin (n - k) p s =
       map_option (\<lambda>t. (True, p', t)) (Some t)"
    and "frame_at s c dev ty n k" and "ty \<noteq> SERIAL_TYPE_PROTOCOL_INFO" "ty < SERIAL_TYPE_UNKNOWN"
  shows "serial_work_loop os eo kc dev c ty (Some (callbacks_of acq com fin)) p s =
     serial_work_loop os eo kc dev c ty (Some (callbacks_of acq com fin)) p' t"
  using assms by (subst serial_work_loop_again) (simp_all add: serial_work_step_client frame_at_def)

text \<open>
  Delivery.  The last bytes of a frame with the expected sequence number, for a client that hands
  out its buffer from offset \<open>off\<close>: the bytes are stored, the client gets one call of \<open>commit\<close>
  and \<open>complete\<close> with the length of the frame; the acknowledgement is sent; then the loop, still
  holding the old length, asks for a buffer again, and answers OUT_OF_BUFFERS if the client has
  none.
\<close>

lemma deliver_at:
  assumes law: "link_law os sent pending"
    and ty: "ty \<noteq> SERIAL_TYPE_PROTOCOL_INFO" "ty < SERIAL_TYPE_UNKNOWN"
    and st: "frame_at s c dev ty n k" and acq: "acq p (n - k) s = (True, Some (b, off))"
    and fits: "off + n \<le> length (mem s b)"
    and pend: "pending dev (world s) = bs" and len: "k + length bs = n"
    and seq: "rx_sequence_number (serial_configs s c) =
                ucast (sh_sequence_number (serial_header (serial_configs s c)))"
    and link: "\<And>t. same_link t (fin n (com n t))"
    and acq_link: "\<And>q t w cf. acq q n (t\<lparr>world := w, serial_configs := cf\<rparr>) = acq q n t"
  defines "hdr \<equiv> serial_header (serial_configs s c)"
  obtains w1 w2 where
    "serial_work_loop os eo kc dev c ty (Some (callbacks_of acq com fin)) p s =
       Some (frame_done w2 c (sequence_number_advance (rx_sequence_number (serial_configs s c)))
               (fin n (com n (stored w1 c b (off + k) k bs s))))"
    "pending dev w2 = []"
    "sent dev w2 = sent dev (world s) @
       (if sh_no_ack hdr then [] else ack_bytes ty (sh_sequence_number hdr) ERROR_TYPE_NO_ERROR) @
       (if fst (acq (Some (b, off)) n (fin n (com n (stored w1 c b (off + k) k bs s))))
        then [] else ack_bytes ty (sh_sequence_number hdr) ERROR_TYPE_OUT_OF_BUFFERS)"
proof -
  let ?rx = "sequence_number_advance (rx_sequence_number (serial_configs s c))"
  note n = st [unfolded frame_at_def]
  have bs: "bs = take (n - k) (pending dev (world s))" "bs \<noteq> []" using pend len n by auto
  obtain w1 where w1: "work_client_step os dev c ty acq com fin (n - k) p s =
       map_option (\<lambda>t. (True, Some (b, off), t)) (map_option (upd_config c reset_parser)
         (work_complete os dev c ty com fin (stored w1 c b (off + k) k bs s)))"
    "pending dev w1 = []" "sent dev w1 = sent dev (world s)"
    by (rule work_client_step_read [where acq = acq and com = com and fin = fin, OF law acq st fits bs])
      (use len pend in auto)
  define r where "r = stored w1 c b (off + k) k bs s"
  define t where "t = fin n (com n r)"
  have r: "serial_header (serial_configs r c) = hdr" "world r = w1"
    "rx_sequence_number (serial_configs r c) = rx_sequence_number (serial_configs s c)"
    by (simp_all add: r_def hdr_def stored_config)
  have rt: "same_link r t" unfolding t_def by (rule link)
  obtain w2 where w2: "map_option (upd_config c reset_parser)
      (work_complete os dev c ty com fin r) = Some (frame_done w2 c ?rx t)"
    "pending dev w2 = pending dev w1"
    "sent dev w2 = sent dev (world s) @
       (if sh_no_ack hdr then [] else ack_bytes ty (sh_sequence_number hdr) 0)"
    using work_complete_in_sequence [OF law, of r c fin n com dev ty] rt seq r n w1(3)
    unfolding t_def hdr_def by metis
  let ?t = "frame_done w2 c ?rx t"
  have cf: "serial_header (serial_configs ?t c) = hdr" "bytes_read (serial_configs ?t c) = 0"
    using same_linkD(2) [OF rt] r(1) by simp_all
  have acq_t: "acq q n (frame_done w c rx u) = acq q n u" for q w rx u
    unfolding frame_done_def upd_config_def by (simp add: acq_link)
  obtain w3 where w3: "serial_work_loop os eo kc dev c ty
        (Some (callbacks_of acq com fin)) (Some (b, off)) ?t = Some (?t\<lparr>world := w3\<rparr>)"
    "pending dev w3 = []"
    "sent dev w3 = sent dev (world ?t) @ (if fst (acq (Some (b, off)) n ?t) then []
        else ack_bytes ty (sh_sequence_number (serial_header (serial_configs ?t c))) 2)"
    by (rule serial_work_loop_reentry [OF law ty, of ?t c n dev])
      (use cf n w1(2) w2(2) in \<open>auto simp: hdr_def\<close>)
  have "serial_work_loop os eo kc dev c ty (Some (callbacks_of acq com fin)) p s =
      serial_work_loop os eo kc dev c ty (Some (callbacks_of acq com fin)) (Some (b, off)) ?t"
    by (rule serial_work_loop_first [OF _ st ty])
      (simp only: w1(1) w2(1) [unfolded r_def])
  with w2 w3 cf show ?thesis
    by (intro that [of w3 w1]) (simp_all add: t_def r_def acq_t)
qed

context serial_client
begin

lemma idle_received: "idle (received w c b k bs s) = idle s"
  by (simp add: received_def upd_config_def idle_link)

lemma acquire_frame_done: "acquire p n (frame_done w c rx s) = acquire p n s"
  unfolding frame_done_def upd_config_def by (simp add: acquire_link)

lemma complete_commit_link: "same_link s (complete n (commit m s))"
  using commit_frame complete_frame by (rule same_link_trans)

text \<open>The round that reads the last bytes of a payload.\<close>

lemma last_round:
  assumes law: "link_law os sent pending" and mem: "mem_ok kc s" and idle: "idle s"
    and st: "frame_at s c dev ty n k" and cap: "n \<le> cap"
    and pend: "pending dev (world s) = bs @ extra" and len: "k + length bs = n"
  obtains w where
    "work_client_step os dev c ty acquire commit complete (n - k) p s =
       map_option (\<lambda>t. (True, Some (base, 0), t)) (map_option (upd_config c reset_parser)
         (work_complete os dev c ty commit complete (received w c base k bs s)))"
    "pending dev w = extra" "sent dev w = sent dev (world s)"
proof -
  have fits: "0 + n \<le> length (mem s base)" using mem cap cap_le_size by (metis mem_ok_def le_trans add_0)
  have acq: "acquire p (n - k) s = (True, Some (base, 0))" using idle cap by (simp add: acquire_idle)
  have bs: "bs = take (n - k) (pending dev (world s))" "bs \<noteq> []"
    using pend len st by (auto simp: frame_at_def)
  show ?thesis
    by (rule work_client_step_read [where acq = acquire and com = commit and fin = complete,
          OF law acq st fits bs]) (use len pend that in \<open>auto simp: received_stored\<close>)
qed

text \<open>Delivery to an idle client.\<close>

lemma deliver:
  assumes law: "link_law os sent pending" and mem: "mem_ok kc s" and idle: "idle s"
    and ty: "ty \<noteq> SERIAL_TYPE_PROTOCOL_INFO" "ty < SERIAL_TYPE_UNKNOWN"
    and st: "frame_at s c dev ty n k" and cap: "n \<le> cap"
    and pend: "pending dev (world s) = bs" and len: "k + length bs = n"
    and seq: "rx_sequence_number (serial_configs s c) =
                ucast (sh_sequence_number (serial_header (serial_configs s c)))"
  defines "hdr \<equiv> serial_header (serial_configs s c)"
  obtains w1 w2 where
    "serial_work_loop os eo kc dev c ty (Some (callbacks_of acquire commit complete)) None s =
       Some (frame_done w2 c (sequence_number_advance (rx_sequence_number (serial_configs s c)))
               (complete n (commit n (received w1 c base k bs s))))"
    "pending dev w2 = []"
    "sent dev w2 = sent dev (world s) @
       (if sh_no_ack hdr then [] else ack_bytes ty (sh_sequence_number hdr) ERROR_TYPE_NO_ERROR) @
       (if fst (acquire (Some (base, 0)) n (complete n (commit n (received w1 c base k bs s))))
        then [] else ack_bytes ty (sh_sequence_number hdr) ERROR_TYPE_OUT_OF_BUFFERS)"
proof -
  have fits: "0 + n \<le> length (mem s base)" using mem cap cap_le_size by (metis mem_ok_def le_trans add_0)
  have acq: "acquire None (n - k) s = (True, Some (base, 0))" using idle cap by (simp add: acquire_idle)
  show ?thesis
    by (rule deliver_at [where acq = acquire and com = commit and fin = complete and eo = eo and kc = kc,
          OF law ty st acq fits pend len seq complete_commit_link])
      (simp_all add: acquire_link that [unfolded received_stored hdr_def])
qed

text \<open>
  A frame out of sequence: nothing is committed or completed, the negative acknowledgement carries
  the number that was expected, and the device then expects 0.
\<close>

lemma wrong_sequence:
  assumes law: "link_law os sent pending" and mem: "mem_ok kc s" and idle: "idle s"
    and ty: "ty \<noteq> SERIAL_TYPE_PROTOCOL_INFO" "ty < SERIAL_TYPE_UNKNOWN"
    and st: "frame_at s c dev ty n k" and cap: "n \<le> cap"
    and pend: "pending dev (world s) = bs" and len: "k + length bs = n"
    and seq: "rx_sequence_number (serial_configs s c) \<noteq>
                ucast (sh_sequence_number (serial_header (serial_configs s c)))"
  obtains w1 w2 where
    "serial_work_loop os eo kc dev c ty (Some (callbacks_of acquire commit complete)) None s =
       Some (frame_done w2 c 0 (received w1 c base k bs s))"
    "pending dev w2 = []"
    "sent dev w2 = sent dev (world s) @ ack_bytes ty
       (ucast (rx_sequence_number (serial_configs s c))) ERROR_TYPE_INCORRECT_SEQUENCE_NUMBER"
proof -
  note n = st [unfolded frame_at_def]
  obtain w1 where w1: "work_client_step os dev c ty acquire commit complete (n - k) None s =
       map_option (\<lambda>t. (True, Some (base, 0), t)) (map_option (upd_config c reset_parser)
         (work_complete os dev c ty commit complete (received w1 c base k bs s)))"
    "pending dev w1 = []" "sent dev w1 = sent dev (world s)"
    by (rule last_round [OF law mem idle st cap, of bs "[]"]) (use pend len in auto)
  define r where "r = received w1 c base k bs s"
  obtain w2 where w2: "map_option (upd_config c reset_parser)
      (work_complete os dev c ty commit complete r) = Some (frame_done w2 c 0 r)"
    "pending dev w2 = pending dev w1"
    "sent dev w2 = sent dev (world s) @ ack_bytes ty (ucast (rx_sequence_number (serial_configs s c))) 1"
    using work_complete_wrong_sequence [OF law, of r c dev ty commit complete] seq w1(3)
    unfolding r_def received_config by metis
  let ?t = "frame_done w2 c 0 r"
  have "idle r" using idle by (simp add: r_def idle_received)
  then have ok: "acquire (Some (base, 0)) (n - 0) ?t = (True, Some (base, 0))"
    using cap by (simp add: acquire_frame_done acquire_idle)
  have at: "frame_at ?t c dev ty n 0" using n by (simp add: frame_at_def r_def received_config)
  obtain w3 where w3: "serial_work_loop os eo kc dev c ty
        (Some (callbacks_of acquire commit complete)) (Some (base, 0)) ?t = Some (?t\<lparr>world := w3\<rparr>)"
    "pending dev w3 = []" "sent dev w3 = sent dev (world ?t)"
    by (rule serial_work_loop_starved [where acq = acquire, OF law ty at ok]) (use w1(2) w2(2) pend len in auto)
  have "serial_work_loop os eo kc dev c ty (Some (callbacks_of acquire commit complete)) None s =
      serial_work_loop os eo kc dev c ty (Some (callbacks_of acquire commit complete)) (Some (base, 0)) ?t"
    by (rule serial_work_loop_first [OF _ st ty])
      (simp only: w1(1) w2(1) [unfolded r_def] r_def)
  with w2 w3 show ?thesis by (intro that [of w3 w1]) (simp_all add: r_def)
qed

text \<open>
  A frame the client has no room for: OUT_OF_BUFFERS is sent and the parser goes back to the
  start of a header, with the payload still in the FIFO.
\<close>

lemma no_room:
  assumes law: "link_law os sent pending" and idle: "idle s"
    and ty: "ty \<noteq> SERIAL_TYPE_PROTOCOL_INFO" "ty < SERIAL_TYPE_UNKNOWN"
    and st: "frame_at s c dev ty n 0" and cap: "cap < n"
  obtains w where
    "serial_work_loop os eo kc dev c ty (Some (callbacks_of acquire commit complete)) None s =
       Some (upd_config c reset_parser (s\<lparr>world := w\<rparr>))"
    "pending dev w = pending dev (world s)"
    "sent dev w = sent dev (world s) @
       ack_bytes ty (sh_sequence_number (serial_header (serial_configs s c))) ERROR_TYPE_OUT_OF_BUFFERS"
proof -
  note n = st [unfolded frame_at_def]
  have "n < 2 ^ 16" using n unsigned_less [of "sh_length (serial_header (serial_configs s c))"] by auto
  then have "acquire None n s = (False, None)" using idle cap by (simp add: acquire_too_long)
  then obtain w where w: "work_client_step os dev c ty acquire commit complete n None s =
       Some (False, None, upd_config c reset_parser (s\<lparr>world := w\<rparr>))"
    "pending dev w = pending dev (world s)"
    "sent dev w = sent dev (world s) @
       ack_bytes ty (sh_sequence_number (serial_header (serial_configs s c))) 2"
    by (rule work_client_step_no_buffer [OF law])
  have "serial_work_loop os eo kc dev c ty (Some (callbacks_of acquire commit complete)) None s =
       Some (upd_config c reset_parser (s\<lparr>world := w\<rparr>))"
    using w(1) n ty by (subst serial_work_loop_again) (simp_all add: serial_work_step_client)
  with w show ?thesis by (intro that)
qed

end

section \<open>Clients without a fill counter\<close>

text \<open>
  The virtual serial port and the OpenThread stub always hand out the start of their buffer and
  take note of nothing until the message is complete.  For them a payload may arrive in any number
  of pieces, one run of the work handler for each.
\<close>

locale streaming_client = serial_client +
  assumes always_idle: "idle s"
    and commit_id: "commit n s = s"
begin

lemma next_piece:
  assumes law: "link_law os sent pending" and mem: "mem_ok kc s"
    and ty: "ty \<noteq> SERIAL_TYPE_PROTOCOL_INFO" "ty < SERIAL_TYPE_UNKNOWN"
    and st: "frame_at s c dev ty n k" and cap: "n \<le> cap"
    and pend: "pending dev (world s) = bs" and len: "k + length bs < n" and ne: "bs \<noteq> []"
  obtains w where
    "serial_work_loop os eo kc dev c ty (Some (callbacks_of acquire commit complete)) p0 s =
       Some (received w c base k bs s)"
    "pending dev w = []" "sent dev w = sent dev (world s)"
proof -
  note n = st [unfolded frame_at_def]
  have acq: "acquire p j t = (True, Some (base, 0))" if "j \<le> n" for p j t
    using that cap always_idle by (simp add: acquire_idle)
  have fits: "0 + n \<le> length (mem s base)" using mem cap cap_le_size by (metis mem_ok_def le_trans add_0)
  have bs: "bs = take (n - k) (pending dev (world s))" using pend len by simp
  obtain w1 where w1: "work_client_step os dev c ty acquire commit complete (n - k) p0 s =
       Some (True, Some (base, 0), commit (length bs) (received w1 c base k bs s))"
    "pending dev w1 = drop (n - k) (pending dev (world s))" "sent dev w1 = sent dev (world s)"
    by (rule work_client_step_read [where acq = acquire and com = commit and fin = complete and p = p0,
          OF law acq st fits bs ne]) (use len in \<open>simp_all add: received_stored\<close>)
  let ?r = "received w1 c base k bs s"
  have at: "frame_at ?r c dev ty n (k + length bs)"
    using n len by (simp add: frame_at_def received_config)
  obtain w2 where w2: "serial_work_loop os eo kc dev c ty
       (Some (callbacks_of acquire commit complete)) (Some (base, 0)) ?r = Some (?r\<lparr>world := w2\<rparr>)"
    "pending dev w2 = []" "sent dev w2 = sent dev (world ?r)"
    by (rule serial_work_loop_starved [where acq = acquire, OF law ty at acq])
      (use w1(2) pend len in \<open>auto simp: received_config\<close>)
  have "serial_work_loop os eo kc dev c ty (Some (callbacks_of acquire commit complete)) p0 s =
      serial_work_loop os eo kc dev c ty (Some (callbacks_of acquire commit complete)) (Some (base, 0)) ?r"
    by (rule serial_work_loop_first [OF _ st ty]) (use w1(1) len in \<open>simp add: commit_id\<close>)
  with w1 w2 show ?thesis
    by (intro that [of w2]) (simp_all add: received_def upd_config_def)
qed

text \<open>The two lemmas below describe a message on the way: its first \<open>k\<close> bytes are in the buffer.\<close>

lemma received_prefix:
  assumes "take k (mem s base) = take k payload" and "k + length bs \<le> length payload"
    and "bs = take (length bs) (drop k payload)" and "length payload \<le> length (mem s base)"
  shows "take (k + length bs) (mem (received w c base k bs s) base) = take (k + length bs) payload"
  using assms by (simp add: received_config take_overwrite_snoc)
    (metis take_append_take_drop)

lemma deliver_once:
  assumes law: "link_law os sent pending" and mem: "mem_ok kc s"
    and ty: "ty \<noteq> SERIAL_TYPE_PROTOCOL_INFO" "ty < SERIAL_TYPE_UNKNOWN"
    and st: "frame_at s c dev ty n k" and cap: "n \<le> cap"
    and pend: "pending dev (world s) = bs" and len: "k + length bs = n"
    and seq: "rx_sequence_number (serial_configs s c) =
                ucast (sh_sequence_number (serial_header (serial_configs s c)))"
  obtains w1 w2 where
    "serial_work_loop os eo kc dev c ty (Some (callbacks_of acquire commit complete)) None s =
       Some (frame_done w2 c (sequence_number_advance (rx_sequence_number (serial_configs s c)))
               (complete n (received w1 c base k bs s)))"
    "pending dev w2 = []"
    "sent dev w2 = sent dev (world s) @
       (if sh_no_ack (serial_header (serial_configs s c)) then []
        else ack_bytes ty (sh_sequence_number (serial_header (serial_configs s c))) ERROR_TYPE_NO_ERROR)"
proof -
  have acq: "fst (acquire p n t)" for p t using acquire_idle [OF always_idle cap] by simp
  show ?thesis
    by (rule deliver [OF law mem always_idle ty st cap pend len seq])
      (rule that, auto simp: commit_id acq)
qed

text \<open>
  Bytes behind a complete frame: the loop re-enters with the old length and stores them as
  payload of a frame that does not exist.
\<close>

lemma swallow:
  assumes law: "link_law os sent pending" and mem: "mem_ok kc s"
    and ty: "ty \<noteq> SERIAL_TYPE_PROTOCOL_INFO" "ty < SERIAL_TYPE_UNKNOWN"
    and st: "frame_at s c dev ty n 0" and cap: "n \<le> cap"
    and pend: "pending dev (world s) = payload @ extra" and len: "length payload = n"
    and extra: "0 < length extra" "length extra < n"
    and seq: "rx_sequence_number (serial_configs s c) =
                ucast (sh_sequence_number (serial_header (serial_configs s c)))"
  obtains w1 w2 w3 where
    "serial_work_loop os eo kc dev c ty (Some (callbacks_of acquire commit complete)) None s =
       Some (received w3 c base 0 extra
         (frame_done w2 c (sequence_number_advance (rx_sequence_number (serial_configs s c)))
               (complete n (received w1 c base 0 payload s))))"
    "pending dev w3 = []"
    "sent dev w3 = sent dev (world s) @
       (if sh_no_ack (serial_header (serial_configs s c)) then []
        else ack_bytes ty (sh_sequence_number (serial_header (serial_configs s c))) ERROR_TYPE_NO_ERROR)"
proof -
  let ?rx = "sequence_number_advance (rx_sequence_number (serial_configs s c))"
  obtain w1 where w1: "work_client_step os dev c ty acquire commit complete (n - 0) None s =
       map_option (\<lambda>t. (True, Some (base, 0), t)) (map_option (upd_config c reset_parser)
         (work_complete os dev c ty commit complete (received w1 c base 0 payload s)))"
    "pending dev w1 = extra" "sent dev w1 = sent dev (world s)"
    by (rule last_round [OF law mem always_idle st cap, of payload extra]) (use pend len in auto)
  define r where "r = received w1 c base 0 payload s"
  define t where "t = complete n (commit n r)"
  have r: "serial_header (serial_configs r c) = serial_header (serial_configs s c)" "world r = w1"
    "rx_sequence_number (serial_configs r c) = rx_sequence_number (serial_configs s c)"
    "serial_dev (serial_configs r c) = serial_dev (serial_configs s c)" "mem_ok kc r"
    using mem cap cap_le_size len
    by (simp_all add: r_def received_config) (auto simp: mem_ok_def received_def)
  have link: "same_link r t" unfolding t_def by (rule complete_commit_link)
  obtain w2 where w2: "map_option (upd_config c reset_parser)
      (work_complete os dev c ty commit complete r) = Some (frame_done w2 c ?rx t)"
    "pending dev w2 = pending dev w1"
    "sent dev w2 = sent dev (world s) @ (if sh_no_ack (serial_header (serial_configs s c)) then []
        else ack_bytes ty (sh_sequence_number (serial_header (serial_configs s c))) 0)"
    using work_complete_in_sequence [OF law, of r c complete n commit dev ty] link seq r st w1(3)
    unfolding t_def frame_at_def by metis
  let ?t = "frame_done w2 c ?rx t"
  have "mem ?t = mem r" by (simp add: t_def frame_done_def complete_mem commit_mem)
  then have mem_t: "mem_ok kc ?t" using r(5) by (simp add: mem_ok_def)
  have at: "frame_at ?t c dev ty n 0"
    using st same_linkD(2) [OF link] r(1,4) by (simp add: frame_at_def)
  obtain w3 where w3: "serial_work_loop os eo kc dev c ty
       (Some (callbacks_of acquire commit complete)) (Some (base, 0)) ?t = Some (received w3 c base 0 extra ?t)"
    "pending dev w3 = []" "sent dev w3 = sent dev (world ?t)"
    by (rule next_piece [OF law mem_t ty at cap]) (use w1(2) w2(2) extra in auto)
  have "serial_work_loop os eo kc dev c ty (Some (callbacks_of acquire commit complete)) None s =
      serial_work_loop os eo kc dev c ty (Some (callbacks_of acquire commit complete)) (Some (base, 0)) ?t"
    by (rule serial_work_loop_first [OF _ st ty]) (simp only: w1(1) w2(1) [unfolded r_def] r_def)
  with w2 w3 show ?thesis
    by (intro that [of w3 w2 w1]) (simp_all add: t_def r_def commit_id)
qed

end

interpretation ot: streaming_client kc ot_proxy_acquire_buffer ot_proxy_commit_data
  ot_proxy_message_complete Ot_scratch 256 "\<lambda>_. True"
  by unfold_locales (simp_all add: ot_proxy_commit_data_def)

interpretation vserial: streaming_client kc "vserial_acquire_buffer kc" vserial_commit_data
  "vserial_message_complete eo kc" Vserial_tx_buf "CONFIG_VSERIAL_TX_BUF_SIZE kc" "\<lambda>_. True"
  by unfold_locales (simp_all add: vserial_commit_data_def)

end
