(* ===== verification/Device_Rx.thy ===== *)
theory Device_Rx
  imports Serial_Work
begin

text \<open>
  Reception on the device, end to end: a receive event is one call of the interrupt handler
  followed by the work item it queued.  The theorems follow a frame as the host encodes it from
  the UART to the client of its traffic type.
\<close>

section \<open>A receive event\<close>

definition rx_event ::
  "'w uart_ops \<Rightarrow> 'e env_ops \<Rightarrow> kconfig \<Rightarrow> dev \<Rightarrow> cfg_ptr \<Rightarrow> ('w, 'e) device
     \<Rightarrow> ('w, 'e) device option" where
  "rx_event os eo kc dev c s =
     do { s1 \<leftarrow> uart_irq_callback os dev c s;
          (if work_submitted s1 c
           then serial_work_handler os eo kc c (s1\<lparr>work_submitted := (work_submitted s1)(c := False)\<rparr>)
           else Some s1) }"

text \<open>The interface at rest: the parser waits for the first byte of a header.\<close>

definition rx_ready :: "('w, 'e) device \<Rightarrow> cfg_ptr \<Rightarrow> dev \<Rightarrow> bool" where
  "rx_ready s c dev \<longleftrightarrow> serial_dev (serial_configs s c) = Some dev \<and>
     parsing_state (serial_configs s c) = PARSING_STATE_TYPE \<and> \<not> work_submitted s c"

lemma rx_ready_parsing:
  "rx_ready s c dev \<Longrightarrow> parsing_state (serial_configs s c) = PARSING_STATE_TYPE"
  by (simp add: rx_ready_def)

lemma device_header_rx_encode: "device_header_rx h0 (bus_header_encode h) = device_view h"
  by (simp add: device_header_rx_eq bus_header_encode_eq device_view_def)

text \<open>The state the work handler starts from when a header with a payload has come in.\<close>

definition header_in :: "'w \<Rightarrow> cfg_ptr \<Rightarrow> bus_header \<Rightarrow> ('w, 'e) device \<Rightarrow> ('w, 'e) device" where
  "header_in w c h s =
     upd_config c (\<lambda>cf. cf\<lparr>serial_header := device_view h, parsing_state := PARSING_STATE_DATA,
        bytes_read := 0\<rparr>) (s\<lparr>world := w\<rparr>)\<lparr>work_submitted := (work_submitted s)(c := False)\<rparr>"

lemma uart_irq_callback_header:
  assumes law: "link_law os sent pending" and rdy: "rx_ready s c dev"
    and pend: "pending dev (world s) = bus_header_encode h @ rest"
    and nxt: "header_next_state (device_view h) = PARSING_STATE_DATA"
  obtains w where "pending dev w = rest" "sent dev w = sent dev (world s)"
    "uart_irq_callback os dev c s =
       Some (upd_config c (\<lambda>cf. cf\<lparr>serial_header := device_view h, parsing_state := PARSING_STATE_DATA,
          bytes_read := 0\<rparr>) (s\<lparr>world := w\<rparr>)\<lparr>work_submitted := (work_submitted s)(c := True)\<rparr>)"
proof -
  have st: "parsing_state (serial_configs s c) = PARSING_STATE_TYPE" using rdy by (simp add: rx_ready_def)
  have reply: "header_reply (device_view h) = []"
    using nxt by (auto simp: header_next_state_def header_reply_def split: if_splits)
  obtain w where w: "pending dev w = rest"
    "sent dev w = sent dev (world s) @ header_reply (device_header_rx (serial_header (serial_configs s c)) (bus_header_encode h))"
    "uart_irq_loop os dev c s = uart_irq_loop os dev c
       (upd_config c (\<lambda>cf. cf\<lparr>serial_header := device_header_rx (serial_header (serial_configs s c)) (bus_header_encode h),
          parsing_state := header_next_state (device_header_rx (serial_header (serial_configs s c)) (bus_header_encode h)),
          bytes_read := 0\<rparr>) (s\<lparr>world := w\<rparr>))"
    by (rule uart_irq_loop_header [OF law st pend]) simp_all
  then show ?thesis
    by (intro that [of w])
      (simp_all add: device_header_rx_encode nxt reply uart_irq_loop_data uart_irq_callback_def
        upd_config_def)
qed

lemma rx_event_header:
  assumes law: "link_law os sent pending" and rdy: "rx_ready s c dev"
    and pend: "pending dev (world s) = bus_header_encode h @ rest"
    and nxt: "header_next_state (device_view h) = PARSING_STATE_DATA"
  obtains w where "pending dev w = rest" "sent dev w = sent dev (world s)"
    "rx_event os eo kc dev c s = serial_work_handler os eo kc c (header_in w c h s)"
proof -
  obtain w where "pending dev w = rest" "sent dev w = sent dev (world s)"
    "uart_irq_callback os dev c s =
       Some (upd_config c (\<lambda>cf. cf\<lparr>serial_header := device_view h, parsing_state := PARSING_STATE_DATA,
          bytes_read := 0\<rparr>) (s\<lparr>world := w\<rparr>)\<lparr>work_submitted := (work_submitted s)(c := True)\<rparr>)"
    by (rule uart_irq_callback_header [OF law rdy pend nxt])
  then show ?thesis
    by (intro that [of w]) (simp_all add: rx_event_def header_in_def upd_config_def)
qed

text \<open>While a payload is coming in, a receive event is a run of the work handler.\<close>

lemma rx_event_data:
  assumes "parsing_state (serial_configs s c) = PARSING_STATE_DATA" and "\<not> work_submitted s c"
  shows "rx_event os eo kc dev c s = serial_work_handler os eo kc c s"
  using assms by (simp add: rx_event_def uart_irq_callback_def uart_irq_loop_data fun_upd_idem)

section \<open>The clients by traffic type\<close>

text \<open>
  Which buffer serves a traffic type, its capacity, and when the client holds nothing.  The Wi-Fi
  data proxy is left out: it never sets the caller's buffer pointer.
\<close>

definition client_base :: "SerialType \<Rightarrow> buf_id" where
  "client_base ty =
     (if ty = SERIAL_TYPE_WIFI_MGMT then Wifi_mgmt_rx_buffer
      else if ty = SERIAL_TYPE_NET_IF_MGMT then Net_if_mgmt_rx_buffer
      else if ty = SERIAL_TYPE_HCI then Hci_rx_buffer
      else if ty = SERIAL_TYPE_THREAD then Ot_scratch
      else Vserial_tx_buf)"

definition client_idle :: "SerialType \<Rightarrow> ('w, 'e) device \<Rightarrow> bool" where
  "client_idle ty s =
     (if ty = SERIAL_TYPE_WIFI_MGMT then wifi_mgmt_message_length s = 0
      else if ty = SERIAL_TYPE_NET_IF_MGMT then net_if_mgmt_message_length s = 0
      else if ty = SERIAL_TYPE_HCI then hci_rx_buffer_len s = 0
      else True)"

lemma client_of_type:
  fixes eo :: "'e env_ops"
  assumes "proxy_enabled kc ty" and "ty \<noteq> SERIAL_TYPE_WIFI_DATA"
  obtains acq com and fin :: "('w, 'e) client_fn" where
    "serial_mux_get_callbacks eo kc ty = Some (callbacks_of acq com fin)"
    "serial_client kc acq com fin (client_base ty) (buf_size kc (client_base ty)) (client_idle ty)"
proof -
  consider "ty = 0" | "ty = 2" | "ty = 3" | "ty = 4" | "ty = 8"
    using assms by (auto simp: proxy_enabled_def)
  then show ?thesis
  proof cases
    case 1
    then show ?thesis using assms wifi_mgmt.serial_client_axioms [of kc]
      by (intro that) (auto simp: get_callbacks_eq mux_callbacks_def callbacks_of_def proxy_enabled_def
          client_base_def client_idle_def [abs_def])
  next
    case 2
    then show ?thesis using assms net_if.serial_client_axioms [of kc]
      by (intro that) (auto simp: get_callbacks_eq mux_callbacks_def callbacks_of_def proxy_enabled_def
          client_base_def client_idle_def [abs_def])
  next
    case 3
    then show ?thesis using assms bt.serial_client_axioms [of kc eo]
      by (intro that) (auto simp: get_callbacks_eq mux_callbacks_def callbacks_of_def proxy_enabled_def
          client_base_def client_idle_def [abs_def])
  next
    case 4
    then show ?thesis using assms ot.serial_client_axioms [of kc]
      by (intro that) (auto simp: get_callbacks_eq mux_callbacks_def callbacks_of_def proxy_enabled_def
          client_base_def client_idle_def [abs_def])
  next
    case 5
    then show ?thesis using assms vserial.serial_client_axioms [of kc eo]
      by (intro that) (auto simp: get_callbacks_eq mux_callbacks_def callbacks_of_def proxy_enabled_def
          client_base_def client_idle_def [abs_def])
  qed
qed

section \<open>From the wire to the client\<close>

text \<open>A complete frame, header \<open>h\<close> as the host encodes it, is all there is in the FIFO.\<close>

definition frame_arrives ::
  "(dev \<Rightarrow> 'w \<Rightarrow> byte list) \<Rightarrow> ('w, 'e) device \<Rightarrow> cfg_ptr \<Rightarrow> dev \<Rightarrow> bus_header \<Rightarrow> byte list \<Rightarrow> bool" where
  "frame_arrives pending s c dev h payload \<longleftrightarrow>
     rx_ready s c dev \<and> pending dev (world s) = bus_header_encode h @ payload \<and>
     length payload = unat (bh_length h) \<and> 0 < length payload \<and>
     length payload \<le> SERIAL_MAX_PAYLOAD_LEN"

text \<open>The frame carries the sequence number the device expects.\<close>

definition in_sequence :: "('w, 'e) device \<Rightarrow> cfg_ptr \<Rightarrow> bus_header \<Rightarrow> bool" where
  "in_sequence s c h \<longleftrightarrow> rx_sequence_number (serial_configs s c) = ucast (bh_seq h)"

lemma header_in_simps [simp]:
  "world (header_in w c h s) = w" "mem (header_in w c h s) = mem s" "env (header_in w c h s) = env s"
  "mem_ok kc (header_in w c h s) = mem_ok kc s"
  "serial_configs (header_in w c h s) = (serial_configs s)(c := (serial_configs s c)
     \<lparr>serial_header := device_view h, parsing_state := PARSING_STATE_DATA, bytes_read := 0\<rparr>)"
  "work_submitted (header_in w c h s) = (work_submitted s)(c := False)"
  "mem_fault (header_in w c h s) = mem_fault s"
  "client_idle ty (header_in w c h s) = client_idle ty s"
  by (simp_all add: header_in_def upd_config_def mem_ok_def client_idle_def)

lemma header_in_proxies [simp]:
  "wifi_mgmt_message_length (header_in w c h s) = wifi_mgmt_message_length s"
  "net_if_mgmt_message_length (header_in w c h s) = net_if_mgmt_message_length s"
  "hci_rx_buffer_len (header_in w c h s) = hci_rx_buffer_len s"
  "vserial_rx_ring (header_in w c h s) = vserial_rx_ring s"
  "vserial_callback (header_in w c h s) = vserial_callback s"
  by (simp_all add: header_in_def upd_config_def)

lemma frame_arrives_next:
  assumes "frame_arrives pending s c dev h payload"
  shows "header_next_state (device_view h) = PARSING_STATE_DATA"
  using assms by (auto simp: frame_arrives_def header_next_state_def device_view_def)

lemma frame_arrives_at:
  assumes "frame_arrives pending s c dev h payload"
  shows "frame_at (header_in w c h s) c dev (bh_type h) (length payload) 0"
  using assms by (simp add: frame_arrives_def rx_ready_def frame_at_def device_view_def
      del: length_greater_0_conv)

text \<open>
  The work handler on a frame that has just arrived: the loop, then the receive interrupt is
  enabled again.
\<close>

lemma rx_event_frame:
  assumes law: "link_law os sent pending"
    and arr: "frame_arrives pending s c dev h payload"
    and cbs: "serial_mux_get_callbacks eo kc (bh_type h) = Some cbs"
  obtains w where "pending dev w = payload" "sent dev w = sent dev (world s)"
    "rx_event os eo kc dev c s =
       map_option (\<lambda>t. t\<lparr>world := uart_irq_rx_enable os dev (world t)\<rparr>)
         (serial_work_loop os eo kc dev c (bh_type h) (Some cbs) None (header_in w c h s))"
proof -
  have rdy: "rx_ready s c dev" and pend: "pending dev (world s) = bus_header_encode h @ payload"
    using arr by (simp_all add: frame_arrives_def)
  obtain w where "pending dev w = payload" "sent dev w = sent dev (world s)"
    "rx_event os eo kc dev c s = serial_work_handler os eo kc c (header_in w c h s)"
    by (rule rx_event_header [OF law rdy pend frame_arrives_next [OF arr]])
  with serial_work_handler_client [OF cbs frame_arrives_at [OF arr]]
  show ?thesis by (intro that [of w]) simp_all
qed

lemma get_callbacks_type:
  assumes "serial_mux_get_callbacks eo kc ty = Some cbs"
  shows "ty \<noteq> SERIAL_TYPE_PROTOCOL_INFO" "ty < SERIAL_TYPE_UNKNOWN"
  using assms by (auto simp: get_callbacks_eq proxy_enabled_def split: if_splits)

text \<open>An acknowledgement as the host decodes it.\<close>

definition ack_frame :: "SerialType \<Rightarrow> 4 word \<Rightarrow> ErrorType \<Rightarrow> bus_header" where
  "ack_frame ty seq error =
     \<lparr>bh_type = ty, bh_no_ack = False, bh_host = True, bh_error = error, bh_reserved = 0,
      bh_seq = seq, bh_length = 0\<rparr>"

lemma ack_bytes_encode: "ack_bytes ty seq error = bus_header_encode (ack_frame ty seq error)"
  by (simp add: ack_bytes_def ack_header_def SerialHeader_bytes_eq bus_header_encode_eq ack_frame_def
      bswap16_def)

definition success_reply :: "bus_header \<Rightarrow> byte list" where
  "success_reply h =
     (if bh_no_ack h then []
      else bus_header_encode (ack_frame (bh_type h) (bh_seq h) ERROR_TYPE_NO_ERROR))"

text \<open>Where a handled frame leaves the interface: ready for the next header, nothing unread.\<close>

definition link_after ::
  "(dev \<Rightarrow> 'w \<Rightarrow> byte list) \<Rightarrow> (dev \<Rightarrow> 'w \<Rightarrow> byte list) \<Rightarrow> ('w, 'e) device \<Rightarrow> cfg_ptr \<Rightarrow> dev
     \<Rightarrow> byte list \<Rightarrow> byte \<Rightarrow> ('w, 'e) device \<Rightarrow> bool" where
  "link_after sent pending s c dev reply rx t \<longleftrightarrow>
     rx_ready t c dev \<and> pending dev (world t) = [] \<and>
     sent dev (world t) = sent dev (world s) @ reply \<and>
     rx_sequence_number (serial_configs t c) = rx \<and> mem_fault t = mem_fault s"

text \<open>
  Delivery for any client, with the reply spelled out: this is the lemma the theorems on the
  single proxies instantiate.
\<close>

lemma rx_event_delivers:
  assumes law: "link_law os sent pending" and mem: "mem_ok kc s"
    and arr: "frame_arrives pending s c dev h payload" and seq: "in_sequence s c h"
    and cbs: "serial_mux_get_callbacks eo kc (bh_type h) = Some (callbacks_of acq com fin)"
    and cl: "serial_client kc acq com fin b (buf_size kc b) (client_idle (bh_type h))"
    and idle: "client_idle (bh_type h) s" and cap: "length payload \<le> buf_size kc b"
  obtains w0 w1 w t where
    "rx_event os eo kc dev c s = Some t"
    "t = (frame_done w c (sequence_number_advance (rx_sequence_number (serial_configs s c)))
            (fin (length payload) (com (length payload) (received w1 c b 0 payload (header_in w0 c h s)))))"
    "link_after sent pending s c dev
       (success_reply h @
        (if fst (acq (Some (b, 0)) (length payload) t) then []
         else bus_header_encode (ack_frame (bh_type h) (bh_seq h) ERROR_TYPE_OUT_OF_BUFFERS)))
       (sequence_number_advance (rx_sequence_number (serial_configs s c))) t"
proof -
  note ty = get_callbacks_type [OF cbs]
  obtain w0 where w0: "pending dev w0 = payload" "sent dev w0 = sent dev (world s)"
    "rx_event os eo kc dev c s =
       map_option (\<lambda>t. t\<lparr>world := uart_irq_rx_enable os dev (world t)\<rparr>)
         (serial_work_loop os eo kc dev c (bh_type h) (Some (callbacks_of acq com fin)) None (header_in w0 c h s))"
    by (rule rx_event_frame [OF law arr cbs])
  let ?s = "header_in w0 c h s" and ?n = "length payload"
  let ?rx = "sequence_number_advance (rx_sequence_number (serial_configs s c))"
  obtain w1 w2 where w2:
    "serial_work_loop os eo kc dev c (bh_type h) (Some (callbacks_of acq com fin)) None ?s =
       Some (frame_done w2 c (sequence_number_advance (rx_sequence_number (serial_configs ?s c)))
               (fin ?n (com ?n (received w1 c b 0 payload ?s))))"
    "pending dev w2 = []"
    "sent dev w2 = sent dev (world ?s) @
       (if sh_no_ack (serial_header (serial_configs ?s c)) then []
        else ack_bytes (bh_type h) (sh_sequence_number (serial_header (serial_configs ?s c))) 0) @
       (if fst (acq (Some (b, 0)) ?n (fin ?n (com ?n (received w1 c b 0 payload ?s))))
        then [] else ack_bytes (bh_type h) (sh_sequence_number (serial_header (serial_configs ?s c))) 2)"
    by (rule serial_client.deliver [OF cl law _ _ ty frame_arrives_at [OF arr] cap])
      (use mem idle w0 seq in \<open>auto simp: in_sequence_def device_view_def\<close>)
  let ?d = "fin ?n (com ?n (received w1 c b 0 payload ?s))"
  let ?t = "frame_done (uart_irq_rx_enable os dev w2) c ?rx ?d"
  have link: "same_link (received w1 c b 0 payload ?s) ?d"
    by (rule serial_client.complete_commit_link [OF cl])
  have acq: "acq (Some (b, 0)) ?n ?t = acq (Some (b, 0)) ?n ?d"
    by (rule serial_client.acquire_frame_done [OF cl])
  have "rx_ready ?t c dev" "mem_fault ?t = mem_fault s"
    using arr same_linkD [OF link]
    by (simp_all add: rx_ready_def frame_arrives_def frame_done_def received_def)
  then have "link_after sent pending s c dev
       (success_reply h @ (if fst (acq (Some (b, 0)) ?n ?t) then []
         else bus_header_encode (ack_frame (bh_type h) (bh_seq h) 2))) ?rx ?t"
    using w0(2) w2(2,3) unfolding link_after_def acq
    by (simp add: link_irq_rx_enable [OF law] success_reply_def ack_bytes_encode device_view_def)
  moreover have "rx_event os eo kc dev c s = Some ?t" using w0(3) w2(1) by simp
  ultimately show ?thesis using that by blast
qed

end
