(* ===== verification/Device_Sim.thy ===== *)
theory Device_Sim
  imports Device_Rx
begin

text \<open>
  A concrete device for runs: every proxy enabled, one interface, the UART of theory \<open>Uart\<close> and
  radio stacks that record what they are given.  It shows that the hypotheses of the theorems can
  be met together.
\<close>

record sim_env =
  se_bufs :: "(bt_buf_type \<times> byte list) list"
  se_bt_sent :: "nat list"
  se_pkts :: "byte list list"

definition sim_stacks :: "sim_env env_ops" where
  "sim_stacks =
     \<lparr>bt_buf_get_tx = (\<lambda>ty data e. (Some (length (se_bufs e)), e\<lparr>se_bufs := se_bufs e @ [(ty, data)]\<rparr>)),
      bt_send = (\<lambda>b e. (0, e\<lparr>se_bt_sent := se_bt_sent e @ [b]\<rparr>)),
      net_buf_unref = (\<lambda>b e. e),
      bt_enable_raw = (\<lambda>e. (0, e)),
      hci_fifo_get = (\<lambda>e. (None, e)),
      net_if_lookup_by_dev = (\<lambda>d e. Some 1),
      net_pkt_alloc_with_buffer = (\<lambda>i n e. (Some 0, e)),
      net_pkt_write = (\<lambda>p bs e. e\<lparr>se_pkts := se_pkts e @ [bs]\<rparr>),
      net_send_data = (\<lambda>p e. (0, e)),
      net_pkt_unref = (\<lambda>p e. e),
      vserial_is_ready = (\<lambda>e. True)\<rparr>"

definition sim_kc :: kconfig where
  "sim_kc =
     \<lparr>CONFIG_SERIAL_PROXY_WIFI_MGMT = True, CONFIG_SERIAL_PROXY_WIFI_DATA = True,
      CONFIG_SERIAL_PROXY_NET_IF_MGMT = True, CONFIG_SERIAL_PROXY_BT = True,
      CONFIG_SERIAL_PROXY_OT = True, CONFIG_SERIAL_PROXY_VSERIAL = True,
      CONFIG_SERIAL_MUX_IFACE_UART = False, CONFIG_SERIAL_MUX_IFACE_USB = True,
      CONFIG_SERIAL_MUX_WIFI_MGMT_IFACE_USB = True, CONFIG_SERIAL_MUX_WIFI_DATA_IFACE_USB = True,
      CONFIG_SERIAL_MUX_NET_IF_MGMT_IFACE_USB = True, CONFIG_SERIAL_MUX_BT_IFACE_USB = True,
      CONFIG_SERIAL_MUX_OT_IFACE_USB = True, CONFIG_SERIAL_MUX_VSERIAL_IFACE_USB = True,
      CONFIG_VSERIAL_RX_BUF_SIZE = 256, CONFIG_VSERIAL_TX_BUF_SIZE = 256,
      sizeof_WifiMgmtRequest = 600\<rparr>"

text \<open>The device after start-up, with \<open>rx\<close> in the receive FIFO of UART 0.\<close>

definition sim_config :: serial_config where
  "sim_config =
     \<lparr>serial_dev = Some 0, parsing_state = PARSING_STATE_TYPE,
      serial_header = \<lparr>sh_type = 0, sh_no_ack = False, sh_host = False, sh_error = 0, sh_reserved = 0,
        sh_sequence_number = 0, sh_length = 0\<rparr>,
      bytes_read = 0, rx_sequence_number = 0, tx_sequence_number = 0\<rparr>"

definition sim_device :: "kconfig \<Rightarrow> byte list \<Rightarrow> (sim_world, sim_env) device" where
  "sim_device kc rx =
     \<lparr>world = sim_idle\<lparr>sim_rx := (\<lambda>_. rx)\<rparr>,
      env = \<lparr>se_bufs = [], se_bt_sent = [], se_pkts = []\<rparr>,
      mem = (\<lambda>b. replicate (buf_size kc b) 0), mem_fault = False,
      serial_configs = (\<lambda>_. sim_config), work_submitted = (\<lambda>_. False),
      mux_ifaces = (\<lambda>_. \<lparr>registered = True, mux_dev = Some 0, mux_config = Some Config_serial\<rparr>),
      wifi_mgmt_message_length = 0, wifi_mgmt_event = False, wifi_data_message_length = 0,
      net_if_mgmt_message_length = 0, net_if_mgmt_event = False, hci_rx_buffer_len = 0,
      vserial_rx_ring = [], vserial_callback = None, wifi_dev = Some 7\<rparr>"

text \<open>A request header as the host builds it.\<close>

definition request_header :: "SerialType \<Rightarrow> 4 word \<Rightarrow> nat \<Rightarrow> bus_header" where
  "request_header ty seq n =
     \<lparr>bh_type = ty, bh_no_ack = False, bh_host = False, bh_error = 0, bh_reserved = 0,
      bh_seq = seq, bh_length = word_of_nat n\<rparr>"

lemma sim_device_simps [simp]:
  "mem_ok kc (sim_device kc rx)" "mem_fault (sim_device kc rx) = False"
  "rx_ready (sim_device kc rx) c 0"
  "serial_configs (sim_device kc rx) = (\<lambda>_. sim_config)"
  "sim_rx (world (sim_device kc rx)) d = rx" "sim_tx (world (sim_device kc rx)) d = []"
  "client_idle ty (sim_device kc rx)" "vserial_rx_ring (sim_device kc rx) = []"
  "env (sim_device kc rx) = \<lparr>se_bufs = [], se_bt_sent = [], se_pkts = []\<rparr>"
  by (simp_all add: sim_device_def mem_ok_def rx_ready_def sim_config_def sim_idle_def client_idle_def)

lemma sim_device_proxies [simp]:
  "wifi_mgmt_message_length (sim_device kc rx) = 0" "wifi_mgmt_event (sim_device kc rx) = False"
  "net_if_mgmt_message_length (sim_device kc rx) = 0" "net_if_mgmt_event (sim_device kc rx) = False"
  "hci_rx_buffer_len (sim_device kc rx) = 0" "wifi_data_message_length (sim_device kc rx) = 0"
  "mem (sim_device kc rx) = (\<lambda>b. replicate (buf_size kc b) 0)"
  "mux_ifaces (sim_device kc rx) = (\<lambda>_. \<lparr>registered = True, mux_dev = Some 0, mux_config = Some Config_serial\<rparr>)"
  by (simp_all add: sim_device_def)

lemma sim_kc_simps [simp]:
  "CONFIG_SERIAL_PROXY_WIFI_MGMT sim_kc" "CONFIG_SERIAL_PROXY_WIFI_DATA sim_kc"
  "CONFIG_SERIAL_PROXY_NET_IF_MGMT sim_kc" "CONFIG_SERIAL_PROXY_BT sim_kc"
  "CONFIG_SERIAL_PROXY_OT sim_kc" "CONFIG_SERIAL_PROXY_VSERIAL sim_kc"
  "CONFIG_VSERIAL_RX_BUF_SIZE sim_kc = 256" "CONFIG_VSERIAL_TX_BUF_SIZE sim_kc = 256"
  "sizeof_WifiMgmtRequest sim_kc = 600"
  by (simp_all add: sim_kc_def)

lemma sim_stacks_simps [simp]:
  "bt_buf_get_tx sim_stacks ty data e = (Some (length (se_bufs e)), e\<lparr>se_bufs := se_bufs e @ [(ty, data)]\<rparr>)"
  "bt_send sim_stacks b e = (0, e\<lparr>se_bt_sent := se_bt_sent e @ [b]\<rparr>)"
  by (simp_all add: sim_stacks_def)

lemma sim_frame_arrives:
  assumes "length payload = n" and "0 < n" and "n \<le> 4096"
  shows "frame_arrives (\<lambda>d w. sim_rx w d)
     (sim_device kc (bus_header_encode (request_header ty seq n) @ payload)) c 0
     (request_header ty seq n) payload"
  using assms by (simp add: frame_arrives_def request_header_def unat_word_of_nat_16)

lemma sim_in_sequence: "in_sequence (sim_device kc rx) c (request_header ty seq n) \<longleftrightarrow> seq = 0"
  by (simp add: in_sequence_def sim_config_def request_header_def eq_commute [of 0])
    (metis ucast_ucast_nibble unsigned_0)

lemma request_header_simps [simp]:
  "bh_type (request_header ty seq n) = ty" "bh_seq (request_header ty seq n) = seq"
  "bh_no_ack (request_header ty seq n) = False"
  by (simp_all add: request_header_def)

end
