(* ===== verification/Device_Delivery.thy ===== *)
theory Device_Delivery
  imports Device_Sim
begin

text \<open>
  What each proxy gets out of a frame the host sends, and what the host gets back.
\<close>

section \<open>Virtual serial port\<close>

text \<open>
  A VSERIAL frame from the host, in sequence and within the buffers, ends up byte for byte at
  the end of the virtual port's receive ring; the host gets exactly one acknowledgement with the
  frame's type and sequence number (none if it asked for none); the parser is ready for the next
  header and expects the next sequence number.
\<close>

lemma vserial_frame_delivered:
  assumes law: "link_law os sent pending" and mem: "mem_ok kc s"
    and cfg: "CONFIG_SERIAL_PROXY_VSERIAL kc"
    and arr: "frame_arrives pending s c dev h payload" and ty: "bh_type h = SERIAL_TYPE_VSERIAL"
    and seq: "in_sequence s c h"
    and tx: "length payload \<le> CONFIG_VSERIAL_TX_BUF_SIZE kc"
    and rx: "length (vserial_rx_ring s) + length payload \<le> CONFIG_VSERIAL_RX_BUF_SIZE kc"
  shows "\<exists>t. rx_event os eo kc dev c s = Some t \<and>
     vserial_rx_ring t = vserial_rx_ring s @ payload \<and>
     link_after sent pending s c dev (success_reply h)
       (sequence_number_advance (rx_sequence_number (serial_configs s c))) t"
proof -
  have cbs: "serial_mux_get_callbacks eo kc (bh_type h) =
      Some (callbacks_of (vserial_acquire_buffer kc) vserial_commit_data (vserial_message_complete eo kc))"
    using cfg ty by (simp add: get_callbacks_eq proxy_enabled_def mux_callbacks_def callbacks_of_def)
  have cl: "serial_client kc (vserial_acquire_buffer kc) vserial_commit_data
      (vserial_message_complete eo kc) Vserial_tx_buf (buf_size kc Vserial_tx_buf) (client_idle (bh_type h))"
    using vserial.serial_client_axioms [of kc eo] ty by (simp add: client_idle_def [abs_def])
  obtain w0 w1 w t where ev: "rx_event os eo kc dev c s = Some t"
    and t: "t = (frame_done w c (sequence_number_advance (rx_sequence_number (serial_configs s c)))
      (vserial_message_complete eo kc (length payload) (vserial_commit_data (length payload)
         (received w1 c Vserial_tx_buf 0 payload (header_in w0 c h s)))))"
    and link: "link_after sent pending s c dev
       (success_reply h @
        (if fst (vserial_acquire_buffer kc (Some (Vserial_tx_buf, 0)) (length payload) t) then []
         else bus_header_encode (ack_frame (bh_type h) (bh_seq h) 2)))
       (sequence_number_advance (rx_sequence_number (serial_configs s c))) t"
    by (rule rx_event_delivers [OF law mem arr seq cbs cl]) (use tx ty in \<open>simp_all add: client_idle_def\<close>)
  have "vserial_rx_ring t = vserial_rx_ring s @ payload"
    using rx by (auto simp: t frame_done_def vserial_message_complete_def vserial_commit_data_def
        received_def upd_config_def ring_buf_put_fits Let_def split: option.splits)
  moreover have "link_after sent pending s c dev (success_reply h)
       (sequence_number_advance (rx_sequence_number (serial_configs s c))) t"
    using link tx by (simp add: vserial_acquire_buffer_def)
  ultimately show ?thesis using ev by blast
qed

section \<open>Bluetooth\<close>

lemma bt_delivery:
  assumes law: "link_law os sent pending" and mem: "mem_ok kc s"
    and cfg: "CONFIG_SERIAL_PROXY_BT kc" and idle: "hci_rx_buffer_len s = 0"
    and arr: "frame_arrives pending s c dev h payload" and ty: "bh_type h = SERIAL_TYPE_HCI"
    and seq: "in_sequence s c h" and len: "length payload \<le> 512"
  obtains t where "rx_event os eo kc dev c s = Some t"
    "env t = env (bt_proxy_message_complete eo (length payload)
        (s\<lparr>mem := (mem s)(Hci_rx_buffer := overwrite 0 payload (mem s Hci_rx_buffer))\<rparr>))"
    "hci_rx_buffer_len t = 0"
    "link_after sent pending s c dev (success_reply h)
       (sequence_number_advance (rx_sequence_number (serial_configs s c))) t"
proof -
  have cbs: "serial_mux_get_callbacks eo kc (bh_type h) =
      Some (callbacks_of bt_proxy_acquire_buffer bt_proxy_commit_data (bt_proxy_message_complete eo))"
    using cfg ty by (simp add: get_callbacks_eq proxy_enabled_def mux_callbacks_def callbacks_of_def)
  have cl: "serial_client kc bt_proxy_acquire_buffer bt_proxy_commit_data
      (bt_proxy_message_complete eo) Hci_rx_buffer (buf_size kc Hci_rx_buffer) (client_idle (bh_type h))"
    using bt.serial_client_axioms [of kc eo] ty by (simp add: client_idle_def [abs_def])
  obtain w0 w1 w t where ev: "rx_event os eo kc dev c s = Some t"
    and t: "t = (frame_done w c (sequence_number_advance (rx_sequence_number (serial_configs s c)))
      (bt_proxy_message_complete eo (length payload) (bt_proxy_commit_data (length payload)
         (received w1 c Hci_rx_buffer 0 payload (header_in w0 c h s)))))"
    and link: "link_after sent pending s c dev
       (success_reply h @
        (if fst (bt_proxy_acquire_buffer (Some (Hci_rx_buffer, 0)) (length payload) t) then []
         else bus_header_encode (ack_frame (bh_type h) (bh_seq h) 2)))
       (sequence_number_advance (rx_sequence_number (serial_configs s c))) t"
    by (rule rx_event_delivers [OF law mem arr seq cbs cl])
      (use len ty idle in \<open>simp_all add: client_idle_def\<close>)
  have len0: "hci_rx_buffer_len t = 0"
    by (simp add: t frame_done_def upd_config_def bt_proxy_message_complete_frame)
  have "env t = env (bt_proxy_message_complete eo (length payload)
        (s\<lparr>mem := (mem s)(Hci_rx_buffer := overwrite 0 payload (mem s Hci_rx_buffer))\<rparr>))"
    by (simp add: t frame_done_def bt_proxy_message_complete_def bt_proxy_commit_data_def
        received_def header_in_def upd_config_def Let_def split: option.splits prod.splits)
  moreover have "link_after sent pending s c dev (success_reply h)
       (sequence_number_advance (rx_sequence_number (serial_configs s c))) t"
    using link len0 len by (simp add: bt_proxy_acquire_buffer_def bt_consts)
  ultimately show ?thesis using ev len0 that by blast
qed

lemma nth_overwrite_0: "i < length bs \<Longrightarrow> overwrite 0 bs xs ! i = bs ! i"
  by (simp add: overwrite_def nth_append)

text \<open>
  An H:4 command packet (indicator 1, opcode, parameter length, exactly that many parameters)
  sent by the host is handed to the Bluetooth controller as one command buffer that holds the
  packet without the indicator byte, and is acknowledged once.
\<close>

lemma hci_command_delivered:
  assumes law: "link_law os sent pending" and mem: "mem_ok kc s"
    and cfg: "CONFIG_SERIAL_PROXY_BT kc" and idle: "hci_rx_buffer_len s = 0"
    and arr: "frame_arrives pending s c dev h payload" and ty: "bh_type h = SERIAL_TYPE_HCI"
    and seq: "in_sequence s c h"
    and pkt: "payload = [1, op0, op1, plen] @ params" "length params = unat plen"
    and buf: "bt_buf_get_tx eo BT_BUF_CMD ([op0, op1, plen] @ params) (env s) = (Some b, e1)"
  shows "\<exists>t. rx_event os eo kc dev c s = Some t \<and>
     env t = (if fst (bt_send eo b e1) \<noteq> 0 then net_buf_unref eo b (snd (bt_send eo b e1))
              else snd (bt_send eo b e1)) \<and>
     hci_rx_buffer_len t = 0 \<and>
     link_after sent pending s c dev (success_reply h)
       (sequence_number_advance (rx_sequence_number (serial_configs s c))) t"
proof -
  have plen: "unat plen < 256" using unsigned_less [of plen] by simp
  then have n: "length payload = 4 + unat plen" "length payload \<le> 512" using pkt by auto
  let ?m = "s\<lparr>mem := (mem s)(Hci_rx_buffer := overwrite 0 payload (mem s Hci_rx_buffer))\<rparr>"
  have hd: "overwrite 0 payload (mem s Hci_rx_buffer) ! 0 = 1"
    "overwrite 0 payload (mem s Hci_rx_buffer) ! 3 = plen"
    by (simp_all add: nth_overwrite_0 pkt(1))
  have body: "take (length payload - 1) (drop 1 (overwrite 0 payload (mem s Hci_rx_buffer))) =
      [op0, op1, plen] @ params"
    by (simp add: overwrite_def pkt(1))
  have "env (bt_proxy_message_complete eo (length payload) ?m) =
      (if fst (bt_send eo b e1) \<noteq> 0 then net_buf_unref eo b (snd (bt_send eo b e1))
       else snd (bt_send eo b e1))"
    using n buf body hd plen
    by (simp add: bt_proxy_message_complete_def hci_packet_validate_def bt_consts Let_def
        split: prod.splits)
  then show ?thesis
    using bt_delivery [OF law mem cfg idle arr ty seq n(2), of eo] by metis
qed

text \<open>
  C40. An H:4 ACL data packet (indicator 2, handle, 16-bit data length, exactly that much data) is
  five bytes longer than its data; the length check of the proxy asks for six, so every
  well-formed ACL packet is acknowledged to the host and then dropped: the Bluetooth stack sees
  nothing of it.
\<close>

theorem hci_acl_dropped:
  assumes law: "link_law os sent pending" and mem: "mem_ok kc s"
    and cfg: "CONFIG_SERIAL_PROXY_BT kc" and idle: "hci_rx_buffer_len s = 0"
    and arr: "frame_arrives pending s c dev h payload" and ty: "bh_type h = SERIAL_TYPE_HCI"
    and seq: "in_sequence s c h"
    and pkt: "payload = [2, h0, h1, l0, l1] @ data" "length data = unat (mk_u16 l1 l0)"
    and len: "length payload \<le> 512"
  shows "\<exists>t. rx_event os eo kc dev c s = Some t \<and> env t = env s \<and> hci_rx_buffer_len t = 0 \<and>
     link_after sent pending s c dev (success_reply h)
       (sequence_number_advance (rx_sequence_number (serial_configs s c))) t"
proof -
  let ?m = "s\<lparr>mem := (mem s)(Hci_rx_buffer := overwrite 0 payload (mem s Hci_rx_buffer))\<rparr>"
  have hd: "overwrite 0 payload (mem s Hci_rx_buffer) ! 0 = 2"
    "overwrite 0 payload (mem s Hci_rx_buffer) ! 3 = l0"
    "overwrite 0 payload (mem s Hci_rx_buffer) ! 4 = l1"
    by (simp_all add: nth_overwrite_0 pkt(1))
  have "env (bt_proxy_message_complete eo (length payload) ?m) = env s"
    using hd pkt by (simp add: bt_proxy_message_complete_def hci_packet_validate_def bt_consts errno_defs)
  then show ?thesis
    using bt_delivery [OF law mem cfg idle arr ty seq len, of eo] by metis
qed

theorem hci_acl_dropped_witness:
  "\<exists>t. rx_event sim_uart sim_stacks sim_kc 0 Config_serial
        (sim_device sim_kc (bus_header_encode (request_header 3 0 6) @ [2, 1, 0, 1, 0, 99])) = Some t \<and>
     se_bufs (env t) = [] \<and> sim_tx (world t) 0 = bus_header_encode (ack_frame 3 0 0)"
proof -
  let ?p = "[2, 1, 0, 1, 0, 99] :: byte list"
  have arr: "frame_arrives (\<lambda>d w. sim_rx w d)
     (sim_device sim_kc (bus_header_encode (request_header 3 0 6) @ ?p)) Config_serial 0 (request_header 3 0 6) ?p"
    by (rule sim_frame_arrives) simp_all
  have pkt: "?p = [2, 1, 0, 1, 0] @ [99]" "length [99 :: byte] = unat (mk_u16 0 1)"
    by (simp_all add: mk_u16_def)
  show ?thesis
    using hci_acl_dropped [OF sim_uart_link _ _ _ arr _ _ pkt, of sim_kc sim_stacks]
    by (auto simp: sim_in_sequence link_after_def success_reply_def)
qed

section \<open>Management requests\<close>

text \<open>
  A Wi-Fi management request from the host, in sequence and no longer than the request
  structure, is in the proxy's receive buffer with its length recorded and the proxy's thread is
  signalled; the host gets the acknowledgement.  If the request is longer than half of the
  buffer, the acknowledgement is followed by a spurious OUT_OF_BUFFERS for the same frame.
\<close>

lemma wifi_mgmt_delivered:
  assumes law: "link_law os sent pending" and mem: "mem_ok kc s"
    and cfg: "CONFIG_SERIAL_PROXY_WIFI_MGMT kc" and idle: "wifi_mgmt_message_length s = 0"
    and arr: "frame_arrives pending s c dev h payload" and ty: "bh_type h = SERIAL_TYPE_WIFI_MGMT"
    and seq: "in_sequence s c h" and len: "length payload \<le> unat (sizeof_WifiMgmtRequest kc)"
  obtains t where "rx_event os eo kc dev c s = Some t"
    "wifi_mgmt_message_length t = length payload" "wifi_mgmt_event t"
    "take (length payload) (mem t Wifi_mgmt_rx_buffer) = payload"
    "link_after sent pending s c dev
       (success_reply h @
        (if unat (sizeof_WifiMgmtRequest kc) < 2 * length payload
         then bus_header_encode (ack_frame SERIAL_TYPE_WIFI_MGMT (bh_seq h) ERROR_TYPE_OUT_OF_BUFFERS) else []))
       (sequence_number_advance (rx_sequence_number (serial_configs s c))) t"
    "env t = env s" "mux_ifaces t = mux_ifaces s" "mem_ok kc t"
    "tx_sequence_number (serial_configs t c) = tx_sequence_number (serial_configs s c)"
proof -
  let ?n = "length payload" and ?b = Wifi_mgmt_rx_buffer
  have cbs: "serial_mux_get_callbacks eo kc (bh_type h) =
      Some (callbacks_of (wifi_mgmt_acquire_buffer kc) wifi_mgmt_commit_data wifi_mgmt_message_complete)"
    using cfg ty by (simp add: get_callbacks_eq proxy_enabled_def mux_callbacks_def callbacks_of_def)
  have cl: "serial_client kc (wifi_mgmt_acquire_buffer kc) wifi_mgmt_commit_data
      wifi_mgmt_message_complete ?b (buf_size kc ?b) (client_idle (bh_type h))"
    using wifi_mgmt.serial_client_axioms [of kc] ty by (simp add: client_idle_def [abs_def])
  obtain w0 w1 w t where ev: "rx_event os eo kc dev c s = Some t"
    and t: "t = (frame_done w c (sequence_number_advance (rx_sequence_number (serial_configs s c)))
      (wifi_mgmt_message_complete ?n (wifi_mgmt_commit_data ?n
         (received w1 c ?b 0 payload (header_in w0 c h s)))))"
    and link: "link_after sent pending s c dev
       (success_reply h @
        (if fst (wifi_mgmt_acquire_buffer kc (Some (?b, 0)) ?n t) then []
         else bus_header_encode (ack_frame (bh_type h) (bh_seq h) 2)))
       (sequence_number_advance (rx_sequence_number (serial_configs s c))) t"
    by (rule rx_event_delivers [OF law mem arr seq cbs cl])
      (use len ty idle in \<open>simp_all add: client_idle_def\<close>)
  note defs = t frame_done_def wifi_mgmt_message_complete_def wifi_mgmt_commit_data_def
    received_def upd_config_def
  have n: "?n < 2 ^ 32" using len unat_u32_less [of "sizeof_WifiMgmtRequest kc"] by linarith
  have ml: "wifi_mgmt_message_length t = ?n" "wifi_mgmt_event t" "take ?n (mem t ?b) = payload"
    using idle n by (simp_all add: defs)
  have "fst (wifi_mgmt_acquire_buffer kc (Some (?b, 0)) ?n t) =
      (\<not> unat (sizeof_WifiMgmtRequest kc) < 2 * ?n)"
    using ml(1) len by (auto simp: wifi_mgmt_acquire_buffer_def size_sub_le [OF _ unat_u32_less])
  moreover have "env t = env s" "mux_ifaces t = mux_ifaces s" "mem_ok kc t"
    "tx_sequence_number (serial_configs t c) = tx_sequence_number (serial_configs s c)"
    using mem len by (auto simp: defs header_in_def mem_ok_def)
  ultimately show ?thesis using that [OF ev ml] link ty by (simp split: if_splits)
qed

text \<open>
  The same for a network interface request of at most 512 bytes: delivered and acknowledged,
  with the spurious OUT_OF_BUFFERS exactly when it is longer than 256 bytes.
\<close>

lemma net_if_delivered:
  assumes law: "link_law os sent pending" and mem: "mem_ok kc s"
    and cfg: "CONFIG_SERIAL_PROXY_NET_IF_MGMT kc" and idle: "net_if_mgmt_message_length s = 0"
    and arr: "frame_arrives pending s c dev h payload" and ty: "bh_type h = SERIAL_TYPE_NET_IF_MGMT"
    and seq: "in_sequence s c h" and len: "length payload \<le> 512"
  obtains t where "rx_event os eo kc dev c s = Some t"
    "net_if_mgmt_message_length t = length payload" "net_if_mgmt_event t"
    "take (length payload) (mem t Net_if_mgmt_rx_buffer) = payload"
    "link_after sent pending s c dev
       (success_reply h @
        (if 256 < length payload
         then bus_header_encode (ack_frame SERIAL_TYPE_NET_IF_MGMT (bh_seq h) ERROR_TYPE_OUT_OF_BUFFERS) else []))
       (sequence_number_advance (rx_sequence_number (serial_configs s c))) t"
    "env t = env s" "mux_ifaces t = mux_ifaces s" "mem_ok kc t"
    "tx_sequence_number (serial_configs t c) = tx_sequence_number (serial_configs s c)"
proof -
  let ?n = "length payload" and ?b = Net_if_mgmt_rx_buffer
  have cbs: "serial_mux_get_callbacks eo kc (bh_type h) =
      Some (callbacks_of net_if_mgmt_acquire_buffer net_if_mgmt_commit_data net_if_mgmt_message_complete)"
    using cfg ty by (simp add: get_callbacks_eq proxy_enabled_def mux_callbacks_def callbacks_of_def)
  have cl: "serial_client kc net_if_mgmt_acquire_buffer net_if_mgmt_commit_data
      net_if_mgmt_message_complete ?b (buf_size kc ?b) (client_idle (bh_type h))"
    using net_if.serial_client_axioms [of kc] ty by (simp add: client_idle_def [abs_def])
  obtain w0 w1 w t where ev: "rx_event os eo kc dev c s = Some t"
    and t: "t = (frame_done w c (sequence_number_advance (rx_sequence_number (serial_configs s c)))
      (net_if_mgmt_message_complete ?n (net_if_mgmt_commit_data ?n
         (received w1 c ?b 0 payload (header_in w0 c h s)))))"
    and link: "link_after sent pending s c dev
       (success_reply h @
        (if fst (net_if_mgmt_acquire_buffer (Some (?b, 0)) ?n t) then []
         else bus_header_encode (ack_frame (bh_type h) (bh_seq h) 2)))
       (sequence_number_advance (rx_sequence_number (serial_configs s c))) t"
    by (rule rx_event_delivers [OF law mem arr seq cbs cl])
      (use len ty idle in \<open>simp_all add: client_idle_def\<close>)
  note defs = t frame_done_def net_if_mgmt_message_complete_def net_if_mgmt_commit_data_def
    received_def upd_config_def
  have ml: "net_if_mgmt_message_length t = ?n" "net_if_mgmt_event t" "take ?n (mem t ?b) = payload"
    using idle len by (simp_all add: defs)
  have "fst (net_if_mgmt_acquire_buffer (Some (?b, 0)) ?n t) = (\<not> 256 < ?n)"
    using ml(1) len by (auto simp: net_if_mgmt_acquire_buffer_def)
  moreover have "env t = env s" "mux_ifaces t = mux_ifaces s" "mem_ok kc t"
    "tx_sequence_number (serial_configs t c) = tx_sequence_number (serial_configs s c)"
    using mem len by (auto simp: defs header_in_def mem_ok_def)
  ultimately show ?thesis using that [OF ev ml] link ty by (simp split: if_splits)
qed

end
