(* ===== verification/Link_Ends.thy ===== *)
theory Link_Ends
  imports Bus_Requests Device_Delivery
begin

text \<open>
  Both ends of the link together: the predicate that host and device are in step, the bytes an
  operation has put on the wire, and the frames of the host as the device finds them.
\<close>

section \<open>The two ends of the link\<close>

text \<open>
  Host and device run on the same driver model, each with its own world.  They are in step when
  the host's next sequence number is the one the device expects.  \<open>wire\<close> is what an operation has
  put on the wire.
\<close>

definition in_step :: "('w, 'h) host \<Rightarrow> ('w, 'e) device \<Rightarrow> cfg_ptr \<Rightarrow> bool" where
  "in_step b s c \<longleftrightarrow> tx_seq b = rx_sequence_number (serial_configs s c) \<and> tx_seq b \<le> SEQUENCE_NUMBER_MAX"

definition wire :: "(dev \<Rightarrow> 'w \<Rightarrow> byte list) \<Rightarrow> dev \<Rightarrow> 'w \<Rightarrow> 'w \<Rightarrow> byte list" where
  "wire sent dev w w' = drop (length (sent dev w)) (sent dev w')"

lemma wire_append [simp]: "sent dev w' = sent dev w @ bs \<Longrightarrow> wire sent dev w w' = bs"
  by (simp add: wire_def)

lemma nibble_ucast:
  assumes "x \<le> SEQUENCE_NUMBER_MAX"
  shows "ucast (ucast x :: 4 word) = x"
proof -
  have "unat x \<le> unat (15 :: byte)" using assms by (simp only: word_le_nat_alt)
  then have "unat (ucast (ucast x :: 4 word) :: byte) = unat x"
    by (simp add: unsigned_ucast_eq unsigned_take_bit_eq take_bit_nat_eq_self)
  then show ?thesis by (simp only: word_unat_eq_iff)
qed

lemma in_step_sequence:
  "in_step b s c \<Longrightarrow> in_sequence s c (tx_header ty (tx_seq b) n)"
  by (auto simp: in_step_def in_sequence_def tx_header_def nibble_ucast)

lemma advance_eq_next: "sequence_number_advance s = bus_seq_next s"
  by (simp add: sequence_number_advance_def bus_seq_next_def)

lemma in_step_next:
  assumes "in_step b s c" and "tx_seq b' = bus_seq_next (tx_seq b)"
    and "rx_sequence_number (serial_configs t c) = sequence_number_advance (rx_sequence_number (serial_configs s c))"
  shows "in_step b' t c"
  using assms by (simp add: in_step_def advance_eq_next)

text \<open>What \<open>bus_send\<close> puts on the wire.\<close>

lemma bus_send_link:
  assumes law: "link_law os sent pending" and b: "opened b" "uart b = Some dev"
    and ty: "0 \<le> ty" "ty < 9" and p: "0 < length p" "length p \<le> SERIAL_MAX_PAYLOAD_LEN"
  obtains w where
    "bus_send os ty (Some p) (length p) b = Some (0, b\<lparr>tx_seq := bus_seq_next (tx_seq b), bworld := w\<rparr>)"
    "sent dev w = sent dev (bworld b) @ bus_header_encode (tx_header ty (tx_seq b) (length p)) @ p"
proof -
  have val: "bus_validate_tx (word_of_int ty) (word_of_nat (length p)) = 0"
    using p by (auto simp: bus_validate_tx_def unat_word_of_nat_16 word_of_nat_eq_0_iff dest: dvd_imp_le)
  let ?b = "b\<lparr>tx_seq := bus_seq_next (tx_seq b)\<rparr>"
  have dev: "uart ?b = Some dev" using b by simp
  obtain w where "bus_send_raw os (tx_header ty (tx_seq b) (length p)) (Some p) (length p) ?b = Some (?b\<lparr>bworld := w\<rparr>)"
    "sent dev w = sent dev (bworld ?b) @ raw_frame (tx_header ty (tx_seq b) (length p)) (Some p) (length p)"
    "pending dev w = pending dev (bworld ?b)"
    by (rule bus_send_raw_link [OF law dev])
  then show ?thesis
    using b ty val p by (intro that [of w]) (simp_all add: bus_send_def raw_frame_def)
qed

lemma frame_arrives_sent:
  assumes "rx_ready s c dev" and "pending dev (world s) = bus_header_encode (tx_header ty q (length p)) @ p"
    and "0 < length p" "length p \<le> SERIAL_MAX_PAYLOAD_LEN"
  shows "frame_arrives pending s c dev (tx_header ty q (length p)) p"
  using assms by (simp add: frame_arrives_def tx_header_def unat_word_of_nat_16 del: length_greater_0_conv)

end
