(* ===== verification/Device_Errors.thy ===== *)
theory Device_Errors
  imports Device_Sim
begin

text \<open>
  The frames the device does not deliver: out of sequence, too long for the client, malformed
  headers, types without a handler; and the PROTOCOL_INFO exchange, which never reaches a client.
\<close>

text \<open>Nothing a client owns, its buffer aside, is different in \<open>t\<close>.\<close>

definition same_clients :: "('w, 'e) device \<Rightarrow> ('w, 'e) device \<Rightarrow> bool" where
  "same_clients s t \<longleftrightarrow> env t = env s \<and>
     wifi_mgmt_message_length t = wifi_mgmt_message_length s \<and> wifi_mgmt_event t = wifi_mgmt_event s \<and>
     wifi_data_message_length t = wifi_data_message_length s \<and>
     net_if_mgmt_message_length t = net_if_mgmt_message_length s \<and>
     net_if_mgmt_event t = net_if_mgmt_event s \<and> hci_rx_buffer_len t = hci_rx_buffer_len s \<and>
     vserial_rx_ring t = vserial_rx_ring s"

lemma same_clients_simps [simp]:
  "same_clients s s"
  "same_clients s (frame_done w c rx t) = same_clients s t"
  "same_clients s (received w c b k bs t) = same_clients s t"
  "same_clients s (header_in w c h t) = same_clients s t"
  "same_clients s (t\<lparr>world := w\<rparr>) = same_clients s t"
  "same_clients s (upd_config c f t) = same_clients s t"
  by (simp_all add: same_clients_def frame_done_def received_def header_in_def upd_config_def)

section \<open>Sequence errors\<close>

text \<open>
  C11. A frame with a sequence number other than the expected one reaches no client, whatever
  its type (but WIFI_DATA, whose proxy gives no buffer): the reply is INCORRECT_SEQUENCE_NUMBER with the number the device expected, not the one
  that was received, and it is sent also when the frame asks for no acknowledgement; the device
  expects 0 from then on.
\<close>

theorem wrong_sequence_rejected:
  fixes s :: "('w, 'e) device"
  assumes law: "link_law os sent pending" and mem: "mem_ok kc s"
    and en: "proxy_enabled kc (bh_type h)" "bh_type h \<noteq> SERIAL_TYPE_WIFI_DATA"
    and idle: "client_idle (bh_type h) s"
    and arr: "frame_arrives pending s c dev h payload"
    and cap: "length payload \<le> buf_size kc (client_base (bh_type h))"
    and seq: "\<not> in_sequence s c h"
  shows "\<exists>t. rx_event os eo kc dev c s = Some t \<and> same_clients s t \<and>
     link_after sent pending s c dev
       (bus_header_encode (ack_frame (bh_type h) (ucast (rx_sequence_number (serial_configs s c)))
          ERROR_TYPE_INCORRECT_SEQUENCE_NUMBER)) 0 t"
proof -
  obtain acq com and fin :: "('w, 'e) client_fn" where
    cbs: "serial_mux_get_callbacks eo kc (bh_type h) = Some (callbacks_of acq com fin)"
    and cl: "serial_client kc acq com fin (client_base (bh_type h))
       (buf_size kc (client_base (bh_type h))) (client_idle (bh_type h))"
    by (rule client_of_type [OF en])
  let ?b = "client_base (bh_type h)"
  obtain w0 where w0: "pending dev w0 = payload" "sent dev w0 = sent dev (world s)"
    "rx_event os eo kc dev c s =
       map_option (\<lambda>t. t\<lparr>world := uart_irq_rx_enable os dev (world t)\<rparr>)
         (serial_work_loop os eo kc dev c (bh_type h) (Some (callbacks_of acq com fin)) None (header_in w0 c h s))"
    by (rule rx_event_frame [OF law arr cbs])
  obtain w1 w2 where w2:
    "serial_work_loop os eo kc dev c (bh_type h) (Some (callbacks_of acq com fin)) None (header_in w0 c h s) =
       Some (frame_done w2 c 0 (received w1 c ?b 0 payload (header_in w0 c h s)))"
    "pending dev w2 = []"
    "sent dev w2 = sent dev (world (header_in w0 c h s)) @ ack_bytes (bh_type h)
       (ucast (rx_sequence_number (serial_configs (header_in w0 c h s) c))) 1"
    by (rule serial_client.wrong_sequence [OF cl law _ _ get_callbacks_type [OF cbs] frame_arrives_at [OF arr] cap])
      (use mem idle w0 seq in \<open>auto simp: in_sequence_def device_view_def\<close>)
  show ?thesis
    using w0 w2 arr
    by (simp add: link_after_def link_irq_rx_enable [OF law] ack_bytes_encode rx_ready_def
        frame_arrives_def) (simp add: frame_done_def received_def)
qed

theorem wrong_sequence_rejected_witness:
  "\<exists>t. rx_event sim_uart sim_stacks sim_kc 0 Config_serial
        (sim_device sim_kc (bus_header_encode (request_header 8 5 3) @ [10, 20, 30])) = Some t \<and>
     vserial_rx_ring t = [] \<and> sim_tx (world t) 0 = bus_header_encode (ack_frame 8 0 1)"
proof -
  let ?p = "[10, 20, 30] :: byte list"
  have arr: "frame_arrives (\<lambda>d w. sim_rx w d)
     (sim_device sim_kc (bus_header_encode (request_header 8 5 3) @ ?p)) Config_serial 0 (request_header 8 5 3) ?p"
    by (rule sim_frame_arrives) simp_all
  show ?thesis
    using wrong_sequence_rejected [OF sim_uart_link _ _ _ _ arr, of sim_kc sim_stacks]
    by (auto simp: sim_in_sequence link_after_def proxy_enabled_def same_clients_def client_base_def
        sim_config_def)
qed

section \<open>No room\<close>

text \<open>
  C30. A frame longer than its client's buffer is refused with OUT_OF_BUFFERS, also when it asks for
  no acknowledgement, and changes neither the clients nor the expected sequence number.  Its payload is not read: it stays in the FIFO,
  where the parser, already back at the start of a header, will take it for the next frame.
\<close>

theorem no_room_rejected:
  fixes s :: "('w, 'e) device"
  assumes law: "link_law os sent pending"
    and en: "proxy_enabled kc (bh_type h)" "bh_type h \<noteq> SERIAL_TYPE_WIFI_DATA"
    and idle: "client_idle (bh_type h) s"
    and arr: "frame_arrives pending s c dev h payload"
    and cap: "buf_size kc (client_base (bh_type h)) < length payload"
  shows "\<exists>t. rx_event os eo kc dev c s = Some t \<and> same_clients s t \<and> mem t = mem s \<and>
     rx_ready t c dev \<and> pending dev (world t) = payload \<and>
     rx_sequence_number (serial_configs t c) = rx_sequence_number (serial_configs s c) \<and>
     sent dev (world t) = sent dev (world s) @
       bus_header_encode (ack_frame (bh_type h) (bh_seq h) ERROR_TYPE_OUT_OF_BUFFERS)"
proof -
  obtain acq com and fin :: "('w, 'e) client_fn" where
    cbs: "serial_mux_get_callbacks eo kc (bh_type h) = Some (callbacks_of acq com fin)"
    and cl: "serial_client kc acq com fin (client_base (bh_type h))
       (buf_size kc (client_base (bh_type h))) (client_idle (bh_type h))"
    by (rule client_of_type [OF en])
  obtain w0 where w0: "pending dev w0 = payload" "sent dev w0 = sent dev (world s)"
    "rx_event os eo kc dev c s =
       map_option (\<lambda>t. t\<lparr>world := uart_irq_rx_enable os dev (world t)\<rparr>)
         (serial_work_loop os eo kc dev c (bh_type h) (Some (callbacks_of acq com fin)) None (header_in w0 c h s))"
    by (rule rx_event_frame [OF law arr cbs])
  obtain w2 where w2:
    "serial_work_loop os eo kc dev c (bh_type h) (Some (callbacks_of acq com fin)) None (header_in w0 c h s) =
       Some (upd_config c reset_parser ((header_in w0 c h s)\<lparr>world := w2\<rparr>))"
    "pending dev w2 = pending dev (world (header_in w0 c h s))"
    "sent dev w2 = sent dev (world (header_in w0 c h s)) @ ack_bytes (bh_type h)
       (sh_sequence_number (serial_header (serial_configs (header_in w0 c h s) c))) 2"
    by (rule serial_client.no_room [OF cl law _ get_callbacks_type [OF cbs] frame_arrives_at [OF arr] cap])
      (use idle in simp)
  show ?thesis
    using w0 w2 arr
    by (simp add: link_irq_rx_enable [OF law] ack_bytes_encode rx_ready_def frame_arrives_def
        reset_parser_def device_view_def)
qed

theorem no_room_rejected_witness:
  "\<exists>t. rx_event sim_uart sim_stacks sim_kc 0 Config_serial
        (sim_device sim_kc (bus_header_encode (request_header 2 0 600) @ replicate 600 7)) = Some t \<and>
     sim_rx (world t) 0 = replicate 600 7 \<and> sim_tx (world t) 0 = bus_header_encode (ack_frame 2 0 2)"
proof -
  let ?p = "replicate 600 7 :: byte list"
  have arr: "frame_arrives (\<lambda>d w. sim_rx w d)
     (sim_device sim_kc (bus_header_encode (request_header 2 0 600) @ ?p)) Config_serial 0 (request_header 2 0 600) ?p"
    by (rule sim_frame_arrives) simp_all
  show ?thesis
    using no_room_rejected [OF sim_uart_link _ _ _ arr, of sim_kc sim_stacks]
    by (auto simp: proxy_enabled_def client_base_def simp del: replicate.simps)
qed

section \<open>Malformed headers\<close>

text \<open>
  C29. A header that announces no payload (and is not a PROTOCOL_INFO request) is dropped without a
  reply; one that announces more than 4096 bytes is answered with LENGTH_TOO_LONG, also when it asks
  for no acknowledgement.  Either way no client is touched, the sequence numbers stay, and the
  parser waits for the next header.
\<close>

theorem invalid_header_rejected:
  assumes law: "link_law os sent pending" and rdy: "rx_ready s c dev"
    and pend: "pending dev (world s) = bus_header_encode h"
    and bad: "bh_length h = 0 \<and> bh_type h \<noteq> SERIAL_TYPE_PROTOCOL_INFO \<or>
              SERIAL_MAX_PAYLOAD_LEN < unat (bh_length h)"
  shows "\<exists>t. rx_event os eo kc dev c s = Some t \<and> same_clients s t \<and> mem t = mem s \<and>
     link_after sent pending s c dev
       (if SERIAL_MAX_PAYLOAD_LEN < unat (bh_length h)
        then bus_header_encode (ack_frame (bh_type h) (bh_seq h) ERROR_TYPE_LENGTH_TOO_LONG) else [])
       (rx_sequence_number (serial_configs s c)) t"
proof -
  have st: "parsing_state (serial_configs s c) = PARSING_STATE_TYPE" using rdy by (simp add: rx_ready_def)
  have nxt: "header_next_state (device_view h) = PARSING_STATE_TYPE"
    using bad by (auto simp: header_next_state_def device_view_def)
  let ?h = "device_header_rx (serial_header (serial_configs s c)) (bus_header_encode h)"
  let ?u = "\<lambda>w. upd_config c (\<lambda>cf. cf\<lparr>serial_header := ?h, parsing_state := header_next_state ?h,
          bytes_read := 0\<rparr>) (s\<lparr>world := w\<rparr>)"
  obtain w where w: "pending dev w = []" "sent dev w = sent dev (world s) @ header_reply ?h"
    "uart_irq_loop os dev c s = uart_irq_loop os dev c (?u w)"
    by (rule uart_irq_loop_header [OF law st, of dev "bus_header_encode h" "[]"]) (use pend in simp_all)
  obtain w1 where w1: "sent dev w1 = sent dev (world (?u w))" "pending dev w1 = []"
    "uart_irq_loop os dev c (?u w) = Some ((?u w)\<lparr>world := w1\<rparr>)"
    by (rule uart_irq_loop_empty [OF law, of dev "?u w" c]) (use w nxt in \<open>simp_all add: device_header_rx_encode\<close>)
  have ev: "rx_event os eo kc dev c s = Some ((?u w)\<lparr>world := w1\<rparr>)"
    using w w1 nxt rdy
    by (simp add: rx_event_def uart_irq_callback_def device_header_rx_encode rx_ready_def)
  have "link_after sent pending s c dev (header_reply (device_view h))
      (rx_sequence_number (serial_configs s c)) ((?u w)\<lparr>world := w1\<rparr>)"
    using w w1 nxt rdy by (simp add: link_after_def rx_ready_def device_header_rx_encode)
  moreover have "header_reply (device_view h) =
      (if 4096 < unat (bh_length h) then bus_header_encode (ack_frame (bh_type h) (bh_seq h) 3) else [])"
    by (simp add: header_reply_def device_view_def ack_bytes_encode)
  ultimately show ?thesis using ev by (intro exI [of _ "(?u w)\<lparr>world := w1\<rparr>"]) simp
qed

theorem invalid_header_rejected_witness:
  "\<exists>t. rx_event sim_uart sim_stacks sim_kc 0 Config_serial
        (sim_device sim_kc (bus_header_encode (request_header 8 0 5000))) = Some t \<and>
     sim_tx (world t) 0 = bus_header_encode (ack_frame 8 0 3)"
proof -
  have "4096 < unat (bh_length (request_header 8 0 5000))"
    by (simp add: request_header_def)
  then show ?thesis
    using invalid_header_rejected [OF sim_uart_link, of "sim_device sim_kc (bus_header_encode (request_header 8 0 5000))"
        Config_serial 0 "request_header 8 0 5000" sim_stacks sim_kc]
    by (auto simp: link_after_def)
qed

section \<open>Protocol information\<close>

text \<open>
  A PROTOCOL_INFO request without payload is answered, whatever its sequence number, with a
  frame of four bytes: the protocol version, the mask of supported traffic types (low byte first)
  and the sequence number the device expects next, which does not change.  A bit of the mask is set
  exactly for PROTOCOL_INFO itself and for the traffic types whose proxy is configured.
\<close>

lemma protocol_info_answered:
  assumes law: "link_law os sent pending" and rdy: "rx_ready s c dev"
    and pend: "pending dev (world s) = bus_header_encode h"
    and req: "bh_type h = SERIAL_TYPE_PROTOCOL_INFO" "bh_length h = 0"
  shows "\<exists>t mask. rx_event os eo kc dev c s = Some t \<and> same_clients s t \<and> mem t = mem s \<and>
     (\<forall>n. bit mask n \<longleftrightarrow> n = 7 \<or> n < 9 \<and> proxy_enabled kc (word_of_nat n)) \<and>
     link_after sent pending s c dev
       (bus_header_encode (frame_header SERIAL_TYPE_PROTOCOL_INFO ERROR_TYPE_NO_ERROR False
          (tx_sequence_number (serial_configs s c)) 4) @
        [1, lo_byte mask, hi_byte mask, rx_sequence_number (serial_configs s c)])
       (rx_sequence_number (serial_configs s c)) t \<and>
     tx_sequence_number (serial_configs t c) =
       sequence_number_advance (tx_sequence_number (serial_configs s c))"
proof -
  let ?mask = "serial_mux_supported_types_mask eo kc"
  have nxt: "header_next_state (device_view h) = PARSING_STATE_DATA"
    using req by (simp add: header_next_state_def device_view_def)
  obtain w where w: "pending dev w = []" "sent dev w = sent dev (world s)"
    "rx_event os eo kc dev c s = serial_work_handler os eo kc c (header_in w c h s)"
    by (rule rx_event_header [OF law rdy _ nxt, of "[]"]) (use pend in simp_all)
  let ?s = "header_in w c h s"
  let ?p = "protocol_info_payload ?mask (rx_sequence_number (serial_configs s c))"
  have dev: "serial_dev (serial_configs ?s c) = Some dev" using rdy by (simp add: rx_ready_def)
  have len: "length ?p \<le> 4096" "length ?p = 4" by (simp_all add: protocol_info_payload_def)
  obtain w' where w': "serial_send_frame os (Some c) 7 0 False (Some ?p) (length ?p) ?s =
       Some (0, upd_config c
         (\<lambda>cf. cf\<lparr>tx_sequence_number := sequence_number_advance (tx_sequence_number cf)\<rparr>)
         (?s\<lparr>world := w'\<rparr>))"
    "sent dev w' = sent dev (world ?s) @
       bus_header_encode (frame_header 7 0 False (tx_sequence_number (serial_configs ?s c)) (length ?p)) @ ?p"
    "pending dev w' = pending dev (world ?s)"
    by (rule serial_send_frame_ok [OF law dev len(1)])
  let ?t = "upd_config c (clear_length \<circ> reset_parser) (upd_config c
         (\<lambda>cf. cf\<lparr>tx_sequence_number := sequence_number_advance (tx_sequence_number cf)\<rparr>)
         (?s\<lparr>world := w'\<rparr>))"
  have ev: "rx_event os eo kc dev c s = Some ?t"
    using w(3) w'(1) req len(2)
    by (simp add: serial_work_handler_def handle_protocol_info_def device_view_def
        serial_get_supported_types_mask_def)
  have p: "?p = [1, lo_byte ?mask, hi_byte ?mask, rx_sequence_number (serial_configs s c)]"
    by (simp add: protocol_info_payload_def mask_simps) (simp add: hi_byte_def lo_byte_def mask_simps)
  have sent: "sent dev w' = sent dev (world s) @
      bus_header_encode (frame_header 7 0 False (tx_sequence_number (serial_configs s c)) 4) @
      [1, lo_byte ?mask, hi_byte ?mask, rx_sequence_number (serial_configs s c)]"
    using w'(2) w(2) unfolding len(2) unfolding p by simp
  show ?thesis
    using ev w(1) w'(3) sent rdy
    by (intro exI [of _ ?t] exI [of _ ?mask])
      (simp add: link_after_def rx_ready_def bit_supported_types_mask clear_length_def reset_parser_def)
qed

section \<open>Transmission failures\<close>

text \<open>
  A frame that never leaves the device is reported as sent: when the peer does not read and
  the FIFO stays full, \<open>serial_send_frame\<close> still returns 0 and advances the transmit sequence
  number, although not one byte was transmitted.
\<close>

lemma unsent_frame_reported_sent:
  assumes fill: "fifo_fill_law os sent" and clk: "clock_law os now_us" and wedged: "tx_wedged os"
    and dev: "serial_dev (serial_configs s c) = Some dev"
    and len: "length p \<le> SERIAL_MAX_PAYLOAD_LEN"
  shows "\<exists>t. serial_send_frame os (Some c) ty error no_ack (Some p) (length p) s = Some (0, t) \<and>
     sent dev (world t) = sent dev (world s) \<and>
     tx_sequence_number (serial_configs t c) =
       sequence_number_advance (tx_sequence_number (serial_configs s c))"
proof -
  let ?h = "bus_header_encode (frame_header ty error no_ack (tx_sequence_number (serial_configs s c)) (length p))"
  have h: "?h \<noteq> []" by (simp add: bus_header_encode_def)
  obtain w1 where w1: "serial_data_tx os dev ?h (world s) = Some (- ENOSPC, w1)" "sent dev w1 = sent dev (world s)"
    by (rule serial_data_tx_wedged [OF fill clk wedged h])
  show ?thesis
  proof (cases "p = []")
    case True
    then show ?thesis unfolding serial_send_frame_eq [OF dev len] using w1 by simp
  next
    case False
    obtain w2 where "serial_data_tx os dev p w1 = Some (- ENOSPC, w2)" "sent dev w2 = sent dev w1"
      by (rule serial_data_tx_wedged [OF fill clk wedged False])
    with w1 show ?thesis by (simp add: serial_send_frame_eq [OF dev len] False)
  qed
qed

lemma unsent_frame_reported_sent_witness:
  "\<exists>t. serial_send_frame stuck_uart (Some Config_serial) SERIAL_TYPE_HCI 0 False (Some [4, 14])
        (length [4 :: byte, 14]) (sim_device sim_kc []) = Some (0, t) \<and>
     sim_tx (world t) 0 = sim_tx (world (sim_device sim_kc [])) 0 \<and>
     tx_sequence_number (serial_configs t Config_serial) =
       sequence_number_advance (tx_sequence_number (serial_configs (sim_device sim_kc []) Config_serial))"
  by (rule unsent_frame_reported_sent [OF stuck_uart_laws])
    (simp_all add: tx_wedged_def stuck_uart_def sim_config_def)

end
