(* ===== verification/Device_Streams.thy ===== *)
theory Device_Streams
  imports Device_Delivery Device_Errors
begin

text \<open>
  Frames that do not come alone or not in one piece: payloads split over several receive events,
  bytes behind a frame, and the loop of the work handler for types without a handler.
\<close>

section \<open>Types without a handler\<close>

lemma work_drop_step_continues:
  assumes law: "link_law os sent pending"
    and run: "bytes_read (serial_configs s c) < unat (sh_length (serial_header (serial_configs s c)))"
  obtains u where "work_drop_step os dev c ty k s = Some (True, u)"
    "bytes_read (serial_configs u c) < unat (sh_length (serial_header (serial_configs u c)))"
proof -
  obtain n bs w where rd: "uart_fifo_read os dev (min k 64) (world s) = ((n, bs), w)"
    by (metis prod.collapse)
  note r = fifo_read_link [OF law rd]
  define u where "u = upd_config c (\<lambda>cf. cf\<lparr>bytes_read := bytes_read cf + nat n\<rparr>) (s\<lparr>world := w\<rparr>)"
  have step: "work_drop_step os dev c ty k s =
      (if unat (sh_length (serial_header (serial_configs u c))) \<le> bytes_read (serial_configs u c) then
         do { s2 \<leftarrow> send_ack os dev ty (ucast (sh_sequence_number (serial_header (serial_configs u c)))) 3 u;
              Some (True, upd_config c reset_parser s2) }
       else Some (True, u))"
    using rd r(1) by (simp add: work_drop_step_def u_def Let_def)
  obtain w' where "send_ack os dev ty (ucast (sh_sequence_number (serial_header (serial_configs u c)))) 3 u =
      Some (u\<lparr>world := w'\<rparr>)"
    by (rule send_ack_link [OF law])
  with step run show ?thesis
    by (cases "unat (sh_length (serial_header (serial_configs u c))) \<le> bytes_read (serial_configs u c)")
      (auto intro: that simp: u_def reset_parser_def)
qed

lemma serial_work_loop_no_handler:
  fixes os :: "'w uart_ops" and s x :: "('w, 'e) device"
  assumes "serial_work_loop os eo kc dev c ty None p s = Some x"
  shows "link_law os sent pending \<longrightarrow> ty \<noteq> SERIAL_TYPE_PROTOCOL_INFO \<longrightarrow>
     \<not> bytes_read (serial_configs s c) < unat (sh_length (serial_header (serial_configs s c)))"
proof -
  let ?P = "\<lambda>(os :: 'w uart_ops) (eo :: 'e env_ops) (kc :: kconfig) (dev :: dev) c ty
      (cbs :: ('w, 'e) client_callbacks option) (p :: ptr option)
      (s :: ('w, 'e) device) (x :: ('w, 'e) device). cbs = None \<longrightarrow> link_law os sent pending \<longrightarrow> ty \<noteq> 7 \<longrightarrow>
     \<not> bytes_read (serial_configs s c) < unat (sh_length (serial_header (serial_configs s c)))"
  have "?P os eo kc dev c ty None p s x"
  proof (rule serial_work_loop.raw_induct [where P = ?P, OF _ assms], intro impI notI)
    fix f and os :: "'w uart_ops" and eo :: "'e env_ops" and kc dev c ty cbs p
      and s x :: "('w, 'e) device"
    assume IH: "\<And>os eo kc dev c ty cbs p s x. f os eo kc dev c ty cbs p s = Some x \<Longrightarrow>
        ?P os eo kc dev c ty cbs p s x"
      and eq: "(if bytes_read (serial_configs s c) < unat (sh_length (serial_header (serial_configs s c)))
        then Option.bind (serial_work_step os eo kc dev c ty cbs p s)
          (\<lambda>x. if fst x then f os eo kc dev c ty cbs (fst (snd x)) (snd (snd x)) else Some (snd (snd x)))
        else Some s) = Some x"
      and cbs: "cbs = None" and law: "link_law os sent pending" and ty: "ty \<noteq> 7"
      and run: "bytes_read (serial_configs s c) < unat (sh_length (serial_header (serial_configs s c)))"
    obtain u where u: "work_drop_step os dev c ty
        (unat (sh_length (serial_header (serial_configs s c))) - bytes_read (serial_configs s c)) s = Some (True, u)"
      "bytes_read (serial_configs u c) < unat (sh_length (serial_header (serial_configs u c)))"
      by (rule work_drop_step_continues [OF law run])
    have "serial_work_step os eo kc dev c ty cbs p s = Some (True, p, u)"
      using u(1) ty cbs by (simp add: serial_work_step_def Let_def)
    with eq run have "f os eo kc dev c ty cbs p u = Some x" by simp
    from IH [OF this] cbs law ty u(2) show False by simp
  qed
  then show ?thesis by simp
qed

text \<open>
  C39. A frame of a type that no proxy handles makes the work handler run forever: after the
  payload has been discarded and LENGTH_TOO_LONG sent, \<open>bytes_read\<close> is back at 0 while the header
  keeps its length, so the loop condition holds again, and a FIFO read of 0 bytes does not end
  the loop.
\<close>

theorem unhandled_type_never_returns:
  assumes law: "link_law os sent pending"
    and arr: "frame_arrives pending s c dev h payload"
    and ty: "\<not> proxy_enabled kc (bh_type h)" "bh_type h \<noteq> SERIAL_TYPE_PROTOCOL_INFO"
  shows "rx_event os eo kc dev c s = None"
proof -
  have rdy: "rx_ready s c dev" and pend: "pending dev (world s) = bus_header_encode h @ payload"
    using arr by (simp_all add: frame_arrives_def)
  obtain w where w: "pending dev w = payload"
    "rx_event os eo kc dev c s = serial_work_handler os eo kc c (header_in w c h s)"
    by (rule rx_event_header [OF law rdy pend frame_arrives_next [OF arr]])
  let ?s = "header_in w c h s"
  note at = frame_arrives_at [OF arr, of w, unfolded frame_at_def]
  have "serial_work_loop os eo kc dev c (bh_type h) None None ?s = None"
  proof (rule ccontr)
    assume "serial_work_loop os eo kc dev c (bh_type h) None None ?s \<noteq> None"
    then obtain x where "serial_work_loop os eo kc dev c (bh_type h) None None ?s = Some x" by auto
    from serial_work_loop_no_handler [OF this, of sent pending] law ty(2) at show False by simp
  qed
  then show ?thesis
    using w(2) at ty by (simp add: serial_work_handler_def get_callbacks_eq Let_def)
qed

theorem unhandled_type_never_returns_witness:
  "rx_event sim_uart sim_stacks sim_kc 0 Config_serial
     (sim_device sim_kc (bus_header_encode (request_header 6 0 2) @ [65, 84])) = None"
proof -
  have arr: "frame_arrives (\<lambda>d w. sim_rx w d)
     (sim_device sim_kc (bus_header_encode (request_header 6 0 2) @ [65, 84])) Config_serial 0
     (request_header 6 0 2) [65, 84]"
    by (rule sim_frame_arrives) simp_all
  show ?thesis
    using unhandled_type_never_returns [OF sim_uart_link arr, of sim_kc sim_stacks]
    by (simp add: proxy_enabled_def)
qed

section \<open>Bytes behind a frame\<close>



section \<open>A payload in pieces\<close>

text \<open>
  \<open>arrive\<close> stands for the host's transmission and the hardware: bytes appear at the end of the
  receive FIFO.  \<open>rx_pieces\<close> is a sequence of arrivals, each followed by a receive event.
\<close>

definition arrive_law ::
  "(dev \<Rightarrow> byte list \<Rightarrow> 'w \<Rightarrow> 'w) \<Rightarrow> (dev \<Rightarrow> 'w \<Rightarrow> byte list) \<Rightarrow> (dev \<Rightarrow> 'w \<Rightarrow> byte list) \<Rightarrow> bool" where
  "arrive_law arrive sent pending \<longleftrightarrow>
     (\<forall>d bs w. pending d (arrive d bs w) = pending d w @ bs \<and> sent d (arrive d bs w) = sent d w)"

fun rx_pieces ::
  "'w uart_ops \<Rightarrow> 'e env_ops \<Rightarrow> kconfig \<Rightarrow> (dev \<Rightarrow> byte list \<Rightarrow> 'w \<Rightarrow> 'w) \<Rightarrow> dev \<Rightarrow> cfg_ptr
     \<Rightarrow> byte list list \<Rightarrow> ('w, 'e) device \<Rightarrow> ('w, 'e) device option" where
  "rx_pieces os eo kc arrive dev c [] s = Some s"
| "rx_pieces os eo kc arrive dev c (bs # bss) s =
     Option.bind (rx_event os eo kc dev c (s\<lparr>world := arrive dev bs (world s)\<rparr>))
       (rx_pieces os eo kc arrive dev c bss)"

text \<open>In the middle of a VSERIAL frame: \<open>k\<close> bytes of the payload are in the buffer.\<close>

definition vserial_mid ::
  "kconfig \<Rightarrow> ('w, 'e) device \<Rightarrow> cfg_ptr \<Rightarrow> dev \<Rightarrow> bus_header \<Rightarrow> byte list \<Rightarrow> nat \<Rightarrow> bool" where
  "vserial_mid kc s c dev h payload k \<longleftrightarrow>
     mem_ok kc s \<and> parsing_state (serial_configs s c) = PARSING_STATE_DATA \<and>
     serial_header (serial_configs s c) = device_view h \<and> \<not> work_submitted s c \<and>
     frame_at s c dev SERIAL_TYPE_VSERIAL (length payload) k \<and>
     take k (mem s Vserial_tx_buf) = take k payload"

lemma vserial_callbacks:
  "CONFIG_SERIAL_PROXY_VSERIAL kc \<Longrightarrow> serial_mux_get_callbacks eo kc SERIAL_TYPE_VSERIAL =
     Some (callbacks_of (vserial_acquire_buffer kc) vserial_commit_data (vserial_message_complete eo kc))"
  by (simp add: get_callbacks_eq proxy_enabled_def mux_callbacks_def callbacks_of_def)

lemma vserial_type: "(8 :: SerialType) \<noteq> 7" "(8 :: SerialType) < 9"
  by simp_all

lemma rx_event_mid:
  assumes "vserial_mid kc s c dev h payload k" and "CONFIG_SERIAL_PROXY_VSERIAL kc"
  shows "rx_event os eo kc dev c s =
     map_option (\<lambda>t. t\<lparr>world := uart_irq_rx_enable os dev (world t)\<rparr>)
       (serial_work_loop os eo kc dev c 8 (Some (callbacks_of (vserial_acquire_buffer kc)
          vserial_commit_data (vserial_message_complete eo kc))) None s)"
proof -
  have at: "frame_at s c dev 8 (length payload) k" using assms(1) by (simp add: vserial_mid_def)
  have "rx_event os eo kc dev c s = serial_work_handler os eo kc c s"
    using assms(1) by (simp add: vserial_mid_def rx_event_data)
  also have "\<dots> = map_option (\<lambda>t. t\<lparr>world := uart_irq_rx_enable os dev (world t)\<rparr>)
       (serial_work_loop os eo kc dev c 8 (Some (callbacks_of (vserial_acquire_buffer kc)
          vserial_commit_data (vserial_message_complete eo kc))) None s)"
    by (rule serial_work_handler_client [OF vserial_callbacks [OF assms(2)] at])
  finally show ?thesis .
qed

lemma vserial_piece:
  assumes law: "link_law os sent pending" and cfg: "CONFIG_SERIAL_PROXY_VSERIAL kc"
    and mid: "vserial_mid kc s c dev h payload k"
    and tx: "length payload \<le> CONFIG_VSERIAL_TX_BUF_SIZE kc"
    and pend: "pending dev (world s) = bs" and bs: "bs \<noteq> []" "k + length bs < length payload"
      "bs = take (length bs) (drop k payload)"
  obtains t where "rx_event os eo kc dev c s = Some t" "vserial_mid kc t c dev h payload (k + length bs)"
    "vserial_rx_ring t = vserial_rx_ring s" "pending dev (world t) = []"
    "sent dev (world t) = sent dev (world s)" "mem_fault t = mem_fault s"
    "rx_sequence_number (serial_configs t c) = rx_sequence_number (serial_configs s c)"
proof -
  note m = mid [unfolded vserial_mid_def]
  have at: "frame_at s c dev 8 (length payload) k" and mem: "mem_ok kc s" using m by auto
  obtain w where w: "serial_work_loop os eo kc dev c 8 (Some (callbacks_of (vserial_acquire_buffer kc)
        vserial_commit_data (vserial_message_complete eo kc))) None s =
       Some (received w c Vserial_tx_buf k bs s)"
    "pending dev w = []" "sent dev w = sent dev (world s)"
    by (rule vserial.next_piece [OF law mem vserial_type at tx pend bs(2,1)])
  let ?t = "(received w c Vserial_tx_buf k bs s)\<lparr>world := uart_irq_rx_enable os dev w\<rparr>"
  have fits: "length payload \<le> length (mem s Vserial_tx_buf)" using mem tx by (simp add: mem_ok_def)
  have "take (k + length bs) (mem ?t Vserial_tx_buf) = take (k + length bs) payload"
    using vserial.received_prefix [of k s payload bs w c] m bs fits by simp
  moreover have "mem_ok kc ?t"
    using mem fits bs(2) by (auto simp: mem_ok_def received_config)
  ultimately have "vserial_mid kc ?t c dev h payload (k + length bs)"
    using m bs(2) by (simp add: vserial_mid_def received_config frame_at_def) (auto simp: received_def)
  moreover have "rx_event os eo kc dev c s = Some ?t"
    using w(1) by (simp add: rx_event_mid [OF mid cfg] received_config)
  ultimately show ?thesis
    by (intro that [of ?t]) (use w in \<open>simp_all add: link_irq_rx_enable [OF law] received_config\<close>,
        simp_all add: received_def upd_config_def)
qed

lemma vserial_last_piece:
  assumes law: "link_law os sent pending" and cfg: "CONFIG_SERIAL_PROXY_VSERIAL kc"
    and mid: "vserial_mid kc s c dev h payload k" and seq: "in_sequence s c h"
    and tx: "length payload \<le> CONFIG_VSERIAL_TX_BUF_SIZE kc"
    and rx: "length (vserial_rx_ring s) + length payload \<le> CONFIG_VSERIAL_RX_BUF_SIZE kc"
    and ty: "bh_type h = SERIAL_TYPE_VSERIAL"
    and pend: "pending dev (world s) = drop k payload"
  obtains t where "rx_event os eo kc dev c s = Some t" "vserial_rx_ring t = vserial_rx_ring s @ payload"
    "link_after sent pending s c dev (success_reply h)
       (sequence_number_advance (rx_sequence_number (serial_configs s c))) t"
proof -
  note m = mid [unfolded vserial_mid_def]
  have at: "frame_at s c dev 8 (length payload) k" and mem: "mem_ok kc s" using m by auto
  have k: "k + length (drop k payload) = length payload" using at by (simp add: frame_at_def)
  let ?rx = "sequence_number_advance (rx_sequence_number (serial_configs s c))"
  let ?fin = "vserial_message_complete eo kc"
  obtain w1 w2 where w: "serial_work_loop os eo kc dev c 8 (Some (callbacks_of (vserial_acquire_buffer kc)
        vserial_commit_data ?fin)) None s =
       Some (frame_done w2 c ?rx (?fin (length payload) (received w1 c Vserial_tx_buf k (drop k payload) s)))"
    "pending dev w2 = []"
    "sent dev w2 = sent dev (world s) @ (if sh_no_ack (serial_header (serial_configs s c)) then []
        else ack_bytes 8 (sh_sequence_number (serial_header (serial_configs s c))) 0)"
    by (rule vserial.deliver_once [OF law mem vserial_type at tx pend k])
      (use seq m in \<open>simp add: in_sequence_def device_view_def\<close>)
  let ?r = "received w1 c Vserial_tx_buf k (drop k payload) s"
  let ?t = "frame_done (uart_irq_rx_enable os dev w2) c ?rx (?fin (length payload) ?r)"
  have fits: "length payload \<le> length (mem s Vserial_tx_buf)" using mem tx by (simp add: mem_ok_def)
  have prefix: "take (length payload) (mem ?r Vserial_tx_buf) = payload"
    using vserial.received_prefix [of k s payload "drop k payload" w1 c] m fits k by simp
  have ring: "vserial_rx_ring ?t = vserial_rx_ring s @ payload"
    using rx prefix by (auto simp: frame_done_def vserial_message_complete_def upd_config_def
        ring_buf_put_fits Let_def received_def split: option.splits)
  have ev: "rx_event os eo kc dev c s = Some ?t"
    using w(1) by (simp add: rx_event_mid [OF mid cfg])
  have "link_after sent pending s c dev (success_reply h) ?rx ?t"
    using w m at ty same_linkD [OF vserial_message_complete_frame(1) [of ?r eo kc "length payload"]]
    by (simp add: link_after_def link_irq_rx_enable [OF law] success_reply_def ack_bytes_encode
        device_view_def rx_ready_def received_config frame_at_def) (simp add: received_def frame_done_def)
  with ev ring show ?thesis by (intro that)
qed

lemma vserial_mid_arrive [simp]:
  "vserial_mid kc (s\<lparr>world := w\<rparr>) c dev h payload k = vserial_mid kc s c dev h payload k"
  by (simp add: vserial_mid_def frame_at_def)

lemma vserial_pieces:
  assumes law: "link_law os sent pending" and arr: "arrive_law arrive sent pending"
    and cfg: "CONFIG_SERIAL_PROXY_VSERIAL kc" and ty: "bh_type h = SERIAL_TYPE_VSERIAL"
    and tx: "length payload \<le> CONFIG_VSERIAL_TX_BUF_SIZE kc"
  shows "vserial_mid kc s c dev h payload k \<Longrightarrow> in_sequence s c h \<Longrightarrow>
     length (vserial_rx_ring s) + length payload \<le> CONFIG_VSERIAL_RX_BUF_SIZE kc \<Longrightarrow>
     pending dev (world s) = [] \<Longrightarrow> concat bss = drop k payload \<Longrightarrow> [] \<notin> set bss \<Longrightarrow>
     \<exists>t. rx_pieces os eo kc arrive dev c bss s = Some t \<and>
       vserial_rx_ring t = vserial_rx_ring s @ payload \<and>
       link_after sent pending s c dev (success_reply h)
         (sequence_number_advance (rx_sequence_number (serial_configs s c))) t"
proof (induction bss arbitrary: s k)
  case Nil
  then show ?case by (auto simp: vserial_mid_def frame_at_def)
next
  case (Cons bs bss)
  let ?s = "s\<lparr>world := arrive dev bs (world s)\<rparr>"
  have mid: "vserial_mid kc ?s c dev h payload k" and seq: "in_sequence ?s c h"
    and pend: "pending dev (world ?s) = bs" and sent: "sent dev (world ?s) = sent dev (world s)"
    and ne: "bs \<noteq> []" and cat: "drop k payload = bs @ concat bss"
    using Cons.prems arr by (auto simp: arrive_law_def in_sequence_def)
  have len: "length payload - k = length bs + length (concat bss)" using cat by (metis length_append length_drop)
  have bs: "bs = take (length bs) (drop k payload)" using cat by simp
  show ?case
  proof (cases "bss = []")
    case True
    have p: "pending dev (world ?s) = drop k payload" using pend cat True by simp
    have ring: "length (vserial_rx_ring ?s) + length payload \<le> CONFIG_VSERIAL_RX_BUF_SIZE kc"
      using Cons.prems(3) by simp
    obtain t where "rx_event os eo kc dev c ?s = Some t" "vserial_rx_ring t = vserial_rx_ring ?s @ payload"
      "link_after sent pending ?s c dev (success_reply h)
         (sequence_number_advance (rx_sequence_number (serial_configs ?s c))) t"
      by (rule vserial_last_piece [OF law cfg mid seq tx ring ty p])
    with True sent show ?thesis by (auto simp: link_after_def)
  next
    case False
    then have "concat bss \<noteq> []" using Cons.prems(6) by (cases bss) auto
    then have lt: "k + length bs < length payload" using len ne by (cases "concat bss") auto
    obtain u where u: "rx_event os eo kc dev c ?s = Some u" "vserial_mid kc u c dev h payload (k + length bs)"
      "vserial_rx_ring u = vserial_rx_ring ?s" "pending dev (world u) = []"
      "sent dev (world u) = sent dev (world ?s)" "mem_fault u = mem_fault ?s"
      "rx_sequence_number (serial_configs u c) = rx_sequence_number (serial_configs ?s c)"
      by (rule vserial_piece [OF law cfg mid tx pend ne lt bs])
    have rest: "concat bss = drop (k + length bs) payload"
      using cat by (metis append_eq_conv_conj drop_drop add.commute)
    have "\<exists>t. rx_pieces os eo kc arrive dev c bss u = Some t \<and>
       vserial_rx_ring t = vserial_rx_ring u @ payload \<and>
       link_after sent pending u c dev (success_reply h)
         (sequence_number_advance (rx_sequence_number (serial_configs u c))) t"
      using Cons.IH [OF u(2) _ _ u(4) rest] Cons.prems u seq by (auto simp: in_sequence_def)
    with u sent show ?thesis by (auto simp: link_after_def)
  qed
qed

text \<open>
  C10. A VSERIAL frame may arrive in any number of pieces, the header first and the payload cut
  anywhere: after the last piece the ring holds the payload, exactly as if it had come at once, and
  the host gets one acknowledgement.
\<close>

theorem vserial_fragmentation:
  assumes law: "link_law os sent pending" and arr: "arrive_law arrive sent pending"
    and mem: "mem_ok kc s" and cfg: "CONFIG_SERIAL_PROXY_VSERIAL kc" and rdy: "rx_ready s c dev"
    and empty: "pending dev (world s) = []"
    and h: "bh_type h = SERIAL_TYPE_VSERIAL" "length payload = unat (bh_length h)" "in_sequence s c h"
    and len: "0 < length payload" "length payload \<le> SERIAL_MAX_PAYLOAD_LEN"
    and tx: "length payload \<le> CONFIG_VSERIAL_TX_BUF_SIZE kc"
    and rx: "length (vserial_rx_ring s) + length payload \<le> CONFIG_VSERIAL_RX_BUF_SIZE kc"
    and pieces: "concat bss = payload" "[] \<notin> set bss"
  shows "\<exists>t. rx_pieces os eo kc arrive dev c (bus_header_encode h # bss) s = Some t \<and>
     vserial_rx_ring t = vserial_rx_ring s @ payload \<and>
     link_after sent pending s c dev (success_reply h)
       (sequence_number_advance (rx_sequence_number (serial_configs s c))) t"
proof -
  let ?s = "s\<lparr>world := arrive dev (bus_header_encode h) (world s)\<rparr>"
  have rdy': "rx_ready ?s c dev" using rdy by (simp add: rx_ready_def)
  have pend: "pending dev (world ?s) = bus_header_encode h @ []"
    and sent: "sent dev (world ?s) = sent dev (world s)"
    using arr empty by (simp_all add: arrive_law_def)
  have nz: "0 < unat (bh_length h)" using h(2) len(1) by linarith
  then have nxt: "header_next_state (device_view h) = PARSING_STATE_DATA"
    using h(2) len(2) by (auto simp: header_next_state_def device_view_def)
  obtain w where w: "pending dev w = []" "sent dev w = sent dev (world ?s)"
    "rx_event os eo kc dev c ?s = serial_work_handler os eo kc c (header_in w c h ?s)"
    by (rule rx_event_header [OF law rdy' pend nxt])
  let ?u = "header_in w c h ?s"
  have at: "frame_at ?u c dev 8 (length payload) 0"
    using rdy h nz by (simp add: rx_ready_def frame_at_def device_view_def)
  have acq: "vserial_acquire_buffer kc None (length payload - 0) ?u = (True, Some (Vserial_tx_buf, 0))"
    using tx by (simp add: vserial_acquire_buffer_def)
  obtain w' where w': "serial_work_loop os eo kc dev c 8 (Some (callbacks_of (vserial_acquire_buffer kc)
        vserial_commit_data (vserial_message_complete eo kc))) None ?u = Some (?u\<lparr>world := w'\<rparr>)"
    "pending dev w' = []" "sent dev w' = sent dev (world ?u)"
    by (rule serial_work_loop_starved [where acq = "vserial_acquire_buffer kc", OF law vserial_type at acq])
      (use w in simp)
  let ?v = "?u\<lparr>world := uart_irq_rx_enable os dev w'\<rparr>"
  have ev: "rx_event os eo kc dev c ?s = Some ?v"
    using w(3) w'(1) serial_work_handler_client [OF vserial_callbacks [OF cfg] at, of os eo] by simp
  have mid: "vserial_mid kc ?v c dev h payload 0"
    using at mem by (simp add: vserial_mid_def frame_at_def device_view_def)
  have "\<exists>t. rx_pieces os eo kc arrive dev c bss ?v = Some t \<and>
       vserial_rx_ring t = vserial_rx_ring ?v @ payload \<and>
       link_after sent pending ?v c dev (success_reply h)
         (sequence_number_advance (rx_sequence_number (serial_configs ?v c))) t"
    by (rule vserial_pieces [OF law arr cfg h(1) tx mid])
      (use h(3) rx w w' pieces in \<open>auto simp: in_sequence_def link_irq_rx_enable [OF law]\<close>)
  then show ?thesis
    using ev w w' sent by (auto simp: link_after_def link_irq_rx_enable [OF law])
qed

theorem vserial_fragmentation_witness:
  "\<exists>t. rx_pieces sim_uart sim_stacks sim_kc
        (\<lambda>d bs w. w\<lparr>sim_rx := (sim_rx w)(d := sim_rx w d @ bs)\<rparr>) 0 Config_serial
        [bus_header_encode (request_header 8 0 5), [1], [2, 3], [4, 5]] (sim_device sim_kc []) = Some t \<and>
     vserial_rx_ring t = [1, 2, 3, 4, 5] \<and> sim_tx (world t) 0 = bus_header_encode (ack_frame 8 0 0)"
proof -
  have arr: "arrive_law (\<lambda>d bs w. w\<lparr>sim_rx := (sim_rx w)(d := sim_rx w d @ bs)\<rparr>)
      (\<lambda>d w. sim_tx w d) (\<lambda>d w. sim_rx w d)"
    by (simp add: arrive_law_def)
  have len: "length ([1, 2, 3, 4, 5] :: byte list) = unat (bh_length (request_header 8 0 5))"
    by (simp add: request_header_def)
  show ?thesis
    using vserial_fragmentation [OF sim_uart_link arr _ _ _ _ _ len, of sim_kc "sim_device sim_kc []"
        Config_serial 0 "[[1], [2, 3], [4, 5]]" sim_stacks]
    by (auto simp: sim_in_sequence link_after_def success_reply_def simp del: rx_pieces.simps)
qed

end
