(* ===== verification/Net_If_Mgmt.thy ===== *)
theory Net_If_Mgmt
  imports Serial
begin

text \<open>
  \<open>device/net_if_mgmt_proxy.c\<close>: enumeration and control of the network interfaces on behalf of
  the host.  The three link callbacks are in theory \<open>Message_Buffers\<close>; here are the enumeration
  callback, the request switch and the proxy's thread.

  The network stack (\<open>net_if_*\<close>) and the protobuf codec (\<open>pb_decode\<close>, \<open>pb_encode\<close> with the tables
  nanopb generates) are not part of the sources: they are fields of \<open>net_if_ops\<close>, functions over
  the environment state \<open>'e\<close> of the device.  Interfaces are handles; enumeration values stay
  32-bit numbers, as nanopb keeps them.  A generated structure with a \<open>oneof\<close> is a datatype whose
  constructors are the tags.
\<close>

section \<open>Messages\<close>

abbreviation (input) NET_IF_TYPE_UNKNOWN :: u32 where "NET_IF_TYPE_UNKNOWN \<equiv> 0"
abbreviation (input) NET_IF_TYPE_WIFI :: u32 where "NET_IF_TYPE_WIFI \<equiv> 1"

record NetworkInterface =
  ni_index :: u32
  ni_net_if_type :: u32
  ni_mac_address :: "byte list"
  ni_offload_supported :: bool
  ni_mtu :: u32
  ni_name :: "byte list"
  ni_oper_state :: u32
  ni_admin_up :: bool
  ni_carrier_ok :: bool
  ni_dormant :: bool
  ni_promisc :: bool

definition NetworkInterface_init_zero :: NetworkInterface where
  "NetworkInterface_init_zero =
     \<lparr>ni_index = 0, ni_net_if_type = 0, ni_mac_address = replicate 6 0, ni_offload_supported = False,
      ni_mtu = 0, ni_name = [], ni_oper_state = 0, ni_admin_up = False, ni_carrier_ok = False,
      ni_dormant = False, ni_promisc = False\<rparr>"

datatype NetIfRequest_payload =
    Get_interfaces (gi_net_if_type: u32) (gi_index: u32)
  | Set_admin_state u32 bool
  | Set_carrier_state u32 bool
  | Set_dormant_state u32 bool
  | Set_flag u32 u32 bool
  | Get_flag u32 u32
  | Get_oper_state u32
  | Get_name u32
  | Get_mtu u32
  | Other_payload nat

record NetIfRequest =
  nreq_request_id :: u32
  nreq_payload :: NetIfRequest_payload

datatype NetIfResponse_payload =
    Interfaces "NetworkInterface list"
  | Flag u32 bool
  | Oper_state u32
  | Name "byte list"
  | Mtu u32

record NetIfResponse =
  nresp_request_id :: u32
  nresp_status :: int
  nresp_payload :: "NetIfResponse_payload option"

definition NetIfResponse_init_zero :: NetIfResponse where
  "NetIfResponse_init_zero = \<lparr>nresp_request_id = 0, nresp_status = 0, nresp_payload = None\<rparr>"

text \<open>The network stack and the codec.  \<open>net_ifs_of\<close> lists the interfaces in the order
  \<open>net_if_foreach\<close> visits them; \<open>net_if_get_name\<close> gives the string it stores, if it stores one.\<close>

record 'e net_if_ops =
  NetIfRequest_decode :: "byte list \<Rightarrow> NetIfRequest option"
  NetIfResponse_encode :: "nat \<Rightarrow> NetIfResponse \<Rightarrow> byte list option"
  net_ifs_of :: "'e \<Rightarrow> nat list"
  net_if_get_by_iface :: "nat \<Rightarrow> 'e \<Rightarrow> int"
  net_if_get_by_index :: "int \<Rightarrow> 'e \<Rightarrow> nat option"
  net_if_get_mtu :: "nat \<Rightarrow> 'e \<Rightarrow> u16"
  net_if_is_admin_up :: "nat \<Rightarrow> 'e \<Rightarrow> bool"
  net_if_is_carrier_ok :: "nat \<Rightarrow> 'e \<Rightarrow> bool"
  net_if_is_dormant :: "nat \<Rightarrow> 'e \<Rightarrow> bool"
  net_if_oper_state :: "nat \<Rightarrow> 'e \<Rightarrow> u32"
  net_if_is_wifi :: "nat \<Rightarrow> 'e \<Rightarrow> bool"
  net_if_get_link_addr :: "nat \<Rightarrow> 'e \<Rightarrow> byte list option"
  net_if_get_name :: "nat \<Rightarrow> nat \<Rightarrow> 'e \<Rightarrow> byte list option"
  net_if_up :: "nat \<Rightarrow> 'e \<Rightarrow> int \<times> 'e"
  net_if_down :: "nat \<Rightarrow> 'e \<Rightarrow> int \<times> 'e"
  net_if_carrier_on :: "nat \<Rightarrow> 'e \<Rightarrow> 'e"
  net_if_carrier_off :: "nat \<Rightarrow> 'e \<Rightarrow> 'e"
  net_if_dormant_on :: "nat \<Rightarrow> 'e \<Rightarrow> 'e"
  net_if_dormant_off :: "nat \<Rightarrow> 'e \<Rightarrow> 'e"
  net_if_flag_set :: "nat \<Rightarrow> u32 \<Rightarrow> 'e \<Rightarrow> 'e"
  net_if_flag_clear :: "nat \<Rightarrow> u32 \<Rightarrow> 'e \<Rightarrow> 'e"
  net_if_flag_is_set :: "nat \<Rightarrow> u32 \<Rightarrow> 'e \<Rightarrow> bool"

section \<open>Enumeration\<close>

record iface_enum_ctx =
  ctx_net_ifs :: "NetworkInterface list"
  ctx_net_ifs_count :: nat
  filter_type :: u32
  filter_index :: u32

text \<open>
  The callback of \<open>net_if_foreach\<close>.  A slot is filled (\<open>iface_fill\<close>) before the type filter is
  applied, so a rejected interface leaves its data in the slot the next one will use; address and
  name (\<open>iface_finish\<close>) are stored only for an interface that is reported.
\<close>

definition iface_fill :: "'e net_if_ops \<Rightarrow> 'e \<Rightarrow> nat \<Rightarrow> int \<Rightarrow> NetworkInterface \<Rightarrow> NetworkInterface" where
  "iface_fill no e iface idx ni =
     ni\<lparr>ni_index := word_of_int idx,
        ni_mtu := ucast (net_if_get_mtu no iface e),
        ni_admin_up := net_if_is_admin_up no iface e,
        ni_carrier_ok := net_if_is_carrier_ok no iface e,
        ni_dormant := net_if_is_dormant no iface e,
        ni_oper_state := net_if_oper_state no iface e,
        ni_net_if_type :=
          (if net_if_is_wifi no iface e then NET_IF_TYPE_WIFI else NET_IF_TYPE_UNKNOWN)\<rparr>"

definition iface_finish :: "'e net_if_ops \<Rightarrow> 'e \<Rightarrow> nat \<Rightarrow> NetworkInterface \<Rightarrow> NetworkInterface" where
  "iface_finish no e iface ni =
     (let ni1 = (case net_if_get_link_addr no iface e of
                   Some addr \<Rightarrow>
                     if length addr \<le> 6
                     then ni\<lparr>ni_mac_address := overwrite 0 addr (ni_mac_address ni)\<rparr> else ni
                 | None \<Rightarrow> ni)
      in case net_if_get_name no iface 16 e of
           Some name \<Rightarrow> ni1\<lparr>ni_name := name\<rparr> | None \<Rightarrow> ni1)"

definition iface_enum_cb :: "'e net_if_ops \<Rightarrow> 'e \<Rightarrow> nat \<Rightarrow> iface_enum_ctx \<Rightarrow> iface_enum_ctx" where
  "iface_enum_cb no e iface ctx =
     (if length (ctx_net_ifs ctx) \<le> ctx_net_ifs_count ctx then ctx
      else
        let idx = net_if_get_by_iface no iface e in
        if filter_index ctx \<noteq> 0 \<and> word_of_int idx \<noteq> filter_index ctx then ctx
        else
          let i = ctx_net_ifs_count ctx;
              ni = iface_fill no e iface idx (ctx_net_ifs ctx ! i)
          in if filter_type ctx \<noteq> NET_IF_TYPE_UNKNOWN \<and> ni_net_if_type ni \<noteq> filter_type ctx
             then ctx\<lparr>ctx_net_ifs := (ctx_net_ifs ctx)[i := ni]\<rparr>
             else ctx\<lparr>ctx_net_ifs := (ctx_net_ifs ctx)[i := iface_finish no e iface ni],
                      ctx_net_ifs_count := i + 1\<rparr>)"

definition net_if_foreach :: "'e net_if_ops \<Rightarrow> 'e \<Rightarrow> iface_enum_ctx \<Rightarrow> iface_enum_ctx" where
  "net_if_foreach no e ctx = foldl (\<lambda>c iface. iface_enum_cb no e iface c) ctx (net_ifs_of no e)"

section \<open>Requests\<close>

text \<open>The switch over \<open>req.which_payload\<close>.\<close>

definition with_iface ::
  "'e net_if_ops \<Rightarrow> u32 \<Rightarrow> NetIfResponse \<Rightarrow> 'e \<Rightarrow> (nat \<Rightarrow> NetIfResponse \<times> 'e) \<Rightarrow> NetIfResponse \<times> 'e" where
  "with_iface no index resp e f =
     (case net_if_get_by_index no (sint index) e of
        None \<Rightarrow> (resp\<lparr>nresp_status := - ENODEV\<rparr>, e)
      | Some iface \<Rightarrow> f iface)"

fun net_if_respond ::
  "'e net_if_ops \<Rightarrow> NetIfRequest_payload \<Rightarrow> NetIfResponse \<Rightarrow> 'e \<Rightarrow> NetIfResponse \<times> 'e" where
  "net_if_respond no (Get_interfaces ty index) resp e =
     (let ctx = net_if_foreach no e
            \<lparr>ctx_net_ifs = replicate 4 NetworkInterface_init_zero, ctx_net_ifs_count = 0,
             filter_type = ty, filter_index = index\<rparr>
      in (resp\<lparr>nresp_payload := Some (Interfaces (take (ctx_net_ifs_count ctx) (ctx_net_ifs ctx))),
               nresp_status := 0\<rparr>, e))"
| "net_if_respond no (Set_admin_state index admin_up) resp e =
     with_iface no index resp e (\<lambda>iface.
       case (if admin_up then net_if_up no iface e else net_if_down no iface e) of
         (ret, e1) \<Rightarrow> (resp\<lparr>nresp_status := ret\<rparr>, e1))"
| "net_if_respond no (Set_carrier_state index on) resp e =
     with_iface no index resp e (\<lambda>iface.
       (resp\<lparr>nresp_status := 0\<rparr>,
        if on then net_if_carrier_on no iface e else net_if_carrier_off no iface e))"
| "net_if_respond no (Set_dormant_state index dormant) resp e =
     with_iface no index resp e (\<lambda>iface.
       (resp\<lparr>nresp_status := 0\<rparr>,
        if dormant then net_if_dormant_on no iface e else net_if_dormant_off no iface e))"
| "net_if_respond no (Set_flag index flag on) resp e =
     with_iface no index resp e (\<lambda>iface.
       (resp\<lparr>nresp_status := 0\<rparr>,
        if on then net_if_flag_set no iface flag e else net_if_flag_clear no iface flag e))"
| "net_if_respond no (Get_flag index flag) resp e =
     with_iface no index resp e (\<lambda>iface.
       (resp\<lparr>nresp_payload := Some (Flag flag (net_if_flag_is_set no iface flag e)),
             nresp_status := 0\<rparr>, e))"
| "net_if_respond no (Get_oper_state index) resp e =
     with_iface no index resp e (\<lambda>iface.
       (resp\<lparr>nresp_payload := Some (Oper_state (net_if_oper_state no iface e)), nresp_status := 0\<rparr>, e))"
| "net_if_respond no (Get_name index) resp e =
     with_iface no index resp e (\<lambda>iface.
       (resp\<lparr>nresp_payload := Some (Name (case net_if_get_name no iface 16 e of
                                            Some name \<Rightarrow> name | None \<Rightarrow> [])),
             nresp_status := 0\<rparr>, e))"
| "net_if_respond no (Get_mtu index) resp e =
     with_iface no index resp e (\<lambda>iface.
       (resp\<lparr>nresp_payload := Some (Mtu (ucast (net_if_get_mtu no iface e))), nresp_status := 0\<rparr>, e))"
| "net_if_respond no (Other_payload tag) resp e = (resp\<lparr>nresp_status := - ENOTSUP\<rparr>, e)"

text \<open>
  The response structure of a request, and the whole of \<open>process_net_if_request\<close>: the bytes it
  leaves in the response buffer (none when the encoder fails, \<open>*resp_len_io = 0\<close>).
\<close>

definition net_if_response :: "'e net_if_ops \<Rightarrow> byte list \<Rightarrow> 'e \<Rightarrow> NetIfResponse \<times> 'e" where
  "net_if_response no buf e =
     (case NetIfRequest_decode no buf of
        None \<Rightarrow> (NetIfResponse_init_zero\<lparr>nresp_status := - EBADMSG\<rparr>, e)
      | Some req \<Rightarrow>
          net_if_respond no (nreq_payload req)
            (NetIfResponse_init_zero\<lparr>nresp_request_id := nreq_request_id req\<rparr>) e)"

definition process_net_if_request :: "'e net_if_ops \<Rightarrow> byte list \<Rightarrow> nat \<Rightarrow> 'e \<Rightarrow> byte list \<times> 'e" where
  "process_net_if_request no buf resp_len e =
     (case net_if_response no buf e of (resp, e1) \<Rightarrow>
        (case NetIfResponse_encode no resp_len resp of Some out \<Rightarrow> out | None \<Rightarrow> [], e1))"

section \<open>The thread\<close>

text \<open>
  One round of the thread's loop in the two parts another context can run between: serving the
  request, and going back to the event.  \<open>k_event_wait\<close> is called with \<open>reset = true\<close>, which
  clears the tracked events before it waits.  Reading a request longer than its buffer is
  recorded as a fault.
\<close>

definition net_if_mgmt_serve ::
  "'w uart_ops \<Rightarrow> kconfig \<Rightarrow> 'e net_if_ops \<Rightarrow> ('w, 'e) device \<Rightarrow> ('w, 'e) device option" where
  "net_if_mgmt_serve os kc no s =
     (case process_net_if_request no
             (take (net_if_mgmt_message_length s) (mem s Net_if_mgmt_rx_buffer)) 512 (env s) of
        (resp, e1) \<Rightarrow>
          let s1 = s\<lparr>env := e1,
                     mem_fault := mem_fault s \<or>
                       length (mem s Net_if_mgmt_rx_buffer) < net_if_mgmt_message_length s\<rparr>
          in if 0 < length resp
             then map_option snd (serial_mux_send os kc SERIAL_TYPE_NET_IF_MGMT (Some resp) (length resp) s1)
             else Some s1)"

definition net_if_mgmt_rewait :: "('w, 'e) device \<Rightarrow> ('w, 'e) device" where
  "net_if_mgmt_rewait s = s\<lparr>net_if_mgmt_message_length := 0, net_if_mgmt_event := False\<rparr>"

definition net_if_mgmt_thread_round ::
  "'w uart_ops \<Rightarrow> kconfig \<Rightarrow> 'e net_if_ops \<Rightarrow> ('w, 'e) device \<Rightarrow> ('w, 'e) device option" where
  "net_if_mgmt_thread_round os kc no s =
     (if net_if_mgmt_event s then map_option net_if_mgmt_rewait (net_if_mgmt_serve os kc no s)
      else Some s)"

section \<open>Enumeration refines a filter\<close>

text \<open>What an interface is reported as, and which interfaces a request selects.\<close>

definition iface_matches :: "'e net_if_ops \<Rightarrow> 'e \<Rightarrow> u32 \<Rightarrow> u32 \<Rightarrow> nat \<Rightarrow> bool" where
  "iface_matches no e ty index iface \<longleftrightarrow>
     (index = 0 \<or> word_of_int (net_if_get_by_iface no iface e) = index) \<and>
     (ty = NET_IF_TYPE_UNKNOWN \<or> ty = NET_IF_TYPE_WIFI \<and> net_if_is_wifi no iface e)"

definition iface_report :: "'e net_if_ops \<Rightarrow> 'e \<Rightarrow> nat \<Rightarrow> NetworkInterface" where
  "iface_report no e iface =
     \<lparr>ni_index = word_of_int (net_if_get_by_iface no iface e),
      ni_net_if_type = (if net_if_is_wifi no iface e then NET_IF_TYPE_WIFI else NET_IF_TYPE_UNKNOWN),
      ni_mac_address =
        (case net_if_get_link_addr no iface e of
           Some a \<Rightarrow> if length a \<le> 6 then a @ replicate (6 - length a) 0 else replicate 6 0
         | None \<Rightarrow> replicate 6 0),
      ni_offload_supported = False, ni_mtu = ucast (net_if_get_mtu no iface e),
      ni_name = (case net_if_get_name no iface 16 e of Some n \<Rightarrow> n | None \<Rightarrow> []),
      ni_oper_state = net_if_oper_state no iface e, ni_admin_up = net_if_is_admin_up no iface e,
      ni_carrier_ok = net_if_is_carrier_ok no iface e, ni_dormant = net_if_is_dormant no iface e,
      ni_promisc = False\<rparr>"

text \<open>A slot that no reported interface has used: only fields every interface sets may be stale.\<close>

definition slot_clean :: "NetworkInterface \<Rightarrow> bool" where
  "slot_clean ni \<longleftrightarrow> ni_mac_address ni = replicate 6 0 \<and> ni_name ni = [] \<and>
     \<not> ni_offload_supported ni \<and> \<not> ni_promisc ni"

definition enum_inv ::
  "'e net_if_ops \<Rightarrow> 'e \<Rightarrow> u32 \<Rightarrow> u32 \<Rightarrow> nat list \<Rightarrow> iface_enum_ctx \<Rightarrow> bool" where
  "enum_inv no e ty index seen ctx \<longleftrightarrow>
     filter_type ctx = ty \<and> filter_index ctx = index \<and> length (ctx_net_ifs ctx) = 4 \<and>
     take (ctx_net_ifs_count ctx) (ctx_net_ifs ctx) =
       take 4 (map (iface_report no e) (filter (iface_matches no e ty index) seen)) \<and>
     ctx_net_ifs_count ctx \<le> 4 \<and>
     (\<forall>i < 4. ctx_net_ifs_count ctx \<le> i \<longrightarrow> slot_clean (ctx_net_ifs ctx ! i))"

lemma enum_inv_count:
  assumes "enum_inv no e ty index seen ctx"
  shows "ctx_net_ifs_count ctx = min 4 (length (filter (iface_matches no e ty index) seen))"
proof -
  have "length (take (ctx_net_ifs_count ctx) (ctx_net_ifs ctx)) =
      length (take 4 (map (iface_report no e) (filter (iface_matches no e ty index) seen)))"
    using assms by (simp only: enum_inv_def)
  then show ?thesis using assms by (auto simp: enum_inv_def)
qed

lemma slot_clean_fill [simp]: "slot_clean (iface_fill no e iface idx ni) = slot_clean ni"
  by (simp add: slot_clean_def iface_fill_def)

lemma type_of_fill [simp]:
  "ni_net_if_type (iface_fill no e iface idx ni) = (if net_if_is_wifi no iface e then 1 else 0)"
  by (simp add: iface_fill_def)

lemma iface_finish_fill:
  "slot_clean ni \<Longrightarrow>
     iface_finish no e iface (iface_fill no e iface (net_if_get_by_iface no iface e) ni) =
       iface_report no e iface"
  by (cases ni) (auto simp: slot_clean_def iface_finish_def iface_fill_def iface_report_def
      overwrite_def split: option.splits)

text \<open>A visit fills the current slot with the report of the interface, or leaves the list as it was.\<close>

lemma iface_enum_cb_cases:
  assumes inv: "enum_inv no e ty index seen ctx" and room: "ctx_net_ifs_count ctx < 4"
  shows "if iface_matches no e ty index iface
     then iface_enum_cb no e iface ctx =
            ctx\<lparr>ctx_net_ifs := (ctx_net_ifs ctx)[ctx_net_ifs_count ctx := iface_report no e iface],
                ctx_net_ifs_count := ctx_net_ifs_count ctx + 1\<rparr>
     else \<exists>ni. slot_clean ni \<and>
            iface_enum_cb no e iface ctx = ctx\<lparr>ctx_net_ifs := (ctx_net_ifs ctx)[ctx_net_ifs_count ctx := ni]\<rparr>"
proof -
  let ?ni = "ctx_net_ifs ctx ! ctx_net_ifs_count ctx"
  have clean: "slot_clean ?ni" and len: "length (ctx_net_ifs ctx) = 4"
    and flt: "filter_type ctx = ty" "filter_index ctx = index"
    using inv room by (simp_all add: enum_inv_def)
  have same: "ctx = ctx\<lparr>ctx_net_ifs := (ctx_net_ifs ctx)[ctx_net_ifs_count ctx := ?ni]\<rparr>"
    by simp
  show ?thesis
  proof (cases "index \<noteq> 0 \<and> word_of_int (net_if_get_by_iface no iface e) \<noteq> index")
    case True
    then have "iface_enum_cb no e iface ctx = ctx" "\<not> iface_matches no e ty index iface"
      using room len flt by (auto simp: iface_enum_cb_def iface_matches_def)
    with clean same show ?thesis by auto
  next
    case False
    with clean room len flt show ?thesis
      by (auto simp: iface_enum_cb_def iface_matches_def iface_finish_fill Let_def
          intro!: exI [of _ "iface_fill no e iface (net_if_get_by_iface no iface e) ?ni"])
  qed
qed

lemma enum_inv_step:
  assumes inv: "enum_inv no e ty index seen ctx"
  shows "enum_inv no e ty index (seen @ [iface]) (iface_enum_cb no e iface ctx)"
proof (cases "ctx_net_ifs_count ctx < 4")
  case False
  then have "4 \<le> length (filter (iface_matches no e ty index) seen)"
    using enum_inv_count [OF inv] by simp
  moreover have "iface_enum_cb no e iface ctx = ctx"
    using False inv by (simp add: iface_enum_cb_def enum_inv_def)
  ultimately show ?thesis using inv by (simp add: enum_inv_def)
next
  case True
  let ?i = "ctx_net_ifs_count ctx" and ?L = "filter (iface_matches no e ty index) seen"
  have L: "length ?L = ?i" using enum_inv_count [OF inv] True by simp
  have take: "take ?i (ctx_net_ifs ctx) = map (iface_report no e) ?L"
    using inv L True by (simp add: enum_inv_def)
  have len: "length (ctx_net_ifs ctx) = 4" using inv by (simp add: enum_inv_def)
  have upd: "take (Suc ?i) ((ctx_net_ifs ctx)[?i := r]) = map (iface_report no e) ?L @ [r]" for r
    using take len True by (simp add: take_Suc_conv_app_nth)
  have "enum_inv no e ty index (seen @ [iface])
      (ctx\<lparr>ctx_net_ifs := (ctx_net_ifs ctx)[?i := iface_report no e iface], ctx_net_ifs_count := ?i + 1\<rparr>)"
    if "iface_matches no e ty index iface"
    using inv that L True upd by (auto simp: enum_inv_def nth_list_update)
  moreover have "enum_inv no e ty index (seen @ [iface]) (ctx\<lparr>ctx_net_ifs := (ctx_net_ifs ctx)[?i := ni]\<rparr>)"
    if "\<not> iface_matches no e ty index iface" "slot_clean ni" for ni
    using inv that by (auto simp: enum_inv_def nth_list_update)
  ultimately show ?thesis
    using iface_enum_cb_cases [OF inv True, of iface] by (auto split: if_splits)
qed

lemma net_if_foreach_inv:
  assumes "enum_inv no e ty index seen ctx"
  shows "enum_inv no e ty index (seen @ ifaces) (foldl (\<lambda>c iface. iface_enum_cb no e iface c) ctx ifaces)"
  using assms
proof (induction ifaces arbitrary: seen ctx)
  case (Cons i rest)
  then show ?case using Cons.IH [OF enum_inv_step [OF Cons.prems, of i]] by simp
qed simp

lemma enum_inv_init:
  "enum_inv no e ty index []
     \<lparr>ctx_net_ifs = replicate 4 NetworkInterface_init_zero, ctx_net_ifs_count = 0,
      filter_type = ty, filter_index = index\<rparr>"
  by (simp add: enum_inv_def slot_clean_def NetworkInterface_init_zero_def)

text \<open>
  C25. The enumeration request answers with exactly the interfaces the request selects, in the
  order the stack lists them, at most four of them, each described completely by its own data:
  although an interface that fails the type filter has already written to the slot, nothing of it
  shows in the report of the interface that takes the slot over.  The stack is left unchanged.
\<close>

theorem get_interfaces_reports_matching:
  "net_if_respond no (Get_interfaces ty index) resp e =
     (resp\<lparr>nresp_payload := Some (Interfaces (take 4
              (map (iface_report no e) (filter (iface_matches no e ty index) (net_ifs_of no e))))),
           nresp_status := 0\<rparr>, e)"
  using net_if_foreach_inv [OF enum_inv_init, of no e ty index "net_ifs_of no e"]
  by (simp add: net_if_foreach_def enum_inv_def Let_def)

end
