(* ===== verification/Net_If_Service.thy ===== *)
theory Net_If_Service
  imports Device_Streams Net_If_Mgmt
begin

text \<open>
  A network interface request from the wire to the response on the wire: the serial layer
  delivers it, the proxy's thread decodes it, runs it against the network stack and sends the
  response through the multiplexer.
\<close>

text \<open>The outgoing traffic of a type goes to a registered interface.\<close>

definition mux_routes :: "kconfig \<Rightarrow> ('w, 'e) device \<Rightarrow> SerialType \<Rightarrow> cfg_ptr \<Rightarrow> bool" where
  "mux_routes kc s ty c \<longleftrightarrow> registered (mux_ifaces s (serial_mux_route_for_type kc ty)) \<and>
     mux_config (mux_ifaces s (serial_mux_route_for_type kc ty)) = Some c"

text \<open>The encoder stays inside the buffer it is given.\<close>

definition encoder_bounded :: "'e net_if_ops \<Rightarrow> bool" where
  "encoder_bounded no \<longleftrightarrow>
     (\<forall>n resp out. NetIfResponse_encode no n resp = Some out \<longrightarrow> length out \<le> n)"

lemma process_net_if_request_bounded:
  "encoder_bounded no \<Longrightarrow> length (fst (process_net_if_request no buf n e)) \<le> n"
  by (auto simp: process_net_if_request_def encoder_bounded_def split: prod.splits option.splits)

text \<open>A message sent through the multiplexer is one frame with the next transmit number.\<close>

lemma serial_mux_send_ok:
  assumes law: "link_law os sent pending" and route: "mux_routes kc s ty c"
    and dev: "serial_dev (serial_configs s c) = Some dev" and len: "length p \<le> SERIAL_MAX_PAYLOAD_LEN"
  obtains w where
    "serial_mux_send os kc ty (Some p) (length p) s =
       Some (0, upd_config c
         (\<lambda>cf. cf\<lparr>tx_sequence_number := sequence_number_advance (tx_sequence_number cf)\<rparr>) (s\<lparr>world := w\<rparr>))"
    "sent dev w = sent dev (world s) @
       bus_header_encode (frame_header ty ERROR_TYPE_NO_ERROR False
         (tx_sequence_number (serial_configs s c)) (length p)) @ p"
    "pending dev w = pending dev (world s)"
proof (rule serial_send_frame_ok [OF law dev len, of ty ERROR_TYPE_NO_ERROR False])
qed (use route in \<open>auto simp: serial_mux_send_def mux_routes_def Let_def intro!: that\<close>)

definition response_frame :: "SerialType \<Rightarrow> byte \<Rightarrow> byte list \<Rightarrow> byte list" where
  "response_frame ty seq out =
     (if out = [] then []
      else bus_header_encode (frame_header ty ERROR_TYPE_NO_ERROR False seq (length out)) @ out)"

lemma net_if_mgmt_serve_ok:
  assumes law: "link_law os sent pending" and route: "mux_routes kc s SERIAL_TYPE_NET_IF_MGMT c"
    and dev: "serial_dev (serial_configs s c) = Some dev" and enc: "encoder_bounded no"
    and mem: "mem_ok kc s" and len: "net_if_mgmt_message_length s \<le> 512"
    and proc: "process_net_if_request no
        (take (net_if_mgmt_message_length s) (mem s Net_if_mgmt_rx_buffer)) 512 (env s) = (out, e1)"
  obtains t where "net_if_mgmt_serve os kc no s = Some t" "env t = e1"
    "sent dev (world t) = sent dev (world s) @
       response_frame SERIAL_TYPE_NET_IF_MGMT (tx_sequence_number (serial_configs s c)) out"
    "pending dev (world t) = pending dev (world s)" "mem_fault t = mem_fault s"
    "rx_ready t c dev = rx_ready s c dev"
    "rx_sequence_number (serial_configs t c) = rx_sequence_number (serial_configs s c)"
proof -
  let ?s = "s\<lparr>env := e1\<rparr>"
  have buf: "\<not> length (mem s Net_if_mgmt_rx_buffer) < net_if_mgmt_message_length s"
    using mem len by (simp add: mem_ok_def)
  have out: "length out \<le> SERIAL_MAX_PAYLOAD_LEN"
    using process_net_if_request_bounded [OF enc, of
        "take (net_if_mgmt_message_length s) (mem s Net_if_mgmt_rx_buffer)" 512 "env s"] proc by simp
  have route': "mux_routes kc ?s SERIAL_TYPE_NET_IF_MGMT c" "serial_dev (serial_configs ?s c) = Some dev"
    using route dev by (simp_all add: mux_routes_def)
  show ?thesis
  proof (cases "out = []")
    case True
    with proc buf show ?thesis
      by (intro that [of ?s]) (simp_all add: net_if_mgmt_serve_def response_frame_def rx_ready_def)
  next
    case False
    obtain w where w: "serial_mux_send os kc 2 (Some out) (length out) ?s =
         Some (0, upd_config c
           (\<lambda>cf. cf\<lparr>tx_sequence_number := sequence_number_advance (tx_sequence_number cf)\<rparr>) (?s\<lparr>world := w\<rparr>))"
      "sent dev w = sent dev (world ?s) @
         bus_header_encode (frame_header 2 0 False (tx_sequence_number (serial_configs ?s c)) (length out)) @ out"
      "pending dev w = pending dev (world ?s)"
      by (rule serial_mux_send_ok [OF law route' out])
    with proc buf False show ?thesis
      by (intro that [of "upd_config c
           (\<lambda>cf. cf\<lparr>tx_sequence_number := sequence_number_advance (tx_sequence_number cf)\<rparr>) (?s\<lparr>world := w\<rparr>)"])
        (simp_all add: net_if_mgmt_serve_def response_frame_def rx_ready_def)
  qed
qed

lemma net_if_answered:
  assumes law: "link_law os sent pending" and mem: "mem_ok kc s"
    and cfg: "CONFIG_SERIAL_PROXY_NET_IF_MGMT kc" and idle: "net_if_mgmt_message_length s = 0"
    and arr: "frame_arrives pending s c dev h payload" and ty: "bh_type h = SERIAL_TYPE_NET_IF_MGMT"
    and seq: "in_sequence s c h" and len: "length payload \<le> 512"
    and route: "mux_routes kc s SERIAL_TYPE_NET_IF_MGMT c" and enc: "encoder_bounded no"
    and proc: "process_net_if_request no payload 512 (env s) = (out, e1)"
  obtains t u where "rx_event os eo kc dev c s = Some t"
    "sent dev (world t) = sent dev (world s) @ success_reply h @
        (if 256 < length payload
         then bus_header_encode (ack_frame SERIAL_TYPE_NET_IF_MGMT (bh_seq h) ERROR_TYPE_OUT_OF_BUFFERS) else [])"
    "net_if_mgmt_thread_round os kc no t = Some u"
    "sent dev (world u) = sent dev (world t) @
        response_frame SERIAL_TYPE_NET_IF_MGMT (tx_sequence_number (serial_configs s c)) out"
    "env u = e1" "net_if_mgmt_message_length u = 0" "\<not> net_if_mgmt_event u" "rx_ready u c dev"
    "pending dev (world u) = []" "mem_fault u = mem_fault s"
    "rx_sequence_number (serial_configs u c) =
       sequence_number_advance (rx_sequence_number (serial_configs s c))"
proof (rule net_if_delivered [OF law mem cfg idle arr ty seq len, of eo])
  fix t
  assume t: "rx_event os eo kc dev c s = Some t" "net_if_mgmt_message_length t = length payload"
    "net_if_mgmt_event t" "take (length payload) (mem t Net_if_mgmt_rx_buffer) = payload"
    and link: "link_after sent pending s c dev (success_reply h @
        (if 256 < length payload then bus_header_encode (ack_frame 2 (bh_seq h) 2) else []))
       (sequence_number_advance (rx_sequence_number (serial_configs s c))) t"
    and keep: "env t = env s" "mux_ifaces t = mux_ifaces s" "mem_ok kc t"
      "tx_sequence_number (serial_configs t c) = tx_sequence_number (serial_configs s c)"
  have dev: "serial_dev (serial_configs t c) = Some dev"
    using link by (simp add: link_after_def rx_ready_def)
  obtain u where u: "net_if_mgmt_serve os kc no t = Some u" "env u = e1"
    "sent dev (world u) = sent dev (world t) @ response_frame 2 (tx_sequence_number (serial_configs t c)) out"
    "pending dev (world u) = pending dev (world t)" "mem_fault u = mem_fault t"
    "rx_ready u c dev = rx_ready t c dev"
    "rx_sequence_number (serial_configs u c) = rx_sequence_number (serial_configs t c)"
    by (rule net_if_mgmt_serve_ok [OF law _ dev enc keep(3)])
      (use route keep t len proc in \<open>simp_all add: mux_routes_def\<close>)
  have rdy: "rx_ready (net_if_mgmt_rewait u) c dev = rx_ready u c dev"
    by (simp add: rx_ready_def net_if_mgmt_rewait_def)
  have round: "net_if_mgmt_thread_round os kc no t = Some (net_if_mgmt_rewait u)"
    using t(3) u(1) by (simp add: net_if_mgmt_thread_round_def)
  show ?thesis
    by (rule that [OF t(1) _ round])
      (use link u keep(4) rdy in \<open>simp_all add: link_after_def net_if_mgmt_rewait_def\<close>)
qed

text \<open>
  A network interface request that arrives intact is answered: the host first gets the
  acknowledgement (and the spurious OUT_OF_BUFFERS for a request longer than 256 bytes), then one
  NET_IF_MGMT frame with the device's next sequence number that carries the encoded response; the
  request has run against the stack exactly once and the proxy waits for the next one.  A response
  that encodes to no bytes at all is not sent.
\<close>

lemma net_if_request_answered:
  assumes law: "link_law os sent pending" and mem: "mem_ok kc s"
    and cfg: "CONFIG_SERIAL_PROXY_NET_IF_MGMT kc" and idle: "net_if_mgmt_message_length s = 0"
    and arr: "frame_arrives pending s c dev h payload" and ty: "bh_type h = SERIAL_TYPE_NET_IF_MGMT"
    and seq: "in_sequence s c h" and len: "length payload \<le> 512"
    and route: "mux_routes kc s SERIAL_TYPE_NET_IF_MGMT c" and enc: "encoder_bounded no"
    and proc: "process_net_if_request no payload 512 (env s) = (out, e1)"
  shows "\<exists>t u. rx_event os eo kc dev c s = Some t \<and> net_if_mgmt_thread_round os kc no t = Some u \<and>
     env u = e1 \<and> net_if_mgmt_message_length u = 0 \<and> \<not> net_if_mgmt_event u \<and>
     link_after sent pending s c dev
       (success_reply h @
        (if 256 < length payload
         then bus_header_encode (ack_frame SERIAL_TYPE_NET_IF_MGMT (bh_seq h) ERROR_TYPE_OUT_OF_BUFFERS) else []) @
        response_frame SERIAL_TYPE_NET_IF_MGMT (tx_sequence_number (serial_configs s c)) out)
       (sequence_number_advance (rx_sequence_number (serial_configs s c))) u"
  by (rule net_if_answered [OF assms, of eo]) (auto simp: link_after_def)

text \<open>A concrete stack with one Wi-Fi interface, and a codec for one request.\<close>

definition sim_net_if :: "'e net_if_ops" where
  "sim_net_if =
     \<lparr>NetIfRequest_decode = (\<lambda>bs. if bs = [8, 5, 90, 2, 8, 1]
          then Some \<lparr>nreq_request_id = 5, nreq_payload = Get_mtu 1\<rparr> else None),
      NetIfResponse_encode = (\<lambda>n r. if nresp_request_id r = 5 \<and> nresp_payload r = Some (Mtu 1500) \<and> 7 \<le> n
          then Some [8, 5, 58, 3, 8, 220, 11] else None),
      net_ifs_of = (\<lambda>e. [0]), net_if_get_by_iface = (\<lambda>i e. 1),
      net_if_get_by_index = (\<lambda>n e. if n = 1 then Some 0 else None),
      net_if_get_mtu = (\<lambda>i e. 1500), net_if_is_admin_up = (\<lambda>i e. True),
      net_if_is_carrier_ok = (\<lambda>i e. True), net_if_is_dormant = (\<lambda>i e. False),
      net_if_oper_state = (\<lambda>i e. 6), net_if_is_wifi = (\<lambda>i e. True),
      net_if_get_link_addr = (\<lambda>i e. None), net_if_get_name = (\<lambda>i n e. None),
      net_if_up = (\<lambda>i e. (0, e)), net_if_down = (\<lambda>i e. (0, e)),
      net_if_carrier_on = (\<lambda>i e. e), net_if_carrier_off = (\<lambda>i e. e),
      net_if_dormant_on = (\<lambda>i e. e), net_if_dormant_off = (\<lambda>i e. e),
      net_if_flag_set = (\<lambda>i f e. e), net_if_flag_clear = (\<lambda>i f e. e),
      net_if_flag_is_set = (\<lambda>i f e. False)\<rparr>"

lemma sim_net_if_bounded: "encoder_bounded sim_net_if"
  by (auto simp: encoder_bounded_def sim_net_if_def split: if_splits)

lemma sim_net_if_mtu:
  "process_net_if_request sim_net_if [8, 5, 90, 2, 8, 1] 512 e = ([8, 5, 58, 3, 8, 220, 11], e)"
  by (simp add: process_net_if_request_def net_if_response_def sim_net_if_def with_iface_def
      NetIfResponse_init_zero_def)

lemma net_if_request_answered_witness:
  "\<exists>t u. rx_event sim_uart sim_stacks sim_kc 0 Config_serial
        (sim_device sim_kc (bus_header_encode (request_header 2 0 6) @ [8, 5, 90, 2, 8, 1])) = Some t \<and>
     net_if_mgmt_thread_round sim_uart sim_kc sim_net_if t = Some u \<and>
     sim_tx (world u) 0 = bus_header_encode (ack_frame 2 0 0) @
       bus_header_encode (frame_header 2 0 False 0 7) @ [8, 5, 58, 3, 8, 220, 11]"
proof -
  let ?p = "[8, 5, 90, 2, 8, 1] :: byte list"
  let ?s = "sim_device sim_kc (bus_header_encode (request_header 2 0 6) @ ?p)"
  have arr: "frame_arrives (\<lambda>d w. sim_rx w d) ?s Config_serial 0 (request_header 2 0 6) ?p"
    by (rule sim_frame_arrives) simp_all
  have route: "mux_routes sim_kc ?s 2 Config_serial" by (simp add: mux_routes_def)
  show ?thesis
    using net_if_request_answered [OF sim_uart_link _ _ _ arr _ _ _ route sim_net_if_bounded
        sim_net_if_mtu, of sim_stacks]
    by (auto simp: sim_in_sequence link_after_def success_reply_def response_frame_def sim_config_def
        frame_header_def)
qed

section \<open>Responses on every branch\<close>

text \<open>The interface a request names, and the requests that only read.\<close>

fun request_target :: "NetIfRequest_payload \<Rightarrow> u32 option" where
  "request_target (Set_admin_state i _) = Some i"
| "request_target (Set_carrier_state i _) = Some i"
| "request_target (Set_dormant_state i _) = Some i"
| "request_target (Set_flag i _ _) = Some i"
| "request_target (Get_flag i _) = Some i"
| "request_target (Get_oper_state i) = Some i"
| "request_target (Get_name i) = Some i"
| "request_target (Get_mtu i) = Some i"
| "request_target _ = None"

fun request_reads :: "NetIfRequest_payload \<Rightarrow> bool" where
  "request_reads (Set_admin_state _ _) = False"
| "request_reads (Set_carrier_state _ _) = False"
| "request_reads (Set_dormant_state _ _) = False"
| "request_reads (Set_flag _ _ _) = False"
| "request_reads _ = True"

text \<open>
  Every decoded request is answered under its own request id; a request that only reads leaves
  the stack as it was; a request for an interface that does not exist gets ENODEV, no payload, and
  has no effect; and a tag without a handler gets ENOTSUP.
\<close>

lemma net_if_response_contract:
  assumes req: "NetIfRequest_decode no buf = Some req" and resp: "net_if_response no buf e = (resp, e1)"
  shows "nresp_request_id resp = nreq_request_id req \<and>
    (request_reads (nreq_payload req) \<longrightarrow> e1 = e) \<and>
    (\<forall>i. request_target (nreq_payload req) = Some i \<and> net_if_get_by_index no (sint i) e = None \<longrightarrow>
       resp = \<lparr>nresp_request_id = nreq_request_id req, nresp_status = - ENODEV, nresp_payload = None\<rparr> \<and> e1 = e) \<and>
    (\<forall>tag. nreq_payload req = Other_payload tag \<longrightarrow> nresp_status resp = - ENOTSUP)"
  using assms
  by (cases "nreq_payload req")
    (auto simp: net_if_response_def with_iface_def NetIfResponse_init_zero_def Let_def
      split: option.splits prod.splits if_splits)

lemma net_if_response_contract_witness:
  "nresp_request_id (fst (net_if_response sim_net_if [8, 5, 90, 2, 8, 1] (env (sim_device sim_kc [])))) = 5 \<and>
   snd (net_if_response sim_net_if [8, 5, 90, 2, 8, 1] (env (sim_device sim_kc []))) = env (sim_device sim_kc [])"
proof -
  have "NetIfRequest_decode sim_net_if [8, 5, 90, 2, 8, 1] = Some \<lparr>nreq_request_id = 5, nreq_payload = Get_mtu 1\<rparr>"
    by (simp add: sim_net_if_def)
  from net_if_response_contract [OF this prod.collapse [symmetric], of "env (sim_device sim_kc [])"]
  show ?thesis by simp
qed

section \<open>A request in two pieces\<close>

lemma net_if_type: "(2 :: SerialType) \<noteq> 7" "(2 :: SerialType) < 9"
  by simp_all

lemma net_if_callbacks:
  "CONFIG_SERIAL_PROXY_NET_IF_MGMT kc \<Longrightarrow> serial_mux_get_callbacks eo kc 2 =
     Some (callbacks_of net_if_mgmt_acquire_buffer net_if_mgmt_commit_data net_if_mgmt_message_complete)"
  by (simp add: get_callbacks_eq proxy_enabled_def mux_callbacks_def callbacks_of_def)

lemma net_if_first_piece:
  assumes law: "link_law os sent pending" and mem: "mem_ok kc s"
    and idle: "net_if_mgmt_message_length s = 0" and st: "frame_at s c dev 2 n 0"
    and len: "length xs < n" "n + length xs \<le> 512" and pend: "pending dev (world s) = xs" "xs \<noteq> []"
  obtains w where "serial_work_loop os eo kc dev c 2 (Some (callbacks_of net_if_mgmt_acquire_buffer
      net_if_mgmt_commit_data net_if_mgmt_message_complete)) None s =
    Some (net_if_mgmt_commit_data (length xs) (stored w c Net_if_mgmt_rx_buffer 0 0 xs s))"
    "pending dev w = []" "sent dev w = sent dev (world s)"
proof -
  let ?b = Net_if_mgmt_rx_buffer
  let ?cbs = "Some (callbacks_of net_if_mgmt_acquire_buffer
      net_if_mgmt_commit_data net_if_mgmt_message_complete)"
  have acq: "net_if_mgmt_acquire_buffer None (n - 0) s = (True, Some (?b, 0))"
    using idle len by (simp add: net_if_mgmt_acquire_buffer_def)
  have fits: "0 + n \<le> length (mem s ?b)" using mem len by (simp add: mem_ok_def)
  have xs: "xs = take (n - 0) (pending dev (world s))" using pend len by simp
  obtain w1 where w1: "work_client_step os dev c 2 net_if_mgmt_acquire_buffer net_if_mgmt_commit_data
      net_if_mgmt_message_complete (n - 0) None s =
    Some (True, Some (?b, 0), net_if_mgmt_commit_data (length xs) (stored w1 c ?b 0 0 xs s))"
    "pending dev w1 = []" "sent dev w1 = sent dev (world s)"
    by (rule work_client_step_read [where acq = net_if_mgmt_acquire_buffer
          and com = net_if_mgmt_commit_data and fin = net_if_mgmt_message_complete and p = None,
          OF law acq st fits xs pend(2)]) (use len pend in simp_all)
  let ?t = "net_if_mgmt_commit_data (length xs) (stored w1 c ?b 0 0 xs s)"
  have loop: "serial_work_loop os eo kc dev c 2 ?cbs None s =
      serial_work_loop os eo kc dev c 2 ?cbs (Some (?b, 0)) ?t"
    by (rule serial_work_loop_first [OF _ st net_if_type]) (use w1(1) in simp)
  have at: "frame_at ?t c dev 2 n (length xs)"
    using st len by (simp add: frame_at_def net_if_mgmt_commit_data_def stored_def)
  have acq2: "net_if_mgmt_acquire_buffer (Some (?b, 0)) (n - length xs) ?t = (True, Some (?b, length xs))"
    using idle len by (simp add: net_if_mgmt_acquire_buffer_def net_if_mgmt_commit_data_def stored_def)
  obtain w2 where w2: "serial_work_loop os eo kc dev c 2 ?cbs (Some (?b, 0)) ?t = Some (?t\<lparr>world := w2\<rparr>)"
    "pending dev w2 = []" "sent dev w2 = sent dev (world ?t)"
    by (rule serial_work_loop_starved [where acq = net_if_mgmt_acquire_buffer, OF law net_if_type at acq2])
      (use w1(2) in \<open>simp add: net_if_mgmt_commit_data_def stored_def\<close>)
  have world: "?t\<lparr>world := w2\<rparr> = net_if_mgmt_commit_data (length xs) (stored w2 c ?b 0 0 xs s)"
    by (simp add: net_if_mgmt_commit_data_def stored_def upd_config_def)
  show ?thesis
    by (rule that [of w2])
      (use loop w1 w2 world in \<open>simp_all add: net_if_mgmt_commit_data_def stored_config\<close>)
qed

lemma net_if_last_piece:
  assumes law: "link_law os sent pending" and cfg: "CONFIG_SERIAL_PROXY_NET_IF_MGMT kc"
    and st: "frame_at s c dev 2 n k" and dat: "\<not> work_submitted s c"
    and hdr: "serial_header (serial_configs s c) = device_view h" and seq: "in_sequence s c h"
    and mem: "length (mem s Net_if_mgmt_rx_buffer) = 512" and ml: "net_if_mgmt_message_length s = off"
    and fits: "off + n \<le> 512" and pend: "pending dev (world s) = ys" and len: "k + length ys = n"
  obtains t where "serial_work_handler os eo kc c s = Some t" "net_if_mgmt_event t"
    "net_if_mgmt_message_length t = off + n" "env t = env s"
    "mem t Net_if_mgmt_rx_buffer = overwrite (off + k) ys (mem s Net_if_mgmt_rx_buffer)"
    "link_after sent pending s c dev
       ((if bh_no_ack h then [] else bus_header_encode (ack_frame 2 (bh_seq h) ERROR_TYPE_NO_ERROR)) @
        (if 512 < off + 2 * n then bus_header_encode (ack_frame 2 (bh_seq h) ERROR_TYPE_OUT_OF_BUFFERS) else []))
       (sequence_number_advance (rx_sequence_number (serial_configs s c))) t"
proof -
  let ?b = Net_if_mgmt_rx_buffer
  let ?fin = "\<lambda>s. net_if_mgmt_message_complete n (net_if_mgmt_commit_data n s)"
  let ?rx = "sequence_number_advance (rx_sequence_number (serial_configs s c))"
  have acq: "net_if_mgmt_acquire_buffer None (n - k) s = (True, Some (?b, off))"
    using ml fits len by (simp add: net_if_mgmt_acquire_buffer_def)
  have fits': "off + n \<le> length (mem s ?b)" using fits mem by simp
  obtain w1 w2 where w: "serial_work_loop os eo kc dev c 2 (Some (callbacks_of net_if_mgmt_acquire_buffer
        net_if_mgmt_commit_data net_if_mgmt_message_complete)) None s =
      Some (frame_done w2 c ?rx (?fin (stored w1 c ?b (off + k) k ys s)))"
    "pending dev w2 = []"
    "sent dev w2 = sent dev (world s) @
       (if sh_no_ack (device_view h) then [] else ack_bytes 2 (sh_sequence_number (device_view h)) 0) @
       (if fst (net_if_mgmt_acquire_buffer (Some (?b, off)) n (?fin (stored w1 c ?b (off + k) k ys s)))
        then [] else ack_bytes 2 (sh_sequence_number (device_view h)) 2)"
    by (rule deliver_at [where acq = net_if_mgmt_acquire_buffer and com = net_if_mgmt_commit_data
          and fin = net_if_mgmt_message_complete and eo = eo and kc = kc and p = None,
          OF law net_if_type st acq fits' pend len])
      (use seq hdr in \<open>simp_all add: in_sequence_def device_view_def net_if.complete_commit_link
         net_if_mgmt_acquire_buffer_def\<close>)
  let ?t = "frame_done (uart_irq_rx_enable os dev w2) c ?rx (?fin (stored w1 c ?b (off + k) k ys s))"
  have ev: "serial_work_handler os eo kc c s = Some ?t"
    using w(1) by (simp add: serial_work_handler_client [OF net_if_callbacks [OF cfg] st])
  note defs = frame_done_def net_if_mgmt_message_complete_def net_if_mgmt_commit_data_def stored_def
  have acq2: "fst (net_if_mgmt_acquire_buffer (Some (?b, off)) n (?fin (stored w1 c ?b (off + k) k ys s))) =
      (\<not> 512 < off + 2 * n)"
    using ml fits by (auto simp: net_if_mgmt_acquire_buffer_def defs)
  have "link_after sent pending s c dev
       ((if bh_no_ack h then [] else bus_header_encode (ack_frame 2 (bh_seq h) 0)) @
        (if 512 < off + 2 * n then bus_header_encode (ack_frame 2 (bh_seq h) 2) else [])) ?rx ?t"
    using w(2,3) st dat unfolding acq2
    by (simp add: link_after_def link_irq_rx_enable [OF law] ack_bytes_encode device_view_def rx_ready_def
        frame_at_def) (simp add: defs upd_config_def)
  with ev show ?thesis using ml fits by (intro that [of ?t]) (simp_all add: defs)
qed

text \<open>
  C37. A network interface request that arrives in two pieces is corrupted, although it is
  acknowledged: the second piece is stored as far behind the first as the first is long, so the
  request the proxy's thread decodes has stale buffer contents between the two pieces and is longer
  than the payload by the length of the first piece.
\<close>

theorem net_if_fragments_misplaced:
  assumes law: "link_law os sent pending" and arr: "arrive_law arrive sent pending"
    and mem: "mem_ok kc s" and cfg: "CONFIG_SERIAL_PROXY_NET_IF_MGMT kc"
    and idle: "net_if_mgmt_message_length s = 0" and rdy: "rx_ready s c dev"
    and empty: "pending dev (world s) = []"
    and h: "bh_type h = SERIAL_TYPE_NET_IF_MGMT" "length xs + length ys = unat (bh_length h)" "in_sequence s c h"
    and ne: "xs \<noteq> []" "ys \<noteq> []" and len: "2 * length xs + length ys \<le> 512"
  shows "\<exists>t. rx_pieces os eo kc arrive dev c [bus_header_encode h @ xs, ys] s = Some t \<and>
     net_if_mgmt_event t \<and> net_if_mgmt_message_length t = 2 * length xs + length ys \<and>
     take (net_if_mgmt_message_length t) (mem t Net_if_mgmt_rx_buffer) =
       xs @ take (length xs) (drop (length xs) (mem s Net_if_mgmt_rx_buffer)) @ ys \<and>
     link_after sent pending s c dev
       (success_reply h @
        (if 512 < 3 * length xs + 2 * length ys
         then bus_header_encode (ack_frame SERIAL_TYPE_NET_IF_MGMT (bh_seq h) ERROR_TYPE_OUT_OF_BUFFERS) else []))
       (sequence_number_advance (rx_sequence_number (serial_configs s c))) t"
proof -
  let ?b = Net_if_mgmt_rx_buffer and ?n = "length xs + length ys"
  let ?s = "s\<lparr>world := arrive dev (bus_header_encode h @ xs) (world s)\<rparr>"
  have rdy': "rx_ready ?s c dev" using rdy by (simp add: rx_ready_def)
  have pend: "pending dev (world ?s) = bus_header_encode h @ xs"
    and sent: "sent dev (world ?s) = sent dev (world s)"
    using arr empty by (simp_all add: arrive_law_def)
  have nz: "0 < unat (bh_length h)" using h(2) ne by (metis add_gr_0 length_greater_0_conv)
  then have nxt: "header_next_state (device_view h) = PARSING_STATE_DATA"
    using h(2) len by (auto simp: header_next_state_def device_view_def)
  obtain w where w: "pending dev w = xs" "sent dev w = sent dev (world ?s)"
    "rx_event os eo kc dev c ?s = serial_work_handler os eo kc c (header_in w c h ?s)"
    by (rule rx_event_header [OF law rdy' pend nxt])
  let ?u = "header_in w c h ?s"
  have at: "frame_at ?u c dev 2 ?n 0"
    using rdy h nz by (simp add: rx_ready_def frame_at_def device_view_def)
  obtain w1 where w1: "serial_work_loop os eo kc dev c 2 (Some (callbacks_of net_if_mgmt_acquire_buffer
      net_if_mgmt_commit_data net_if_mgmt_message_complete)) None ?u =
    Some (net_if_mgmt_commit_data (length xs) (stored w1 c ?b 0 0 xs ?u))"
    "pending dev w1 = []" "sent dev w1 = sent dev (world ?u)"
    by (rule net_if_first_piece [OF law _ _ at, of kc xs])
      (use mem idle ne len w in \<open>simp_all add: mem_ok_def\<close>)
  let ?v = "(net_if_mgmt_commit_data (length xs) (stored w1 c ?b 0 0 xs ?u))\<lparr>world := uart_irq_rx_enable os dev w1\<rparr>"
  have ev: "rx_event os eo kc dev c ?s = Some ?v"
    using w(3) w1(1) serial_work_handler_client [OF net_if_callbacks [OF cfg] at, of os eo]
    by (simp add: net_if_mgmt_commit_data_def stored_config)
  let ?y = "?v\<lparr>world := arrive dev ys (world ?v)\<rparr>"
  note defs = net_if_mgmt_commit_data_def stored_def
  have buf: "length (mem s ?b) = 512" using mem by (simp add: mem_ok_def)
  have ml: "net_if_mgmt_message_length ?y = length xs" using idle len by (simp add: defs)
  have memy: "mem ?y ?b = overwrite 0 xs (mem s ?b)" by (simp add: defs)
  have pendy: "pending dev (world ?y) = ys" and senty: "sent dev (world ?y) = sent dev (world s)"
    using arr w1 w sent by (simp_all add: arrive_law_def link_irq_rx_enable [OF law])
  have aty: "frame_at ?y c dev 2 ?n (length xs)" using at ne by (simp add: frame_at_def defs)
  have seqy: "in_sequence ?y c h" using h(3) by (simp add: in_sequence_def defs)
  have evy: "rx_event os eo kc dev c ?y = serial_work_handler os eo kc c ?y"
    by (rule rx_event_data) (simp_all add: defs)
  obtain t where t: "serial_work_handler os eo kc c ?y = Some t" "net_if_mgmt_event t"
    "net_if_mgmt_message_length t = length xs + ?n"
    "mem t ?b = overwrite (length xs + length xs) ys (mem ?y ?b)"
    "link_after sent pending ?y c dev
       ((if bh_no_ack h then [] else bus_header_encode (ack_frame 2 (bh_seq h) 0)) @
        (if 512 < length xs + 2 * ?n then bus_header_encode (ack_frame 2 (bh_seq h) 2) else []))
       (sequence_number_advance (rx_sequence_number (serial_configs ?y c))) t"
    by (rule net_if_last_piece [OF law cfg aty _ _ seqy _ ml _ pendy])
      (use len buf in \<open>simp_all add: defs\<close>)
  have "take (length xs + ?n) (mem t ?b) = xs @ take (length xs) (drop (length xs) (mem s ?b)) @ ys"
    using len buf unfolding t(4) memy by (simp add: overwrite_def)
  moreover have "link_after sent pending s c dev
       (success_reply h @ (if 512 < 3 * length xs + 2 * length ys
         then bus_header_encode (ack_frame 2 (bh_seq h) 2) else []))
       (sequence_number_advance (rx_sequence_number (serial_configs s c))) t"
    using t(5) senty h(1) by (simp add: link_after_def success_reply_def defs algebra_simps)
  ultimately show ?thesis using ev evy t(1-3) by (auto simp: algebra_simps)
qed

theorem net_if_fragments_misplaced_witness:
  "\<exists>t. rx_pieces sim_uart sim_stacks sim_kc
        (\<lambda>d bs w. w\<lparr>sim_rx := (sim_rx w)(d := sim_rx w d @ bs)\<rparr>) 0 Config_serial
        [bus_header_encode (request_header 2 0 6) @ [8, 5], [90, 2, 8, 1]] (sim_device sim_kc []) = Some t \<and>
     net_if_mgmt_message_length t = 8 \<and>
     take 8 (mem t Net_if_mgmt_rx_buffer) = [8, 5, 0, 0, 90, 2, 8, 1] \<and>
     sim_tx (world t) 0 = bus_header_encode (ack_frame 2 0 0)"
proof -
  have arr: "arrive_law (\<lambda>d bs w. w\<lparr>sim_rx := (sim_rx w)(d := sim_rx w d @ bs)\<rparr>)
      (\<lambda>d w. sim_tx w d) (\<lambda>d w. sim_rx w d)"
    by (simp add: arrive_law_def)
  have len: "length ([8, 5] :: byte list) + length ([90, 2, 8, 1] :: byte list) =
      unat (bh_length (request_header 2 0 6))"
    by (simp add: request_header_def)
  show ?thesis
    using net_if_fragments_misplaced [OF sim_uart_link arr _ _ _ _ _ _ len, of sim_kc
        "sim_device sim_kc []" Config_serial 0 sim_stacks]
    by (auto simp: sim_in_sequence link_after_def success_reply_def numeral_eq_Suc simp del: rx_pieces.simps)
qed

section \<open>A request that completes while the thread is busy\<close>

text \<open>
  A request that completes after the thread has served the previous one, but before it is back
  at its event, is lost: the device acknowledges it and sets the event, but the thread then clears
  the message length and, by waiting with \<open>reset\<close>, the event too, so it goes back to sleep and the
  request never reaches the stack.
\<close>

lemma net_if_request_lost:
  assumes law: "link_law os sent pending" and mem: "mem_ok kc s"
    and cfg: "CONFIG_SERIAL_PROXY_NET_IF_MGMT kc"
    and busy: "net_if_mgmt_message_length s = m" "m + length payload \<le> 512"
    and arr: "frame_arrives pending s c dev h payload" and ty: "bh_type h = SERIAL_TYPE_NET_IF_MGMT"
    and seq: "in_sequence s c h" and ack: "\<not> bh_no_ack h"
  shows "\<exists>t extra. rx_event os eo kc dev c s = Some t \<and> net_if_mgmt_event t \<and>
     sent dev (world t) = sent dev (world s) @
       bus_header_encode (ack_frame SERIAL_TYPE_NET_IF_MGMT (bh_seq h) ERROR_TYPE_NO_ERROR) @ extra \<and>
     net_if_mgmt_message_length (net_if_mgmt_rewait t) = 0 \<and> env (net_if_mgmt_rewait t) = env s \<and>
     net_if_mgmt_thread_round os kc no (net_if_mgmt_rewait t) = Some (net_if_mgmt_rewait t)"
proof -
  let ?n = "length payload"
  have rdy: "rx_ready s c dev" and pend: "pending dev (world s) = bus_header_encode h @ payload"
    using arr by (simp_all add: frame_arrives_def)
  obtain w where w: "pending dev w = payload" "sent dev w = sent dev (world s)"
    "rx_event os eo kc dev c s = serial_work_handler os eo kc c (header_in w c h s)"
    by (rule rx_event_header [OF law rdy pend frame_arrives_next [OF arr]])
  let ?u = "header_in w c h s"
  have at: "frame_at ?u c dev 2 ?n 0" using frame_arrives_at [OF arr, of w] ty by simp
  have wpend: "pending dev (world ?u) = payload" using w(1) by simp
  obtain t where t: "serial_work_handler os eo kc c ?u = Some t" "net_if_mgmt_event t" "env t = env ?u"
    "link_after sent pending ?u c dev
       ((if bh_no_ack h then [] else bus_header_encode (ack_frame 2 (bh_seq h) 0)) @
        (if 512 < m + 2 * ?n then bus_header_encode (ack_frame 2 (bh_seq h) 2) else []))
       (sequence_number_advance (rx_sequence_number (serial_configs ?u c))) t"
    by (rule net_if_last_piece [OF law cfg at _ _ _ _ _ busy(2) wpend])
      (use busy seq mem in \<open>simp_all add: mem_ok_def in_sequence_def\<close>)
  then show ?thesis
    using w ack by (auto simp: link_after_def net_if_mgmt_rewait_def net_if_mgmt_thread_round_def)
qed

lemma net_if_request_lost_witness:
  "\<exists>t extra. rx_event sim_uart sim_stacks sim_kc 0 Config_serial
        (sim_device sim_kc (bus_header_encode (request_header 2 0 6) @ [8, 5, 90, 2, 8, 1])
           \<lparr>net_if_mgmt_message_length := 10\<rparr>) = Some t \<and> net_if_mgmt_event t \<and>
     sim_tx (world t) 0 = bus_header_encode (ack_frame 2 0 0) @ extra \<and>
     net_if_mgmt_thread_round sim_uart sim_kc sim_net_if (net_if_mgmt_rewait t) = Some (net_if_mgmt_rewait t)"
proof -
  let ?p = "[8, 5, 90, 2, 8, 1] :: byte list"
  let ?s = "sim_device sim_kc (bus_header_encode (request_header 2 0 6) @ ?p)"
  have "frame_arrives (\<lambda>d w. sim_rx w d) ?s Config_serial 0 (request_header 2 0 6) ?p"
    by (rule sim_frame_arrives) simp_all
  then have arr: "frame_arrives (\<lambda>d w. sim_rx w d) (?s\<lparr>net_if_mgmt_message_length := 10\<rparr>)
      Config_serial 0 (request_header 2 0 6) ?p"
    by (simp add: frame_arrives_def rx_ready_def)
  have seq: "in_sequence (?s\<lparr>net_if_mgmt_message_length := 10\<rparr>) Config_serial (request_header 2 0 6)"
    by (simp add: in_sequence_def sim_config_def)
  show ?thesis
    using net_if_request_lost [OF sim_uart_link _ _ _ _ arr _ seq, of sim_kc 10 sim_stacks sim_net_if]
    by (auto simp: mem_ok_def)
qed

end
