(* ===== verification/Bt_Bridge.thy ===== *)
theory Bt_Bridge
  imports Net_If_Service Bus_Requests
begin

text \<open>
  The Bluetooth bridge: \<open>hci_event_tx_thread\<close> and \<open>bt_proxy_init\<close> of \<open>device/bt_proxy.c\<close>, and the
  virtual HCI driver of the host, \<open>host/host_bt.c\<close>.  On the host the state behind the receive
  handlers is \<open>'b virt_bt\<close>: the driver's \<open>bt_recv\<close> callback and the Bluetooth stack \<open>'b\<close>, which is
  not part of the sources and is reached through \<open>bt_ops\<close>.
\<close>

section \<open>Controller to host, on the device\<close>

text \<open>One round of the thread: take a packet, forward it, release its buffer.\<close>

definition hci_event_tx_round ::
  "'w uart_ops \<Rightarrow> 'e env_ops \<Rightarrow> kconfig \<Rightarrow> ('w, 'e) device \<Rightarrow> ('w, 'e) device option" where
  "hci_event_tx_round os eo kc s =
     (case hci_fifo_get eo (env s) of
        (None, e1) \<Rightarrow> Some (s\<lparr>env := e1\<rparr>)
      | (Some (buf, data), e1) \<Rightarrow>
          do { (err, s1) \<leftarrow> serial_mux_send os kc SERIAL_TYPE_HCI (Some data) (length data) (s\<lparr>env := e1\<rparr>);
               Some (s1\<lparr>env := net_buf_unref eo buf (env s1)\<rparr>) })"

text \<open>\<open>bt_proxy_init\<close> returns its result and whether it has started the thread.\<close>

definition bt_proxy_init :: "'e env_ops \<Rightarrow> ('w, 'e) device \<Rightarrow> (int \<times> bool) \<times> ('w, 'e) device" where
  "bt_proxy_init eo s =
     (case bt_enable_raw eo (env s) of (err, e1) \<Rightarrow>
        if err \<noteq> 0 then ((err, False), s\<lparr>env := e1\<rparr>) else ((0, True), s\<lparr>env := e1\<rparr>))"

section \<open>The host's HCI driver\<close>

record 'b bt_ops =
  bt_buf_type_from_h4 :: "byte \<Rightarrow> nat"
  bt_buf_get_rx :: "nat \<Rightarrow> 'b \<Rightarrow> nat option \<times> 'b"
  net_buf_add_mem :: "nat \<Rightarrow> byte list \<Rightarrow> 'b \<Rightarrow> 'b"
  host_net_buf_unref :: "nat \<Rightarrow> 'b \<Rightarrow> 'b"

type_synonym 'b bt_hci_recv_t = "nat option \<Rightarrow> nat \<Rightarrow> 'b \<Rightarrow> 'b"

record 'b virt_bt =
  bt_recv :: "'b bt_hci_recv_t option"
  bt_stack :: 'b

definition hci_rx :: "'b bt_ops \<Rightarrow> 'b virt_bt rx_handler" where
  "hci_rx bo payload len user a =
     (case bt_recv a of
        None \<Rightarrow> a
      | Some recv \<Rightarrow>
          if len = 0 then a
          else
            (case bt_buf_get_rx bo (bt_buf_type_from_h4 bo (payload ! 0)) (bt_stack a) of
               (None, e1) \<Rightarrow> a\<lparr>bt_stack := e1\<rparr>
             | (Some buf, e1) \<Rightarrow>
                 a\<lparr>bt_stack := recv user buf (net_buf_add_mem bo buf (take len payload) e1)\<rparr>))"

definition virt_bt_open ::
  "'b bt_ops \<Rightarrow> nat \<Rightarrow> 'b bt_hci_recv_t \<Rightarrow> ('w, 'b virt_bt) host \<Rightarrow> int \<times> ('w, 'b virt_bt) host" where
  "virt_bt_open bo dev recv b =
     (let b1 = b\<lparr>app := (app b)\<lparr>bt_recv := Some recv\<rparr>\<rparr>;
          b2 = snd (bus_register_handler (uint SERIAL_TYPE_HCI) (Some (hci_rx bo)) b1)
      in (0, bus_set_handler_user (uint SERIAL_TYPE_HCI) (Some dev) b2))"

definition virt_bt_close :: "('w, 'b virt_bt) host \<Rightarrow> int \<times> ('w, 'b virt_bt) host" where
  "virt_bt_close b = (0, b\<lparr>app := (app b)\<lparr>bt_recv := None\<rparr>\<rparr>)"

definition virt_bt_send ::
  "'w uart_ops \<Rightarrow> 'b bt_ops \<Rightarrow> nat \<Rightarrow> byte list \<Rightarrow> ('w, 'b virt_bt) host
     \<Rightarrow> (int \<times> ('w, 'b virt_bt) host) option" where
  "virt_bt_send os bo buf data b =
     do { (rc, b1) \<leftarrow> bus_send os (uint SERIAL_TYPE_HCI) (Some data) (length data) b;
          Some (rc, b1\<lparr>app := (app b1)\<lparr>bt_stack := host_net_buf_unref bo buf (bt_stack (app b1))\<rparr>\<rparr>) }"

definition virt_bt_init ::
  "'w uart_ops \<Rightarrow> dev option \<Rightarrow> 'w script \<Rightarrow> ('w, 'b virt_bt) host
     \<Rightarrow> (int \<times> 'w script \<times> ('w, 'b virt_bt) host) option" where
  "virt_bt_init os chosen sc b = bus_open os chosen sc b"

section \<open>Controller packets\<close>

text \<open>
  C28. Every packet taken from the controller is forwarded as one HCI frame with the next transmit
  number and its buffer is released; a packet too long for a frame is not sent, and its buffer is
  released all the same.
\<close>

theorem hci_event_forwarded:
  assumes law: "link_law os sent pending" and route: "mux_routes kc s SERIAL_TYPE_HCI c"
    and dev: "serial_dev (serial_configs s c) = Some dev"
    and pkt: "hci_fifo_get eo (env s) = (Some (buf, data), e1)"
  shows "\<exists>t. hci_event_tx_round os eo kc s = Some t \<and> env t = net_buf_unref eo buf e1 \<and>
     sent dev (world t) = sent dev (world s) @
       (if length data \<le> SERIAL_MAX_PAYLOAD_LEN
        then bus_header_encode (frame_header SERIAL_TYPE_HCI ERROR_TYPE_NO_ERROR False
               (tx_sequence_number (serial_configs s c)) (length data)) @ data
        else [])"
proof (cases "length data \<le> 4096")
  case True
  have r: "mux_routes kc (s\<lparr>env := e1\<rparr>) 3 c" "serial_dev (serial_configs (s\<lparr>env := e1\<rparr>) c) = Some dev"
    using route dev by (simp_all add: mux_routes_def)
  show ?thesis
    by (rule serial_mux_send_ok [OF law r True])
      (use pkt True in \<open>auto simp: hci_event_tx_round_def\<close>)
next
  case False
  then show ?thesis
    using route dev pkt by (simp add: hci_event_tx_round_def serial_mux_send_def mux_routes_def
        serial_send_frame_def)
qed

definition one_packet :: "byte list \<Rightarrow> sim_env env_ops" where
  "one_packet data = sim_stacks\<lparr>hci_fifo_get := (\<lambda>e. (Some (4, data), e))\<rparr>"

theorem hci_event_forwarded_witness:
  "\<exists>t. hci_event_tx_round sim_uart (one_packet [4, 14, 0]) sim_kc (sim_device sim_kc []) = Some t \<and>
     sim_tx (world t) 0 = bus_header_encode (frame_header 3 0 False 0 3) @ [4, 14, 0]"
proof -
  let ?s = "sim_device sim_kc []"
  have route: "mux_routes sim_kc ?s 3 Config_serial" by (simp add: mux_routes_def)
  have pkt: "hci_fifo_get (one_packet [4, 14, 0]) (env ?s) = (Some (4, [4, 14, 0]), env ?s)"
    by (simp add: one_packet_def)
  show ?thesis
    using hci_event_forwarded [OF sim_uart_link route _ pkt, of 0]
    by (auto simp: sim_config_def frame_header_def)
qed

section \<open>HCI packets on the host\<close>

text \<open>
  C27. Once the driver is open, an HCI frame from the device reaches the Bluetooth stack: the stack
  is called once, with a buffer of the pool that the first payload byte selects, to which the whole
  payload has been appended; without a free buffer the packet is dropped.  The device gets its
  acknowledgement in both cases, and after the driver is closed the stack is not called any more.
\<close>

theorem host_hci_frame_received:
  assumes law: "link_law os sent pending" and rdy: "bus_ready b0 dev" and req: "\<not> request_pending b0"
    and b: "b = snd (virt_bt_open bo hci recv b0)"
    and fr: "device_frame pending b dev h payload" and ty: "bh_type h = SERIAL_TYPE_HCI"
    and len: "payload \<noteq> []"
    and get: "bt_buf_get_rx bo (bt_buf_type_from_h4 bo (hd payload)) (bt_stack (app b)) = (mb, e1)"
  shows "(\<exists>b'. bus_rx_event os b = Some b' \<and> bus_ready b' dev \<and>
     bt_stack (app b') = (case mb of None \<Rightarrow> e1
        | Some buf \<Rightarrow> recv (Some hci) buf (net_buf_add_mem bo buf payload e1)) \<and>
     sent dev (bworld b') = sent dev (bworld b) @
       (if bh_no_ack h then [] else bus_header_encode (host_ack SERIAL_TYPE_HCI (bh_seq h) ERROR_TYPE_NO_ERROR))) \<and>
   (\<exists>b'. bus_rx_event os (snd (virt_bt_close b)) = Some b' \<and> bt_stack (app b') = bt_stack (app b))"
proof -
  have open_b: "handler b 3 = Some (hci_rx bo)" "handler_user b 3 = Some hci" "bt_recv (app b) = Some recv"
    "bus_ready b dev" "\<not> request_pending b"
    using b rdy req by (simp_all add: virt_bt_open_def bus_register_handler_def bus_set_handler_user_def
        bus_ready_def Let_def)
  let ?buf = "overwrite 0 payload (rx_buf b)"
  have pl: "unat (bh_length h) = length payload" "bh_length h \<noteq> 0" "?buf ! 0 = hd payload"
    using fr len by (auto simp: device_frame_def overwrite_def nth_append hd_conv_nth)
  obtain w where w: "bus_rx_event os b = Some (frame_taken h (b\<lparr>bworld := w, hdr := h, bus_bytes_read := 0,
        rx_buf := ?buf\<rparr>))"
    "pending dev w = []" "sent dev w = sent dev (bworld b) @ frame_reply h"
    by (rule bus_rx_event_frame [OF law open_b(4) fr])
  let ?c = "snd (virt_bt_close b)"
  have closed: "bus_ready ?c dev" "device_frame pending ?c dev h payload"
    using open_b(4) fr by (simp_all add: virt_bt_close_def bus_ready_def device_frame_def)
  obtain w' where w': "bus_rx_event os ?c = Some (frame_taken h (?c\<lparr>bworld := w', hdr := h, bus_bytes_read := 0,
        rx_buf := overwrite 0 payload (rx_buf ?c)\<rparr>))"
    "pending dev w' = []" "sent dev w' = sent dev (bworld ?c) @ frame_reply h"
    by (rule bus_rx_event_frame [OF law closed])
  have len4096: "length ?buf = 4096"
    using fr open_b(4) by (auto simp: device_frame_def bus_ready_def bus_validate_rx_iff)
  show ?thesis
    using w w' open_b pl ty get len len4096
    by (auto simp: frame_taken_def call_handler_def hci_rx_def bus_ready_def frame_reply_def
        virt_bt_close_def split: option.splits)
qed

text \<open>A Bluetooth stack with one buffer that keeps the packets it receives.\<close>

definition sim_bt :: "(byte list \<times> byte list list) bt_ops" where
  "sim_bt = \<lparr>bt_buf_type_from_h4 = (\<lambda>h4. unat h4), bt_buf_get_rx = (\<lambda>ty e. (Some 0, ([], snd e))),
     net_buf_add_mem = (\<lambda>buf bs e. (fst e @ bs, snd e)), host_net_buf_unref = (\<lambda>buf e. e)\<rparr>"

definition sim_recv :: "(byte list \<times> byte list list) bt_hci_recv_t" where
  "sim_recv dev buf e = ([], snd e @ [fst e])"

definition sim_bt_host :: "byte list \<Rightarrow> (sim_world, (byte list \<times> byte list list) virt_bt) host" where
  "sim_bt_host rx =
     \<lparr>bworld = sim_idle\<lparr>sim_rx := (\<lambda>_. rx)\<rparr>, app = \<lparr>bt_recv = None, bt_stack = ([], [])\<rparr>, uart = Some 0,
      bus_parse = PARSING_STATE_TYPE, hdr = no_header, bus_bytes_read = 0, rx_buf = replicate 4096 0,
      rx_work = False, tx_seq = 0, rx_seq = 0, rx_sem = 0, request_pending = False, last_hdr = no_header,
      supported_types = 0, handler = (\<lambda>_. None), handler_user = (\<lambda>_. None), opened = True\<rparr>"

lemma sim_bt_host_simps [simp]:
  "bus_ready (sim_bt_host rx) 0" "\<not> request_pending (sim_bt_host rx)" "opened (sim_bt_host rx)"
  "uart (sim_bt_host rx) = Some 0" "tx_seq (sim_bt_host rx) = 0" "rx_sem (sim_bt_host rx) = 0"
  "sim_rx (bworld (sim_bt_host rx)) d = rx" "sim_tx (bworld (sim_bt_host rx)) d = []"
  by (simp_all add: sim_bt_host_def bus_ready_def sim_idle_def)

theorem host_hci_frame_received_witness:
  "\<exists>b'. bus_rx_event sim_uart (snd (virt_bt_open sim_bt 5 sim_recv
        (sim_bt_host (bus_header_encode (reply_header 3 0 0 3) @ [4, 14, 0])))) = Some b' \<and>
     bt_stack (app b') = ([], [[4, 14, 0]]) \<and>
     sim_tx (bworld b') 0 = bus_header_encode (host_ack 3 0 0)"
proof -
  let ?p = "[4, 14, 0] :: byte list" and ?h = "reply_header 3 0 0 3"
  let ?b0 = "sim_bt_host (bus_header_encode ?h @ ?p)"
  define b where "b = snd (virt_bt_open sim_bt 5 sim_recv ?b0)"
  have ob: "bworld b = bworld ?b0" "bt_stack (app b) = ([], [])"
    by (simp_all add: b_def virt_bt_open_def bus_register_handler_def bus_set_handler_user_def Let_def
        sim_bt_host_def)
  have fr: "device_frame (\<lambda>d w. sim_rx w d) b 0 ?h ?p"
    using sim_valid_frame [of ?p 3 3 0 0] by (simp add: device_frame_def valid_frame_def ob)
  have get: "bt_buf_get_rx sim_bt (bt_buf_type_from_h4 sim_bt (hd ?p)) (bt_stack (app b)) = (Some 0, ([], []))"
    by (simp add: ob sim_bt_def)
  have stack: "sim_recv (Some 5) 0 (net_buf_add_mem sim_bt 0 ?p ([], [])) = ([], [?p])"
    by (simp add: sim_recv_def sim_bt_def)
  have tx: "sim_tx (bworld b) 0 = []" by (simp add: ob)
  show ?thesis
    using host_hci_frame_received [OF sim_uart_link _ _ b_def fr _ _ get] unfolding b_def [symmetric]
    by (simp add: stack tx) blast
qed

end
