(* ===== verification/Wifi_Enums.thy ===== *)
theory Wifi_Enums
  imports Prelude
begin

text \<open>
  The translations between the enumerations of the wire protocol (\<open>protos/wifi.proto\<close>) and those
  of Zephyr's Wi-Fi API, on the device (\<open>device/wifi_mgmt_proxy.c\<close>) and on the host
  (\<open>host/host_wifi.c\<close>, here with the prefix \<open>host_\<close>).  The protocol enumerations have the
  constructors of the \<open>.proto\<close> file; of Zephyr's only the enumerators that the code names are
  known here, and the others are the values of one constructor with a number.
\<close>

section \<open>Security types\<close>

datatype WifiSecurityType =
    Proto_SECURITY_UNKNOWN
  | Proto_SECURITY_NONE
  | Proto_SECURITY_WEP
  | Proto_SECURITY_PSK
  | Proto_SECURITY_EAP
  | Proto_SECURITY_WAPI
  | Proto_SECURITY_PSK_SHA256
  | Proto_SECURITY_SAE
  | Proto_SECURITY_OWE
  | Proto_SECURITY_SAE_EXT_KEY
  | Proto_SECURITY_WPA3_EAP_SUITE_B
  | Proto_SECURITY_OSEN
  | Proto_SECURITY_SAE_HNP
  | Proto_SECURITY_SAE_H2E
  | Proto_SECURITY_SAE_AUTO
  | Proto_SECURITY_EAP_TLS
  | Proto_SECURITY_WPA_PSK
  | Proto_SECURITY_WPA_AUTO_PERSONAL
  | Proto_SECURITY_DPP
  | Proto_SECURITY_EAP_PEAP_MSCHAPV2
  | Proto_SECURITY_EAP_PEAP_GTC
  | Proto_SECURITY_EAP_TTLS_MSCHAPV2
  | Proto_SECURITY_EAP_PEAP_TLS
  | Proto_SECURITY_FT_PSK
  | Proto_SECURITY_FT_SAE
  | Proto_SECURITY_FT_EAP
  | Proto_SECURITY_FT_EAP_SHA384
  | Proto_SECURITY_undefined nat

datatype wifi_security_type =
    WIFI_SECURITY_TYPE_NONE
  | WIFI_SECURITY_TYPE_PSK
  | WIFI_SECURITY_TYPE_PSK_SHA256
  | WIFI_SECURITY_TYPE_SAE
  | WIFI_SECURITY_TYPE_WAPI
  | WIFI_SECURITY_TYPE_EAP
  | WIFI_SECURITY_TYPE_WEP
  | WIFI_SECURITY_TYPE_WPA_PSK
  | WIFI_SECURITY_TYPE_WPA_AUTO_PERSONAL
  | WIFI_SECURITY_TYPE_SAE_H2E
  | WIFI_SECURITY_TYPE_SAE_AUTO
  | WIFI_SECURITY_TYPE_EAP_TLS
  | Wifi_security_other nat

fun zephyr_to_proto_security :: "wifi_security_type \<Rightarrow> WifiSecurityType" where
  "zephyr_to_proto_security WIFI_SECURITY_TYPE_NONE = Proto_SECURITY_NONE"
| "zephyr_to_proto_security WIFI_SECURITY_TYPE_PSK = Proto_SECURITY_PSK"
| "zephyr_to_proto_security WIFI_SECURITY_TYPE_WPA_PSK = Proto_SECURITY_PSK"
| "zephyr_to_proto_security WIFI_SECURITY_TYPE_WPA_AUTO_PERSONAL = Proto_SECURITY_PSK"
| "zephyr_to_proto_security WIFI_SECURITY_TYPE_PSK_SHA256 = Proto_SECURITY_PSK_SHA256"
| "zephyr_to_proto_security WIFI_SECURITY_TYPE_SAE = Proto_SECURITY_SAE"
| "zephyr_to_proto_security WIFI_SECURITY_TYPE_SAE_H2E = Proto_SECURITY_SAE"
| "zephyr_to_proto_security WIFI_SECURITY_TYPE_SAE_AUTO = Proto_SECURITY_SAE"
| "zephyr_to_proto_security WIFI_SECURITY_TYPE_EAP = Proto_SECURITY_EAP"
| "zephyr_to_proto_security WIFI_SECURITY_TYPE_WEP = Proto_SECURITY_WEP"
| "zephyr_to_proto_security WIFI_SECURITY_TYPE_WAPI = Proto_SECURITY_WAPI"
| "zephyr_to_proto_security _ = Proto_SECURITY_UNKNOWN"

fun proto_to_zephyr_security :: "WifiSecurityType \<Rightarrow> wifi_security_type" where
  "proto_to_zephyr_security Proto_SECURITY_NONE = WIFI_SECURITY_TYPE_NONE"
| "proto_to_zephyr_security Proto_SECURITY_PSK = WIFI_SECURITY_TYPE_PSK"
| "proto_to_zephyr_security Proto_SECURITY_PSK_SHA256 = WIFI_SECURITY_TYPE_PSK_SHA256"
| "proto_to_zephyr_security Proto_SECURITY_SAE = WIFI_SECURITY_TYPE_SAE"
| "proto_to_zephyr_security Proto_SECURITY_EAP = WIFI_SECURITY_TYPE_EAP"
| "proto_to_zephyr_security Proto_SECURITY_WEP = WIFI_SECURITY_TYPE_WEP"
| "proto_to_zephyr_security Proto_SECURITY_WAPI = WIFI_SECURITY_TYPE_WAPI"
| "proto_to_zephyr_security _ = WIFI_SECURITY_TYPE_NONE"

fun host_zephyr_to_proto_security :: "wifi_security_type \<Rightarrow> WifiSecurityType" where
  "host_zephyr_to_proto_security WIFI_SECURITY_TYPE_NONE = Proto_SECURITY_NONE"
| "host_zephyr_to_proto_security WIFI_SECURITY_TYPE_PSK = Proto_SECURITY_PSK"
| "host_zephyr_to_proto_security WIFI_SECURITY_TYPE_WPA_PSK = Proto_SECURITY_PSK"
| "host_zephyr_to_proto_security WIFI_SECURITY_TYPE_WPA_AUTO_PERSONAL = Proto_SECURITY_PSK"
| "host_zephyr_to_proto_security WIFI_SECURITY_TYPE_PSK_SHA256 = Proto_SECURITY_PSK_SHA256"
| "host_zephyr_to_proto_security WIFI_SECURITY_TYPE_SAE = Proto_SECURITY_SAE"
| "host_zephyr_to_proto_security WIFI_SECURITY_TYPE_SAE_H2E = Proto_SECURITY_SAE"
| "host_zephyr_to_proto_security WIFI_SECURITY_TYPE_SAE_AUTO = Proto_SECURITY_SAE"
| "host_zephyr_to_proto_security WIFI_SECURITY_TYPE_EAP = Proto_SECURITY_EAP"
| "host_zephyr_to_proto_security WIFI_SECURITY_TYPE_WEP = Proto_SECURITY_WEP"
| "host_zephyr_to_proto_security WIFI_SECURITY_TYPE_WAPI = Proto_SECURITY_WAPI"
| "host_zephyr_to_proto_security _ = Proto_SECURITY_UNKNOWN"

fun host_proto_to_zephyr_security :: "WifiSecurityType \<Rightarrow> wifi_security_type" where
  "host_proto_to_zephyr_security Proto_SECURITY_NONE = WIFI_SECURITY_TYPE_NONE"
| "host_proto_to_zephyr_security Proto_SECURITY_PSK = WIFI_SECURITY_TYPE_PSK"
| "host_proto_to_zephyr_security Proto_SECURITY_PSK_SHA256 = WIFI_SECURITY_TYPE_PSK_SHA256"
| "host_proto_to_zephyr_security Proto_SECURITY_SAE = WIFI_SECURITY_TYPE_SAE"
| "host_proto_to_zephyr_security Proto_SECURITY_EAP = WIFI_SECURITY_TYPE_EAP"
| "host_proto_to_zephyr_security Proto_SECURITY_WEP = WIFI_SECURITY_TYPE_WEP"
| "host_proto_to_zephyr_security Proto_SECURITY_WAPI = WIFI_SECURITY_TYPE_WAPI"
| "host_proto_to_zephyr_security _ = WIFI_SECURITY_TYPE_NONE"

section \<open>Bands, management frame protection, scan types\<close>

datatype WifiBand =
    Proto_BAND_ANY
  | Proto_BAND_2_4_GHZ
  | Proto_BAND_5_GHZ
  | Proto_BAND_6_GHZ
  | Proto_BAND_60_GHZ
  | Proto_BAND_undefined nat

datatype wifi_frequency_bands =
    WIFI_FREQ_BAND_2_4_GHZ
  | WIFI_FREQ_BAND_5_GHZ
  | WIFI_FREQ_BAND_6_GHZ
  | Wifi_band_other nat

fun zephyr_to_proto_band :: "wifi_frequency_bands \<Rightarrow> WifiBand" where
  "zephyr_to_proto_band WIFI_FREQ_BAND_2_4_GHZ = Proto_BAND_2_4_GHZ"
| "zephyr_to_proto_band WIFI_FREQ_BAND_5_GHZ = Proto_BAND_5_GHZ"
| "zephyr_to_proto_band WIFI_FREQ_BAND_6_GHZ = Proto_BAND_6_GHZ"
| "zephyr_to_proto_band _ = Proto_BAND_ANY"

fun proto_to_zephyr_band :: "WifiBand \<Rightarrow> wifi_frequency_bands" where
  "proto_to_zephyr_band Proto_BAND_5_GHZ = WIFI_FREQ_BAND_5_GHZ"
| "proto_to_zephyr_band Proto_BAND_6_GHZ = WIFI_FREQ_BAND_6_GHZ"
| "proto_to_zephyr_band Proto_BAND_2_4_GHZ = WIFI_FREQ_BAND_2_4_GHZ"
| "proto_to_zephyr_band _ = WIFI_FREQ_BAND_2_4_GHZ"

datatype WifiMfpOptions =
    Proto_MFP_OPTIONAL
  | Proto_MFP_REQUIRED
  | Proto_MFP_DISABLE
  | Proto_MFP_undefined nat

datatype wifi_mfp_options =
    WIFI_MFP_DISABLE
  | WIFI_MFP_OPTIONAL
  | WIFI_MFP_REQUIRED
  | Wifi_mfp_other nat

fun zephyr_to_proto_mfp :: "wifi_mfp_options \<Rightarrow> WifiMfpOptions" where
  "zephyr_to_proto_mfp WIFI_MFP_OPTIONAL = Proto_MFP_OPTIONAL"
| "zephyr_to_proto_mfp WIFI_MFP_REQUIRED = Proto_MFP_REQUIRED"
| "zephyr_to_proto_mfp _ = Proto_MFP_DISABLE"

fun proto_to_zephyr_mfp :: "WifiMfpOptions \<Rightarrow> wifi_mfp_options" where
  "proto_to_zephyr_mfp Proto_MFP_REQUIRED = WIFI_MFP_REQUIRED"
| "proto_to_zephyr_mfp Proto_MFP_DISABLE = WIFI_MFP_DISABLE"
| "proto_to_zephyr_mfp _ = WIFI_MFP_OPTIONAL"

fun host_zephyr_to_proto_mfp :: "wifi_mfp_options \<Rightarrow> WifiMfpOptions" where
  "host_zephyr_to_proto_mfp WIFI_MFP_OPTIONAL = Proto_MFP_OPTIONAL"
| "host_zephyr_to_proto_mfp WIFI_MFP_REQUIRED = Proto_MFP_REQUIRED"
| "host_zephyr_to_proto_mfp _ = Proto_MFP_DISABLE"

fun host_proto_to_zephyr_mfp :: "WifiMfpOptions \<Rightarrow> wifi_mfp_options" where
  "host_proto_to_zephyr_mfp Proto_MFP_REQUIRED = WIFI_MFP_REQUIRED"
| "host_proto_to_zephyr_mfp Proto_MFP_DISABLE = WIFI_MFP_DISABLE"
| "host_proto_to_zephyr_mfp _ = WIFI_MFP_OPTIONAL"

datatype WifiScanType =
    Proto_SCAN_PASSIVE
  | Proto_SCAN_ACTIVE
  | Proto_SCAN_undefined nat

datatype wifi_scan_type =
    WIFI_SCAN_TYPE_ACTIVE
  | WIFI_SCAN_TYPE_PASSIVE

fun proto_to_zephyr_scan_type :: "WifiScanType \<Rightarrow> wifi_scan_type" where
  "proto_to_zephyr_scan_type Proto_SCAN_ACTIVE = WIFI_SCAN_TYPE_ACTIVE"
| "proto_to_zephyr_scan_type _ = WIFI_SCAN_TYPE_PASSIVE"

definition host_zephyr_to_proto_scan_type :: "wifi_scan_type \<Rightarrow> WifiScanType" where
  "host_zephyr_to_proto_scan_type ztype =
     (if ztype = WIFI_SCAN_TYPE_ACTIVE then Proto_SCAN_ACTIVE else Proto_SCAN_PASSIVE)"

section \<open>Interface state, mode and link mode\<close>

datatype WifiInterfaceState =
    Proto_STATE_INACTIVE
  | Proto_STATE_SCANNING
  | Proto_STATE_AUTHENTICATING
  | Proto_STATE_ASSOCIATING
  | Proto_STATE_ASSOCIATED
  | Proto_STATE_4WAY_HANDSHAKE
  | Proto_STATE_GROUP_HANDSHAKE
  | Proto_STATE_CONNECTED
  | Proto_STATE_DISCONNECTED
  | Proto_STATE_INTERFACE_DISABLED
  | Proto_STATE_undefined nat

datatype wifi_iface_state =
    WIFI_STATE_DISCONNECTED
  | WIFI_STATE_INTERFACE_DISABLED
  | WIFI_STATE_INACTIVE
  | WIFI_STATE_SCANNING
  | WIFI_STATE_AUTHENTICATING
  | WIFI_STATE_ASSOCIATING
  | WIFI_STATE_ASSOCIATED
  | WIFI_STATE_4WAY_HANDSHAKE
  | WIFI_STATE_GROUP_HANDSHAKE
  | WIFI_STATE_COMPLETED
  | Wifi_state_other nat

fun zephyr_to_proto_state :: "wifi_iface_state \<Rightarrow> WifiInterfaceState" where
  "zephyr_to_proto_state WIFI_STATE_INACTIVE = Proto_STATE_INACTIVE"
| "zephyr_to_proto_state WIFI_STATE_SCANNING = Proto_STATE_SCANNING"
| "zephyr_to_proto_state WIFI_STATE_AUTHENTICATING = Proto_STATE_AUTHENTICATING"
| "zephyr_to_proto_state WIFI_STATE_ASSOCIATING = Proto_STATE_ASSOCIATING"
| "zephyr_to_proto_state WIFI_STATE_ASSOCIATED = Proto_STATE_ASSOCIATED"
| "zephyr_to_proto_state WIFI_STATE_4WAY_HANDSHAKE = Proto_STATE_4WAY_HANDSHAKE"
| "zephyr_to_proto_state WIFI_STATE_GROUP_HANDSHAKE = Proto_STATE_GROUP_HANDSHAKE"
| "zephyr_to_proto_state WIFI_STATE_COMPLETED = Proto_STATE_CONNECTED"
| "zephyr_to_proto_state WIFI_STATE_INTERFACE_DISABLED = Proto_STATE_INTERFACE_DISABLED"
| "zephyr_to_proto_state _ = Proto_STATE_DISCONNECTED"

fun host_proto_to_zephyr_state :: "WifiInterfaceState \<Rightarrow> wifi_iface_state" where
  "host_proto_to_zephyr_state Proto_STATE_CONNECTED = WIFI_STATE_COMPLETED"
| "host_proto_to_zephyr_state Proto_STATE_DISCONNECTED = WIFI_STATE_DISCONNECTED"
| "host_proto_to_zephyr_state Proto_STATE_INACTIVE = WIFI_STATE_INACTIVE"
| "host_proto_to_zephyr_state Proto_STATE_SCANNING = WIFI_STATE_SCANNING"
| "host_proto_to_zephyr_state Proto_STATE_INTERFACE_DISABLED = WIFI_STATE_INTERFACE_DISABLED"
| "host_proto_to_zephyr_state _ = WIFI_STATE_DISCONNECTED"

datatype WifiMode =
    Proto_MODE_INFRA
  | Proto_MODE_AP
  | Proto_MODE_MESH_POINT
  | Proto_MODE_P2P_GO
  | Proto_MODE_P2P_CLIENT
  | Proto_MODE_undefined nat

datatype wifi_iface_mode =
    WIFI_MODE_INFRA
  | WIFI_MODE_AP
  | WIFI_MODE_MESH
  | WIFI_MODE_P2P_GO
  | Wifi_mode_other nat

fun zephyr_to_proto_mode :: "wifi_iface_mode \<Rightarrow> WifiMode" where
  "zephyr_to_proto_mode WIFI_MODE_AP = Proto_MODE_AP"
| "zephyr_to_proto_mode WIFI_MODE_MESH = Proto_MODE_MESH_POINT"
| "zephyr_to_proto_mode WIFI_MODE_P2P_GO = Proto_MODE_P2P_GO"
| "zephyr_to_proto_mode _ = Proto_MODE_INFRA"

fun host_proto_to_zephyr_mode :: "WifiMode \<Rightarrow> wifi_iface_mode" where
  "host_proto_to_zephyr_mode Proto_MODE_AP = WIFI_MODE_AP"
| "host_proto_to_zephyr_mode Proto_MODE_INFRA = WIFI_MODE_INFRA"
| "host_proto_to_zephyr_mode _ = WIFI_MODE_INFRA"

datatype WifiLinkMode =
    Proto_LINK_UNKNOWN
  | Proto_LINK_LEGACY_B
  | Proto_LINK_LEGACY_G
  | Proto_LINK_LEGACY_A
  | Proto_LINK_HT_20
  | Proto_LINK_HT_40
  | Proto_LINK_VHT_20
  | Proto_LINK_VHT_40
  | Proto_LINK_VHT_80
  | Proto_LINK_VHT_160
  | Proto_LINK_HE_20
  | Proto_LINK_HE_40
  | Proto_LINK_HE_80
  | Proto_LINK_HE_160
  | Proto_LINK_HE_RU
  | Proto_LINK_EHT_80
  | Proto_LINK_EHT_160

datatype wifi_link_mode =
    WIFI_1
  | WIFI_2
  | WIFI_3
  | WIFI_4
  | WIFI_5
  | WIFI_6
  | WIFI_6E
  | Wifi_link_other nat

fun zephyr_to_proto_link_mode :: "wifi_link_mode \<Rightarrow> WifiLinkMode" where
  "zephyr_to_proto_link_mode WIFI_1 = Proto_LINK_LEGACY_B"
| "zephyr_to_proto_link_mode WIFI_3 = Proto_LINK_LEGACY_G"
| "zephyr_to_proto_link_mode WIFI_2 = Proto_LINK_LEGACY_A"
| "zephyr_to_proto_link_mode WIFI_4 = Proto_LINK_HT_20"
| "zephyr_to_proto_link_mode WIFI_5 = Proto_LINK_VHT_20"
| "zephyr_to_proto_link_mode WIFI_6 = Proto_LINK_HE_20"
| "zephyr_to_proto_link_mode WIFI_6E = Proto_LINK_HE_20"
| "zephyr_to_proto_link_mode _ = Proto_LINK_UNKNOWN"

section \<open>Properties\<close>

text \<open>The host's copies are the device's functions.\<close>

lemma host_zephyr_to_proto_security_eq: "host_zephyr_to_proto_security z = zephyr_to_proto_security z"
  by (cases z) simp_all

lemma host_proto_to_zephyr_security_eq: "host_proto_to_zephyr_security p = proto_to_zephyr_security p"
  by (cases p) simp_all

lemma host_zephyr_to_proto_mfp_eq: "host_zephyr_to_proto_mfp z = zephyr_to_proto_mfp z"
  by (cases z) simp_all

lemma host_proto_to_zephyr_mfp_eq: "host_proto_to_zephyr_mfp p = proto_to_zephyr_mfp p"
  by (cases p) simp_all

text \<open>
  What an application on the host asks for is what the radio is told: a security type, a
  management frame protection option or a scan type that the host encodes and the device decodes
  comes out unchanged, except that the personal and SAE variants fold into PSK and SAE and the
  types without a protocol value become NONE.
\<close>

lemma request_parameters_survive:
  "proto_to_zephyr_security (host_zephyr_to_proto_security z) =
     (case z of
        WIFI_SECURITY_TYPE_WPA_PSK \<Rightarrow> WIFI_SECURITY_TYPE_PSK
      | WIFI_SECURITY_TYPE_WPA_AUTO_PERSONAL \<Rightarrow> WIFI_SECURITY_TYPE_PSK
      | WIFI_SECURITY_TYPE_SAE_H2E \<Rightarrow> WIFI_SECURITY_TYPE_SAE
      | WIFI_SECURITY_TYPE_SAE_AUTO \<Rightarrow> WIFI_SECURITY_TYPE_SAE
      | WIFI_SECURITY_TYPE_EAP_TLS \<Rightarrow> WIFI_SECURITY_TYPE_NONE
      | Wifi_security_other _ \<Rightarrow> WIFI_SECURITY_TYPE_NONE
      | _ \<Rightarrow> z) \<and>
   proto_to_zephyr_mfp (host_zephyr_to_proto_mfp m) =
     (case m of Wifi_mfp_other _ \<Rightarrow> WIFI_MFP_DISABLE | _ \<Rightarrow> m) \<and>
   proto_to_zephyr_scan_type (host_zephyr_to_proto_scan_type t) = t"
  by (cases z; cases m; cases t)
    (simp_all add: host_zephyr_to_proto_security_eq host_zephyr_to_proto_mfp_eq
      host_zephyr_to_proto_scan_type_def)

text \<open>
  Protocol values survive a round trip through Zephyr's enumerations exactly when they are
  among those the translation knows: seven security types, three bands, three protection
  options.  Every other security type comes back as NONE.
\<close>

lemma proto_roundtrip:
  "(zephyr_to_proto_security (proto_to_zephyr_security p) = p \<longleftrightarrow>
      p \<in> {Proto_SECURITY_NONE, Proto_SECURITY_PSK, Proto_SECURITY_PSK_SHA256, Proto_SECURITY_SAE,
            Proto_SECURITY_EAP, Proto_SECURITY_WEP, Proto_SECURITY_WAPI}) \<and>
   (zephyr_to_proto_security (proto_to_zephyr_security p) \<in> {p, Proto_SECURITY_NONE}) \<and>
   (zephyr_to_proto_band (proto_to_zephyr_band b) = b \<longleftrightarrow>
      b \<in> {Proto_BAND_2_4_GHZ, Proto_BAND_5_GHZ, Proto_BAND_6_GHZ}) \<and>
   (zephyr_to_proto_mfp (proto_to_zephyr_mfp m) = m \<longleftrightarrow>
      m \<in> {Proto_MFP_OPTIONAL, Proto_MFP_REQUIRED, Proto_MFP_DISABLE})"
proof (intro conjI)
  show "zephyr_to_proto_security (proto_to_zephyr_security p) = p \<longleftrightarrow>
      p \<in> {Proto_SECURITY_NONE, Proto_SECURITY_PSK, Proto_SECURITY_PSK_SHA256, Proto_SECURITY_SAE,
            Proto_SECURITY_EAP, Proto_SECURITY_WEP, Proto_SECURITY_WAPI}"
    by (cases p) simp_all
  show "zephyr_to_proto_security (proto_to_zephyr_security p) \<in> {p, Proto_SECURITY_NONE}"
    by (cases p) simp_all
  show "zephyr_to_proto_band (proto_to_zephyr_band b) = b \<longleftrightarrow>
      b \<in> {Proto_BAND_2_4_GHZ, Proto_BAND_5_GHZ, Proto_BAND_6_GHZ}"
    by (cases b) simp_all
  show "zephyr_to_proto_mfp (proto_to_zephyr_mfp m) = m \<longleftrightarrow>
      m \<in> {Proto_MFP_OPTIONAL, Proto_MFP_REQUIRED, Proto_MFP_DISABLE}"
    by (cases m) simp_all
qed

text \<open>
  The interface state the device reports reaches the host's application only for five states;
  a station that is authenticating, associating, associated or in a handshake is shown as
  disconnected, although the protocol carries these states.
\<close>

lemma interface_state_on_host:
  "host_proto_to_zephyr_state (zephyr_to_proto_state z) =
     (if z \<in> {WIFI_STATE_COMPLETED, WIFI_STATE_INACTIVE, WIFI_STATE_SCANNING,
               WIFI_STATE_INTERFACE_DISABLED}
      then z else WIFI_STATE_DISCONNECTED)"
  by (cases z) simp_all

end
