(* ===== verification/Wifi_Raw.thy ===== *)
theory Wifi_Raw
  imports Net_If_Mgmt
begin

text \<open>
  The raw 802.11 paths of \<open>device/wifi_data.c\<close>: transmission of a complete frame through a packet
  socket, the monitor-mode capture with its start and stop, and the diagnostics of both.

  \<open>raw_vars\<close> holds the static variables of that part of the file.  Sockets, the network management
  requests and the delays are not part of the sources: they are fields of \<open>raw_ops\<close>, functions over
  the state \<open>'e\<close> of the stacks; \<open>net_if_ops\<close> provides the interface functions, as in theory
  \<open>Net_If_Mgmt\<close>.
\<close>

section \<open>State and environment\<close>

record raw_vars =
  raw_tx_sockfd :: int
  raw_tx_ifindex :: int
  raw_tx_frame_count :: u32
  raw_tx_injection_ret :: int
  raw_tx_setup_ret :: int
  raw_tx_last_ret :: int
  raw_tx_last_frame_len :: nat
  raw_tx_last_iface_wifi :: int
  raw_rx_sockfd :: int
  raw_rx_ifindex :: int
  raw_rx_iface :: "nat option"
  raw_rx_cb_set :: bool
  raw_rx_running :: bool
  raw_rx_frame_count :: u32
  raw_rx_mode_readback :: u32

definition raw_vars_init :: raw_vars where
  "raw_vars_init =
     \<lparr>raw_tx_sockfd = - 1, raw_tx_ifindex = 0, raw_tx_frame_count = 0, raw_tx_injection_ret = 0,
      raw_tx_setup_ret = 0, raw_tx_last_ret = 0, raw_tx_last_frame_len = 0,
      raw_tx_last_iface_wifi = 0, raw_rx_sockfd = - 1, raw_rx_ifindex = 0, raw_rx_iface = None,
      raw_rx_cb_set = False, raw_rx_running = False, raw_rx_frame_count = 0,
      raw_rx_mode_readback = 0\<rparr>"

text \<open>
  \<open>packet_socket\<close> is \<open>socket(AF_PACKET, SOCK_RAW, htons(ETH_P_ALL))\<close>; \<open>packet_bind\<close> and
  \<open>packet_sendto\<close> take the interface index of the \<open>sockaddr_ll\<close>.  \<open>packet_recvfrom\<close> gives the
  return value, whether \<open>errno\<close> is \<open>EAGAIN\<close> or \<open>EWOULDBLOCK\<close>, and the bytes received.
\<close>

record 'e raw_ops =
  NET_IF_UP_flag :: u32
  packet_socket :: "'e \<Rightarrow> int \<times> 'e"
  packet_bind :: "int \<Rightarrow> int \<Rightarrow> 'e \<Rightarrow> int \<times> 'e"
  packet_close :: "int \<Rightarrow> 'e \<Rightarrow> 'e"
  packet_sendto :: "int \<Rightarrow> byte list \<Rightarrow> int \<Rightarrow> 'e \<Rightarrow> int \<times> 'e"
  packet_poll :: "int \<Rightarrow> nat \<Rightarrow> 'e \<Rightarrow> int \<times> 'e"
  packet_recvfrom :: "int \<Rightarrow> nat \<Rightarrow> 'e \<Rightarrow> (int \<times> bool \<times> byte list) \<times> 'e"
  net_eth_txinjection_mode :: "nat \<Rightarrow> bool \<Rightarrow> 'e \<Rightarrow> int \<times> 'e"
  wifi_mode_set :: "nat \<Rightarrow> int \<Rightarrow> u32 \<Rightarrow> 'e \<Rightarrow> int \<times> 'e"
  wifi_mode_get :: "nat \<Rightarrow> int \<Rightarrow> 'e \<Rightarrow> (int \<times> u32) \<times> 'e"
  wifi_channel_set :: "nat \<Rightarrow> int \<Rightarrow> u32 \<Rightarrow> 'e \<Rightarrow> int \<times> 'e"
  wifi_packet_filter_all :: "nat \<Rightarrow> int \<Rightarrow> nat \<Rightarrow> 'e \<Rightarrow> int \<times> 'e"
  wait_ms :: "nat \<Rightarrow> 'e \<Rightarrow> 'e"
  start_zep_last_step :: "'e \<Rightarrow> int"

section \<open>Transmission\<close>

abbreviation (input) RAW_FRAME_MIN_LEN :: nat where "RAW_FRAME_MIN_LEN \<equiv> 24"
abbreviation (input) RAW_FRAME_MAX_LEN :: nat where "RAW_FRAME_MAX_LEN \<equiv> 2346"

text \<open>The packed driver header on a little-endian CPU.\<close>

definition raw_tx_pkt_header :: "nat \<Rightarrow> byte list" where
  "raw_tx_pkt_header len =
     [0x78, 0x56, 0x34, 0x12, 6, lo_byte (word_of_nat len), hi_byte (word_of_nat len), 0, 1, 0, 0, 0]"

definition raw_tx_socket_setup ::
  "'e net_if_ops \<Rightarrow> 'e raw_ops \<Rightarrow> nat \<Rightarrow> raw_vars \<Rightarrow> 'e \<Rightarrow> int \<times> raw_vars \<times> 'e" where
  "raw_tx_socket_setup no ro iface v e =
     (if 0 \<le> raw_tx_sockfd v then (0, v, e)
      else case packet_socket ro e of (fd, e1) \<Rightarrow>
        if fd < 0 then (- EIO, v\<lparr>raw_tx_sockfd := fd, raw_tx_setup_ret := 100 + fd\<rparr>, e1)
        else
          let idx = net_if_get_by_iface no iface e1;
              v1 = v\<lparr>raw_tx_sockfd := fd, raw_tx_ifindex := idx\<rparr>
          in case packet_bind ro fd idx e1 of (ret, e2) \<Rightarrow>
            if ret < 0
            then (- EIO, v1\<lparr>raw_tx_sockfd := - 1, raw_tx_setup_ret := 200 + idx\<rparr>, packet_close ro fd e2)
            else (0, v1\<lparr>raw_tx_setup_ret := 0\<rparr>, e2))"

definition wifi_data_raw_frame_tx ::
  "'e net_if_ops \<Rightarrow> 'e raw_ops \<Rightarrow> nat option \<Rightarrow> byte list option \<Rightarrow> nat \<Rightarrow> raw_vars \<Rightarrow> 'e
     \<Rightarrow> int \<times> raw_vars \<times> 'e" where
  "wifi_data_raw_frame_tx no ro iface frame len v e =
     (let v0 = v\<lparr>raw_tx_last_frame_len := len,
                 raw_tx_last_iface_wifi :=
                   (case iface of Some i \<Rightarrow> of_bool (net_if_is_wifi no i e) | None \<Rightarrow> 0)\<rparr>
      in case (iface, frame) of
           (Some i, Some bs) \<Rightarrow>
            (if \<not> net_if_is_wifi no i e then (- EINVAL, v0\<lparr>raw_tx_last_ret := - EINVAL\<rparr>, e)
             else if len < RAW_FRAME_MIN_LEN \<or> RAW_FRAME_MAX_LEN < len
             then (- EMSGSIZE, v0\<lparr>raw_tx_last_ret := - EMSGSIZE\<rparr>, e)
             else case net_eth_txinjection_mode ro i True e of (ret0, e1) \<Rightarrow>
               let v1 = v0\<lparr>raw_tx_injection_ret := ret0\<rparr> in
               if ret0 \<noteq> 0 then (ret0, v1\<lparr>raw_tx_last_ret := ret0\<rparr>, e1)
               else case raw_tx_socket_setup no ro i v1 e1 of (ret, v2, e2) \<Rightarrow>
                 if ret \<noteq> 0 then (ret, v2\<lparr>raw_tx_last_ret := ret\<rparr>, e2)
                 else case packet_sendto ro (raw_tx_sockfd v2)
                             (raw_tx_pkt_header len @ take len bs) (raw_tx_ifindex v2) e2 of (n, e3) \<Rightarrow>
                   if n < 0 then (- EIO, v2\<lparr>raw_tx_last_ret := - EIO\<rparr>, e3)
                   else (0, v2\<lparr>raw_tx_frame_count := raw_tx_frame_count v2 + 1, raw_tx_last_ret := 0\<rparr>, e3))
         | _ \<Rightarrow> (- EINVAL, v0\<lparr>raw_tx_last_ret := - EINVAL\<rparr>, e))"

section \<open>Capture\<close>

text \<open>The loop of at most five attempts to bring the interface up; \<open>up_ret\<close> is the last result.\<close>

primrec net_if_up_attempts :: "'e net_if_ops \<Rightarrow> 'e raw_ops \<Rightarrow> nat \<Rightarrow> nat \<Rightarrow> int \<Rightarrow> 'e \<Rightarrow> int \<times> 'e" where
  "net_if_up_attempts no ro iface 0 up_ret e = (up_ret, e)"
| "net_if_up_attempts no ro iface (Suc n) up_ret e =
     (case net_if_up no iface e of (ret, e1) \<Rightarrow>
        if ret = 0 then (0, e1)
        else net_if_up_attempts no ro iface n ret (wait_ms ro 500 e1))"

text \<open>
  The radio set-up of \<open>wifi_data_raw_frame_rx_enable\<close> in its two halves, each ending with the code
  to return or 0 to go on: interface and monitor mode, then channel and filter.
\<close>

definition raw_rx_monitor_on ::
  "'e net_if_ops \<Rightarrow> 'e raw_ops \<Rightarrow> nat \<Rightarrow> raw_vars \<Rightarrow> 'e \<Rightarrow> int \<times> raw_vars \<times> 'e" where
  "raw_rx_monitor_on no ro i v e =
     (case (if net_if_flag_is_set no i (NET_IF_UP_flag ro) e then (0, e)
            else net_if_up_attempts no ro i 5 (- EIO) e) of (up_ret, e1) \<Rightarrow>
        if up_ret \<noteq> 0 then (- 2000 - up_ret, v, e1)
        else case wifi_mode_set ro i (net_if_get_by_iface no i e1) 2 e1 of (ret, e2) \<Rightarrow>
          if ret \<noteq> 0 then (ret, v, e2)
          else case wifi_mode_get ro i (net_if_get_by_iface no i e2) e2 of ((gret, mode), e3) \<Rightarrow>
            (0, (if gret = 0 then v\<lparr>raw_rx_mode_readback := mode\<rparr> else v), wait_ms ro 500 e3))"

definition raw_rx_tune :: "'e net_if_ops \<Rightarrow> 'e raw_ops \<Rightarrow> nat \<Rightarrow> u32 \<Rightarrow> 'e \<Rightarrow> int \<times> 'e" where
  "raw_rx_tune no ro i channel e =
     (case net_eth_txinjection_mode ro i True e of (ret, e1) \<Rightarrow>
        if ret \<noteq> 0 then (ret, e1)
        else case (if channel = 0 then (0, e1)
                   else wifi_channel_set ro i (net_if_get_by_iface no i e1) channel e1) of (ret2, e2) \<Rightarrow>
          if ret2 \<noteq> 0 then (- 1003, e2)
          else case wifi_packet_filter_all ro i (net_if_get_by_iface no i e2) 1550 e2 of (ret3, e3) \<Rightarrow>
            (if ret3 \<noteq> 0 then - 1004 else 0, e3))"

definition wifi_data_raw_frame_rx_enable ::
  "'e net_if_ops \<Rightarrow> 'e raw_ops \<Rightarrow> nat option \<Rightarrow> u32 \<Rightarrow> raw_vars \<Rightarrow> 'e \<Rightarrow> int \<times> raw_vars \<times> 'e" where
  "wifi_data_raw_frame_rx_enable no ro iface channel v e =
     (case iface of None \<Rightarrow> (- EINVAL, v, e) | Some i \<Rightarrow>
        if \<not> net_if_is_wifi no i e then (- EINVAL, v, e)
        else if 0 \<le> raw_rx_sockfd v then (0, v, e)
        else case raw_rx_monitor_on no ro i v e of (ret, v1, e1) \<Rightarrow>
          if ret \<noteq> 0 then (ret, v1, e1)
          else case raw_rx_tune no ro i channel e1 of (ret2, e2) \<Rightarrow>
            if ret2 \<noteq> 0 then (ret2, v1, e2)
            else case packet_socket ro e2 of (fd, e3) \<Rightarrow>
              if fd < 0 then (- EIO, v1\<lparr>raw_rx_sockfd := fd\<rparr>, e3)
              else
                let idx = net_if_get_by_iface no i e3;
                    v2 = v1\<lparr>raw_rx_sockfd := fd, raw_rx_ifindex := idx\<rparr>
                in case packet_bind ro fd idx e3 of (bret, e4) \<Rightarrow>
                  if bret < 0 then (- EIO, v2\<lparr>raw_rx_sockfd := - 1\<rparr>, packet_close ro fd e4)
                  else (0, v2\<lparr>raw_rx_iface := Some i, raw_rx_running := True\<rparr>, e4))"

definition wifi_data_raw_frame_rx_disable :: "'e raw_ops \<Rightarrow> raw_vars \<Rightarrow> 'e \<Rightarrow> int \<times> raw_vars \<times> 'e" where
  "wifi_data_raw_frame_rx_disable ro v e =
     (if raw_rx_sockfd v < 0 then (0, v, e)
      else (0, v\<lparr>raw_rx_running := False, raw_rx_sockfd := - 1, raw_rx_iface := None\<rparr>,
            packet_close ro (raw_rx_sockfd v) (wait_ms ro 500 e)))"

text \<open>
  One pass through the loop of the capture thread, as far as the file goes: the frame to hand to
  the registered callback, if there is one.  \<open>sizeof(raw_rx_buf)\<close> is 2410.
\<close>

definition raw_rx_poll_round ::
  "'e raw_ops \<Rightarrow> raw_vars \<Rightarrow> 'e \<Rightarrow> (nat option \<times> byte list) option \<times> raw_vars \<times> 'e" where
  "raw_rx_poll_round ro v e =
     (if \<not> raw_rx_running v then (None, v, e)
      else case packet_poll ro (raw_rx_sockfd v) 100 e of (pret, e1) \<Rightarrow>
        if pret < 0 then (None, v\<lparr>raw_rx_running := False\<rparr>, e1)
        else if pret = 0 then (None, v, e1)
        else case packet_recvfrom ro (raw_rx_sockfd v) (RAW_FRAME_MAX_LEN + 64) e1 of ((n, again, bs), e2) \<Rightarrow>
          if 0 < n then
            (if raw_rx_cb_set v then Some (raw_rx_iface v, take (nat n) bs) else None,
             v\<lparr>raw_rx_frame_count := raw_rx_frame_count v + 1\<rparr>, e2)
          else if n < 0 \<and> \<not> again then (None, v\<lparr>raw_rx_running := False\<rparr>, e2)
          else (None, v, e2))"

definition wifi_data_set_raw_rx_cb :: "bool \<Rightarrow> raw_vars \<Rightarrow> raw_vars" where
  "wifi_data_set_raw_rx_cb cb v = v\<lparr>raw_rx_cb_set := cb\<rparr>"

section \<open>Diagnostics\<close>

record wifi_data_raw_rx_diag =
  socket_fd :: int
  thread_running :: bool
  frames_received :: u32
  current_mode :: u32
  start_zep_step :: int
  tx_socket_fd :: int
  tx_frames_sent :: u32
  tx_injection_ret :: int
  tx_setup_ret :: int
  tx_last_ret :: int
  tx_last_len :: u32
  tx_last_wifi :: int

definition raw_rx_diag :: "'e raw_ops \<Rightarrow> raw_vars \<Rightarrow> 'e \<Rightarrow> wifi_data_raw_rx_diag" where
  "raw_rx_diag ro v e =
     \<lparr>socket_fd = raw_rx_sockfd v, thread_running = raw_rx_running v,
      frames_received = raw_rx_frame_count v, current_mode = raw_rx_mode_readback v,
      start_zep_step = start_zep_last_step ro e, tx_socket_fd = raw_tx_sockfd v,
      tx_frames_sent = raw_tx_frame_count v, tx_injection_ret = raw_tx_injection_ret v,
      tx_setup_ret = raw_tx_setup_ret v, tx_last_ret = raw_tx_last_ret v,
      tx_last_len = word_of_nat (raw_tx_last_frame_len v), tx_last_wifi = raw_tx_last_iface_wifi v\<rparr>"

text \<open>\<open>init_wifi_data\<close> stores the device of the first Wi-Fi interface the stack lists.\<close>

definition wifi_iface_enumeration_cb ::
  "'e net_if_ops \<Rightarrow> (nat \<Rightarrow> 'e \<Rightarrow> nat) \<Rightarrow> 'e \<Rightarrow> nat \<Rightarrow> nat option \<Rightarrow> nat option" where
  "wifi_iface_enumeration_cb no if_dev e iface dev =
     (if net_if_is_wifi no iface e then (if dev = None then Some (if_dev iface e) else dev) else dev)"

definition init_wifi_data ::
  "'e net_if_ops \<Rightarrow> (nat \<Rightarrow> 'e \<Rightarrow> nat) \<Rightarrow> ('w, 'e) device \<Rightarrow> ('w, 'e) device" where
  "init_wifi_data no if_dev s =
     s\<lparr>wifi_dev := foldl (\<lambda>d i. wifi_iface_enumeration_cb no if_dev (env s) i d) (wifi_dev s)
                    (net_ifs_of no (env s))\<rparr>"

end
