(* ===== verification/Wifi_Messages.thy ===== *)
theory Wifi_Messages
  imports Wifi_Enums Wifi_Raw
begin

text \<open>
  The data of \<open>device/wifi_mgmt_proxy.c\<close>: the protocol messages of \<open>protos/wifi.proto\<close> as far as
  the proxy or the host's driver reads or writes them, the structures of Zephyr's Wi-Fi API, the
  static variables of the file, and \<open>wifi_ops\<close>, the calls it makes into code outside the sources
  (the protobuf codec and the network management requests).

  Strings are character lists without the terminating NUL.  A pointer that may be null is an
  option.  A \<open>oneof\<close> is a datatype with a constructor per tag.
\<close>

section \<open>Requests\<close>

record WifiConnectRequest =
  cr_iface_index :: u32
  cr_ssid :: "byte list"
  cr_security_type :: WifiSecurityType
  cr_psk :: "byte list"
  cr_sae_password :: "byte list"
  cr_channel :: u32
  cr_bssid :: "byte list"
  cr_timeout_ms :: u32
  cr_mfp :: WifiMfpOptions
  cr_band :: WifiBand
  cr_eap_identity :: "byte list"
  cr_eap_password :: "byte list"

record WifiScanParams =
  sq_scan_type :: WifiScanType
  sq_bands :: u32
  sq_dwell_time_active :: u32
  sq_dwell_time_passive :: u32
  sq_max_bss_cnt :: u32

record WifiApEnableParams =
  ap_ssid :: "byte list"
  ap_channel :: u32
  ap_band :: WifiBand
  ap_security_type :: WifiSecurityType
  ap_psk :: "byte list"

record WifiPsSettings =
  pss_enabled :: u32
  pss_wakeup_mode :: u32
  pss_listen_interval_beacons :: u32
  pss_timeout_ms :: u32
  pss_exit_strategy :: u32

record WifiPowerSaveConfig =
  psc_ps_settings :: "WifiPsSettings option"
  psc_type :: u32

abbreviation (input) WIFI_PS_STATE_DISABLE :: u32 where "WIFI_PS_STATE_DISABLE \<equiv> 0"
abbreviation (input) WIFI_PS_STATE_ENABLE :: u32 where "WIFI_PS_STATE_ENABLE \<equiv> 1"
abbreviation (input) WIFI_PS_TYPE_MODEM :: u32 where "WIFI_PS_TYPE_MODEM \<equiv> 1"
abbreviation (input) WIFI_PS_TYPE_WMM :: u32 where "WIFI_PS_TYPE_WMM \<equiv> 2"

record WifiRegChanInfo =
  center_frequency_mhz :: u32
  max_power_dbm :: u32
  supported :: bool
  passive_only :: bool
  dfs :: bool

record WifiRegDomain =
  rd_country_code :: "byte list"
  rd_force_update :: bool
  rd_channel_info :: "WifiRegChanInfo list"

datatype WifiMgmtRequest_payload =
    No_payload
  | Connect_req WifiConnectRequest
  | Disconnect_req u32
  | Scan_req u32 "WifiScanParams option"
  | Ap_enable_req u32 "WifiApEnableParams option"
  | Ap_disable_req u32
  | Get_version_req
  | Set_ps_config_req u32 "WifiPowerSaveConfig option"
  | Get_ps_config_req u32
  | Set_reg_domain_req u32 "WifiRegDomain option"
  | Get_reg_domain_req u32
  | Get_iface_status_req u32
  | Send_raw_frame_req u32 "byte list"
  | Enable_raw_rx_req u32 u32
  | Disable_raw_rx_req u32

record WifiMgmtRequest =
  wreq_request_id :: u32
  wreq_payload :: WifiMgmtRequest_payload

section \<open>Responses and notifications\<close>

record WifiStatusResponse =
  st_success :: bool
  st_error_code :: int
  st_error_message :: string

record WifiVersion =
  driver_major :: u32
  driver_minor :: u32
  driver_patch :: u32
  firmware_version :: string

record WifiInterfaceStatus =
  is_state :: WifiInterfaceState
  is_mode :: WifiMode
  is_ssid :: "byte list"
  is_bssid :: "byte list"
  is_channel :: u32
  is_security :: WifiSecurityType
  is_mfp :: WifiMfpOptions
  is_rssi :: int
  is_link_mode :: WifiLinkMode
  is_tx_bitrate_kbps :: u32
  is_band :: WifiBand
  is_dtim_period :: u32
  is_beacon_interval :: u32
  is_twt_capable :: bool

record EnableRawRxResponse =
  rr_status :: int
  rr_diag :: wifi_data_raw_rx_diag
  rr_iface_state :: wifi_iface_state

datatype WifiMgmtResponse_payload =
    No_response_payload
  | Status_resp WifiStatusResponse
  | Get_version_resp "WifiVersion option"
  | Get_ps_config_resp WifiPowerSaveConfig
  | Get_reg_domain_resp WifiRegDomain
  | Get_iface_status_resp WifiInterfaceStatus
  | Get_protocol_version_resp u32 u32
  | Enable_raw_rx_resp EnableRawRxResponse

record WifiMgmtResponse =
  wresp_request_id :: u32
  wresp_payload :: WifiMgmtResponse_payload

record WifiScanResult =
  sr_ssid :: "byte list"
  sr_bssid :: "byte list"
  sr_channel :: u32
  sr_rssi :: int
  sr_security :: WifiSecurityType
  sr_wpa3_enterprise_type :: u32
  sr_mfp :: WifiMfpOptions
  sr_band :: WifiBand

datatype WifiEvent_data =
    No_event
  | Scan_done_event int "WifiScanResult list"
  | Connect_result_event int
  | Disconnect_result_event bool u32
  | Interface_status_event WifiInterfaceStatus
  | Ap_enable_result_event int
  | Ap_disable_result_event int
  | Ap_sta_connected_event "byte list"
  | Ap_sta_disconnected_event "byte list"
  | Raw_frame_rx_event "byte list"

record WifiMgmtNotification =
  ev_iface_index :: u32
  ev_data :: WifiEvent_data

section \<open>Zephyr's structures\<close>

record wifi_connect_req_params =
  cp_ssid :: "byte list"
  cp_psk :: "byte list option"
  cp_sae_password :: "byte list option"
  cp_eap_identity :: "byte list option"
  cp_eap_password :: "byte list option"
  cp_security :: wifi_security_type
  cp_channel :: byte
  cp_bssid :: "byte list"
  cp_timeout :: u32
  cp_mfp :: wifi_mfp_options
  cp_band :: wifi_frequency_bands

text \<open>\<open>{0}\<close>: the enumerators with value 0 are NONE, DISABLE and 2.4 GHz.\<close>

definition connect_params_zero :: wifi_connect_req_params where
  "connect_params_zero =
     \<lparr>cp_ssid = [], cp_psk = None, cp_sae_password = None, cp_eap_identity = None,
      cp_eap_password = None, cp_security = WIFI_SECURITY_TYPE_NONE, cp_channel = 0,
      cp_bssid = replicate 6 0, cp_timeout = 0, cp_mfp = WIFI_MFP_DISABLE,
      cp_band = WIFI_FREQ_BAND_2_4_GHZ\<rparr>"

record wifi_scan_params =
  sp_scan_type :: wifi_scan_type
  sp_bands :: byte
  sp_dwell_time_active :: u16
  sp_dwell_time_passive :: u16
  sp_max_bss_cnt :: u16

datatype wifi_ps = WIFI_PS_DISABLED | WIFI_PS_ENABLED
datatype wifi_ps_mode = WIFI_PS_MODE_LEGACY | WIFI_PS_MODE_WMM
datatype wifi_ps_param_type =
    WIFI_PS_PARAM_STATE
  | WIFI_PS_PARAM_LISTEN_INTERVAL
  | WIFI_PS_PARAM_MODE
  | WIFI_PS_PARAM_TIMEOUT

record wifi_ps_params =
  psp_type :: wifi_ps_param_type
  psp_enabled :: wifi_ps
  psp_listen_interval :: u16
  psp_timeout_ms :: u32
  psp_mode :: wifi_ps_mode

record wifi_ps_config =
  psg_enabled :: wifi_ps
  psg_listen_interval :: u16
  psg_wakeup_mode :: u32
  psg_timeout_ms :: u32
  psg_exit_strategy :: u32
  psg_mode :: wifi_ps_mode

record wifi_reg_chan_info =
  rc_center_frequency :: u16
  rc_max_power :: u16
  rc_supported :: bool
  rc_passive_only :: bool
  rc_dfs :: bool

record wifi_reg_domain =
  zr_country_code :: "byte \<times> byte"
  zr_force :: bool
  zr_num_channels :: nat
  zr_chan_info :: "wifi_reg_chan_info list"

record wifi_iface_status =
  zs_state :: wifi_iface_state
  zs_iface_mode :: wifi_iface_mode
  zs_ssid :: "byte list"
  zs_ssid_len :: nat
  zs_bssid :: "byte list"
  zs_band :: wifi_frequency_bands
  zs_channel :: u32
  zs_security :: wifi_security_type
  zs_mfp :: wifi_mfp_options
  zs_rssi :: int
  zs_link_mode :: wifi_link_mode
  zs_current_phy_tx_rate :: u32
  zs_dtim_period :: u32
  zs_beacon_interval :: u32
  zs_twt_capable :: bool

record wifi_version =
  drv_version :: "string option"
  fw_version :: "string option"

text \<open>A status structure filled with zeros.\<close>

definition iface_status_zero :: wifi_iface_status where
  "iface_status_zero =
     \<lparr>zs_state = WIFI_STATE_DISCONNECTED, zs_iface_mode = WIFI_MODE_INFRA, zs_ssid = replicate 32 0,
      zs_ssid_len = 0, zs_bssid = replicate 6 0, zs_band = WIFI_FREQ_BAND_2_4_GHZ, zs_channel = 0,
      zs_security = WIFI_SECURITY_TYPE_NONE, zs_mfp = WIFI_MFP_DISABLE, zs_rssi = 0,
      zs_link_mode = Wifi_link_other 0, zs_current_phy_tx_rate = 0, zs_dtim_period = 0,
      zs_beacon_interval = 0, zs_twt_capable = False\<rparr>"

record wifi_scan_result =
  zc_ssid :: "byte list"
  zc_ssid_length :: nat
  zc_mac :: "byte list"
  zc_mac_length :: nat
  zc_channel :: byte
  zc_rssi :: int
  zc_security :: wifi_security_type
  zc_wpa3_ent_type :: u32
  zc_mfp :: wifi_mfp_options
  zc_band :: wifi_frequency_bands

section \<open>Outside code and static variables\<close>

text \<open>
  One field per network management request the file issues; the result is the return value, for a
  query with the structure it fills.  \<open>current_phy_tx_rate\<close> is a float, kept here as its bits;
  \<open>phy_rate_kbps\<close> is the conversion \<open>(uint32_t)(rate * 1000.0f)\<close>.  The sizes are those of the
  generated structures.
\<close>

record 'e wifi_ops =
  WifiMgmtRequest_decode :: "byte list \<Rightarrow> WifiMgmtRequest option"
  WifiMgmtResponse_encode :: "nat \<Rightarrow> WifiMgmtResponse \<Rightarrow> byte list option"
  WifiMgmtNotification_encode :: "nat \<Rightarrow> WifiMgmtNotification \<Rightarrow> byte list option"
  sizeof_WifiMgmtResponse :: nat
  sizeof_WifiMgmtNotification :: nat
  CONFIG_WIFI_MGMT_PROXY_MAX_SCAN_RESULTS :: nat
  WIFI_CHANNEL_ANY :: byte
  WIFI_MGMT_SCAN_MAX_BSS_CNT :: u16
  MAX_REG_CHAN_NUM :: nat
  phy_rate_kbps :: "u32 \<Rightarrow> u32"
  net_if_get_default :: "'e \<Rightarrow> nat option"
  wifi_connect :: "nat \<Rightarrow> wifi_connect_req_params \<Rightarrow> 'e \<Rightarrow> int \<times> 'e"
  wifi_disconnect :: "nat \<Rightarrow> 'e \<Rightarrow> int \<times> 'e"
  wifi_scan :: "nat \<Rightarrow> wifi_scan_params option \<Rightarrow> 'e \<Rightarrow> int \<times> 'e"
  wifi_ap_enable :: "nat \<Rightarrow> wifi_connect_req_params \<Rightarrow> 'e \<Rightarrow> int \<times> 'e"
  wifi_ap_disable :: "nat \<Rightarrow> 'e \<Rightarrow> int \<times> 'e"
  wifi_version_get :: "nat option \<Rightarrow> 'e \<Rightarrow> (int \<times> wifi_version) \<times> 'e"
  wifi_ps_set :: "nat \<Rightarrow> wifi_ps_params \<Rightarrow> 'e \<Rightarrow> int \<times> 'e"
  wifi_ps_config_get :: "nat \<Rightarrow> 'e \<Rightarrow> (int \<times> wifi_ps_config) \<times> 'e"
  wifi_reg_domain_set :: "nat \<Rightarrow> byte \<times> byte \<Rightarrow> bool \<Rightarrow> 'e \<Rightarrow> int \<times> 'e"
  wifi_reg_domain_get :: "nat \<Rightarrow> nat \<Rightarrow> 'e \<Rightarrow> (int \<times> wifi_reg_domain) \<times> 'e"
  wifi_iface_status_get :: "nat \<Rightarrow> 'e \<Rightarrow> (int \<times> wifi_iface_status) \<times> 'e"

record wifi_vars =
  wv_raw :: raw_vars
  ap_enable_params :: wifi_connect_req_params
  ap_enable_ssid :: "byte list"
  ap_enable_psk :: "byte list"
  scan_results :: "WifiScanResult list"
  scan_result_count :: nat

text \<open>The environment of the proxy: interfaces, network management, sockets.\<close>

record 'e wifi_world =
  ww_if :: "'e net_if_ops"
  ww_ops :: "'e wifi_ops"
  ww_raw :: "'e raw_ops"

end
