(* ===== verification/Wifi_Requests.thy ===== *)
theory Wifi_Requests
  imports Wifi_Messages
begin

text \<open>
  The request side of \<open>device/wifi_mgmt_proxy.c\<close>: the lookup of the interface, one function per
  request handler, and the switch of \<open>process_wifi_mgmt_request\<close>.

  Every handler is a function of the request and the state of the stacks and gives its response
  with the new state.  The result is an option because the search for the first Wi-Fi interface
  runs until the stack has no further interface (\<open>None\<close>: it does not end).  A handler that fills
  either a data response or, on failure, the aliased status response gives a sum.
\<close>

section \<open>Shared helpers\<close>

text \<open>
  \<open>strncpy(target, msg, 63)\<close> into an array of \<open>n\<close> bytes that was zeroed: what a reader of those
  \<open>n\<close> bytes finds before the first NUL.  All \<open>n\<close> characters: the string is not terminated.
\<close>

definition set_status_error_msg_bytes :: "nat \<Rightarrow> string \<Rightarrow> string" where
  "set_status_error_msg_bytes n msg = take n (take 63 msg)"

definition status_error :: "int \<Rightarrow> string \<Rightarrow> WifiStatusResponse" where
  "status_error code msg =
     \<lparr>st_success = False, st_error_code = code, st_error_message = set_status_error_msg_bytes 64 msg\<rparr>"

definition status_ok :: "string \<Rightarrow> WifiStatusResponse" where
  "status_ok msg =
     \<lparr>st_success = True, st_error_code = 0, st_error_message = set_status_error_msg_bytes 64 msg\<rparr>"

definition status_of_ret :: "int \<Rightarrow> string \<Rightarrow> string \<Rightarrow> WifiStatusResponse" where
  "status_of_ret ret failed initiated = (if ret \<noteq> 0 then status_error ret failed else status_ok initiated)"

partial_function (option) first_wifi_iface :: "'e net_if_ops \<Rightarrow> 'e \<Rightarrow> int \<Rightarrow> nat option option" where
  "first_wifi_iface no e i =
     (case net_if_get_by_index no i e of
        None \<Rightarrow> Some None
      | Some iface \<Rightarrow> if net_if_is_wifi no iface e then Some (Some iface) else first_wifi_iface no e (i + 1))"

definition resolve_wifi_iface :: "'e net_if_ops \<Rightarrow> u32 \<Rightarrow> 'e \<Rightarrow> nat option option" where
  "resolve_wifi_iface no ifindex e =
     (if ifindex \<noteq> 0 then Some (net_if_get_by_index no (sint ifindex) e) else first_wifi_iface no e 1)"

definition with_wifi_iface ::
  "'e wifi_world \<Rightarrow> u32 \<Rightarrow> 'e \<Rightarrow> 'r \<Rightarrow> (nat \<Rightarrow> 'r) \<Rightarrow> 'r option" where
  "with_wifi_iface ww ifindex e missing f =
     map_option (\<lambda>r. case r of None \<Rightarrow> missing | Some i \<Rightarrow> f i) (resolve_wifi_iface (ww_if ww) ifindex e)"

section \<open>Connect, disconnect, scan\<close>

text \<open>\<open>DIV_ROUND_UP(timeout_ms, 1000)\<close> in 32-bit arithmetic.\<close>

definition connect_timeout_s :: "u32 \<Rightarrow> u32" where
  "connect_timeout_s timeout_ms = (timeout_ms + 1000 - 1) div 1000"

definition connect_params :: "'e wifi_ops \<Rightarrow> WifiConnectRequest \<Rightarrow> wifi_connect_req_params" where
  "connect_params wo req =
     (let sec = proto_to_zephyr_security (cr_security_type req);
          psk = sec \<in> {WIFI_SECURITY_TYPE_PSK, WIFI_SECURITY_TYPE_WPA_PSK, WIFI_SECURITY_TYPE_PSK_SHA256};
          eap = sec \<in> {WIFI_SECURITY_TYPE_EAP, WIFI_SECURITY_TYPE_EAP_TLS}
      in \<lparr>cp_ssid = cr_ssid req,
          cp_psk = (if psk then Some (cr_psk req) else None),
          cp_sae_password = (if \<not> psk \<and> sec = WIFI_SECURITY_TYPE_SAE then Some (cr_sae_password req) else None),
          cp_eap_identity = (if eap then Some (cr_eap_identity req) else None),
          cp_eap_password = (if eap then Some (cr_eap_password req) else None),
          cp_security = sec,
          cp_channel = (if cr_channel req = 0 then WIFI_CHANNEL_ANY wo else ucast (cr_channel req)),
          cp_bssid = cr_bssid req,
          cp_timeout = connect_timeout_s (cr_timeout_ms req),
          cp_mfp = proto_to_zephyr_mfp (cr_mfp req),
          cp_band = proto_to_zephyr_band (cr_band req)\<rparr>)"

text \<open>The length checks in their order, with the message of the first that fails.\<close>

definition connect_check :: "WifiConnectRequest \<Rightarrow> string option" where
  "connect_check req =
     (let sec = proto_to_zephyr_security (cr_security_type req) in
      if length (cr_ssid req) = 0 \<or> 32 < length (cr_ssid req) then Some ''Invalid SSID length''
      else if sec \<in> {WIFI_SECURITY_TYPE_PSK, WIFI_SECURITY_TYPE_WPA_PSK, WIFI_SECURITY_TYPE_PSK_SHA256}
      then (if length (cr_psk req) = 0 \<or> 64 < length (cr_psk req) then Some ''Invalid PSK length'' else None)
      else if sec = WIFI_SECURITY_TYPE_SAE
      then (if length (cr_sae_password req) = 0 \<or> 128 < length (cr_sae_password req)
            then Some ''Invalid SAE password length'' else None)
      else None)"

definition handle_connect_request ::
  "'e wifi_world \<Rightarrow> WifiConnectRequest \<Rightarrow> 'e \<Rightarrow> (WifiStatusResponse \<times> 'e) option" where
  "handle_connect_request ww req e =
     with_wifi_iface ww (cr_iface_index req) e (status_error (- ENODEV) ''Interface not found'', e)
       (\<lambda>iface. case connect_check req of
            Some msg \<Rightarrow> (status_error (- EINVAL) msg, e)
          | None \<Rightarrow>
              (case wifi_connect (ww_ops ww) iface (connect_params (ww_ops ww) req) e of (ret, e1) \<Rightarrow>
                 (status_of_ret ret ''Wi-Fi connect request failed'' ''Connect initiated'', e1)))"

definition handle_disconnect_request ::
  "'e wifi_world \<Rightarrow> u32 \<Rightarrow> 'e \<Rightarrow> (WifiStatusResponse \<times> 'e) option" where
  "handle_disconnect_request ww ifindex e =
     with_wifi_iface ww ifindex e (status_error (- ENODEV) ''Interface not found'', e)
       (\<lambda>iface. case wifi_disconnect (ww_ops ww) iface e of (ret, e1) \<Rightarrow>
          (status_of_ret ret ''Wi-Fi disconnect request failed'' ''Disconnect initiated'', e1))"

text \<open>
  The directed SSIDs are only logged; no decode callback is registered for them.  The band mask is
  set to \<open>WIFI_FREQ_BAND_2_4_GHZ\<close>, the enumerator with value 0; the dwell times of Zephyr's
  structure have 16 bits.
\<close>

definition handle_scan_request ::
  "'e wifi_world \<Rightarrow> u32 \<Rightarrow> WifiScanParams option \<Rightarrow> 'e \<Rightarrow> (WifiStatusResponse \<times> 'e) option" where
  "handle_scan_request ww ifindex params e =
     with_wifi_iface ww ifindex e (status_error (- ENODEV) ''Interface not found for scan'', e)
       (\<lambda>iface. case wifi_scan (ww_ops ww) iface
            (map_option (\<lambda>p.
               \<lparr>sp_scan_type = proto_to_zephyr_scan_type (sq_scan_type p),
                sp_bands = 0,
                sp_dwell_time_active = ucast (sq_dwell_time_active p),
                sp_dwell_time_passive = ucast (sq_dwell_time_passive p),
                sp_max_bss_cnt = WIFI_MGMT_SCAN_MAX_BSS_CNT (ww_ops ww)\<rparr>) params) e of (ret, e1) \<Rightarrow>
          (status_of_ret ret ''Wi-Fi scan request failed'' ''Scan initiated'', e1))"

text \<open>
  The decode callback for directed SSIDs: the list is the context's array, the first argument the
  decoded entry (\<open>None\<close>: decoding failed).
\<close>

definition decode_directed_scan_ssid_cb :: "byte list option \<Rightarrow> byte list list \<Rightarrow> bool \<times> byte list list" where
  "decode_directed_scan_ssid_cb decoded ssids =
     (case decoded of
        None \<Rightarrow> (False, ssids)
      | Some ssid \<Rightarrow>
          if 4 \<le> length ssids then (True, ssids)
          else if 32 < length ssid then (True, ssids)
          else (True, ssids @ [ssid]))"

section \<open>Access point\<close>

text \<open>The checks of \<open>handle_ap_enable_request\<close> in their order; \<open>None\<close> is an accepted request.\<close>

definition ap_enable_check :: "WifiApEnableParams \<Rightarrow> WifiStatusResponse option" where
  "ap_enable_check p =
     (let sec = proto_to_zephyr_security (ap_security_type p) in
      if length (ap_ssid p) = 0 \<or> 32 < length (ap_ssid p)
      then Some (status_error (- EINVAL) ''Invalid AP SSID length'')
      else if sec \<noteq> WIFI_SECURITY_TYPE_NONE \<and> sec \<noteq> WIFI_SECURITY_TYPE_PSK \<and>
              sec \<noteq> WIFI_SECURITY_TYPE_SAE \<and> sec \<noteq> WIFI_SECURITY_TYPE_WEP
      then Some (status_error (- ENOTSUP) ''AP security type not supported'')
      else if 64 < length (ap_psk p)
      then Some (status_error (- EINVAL) ''AP PSK too long'')
      else if (sec = WIFI_SECURITY_TYPE_PSK \<or> sec = WIFI_SECURITY_TYPE_SAE) \<and> length (ap_psk p) = 0
      then Some (status_error (- EINVAL) ''AP PSK missing'')
      else if ap_channel p \<noteq> 0 \<and> 233 < ap_channel p
      then Some (status_error (- EINVAL) ''Invalid AP channel'')
      else None)"

text \<open>
  The static copies of SSID and PSK, and the parameters that point at them: \<open>take\<close> reads the copies
  through pointer and length.
\<close>

definition ap_enable_store :: "'e wifi_ops \<Rightarrow> WifiApEnableParams \<Rightarrow> wifi_vars \<Rightarrow> wifi_vars" where
  "ap_enable_store wo p v =
     (let ssid = overwrite 0 (ap_ssid p) (ap_enable_ssid v);
          psk = (if 0 < length (ap_psk p) then overwrite 0 (ap_psk p) (ap_enable_psk v) else ap_enable_psk v)
      in v\<lparr>ap_enable_ssid := ssid, ap_enable_psk := psk,
           ap_enable_params := connect_params_zero
             \<lparr>cp_ssid := take (length (ap_ssid p)) ssid,
              cp_band := proto_to_zephyr_band (ap_band p),
              cp_channel := (if ap_channel p = 0 then WIFI_CHANNEL_ANY wo else ucast (ap_channel p)),
              cp_security := proto_to_zephyr_security (ap_security_type p),
              cp_psk := (if 0 < length (ap_psk p) then Some (take (length (ap_psk p)) psk) else None)\<rparr>\<rparr>)"

definition ap_enable_apply ::
  "'e wifi_world \<Rightarrow> nat \<Rightarrow> WifiApEnableParams \<Rightarrow> wifi_vars \<Rightarrow> 'e \<Rightarrow> WifiStatusResponse \<times> wifi_vars \<times> 'e" where
  "ap_enable_apply ww iface p v e =
     (case ap_enable_check p of
        Some err \<Rightarrow> (err, v, e)
      | None \<Rightarrow>
          let v1 = ap_enable_store (ww_ops ww) p v
          in case wifi_ap_enable (ww_ops ww) iface (ap_enable_params v1) e of (ret, e1) \<Rightarrow>
            (status_of_ret ret ''Wi-Fi AP enable request failed'' ''AP enable initiated'', v1, e1))"

definition handle_ap_enable_request ::
  "'e wifi_world \<Rightarrow> u32 \<Rightarrow> WifiApEnableParams option \<Rightarrow> wifi_vars \<Rightarrow> 'e
     \<Rightarrow> (WifiStatusResponse \<times> wifi_vars \<times> 'e) option" where
  "handle_ap_enable_request ww ifindex params v e =
     with_wifi_iface ww ifindex e (status_error (- ENODEV) ''Interface not found for AP enable'', v, e)
       (\<lambda>iface. case params of
            None \<Rightarrow> (status_error (- EINVAL) ''AP parameters missing'', v, e)
          | Some p \<Rightarrow> ap_enable_apply ww iface p v e)"

definition handle_ap_disable_request ::
  "'e wifi_world \<Rightarrow> u32 \<Rightarrow> 'e \<Rightarrow> (WifiStatusResponse \<times> 'e) option" where
  "handle_ap_disable_request ww ifindex e =
     with_wifi_iface ww ifindex e (status_error (- ENODEV) ''Interface not found for AP disable'', e)
       (\<lambda>iface. case wifi_ap_disable (ww_ops ww) iface e of (ret, e1) \<Rightarrow>
          (status_of_ret ret ''Wi-Fi AP disable request failed'' ''AP disable initiated'', e1))"

section \<open>Version and power save\<close>

text \<open>\<open>firmware_version\<close> is an array of 32 bytes.\<close>

definition handle_get_version_request :: "'e wifi_world \<Rightarrow> 'e \<Rightarrow> WifiVersion option \<times> 'e" where
  "handle_get_version_request ww e =
     (case wifi_version_get (ww_ops ww) (net_if_get_default (ww_ops ww) e) e of ((ret, ver), e1) \<Rightarrow>
        (if ret = 0
         then Some \<lparr>driver_major = 0, driver_minor = 0, driver_patch = 0,
                    firmware_version = set_status_error_msg_bytes 32
                      (case fw_version ver of Some fw \<Rightarrow> fw | None \<Rightarrow> ''N/A'')\<rparr>
         else None, e1))"

text \<open>One parameter per driver call; a step is the call and the message for its failure.\<close>

fun ps_apply ::
  "'e wifi_world \<Rightarrow> nat \<Rightarrow> (wifi_ps_params \<times> string) list \<Rightarrow> 'e \<Rightarrow> WifiStatusResponse \<times> 'e" where
  "ps_apply ww iface [] e = (status_ok ''Set PS config success'', e)"
| "ps_apply ww iface ((params, failed) # rest) e =
     (case wifi_ps_set (ww_ops ww) iface params e of (ret, e1) \<Rightarrow>
        if ret \<noteq> 0 then (status_error ret failed, e1) else ps_apply ww iface rest e1)"

definition ps_steps :: "WifiPsSettings \<Rightarrow> u32 \<Rightarrow> (wifi_ps_params \<times> string) list" where
  "ps_steps s ty =
     (let p1 = \<lparr>psp_type = WIFI_PS_PARAM_STATE,
                psp_enabled = (if pss_enabled s = WIFI_PS_STATE_ENABLE then WIFI_PS_ENABLED else WIFI_PS_DISABLED),
                psp_listen_interval = 0, psp_timeout_ms = 0, psp_mode = WIFI_PS_MODE_LEGACY\<rparr>;
          li = 0 < pss_listen_interval_beacons s;
          p2 = (if li then p1\<lparr>psp_type := WIFI_PS_PARAM_LISTEN_INTERVAL,
                              psp_listen_interval := ucast (pss_listen_interval_beacons s)\<rparr> else p1);
          tmo = 0 < pss_timeout_ms s;
          p3 = (if tmo then p2\<lparr>psp_type := WIFI_PS_PARAM_TIMEOUT, psp_timeout_ms := pss_timeout_ms s\<rparr> else p2);
          p4 = p3\<lparr>psp_type := WIFI_PS_PARAM_MODE,
                  psp_mode := (if ty = WIFI_PS_TYPE_WMM then WIFI_PS_MODE_WMM else WIFI_PS_MODE_LEGACY)\<rparr>
      in [(p1, ''Set PS state failed'')] @
         (if li then [(p2, ''Set PS listen interval failed'')] else []) @
         (if tmo then [(p3, ''Set PS timeout failed'')] else []) @
         [(p4, ''Set PS mode failed'')])"

definition handle_set_ps_config_request ::
  "'e wifi_world \<Rightarrow> u32 \<Rightarrow> WifiPowerSaveConfig option \<Rightarrow> 'e \<Rightarrow> (WifiStatusResponse \<times> 'e) option" where
  "handle_set_ps_config_request ww ifindex config e =
     with_wifi_iface ww ifindex e (status_error (- ENODEV) ''Interface not found for PS config'', e)
       (\<lambda>iface. case Option.bind config (\<lambda>c. map_option (\<lambda>s. (s, psc_type c)) (psc_ps_settings c)) of
            None \<Rightarrow> (status_error (- EINVAL) ''PS config data missing'', e)
          | Some (s, ty) \<Rightarrow> ps_apply ww iface (ps_steps s ty) e)"

definition handle_get_ps_config_request ::
  "'e wifi_world \<Rightarrow> u32 \<Rightarrow> 'e \<Rightarrow> ((WifiStatusResponse + WifiPowerSaveConfig) \<times> 'e) option" where
  "handle_get_ps_config_request ww ifindex e =
     with_wifi_iface ww ifindex e (Inl (status_error (- ENODEV) ''Interface not found for PS config''), e)
       (\<lambda>iface. case wifi_ps_config_get (ww_ops ww) iface e of ((ret, p), e1) \<Rightarrow>
          (if ret \<noteq> 0 then Inl (status_error ret ''Get PS config failed'')
           else Inr \<lparr>psc_ps_settings = Some
                       \<lparr>pss_enabled = (if psg_enabled p = WIFI_PS_ENABLED then WIFI_PS_STATE_ENABLE
                                       else WIFI_PS_STATE_DISABLE),
                        pss_wakeup_mode = psg_wakeup_mode p,
                        pss_listen_interval_beacons = ucast (psg_listen_interval p),
                        pss_timeout_ms = psg_timeout_ms p,
                        pss_exit_strategy = psg_exit_strategy p\<rparr>,
                     psc_type = (if psg_mode p = WIFI_PS_MODE_WMM then WIFI_PS_TYPE_WMM
                                 else WIFI_PS_TYPE_MODEM)\<rparr>, e1))"

end
