(* ===== verification/Wifi_Dispatch.thy ===== *)
theory Wifi_Dispatch
  imports Wifi_Requests
begin

text \<open>
  The rest of the request side of \<open>device/wifi_mgmt_proxy.c\<close>: regulatory domain, interface
  status, the raw-frame requests, and \<open>process_wifi_mgmt_request\<close> from the received bytes to the
  encoded response.
\<close>

section \<open>Regulatory domain\<close>

text \<open>The country code is a C string of at most two characters in three bytes.\<close>

definition cc_char :: "byte list \<Rightarrow> nat \<Rightarrow> byte" where
  "cc_char cc i = (if i < length cc then cc ! i else 0)"

definition cc_letter :: "byte \<Rightarrow> bool" where
  "cc_letter c \<longleftrightarrow> 0x61 \<le> c \<and> c \<le> 0x7A \<or> 0x41 \<le> c \<and> c \<le> 0x5A"

definition cc_upper :: "byte \<Rightarrow> byte" where
  "cc_upper c = (if 0x61 \<le> c \<and> c \<le> 0x7A then c - 0x61 + 0x41 else c)"

definition reg_domain_apply ::
  "'e wifi_world \<Rightarrow> nat \<Rightarrow> WifiRegDomain \<Rightarrow> 'e \<Rightarrow> WifiStatusResponse \<times> 'e" where
  "reg_domain_apply ww iface rd e =
     (let c0 = cc_char (rd_country_code rd) 0; c1 = cc_char (rd_country_code rd) 1;
          want = (cc_upper c0, cc_upper c1)
      in if c0 = 0 \<or> c1 = 0 \<or> \<not> cc_letter c0 \<or> \<not> cc_letter c1
         then (status_error (- EINVAL) ''Invalid country code'', e)
         else case wifi_reg_domain_set (ww_ops ww) iface want (rd_force_update rd) e of (ret, e1) \<Rightarrow>
           if ret \<noteq> 0 then (status_error ret ''Set RegDomain failed'', e1)
           else case wifi_reg_domain_get (ww_ops ww) iface (MAX_REG_CHAN_NUM (ww_ops ww)) e1 of
             ((ret2, got), e2) \<Rightarrow>
               if ret2 \<noteq> 0 then (status_error ret2 ''Set RegDomain verify failed'', e2)
               else if zr_country_code got \<noteq> want
               then (status_error (- EIO) ''Set RegDomain not confirmed by driver'', e2)
               else (status_ok ''Set RegDomain success'', e2))"

definition handle_set_reg_domain_request ::
  "'e wifi_world \<Rightarrow> u32 \<Rightarrow> WifiRegDomain option \<Rightarrow> 'e \<Rightarrow> (WifiStatusResponse \<times> 'e) option" where
  "handle_set_reg_domain_request ww ifindex reg_domain e =
     with_wifi_iface ww ifindex e (status_error (- ENODEV) ''Interface not found for RegDomain'', e)
       (\<lambda>iface. case reg_domain of
            None \<Rightarrow> (status_error (- EINVAL) ''RegDomain data missing'', e)
          | Some rd \<Rightarrow> reg_domain_apply ww iface rd e)"

definition handle_get_reg_domain_request ::
  "'e wifi_world \<Rightarrow> u32 \<Rightarrow> 'e \<Rightarrow> ((WifiStatusResponse + WifiRegDomain) \<times> 'e) option" where
  "handle_get_reg_domain_request ww ifindex e =
     with_wifi_iface ww ifindex e (Inl (status_error (- ENODEV) ''Interface not found for RegDomain''), e)
       (\<lambda>iface. case wifi_reg_domain_get (ww_ops ww) iface (MAX_REG_CHAN_NUM (ww_ops ww)) e of
          ((ret, got), e1) \<Rightarrow>
            (if ret \<noteq> 0 then Inl (status_error ret ''Get RegDomain failed'')
             else Inr \<lparr>rd_country_code = takeWhile (\<lambda>c. c \<noteq> 0) [fst (zr_country_code got), snd (zr_country_code got)],
                       rd_force_update = zr_force got,
                       rd_channel_info = map (\<lambda>c.
                         \<lparr>center_frequency_mhz = ucast (rc_center_frequency c),
                          max_power_dbm = ucast (rc_max_power c), supported = rc_supported c,
                          passive_only = rc_passive_only c, dfs = rc_dfs c\<rparr>)
                         (take (min (zr_num_channels got) 64) (zr_chan_info got))\<rparr>, e1))"

section \<open>Interface status\<close>

definition iface_status_to_proto :: "'e wifi_ops \<Rightarrow> wifi_iface_status \<Rightarrow> WifiInterfaceStatus" where
  "iface_status_to_proto wo z =
     \<lparr>is_state = zephyr_to_proto_state (zs_state z),
      is_mode = zephyr_to_proto_mode (zs_iface_mode z),
      is_ssid = (if 0 < zs_ssid_len z \<and> zs_ssid_len z \<le> 32 then take (zs_ssid_len z) (zs_ssid z) else []),
      is_bssid =
        (if zs_state z = WIFI_STATE_ASSOCIATED \<or> zs_state z = WIFI_STATE_COMPLETED \<or>
            zs_iface_mode z = WIFI_MODE_AP
         then zs_bssid z else replicate 6 0),
      is_channel = zs_channel z,
      is_security = zephyr_to_proto_security (zs_security z),
      is_mfp = zephyr_to_proto_mfp (zs_mfp z),
      is_rssi = zs_rssi z,
      is_link_mode = zephyr_to_proto_link_mode (zs_link_mode z),
      is_tx_bitrate_kbps = phy_rate_kbps wo (zs_current_phy_tx_rate z),
      is_band = zephyr_to_proto_band (zs_band z),
      is_dtim_period = zs_dtim_period z,
      is_beacon_interval = zs_beacon_interval z,
      is_twt_capable = zs_twt_capable z\<rparr>"

definition handle_get_iface_status_request ::
  "'e wifi_world \<Rightarrow> u32 \<Rightarrow> 'e \<Rightarrow> ((WifiStatusResponse + WifiInterfaceStatus) \<times> 'e) option" where
  "handle_get_iface_status_request ww ifindex e =
     with_wifi_iface ww ifindex e (Inl (status_error (- ENODEV) ''Interface not found for status''), e)
       (\<lambda>iface. case wifi_iface_status_get (ww_ops ww) iface e of ((ret, z), e1) \<Rightarrow>
          (if ret \<noteq> 0 then Inl (status_error ret ''Get IfaceStatus failed'')
           else Inr (iface_status_to_proto (ww_ops ww) z), e1))"

section \<open>Raw frames\<close>

definition handle_send_raw_frame_request ::
  "'e wifi_world \<Rightarrow> u32 \<Rightarrow> byte list \<Rightarrow> wifi_vars \<Rightarrow> 'e \<Rightarrow> (WifiStatusResponse \<times> wifi_vars \<times> 'e) option" where
  "handle_send_raw_frame_request ww ifindex frame v e =
     with_wifi_iface ww ifindex e (status_error (- ENODEV) ''Interface not found'', v, e)
       (\<lambda>iface. case wifi_data_raw_frame_tx (ww_if ww) (ww_raw ww) (Some iface) (Some frame) (length frame)
                     (wv_raw v) e of (ret, r1, e1) \<Rightarrow>
          (status_of_ret ret ''Raw frame TX failed'' ''Raw frame transmitted'', v\<lparr>wv_raw := r1\<rparr>, e1))"

definition raw_rx_resp_init :: EnableRawRxResponse where
  "raw_rx_resp_init =
     \<lparr>rr_status = - EIO,
      rr_diag = \<lparr>socket_fd = - 1, thread_running = False, frames_received = 0, current_mode = 0,
        start_zep_step = 0, tx_socket_fd = 0, tx_frames_sent = 0, tx_injection_ret = 0,
        tx_setup_ret = 0, tx_last_ret = 0, tx_last_len = 0, tx_last_wifi = 0\<rparr>,
      rr_iface_state = WIFI_STATE_DISCONNECTED\<rparr>"

definition handle_enable_raw_rx_request ::
  "'e wifi_world \<Rightarrow> u32 \<Rightarrow> u32 \<Rightarrow> wifi_vars \<Rightarrow> 'e \<Rightarrow> (EnableRawRxResponse \<times> wifi_vars \<times> 'e) option" where
  "handle_enable_raw_rx_request ww ifindex channel v e =
     with_wifi_iface ww ifindex e (raw_rx_resp_init\<lparr>rr_status := - ENODEV\<rparr>, v, e)
       (\<lambda>iface. case wifi_data_raw_frame_rx_enable (ww_if ww) (ww_raw ww) (Some iface) channel (wv_raw v) e of
          (ret, r1, e1) \<Rightarrow>
            (case wifi_iface_status_get (ww_ops ww) iface e1 of ((sret, z), e2) \<Rightarrow>
               (\<lparr>rr_status = ret, rr_diag = raw_rx_diag (ww_raw ww) r1 e1,
                 rr_iface_state = (if sret = 0 then zs_state z else WIFI_STATE_DISCONNECTED)\<rparr>,
                v\<lparr>wv_raw := r1\<rparr>, e2)))"

definition handle_disable_raw_rx_request ::
  "'e wifi_world \<Rightarrow> u32 \<Rightarrow> wifi_vars \<Rightarrow> 'e \<Rightarrow> (WifiStatusResponse \<times> wifi_vars \<times> 'e) option" where
  "handle_disable_raw_rx_request ww ifindex v e =
     with_wifi_iface ww ifindex e (status_error (- ENODEV) ''Interface not found'', v, e)
       (\<lambda>iface. case wifi_data_raw_frame_rx_disable (ww_raw ww) (wv_raw v) e of (ret, r1, e1) \<Rightarrow>
          (status_of_ret ret ''Raw RX disable failed'' ''Raw RX disabled'', v\<lparr>wv_raw := r1\<rparr>, e1))"

section \<open>The switch\<close>

type_synonym 'e wifi_result = "(WifiMgmtResponse_payload \<times> wifi_vars \<times> 'e) option"

definition payload_type_mismatch :: "wifi_vars \<Rightarrow> 'e \<Rightarrow> 'e wifi_result" where
  "payload_type_mismatch v e =
     Some (Status_resp (status_error (- EBADMSG) ''Payload type mismatch for request ID''), v, e)"

definition reply_status :: "wifi_vars \<Rightarrow> (WifiStatusResponse \<times> 'e) option \<Rightarrow> 'e wifi_result" where
  "reply_status v = map_option (\<lambda>(st, e1). (Status_resp st, v, e1))"

definition reply_status_vars :: "(WifiStatusResponse \<times> wifi_vars \<times> 'e) option \<Rightarrow> 'e wifi_result" where
  "reply_status_vars = map_option (\<lambda>(st, v1, e1). (Status_resp st, v1, e1))"

definition reply_data ::
  "wifi_vars \<Rightarrow> ('d \<Rightarrow> WifiMgmtResponse_payload) \<Rightarrow> ((WifiStatusResponse + 'd) \<times> 'e) option \<Rightarrow> 'e wifi_result" where
  "reply_data v tag = map_option (\<lambda>(r, e1). (case r of Inl st \<Rightarrow> Status_resp st | Inr d \<Rightarrow> tag d, v, e1))"

abbreviation (input) REQUEST_TYPE_CONNECT :: u32 where "REQUEST_TYPE_CONNECT \<equiv> 1"
abbreviation (input) REQUEST_TYPE_DISCONNECT :: u32 where "REQUEST_TYPE_DISCONNECT \<equiv> 2"
abbreviation (input) REQUEST_TYPE_SCAN :: u32 where "REQUEST_TYPE_SCAN \<equiv> 3"
abbreviation (input) REQUEST_TYPE_AP_ENABLE :: u32 where "REQUEST_TYPE_AP_ENABLE \<equiv> 4"
abbreviation (input) REQUEST_TYPE_AP_DISABLE :: u32 where "REQUEST_TYPE_AP_DISABLE \<equiv> 5"
abbreviation (input) REQUEST_TYPE_GET_WIFI_VERSION :: u32 where "REQUEST_TYPE_GET_WIFI_VERSION \<equiv> 6"
abbreviation (input) REQUEST_TYPE_SET_PS_CONFIG :: u32 where "REQUEST_TYPE_SET_PS_CONFIG \<equiv> 7"
abbreviation (input) REQUEST_TYPE_GET_PS_CONFIG :: u32 where "REQUEST_TYPE_GET_PS_CONFIG \<equiv> 8"
abbreviation (input) REQUEST_TYPE_SET_REG_DOMAIN :: u32 where "REQUEST_TYPE_SET_REG_DOMAIN \<equiv> 9"
abbreviation (input) REQUEST_TYPE_GET_REG_DOMAIN :: u32 where "REQUEST_TYPE_GET_REG_DOMAIN \<equiv> 10"
abbreviation (input) REQUEST_TYPE_GET_IFACE_STATUS :: u32 where "REQUEST_TYPE_GET_IFACE_STATUS \<equiv> 11"
abbreviation (input) REQUEST_TYPE_GET_PROTOCOL_VERSION :: u32 where "REQUEST_TYPE_GET_PROTOCOL_VERSION \<equiv> 12"
abbreviation (input) REQUEST_TYPE_SEND_RAW_FRAME :: u32 where "REQUEST_TYPE_SEND_RAW_FRAME \<equiv> 13"
abbreviation (input) REQUEST_TYPE_ENABLE_RAW_RX :: u32 where "REQUEST_TYPE_ENABLE_RAW_RX \<equiv> 14"
abbreviation (input) REQUEST_TYPE_DISABLE_RAW_RX :: u32 where "REQUEST_TYPE_DISABLE_RAW_RX \<equiv> 15"

text \<open>\<open>switch (request.request_id)\<close>; each case accepts the payload with its own tag only.\<close>

definition wifi_respond ::
  "'e wifi_world \<Rightarrow> u32 \<Rightarrow> WifiMgmtRequest_payload \<Rightarrow> wifi_vars \<Rightarrow> 'e \<Rightarrow> 'e wifi_result" where
  "wifi_respond ww request_id payload v e =
     (if request_id = REQUEST_TYPE_CONNECT then
        (case payload of Connect_req r \<Rightarrow> reply_status v (handle_connect_request ww r e)
         | _ \<Rightarrow> payload_type_mismatch v e)
      else if request_id = REQUEST_TYPE_DISCONNECT then
        (case payload of Disconnect_req i \<Rightarrow> reply_status v (handle_disconnect_request ww i e)
         | _ \<Rightarrow> payload_type_mismatch v e)
      else if request_id = REQUEST_TYPE_SCAN then
        (case payload of Scan_req i p \<Rightarrow> reply_status v (handle_scan_request ww i p e)
         | _ \<Rightarrow> payload_type_mismatch v e)
      else if request_id = REQUEST_TYPE_AP_ENABLE then
        (case payload of Ap_enable_req i p \<Rightarrow> reply_status_vars (handle_ap_enable_request ww i p v e)
         | _ \<Rightarrow> payload_type_mismatch v e)
      else if request_id = REQUEST_TYPE_AP_DISABLE then
        (case payload of Ap_disable_req i \<Rightarrow> reply_status v (handle_ap_disable_request ww i e)
         | _ \<Rightarrow> payload_type_mismatch v e)
      else if request_id = REQUEST_TYPE_GET_WIFI_VERSION then
        (case payload of Get_version_req \<Rightarrow>
           (case handle_get_version_request ww e of (ver, e1) \<Rightarrow> Some (Get_version_resp ver, v, e1))
         | _ \<Rightarrow> payload_type_mismatch v e)
      else if request_id = REQUEST_TYPE_SET_PS_CONFIG then
        (case payload of Set_ps_config_req i c \<Rightarrow> reply_status v (handle_set_ps_config_request ww i c e)
         | _ \<Rightarrow> payload_type_mismatch v e)
      else if request_id = REQUEST_TYPE_GET_PS_CONFIG then
        (case payload of Get_ps_config_req i \<Rightarrow>
           reply_data v Get_ps_config_resp (handle_get_ps_config_request ww i e)
         | _ \<Rightarrow> payload_type_mismatch v e)
      else if request_id = REQUEST_TYPE_SET_REG_DOMAIN then
        (case payload of Set_reg_domain_req i d \<Rightarrow> reply_status v (handle_set_reg_domain_request ww i d e)
         | _ \<Rightarrow> payload_type_mismatch v e)
      else if request_id = REQUEST_TYPE_GET_REG_DOMAIN then
        (case payload of Get_reg_domain_req i \<Rightarrow>
           reply_data v Get_reg_domain_resp (handle_get_reg_domain_request ww i e)
         | _ \<Rightarrow> payload_type_mismatch v e)
      else if request_id = REQUEST_TYPE_GET_IFACE_STATUS then
        (case payload of Get_iface_status_req i \<Rightarrow>
           reply_data v Get_iface_status_resp (handle_get_iface_status_request ww i e)
         | _ \<Rightarrow> payload_type_mismatch v e)
      else if request_id = REQUEST_TYPE_SEND_RAW_FRAME then
        (case payload of Send_raw_frame_req i f \<Rightarrow> reply_status_vars (handle_send_raw_frame_request ww i f v e)
         | _ \<Rightarrow> payload_type_mismatch v e)
      else if request_id = REQUEST_TYPE_ENABLE_RAW_RX then
        (case payload of Enable_raw_rx_req i ch \<Rightarrow>
           map_option (\<lambda>(r, v1, e1). (Enable_raw_rx_resp r, v1, e1)) (handle_enable_raw_rx_request ww i ch v e)
         | _ \<Rightarrow> payload_type_mismatch v e)
      else if request_id = REQUEST_TYPE_DISABLE_RAW_RX then
        (case payload of Disable_raw_rx_req i \<Rightarrow> reply_status_vars (handle_disable_raw_rx_request ww i v e)
         | _ \<Rightarrow> payload_type_mismatch v e)
      else if request_id = REQUEST_TYPE_GET_PROTOCOL_VERSION then Some (Get_protocol_version_resp 1 2, v, e)
      else Some (Status_resp (status_error (- ENOTSUP) ''Unsupported request type''), v, e))"

definition wifi_mgmt_response ::
  "'e wifi_world \<Rightarrow> byte list \<Rightarrow> wifi_vars \<Rightarrow> 'e \<Rightarrow> (WifiMgmtResponse \<times> wifi_vars \<times> 'e) option" where
  "wifi_mgmt_response ww buf v e =
     (case WifiMgmtRequest_decode (ww_ops ww) buf of
        None \<Rightarrow>
          Some (\<lparr>wresp_request_id = 0,
                 wresp_payload = Status_resp (status_error (- EBADMSG) ''Request decode failed'')\<rparr>, v, e)
      | Some req \<Rightarrow>
          map_option (\<lambda>(p, v1, e1). (\<lparr>wresp_request_id = wreq_request_id req, wresp_payload = p\<rparr>, v1, e1))
            (wifi_respond ww (wreq_request_id req) (wreq_payload req) v e))"

definition process_wifi_mgmt_request ::
  "'e wifi_world \<Rightarrow> byte list \<Rightarrow> nat \<Rightarrow> wifi_vars \<Rightarrow> 'e \<Rightarrow> (byte list \<times> wifi_vars \<times> 'e) option" where
  "process_wifi_mgmt_request ww buf resp_len v e =
     map_option (\<lambda>(resp, v1, e1).
        (case WifiMgmtResponse_encode (ww_ops ww) resp_len resp of Some out \<Rightarrow> out | None \<Rightarrow> [], v1, e1))
       (wifi_mgmt_response ww buf v e)"

end
