(* ===== verification/Wifi_Handlers.thy ===== *)
theory Wifi_Handlers
  imports Wifi_Dispatch
begin

text \<open>
  What the request handlers of the Wi-Fi management proxy have in common, as the locale
  \<open>wifi_handler\<close>, interpreted on every handler that names an interface; the lookup of the interface
  against a reference definition; and the contract of the whole switch.
\<close>

section \<open>Finding the interface\<close>

text \<open>The stack has an index from 1 on without an interface; the search stops there at the latest.\<close>

definition iface_search_ends :: "'e net_if_ops \<Rightarrow> 'e \<Rightarrow> bool" where
  "iface_search_ends no e \<longleftrightarrow> (\<exists>n. net_if_get_by_index no (1 + int n) e = None)"

text \<open>The interfaces with the consecutive indices from \<open>i\<close> on, \<open>n\<close> of them at most.\<close>

primrec ifaces_from :: "'e net_if_ops \<Rightarrow> 'e \<Rightarrow> nat \<Rightarrow> int \<Rightarrow> nat list" where
  "ifaces_from no e 0 i = []"
| "ifaces_from no e (Suc n) i =
     (case net_if_get_by_index no i e of None \<Rightarrow> [] | Some iface \<Rightarrow> iface # ifaces_from no e n (i + 1))"

lemma first_wifi_iface_find:
  assumes "net_if_get_by_index no (i + int n) e = None"
  shows "first_wifi_iface no e i = Some (find (\<lambda>iface. net_if_is_wifi no iface e) (ifaces_from no e n i))"
  using assms
proof (induction n arbitrary: i)
  case 0
  then show ?case by (subst first_wifi_iface.simps) simp
next
  case (Suc n)
  then have "net_if_get_by_index no ((i + 1) + int n) e = None" by (simp add: algebra_simps)
  note IH = Suc.IH [OF this]
  show ?case by (subst first_wifi_iface.simps) (simp add: IH split: option.split)
qed

lemma resolve_wifi_iface_ends:
  assumes "iface_search_ends no e"
  obtains r where "resolve_wifi_iface no ifindex e = Some r"
proof -
  obtain n where "net_if_get_by_index no (1 + int n) e = None"
    using assms by (auto simp: iface_search_ends_def)
  from first_wifi_iface_find [OF this] show ?thesis
    by (cases "ifindex = 0") (auto simp: resolve_wifi_iface_def intro: that)
qed

text \<open>
  C14. Looking up the interface of a request always returns once the stack has a first unused
  index \<open>n + 1\<close>, and gives what a plain search gives: the interface with the requested index, or for
  index 0 the first Wi-Fi interface among those with consecutive indices from 1.
\<close>

theorem resolve_wifi_iface_spec:
  assumes "net_if_get_by_index no (1 + int n) e = None"
  shows "resolve_wifi_iface no ifindex e =
     Some (if ifindex = 0 then find (\<lambda>iface. net_if_is_wifi no iface e) (ifaces_from no e n 1)
           else net_if_get_by_index no (sint ifindex) e)"
  using first_wifi_iface_find [OF assms] by (simp add: resolve_wifi_iface_def)

section \<open>The contract of a handler\<close>

fun reply_code :: "WifiMgmtResponse_payload \<Rightarrow> int" where
  "reply_code (Status_resp st) = st_error_code st"
| "reply_code (Enable_raw_rx_resp r) = rr_status r"
| "reply_code _ = 0"

text \<open>A status response says success exactly when it carries the code 0.\<close>

fun reply_consistent :: "WifiMgmtResponse_payload \<Rightarrow> bool" where
  "reply_consistent (Status_resp st) = (st_success st = (st_error_code st = 0))"
| "reply_consistent _ = True"

lemma status_simps [simp]:
  "st_error_code (status_error c m) = c" "st_success (status_error c m) = False"
  "st_error_code (status_ok m) = 0" "st_success (status_ok m) = True"
  by (simp_all add: status_error_def status_ok_def)

lemma status_of_ret_simps [simp]:
  "st_error_code (status_of_ret ret f ok) = ret" "st_success (status_of_ret ret f ok) = (ret = 0)"
  by (simp_all add: status_of_ret_def)

text \<open>
  Requests leave the collection of scan results to the event handler and keep the sizes of the
  static copies of the access point parameters.
\<close>

definition ap_arrays_ok :: "wifi_vars \<Rightarrow> bool" where
  "ap_arrays_ok v \<longleftrightarrow> length (ap_enable_ssid v) = 32 \<and> length (ap_enable_psk v) = 64"

definition vars_kept :: "wifi_vars \<Rightarrow> wifi_vars \<Rightarrow> bool" where
  "vars_kept v v1 \<longleftrightarrow> scan_results v1 = scan_results v \<and> scan_result_count v1 = scan_result_count v \<and>
     (ap_arrays_ok v \<longrightarrow> ap_arrays_ok v1)"

lemma vars_kept_simps [simp]: "vars_kept v v" "vars_kept v (v\<lparr>wv_raw := r\<rparr>)"
  by (simp_all add: vars_kept_def ap_arrays_ok_def)

lemma vars_kept_ap_enable [simp]: "ap_enable_check p = None \<Longrightarrow> vars_kept v (ap_enable_store wo p v)"
  by (auto simp: vars_kept_def ap_arrays_ok_def ap_enable_store_def ap_enable_check_def Let_def
      split: if_split_asm)

text \<open>
  \<open>handle\<close> answers a request for the interface \<open>target\<close>: it returns when the lookup does; a missing
  interface is ENODEV and changes nothing; statuses are consistent; the variables of the other parts are kept.
\<close>

locale wifi_handler =
  fixes ww :: "'e wifi_world"
    and target :: "'r \<Rightarrow> u32"
    and handle :: "'r \<Rightarrow> wifi_vars \<Rightarrow> 'e \<Rightarrow> 'e wifi_result"
  assumes returns: "resolve_wifi_iface (ww_if ww) (target r) e = Some i \<Longrightarrow> \<exists>x. handle r v e = Some x"
    and missing: "resolve_wifi_iface (ww_if ww) (target r) e = Some None \<Longrightarrow> handle r v e = Some (p, v1, e1) \<Longrightarrow>
      reply_code p = - ENODEV \<and> v1 = v \<and> e1 = e"
    and consistent: "handle r v e = Some (p, v1, e1) \<Longrightarrow> reply_consistent p"
    and vars_kept_law: "handle r v e = Some (p, v1, e1) \<Longrightarrow> vars_kept v v1"
begin

lemma answered:
  assumes "iface_search_ends (ww_if ww) e"
  shows "\<exists>p v1 e1. handle r v e = Some (p, v1, e1) \<and> reply_consistent p \<and> vars_kept v v1 \<and>
     (resolve_wifi_iface (ww_if ww) (target r) e = Some None \<longrightarrow> reply_code p = - ENODEV \<and> v1 = v \<and> e1 = e)"
proof -
  obtain i where i: "resolve_wifi_iface (ww_if ww) (target r) e = Some i"
    by (rule resolve_wifi_iface_ends [OF assms])
  from returns [OF this, of v] obtain p v1 e1 where h: "handle r v e = Some (p, v1, e1)"
    by (metis prod_cases3)
  show ?thesis using h consistent [OF h] vars_kept_law [OF h] missing [OF _ h] by blast
qed

end

lemma with_wifi_iface_eq [simp]:
  "resolve_wifi_iface (ww_if ww) i e = Some r \<Longrightarrow>
     with_wifi_iface ww i e m f = Some (case r of None \<Rightarrow> m | Some j \<Rightarrow> f j)"
  by (simp add: with_wifi_iface_def)

lemma with_wifi_iface_Some:
  "with_wifi_iface ww i e m f = Some x \<longleftrightarrow>
     resolve_wifi_iface (ww_if ww) i e = Some None \<and> x = m \<or>
     (\<exists>j. resolve_wifi_iface (ww_if ww) i e = Some (Some j) \<and> x = f j)"
  by (auto simp: with_wifi_iface_def split: option.splits)

lemmas handler_defs = with_wifi_iface_Some reply_status_def reply_status_vars_def reply_data_def Let_def case_prod_unfold

lemma ps_apply_consistent [simp]:
  "st_success (fst (ps_apply ww i steps e)) = (st_error_code (fst (ps_apply ww i steps e)) = 0)"
  by (induction ww i steps e rule: ps_apply.induct) (simp_all split: prod.split)

lemma ps_apply_reply:
  "(st, e1) = ps_apply ww i steps e \<Longrightarrow> st_success st = (st_error_code st = 0)"
  using ps_apply_consistent [of ww i steps e] by (metis fst_conv)

lemma ap_enable_check_consistent:
  "ap_enable_check p = Some st \<Longrightarrow> \<not> st_success st \<and> st_error_code st \<noteq> 0"
  by (auto simp: ap_enable_check_def Let_def errno_defs split: if_splits)

lemma ap_enable_apply_reply:
  "(st, v1, e1) = ap_enable_apply ww i p v e \<Longrightarrow> st_success st = (st_error_code st = 0) \<and> vars_kept v v1"
  by (auto simp: ap_enable_apply_def Let_def dest: ap_enable_check_consistent split: option.split_asm prod.split_asm)

lemma reg_domain_apply_reply:
  "(st, e1) = reg_domain_apply ww i rd e \<Longrightarrow> st_success st = (st_error_code st = 0)"
  by (auto simp: reg_domain_apply_def Let_def errno_defs split: prod.split_asm if_split_asm)

section \<open>The handlers meet the contract\<close>

interpretation connect: wifi_handler ww cr_iface_index "\<lambda>r v e. reply_status v (handle_connect_request ww r e)"
  by unfold_locales (auto simp: handle_connect_request_def handler_defs errno_defs split: option.split_asm if_split_asm)

interpretation disconnect: wifi_handler ww "\<lambda>i. i" "\<lambda>i v e. reply_status v (handle_disconnect_request ww i e)"
  by unfold_locales (auto simp: handle_disconnect_request_def handler_defs errno_defs split: option.split_asm)

interpretation scan: wifi_handler ww fst "\<lambda>r v e. reply_status v (handle_scan_request ww (fst r) (snd r) e)"
  by unfold_locales (auto simp: handle_scan_request_def handler_defs errno_defs split: option.split_asm)

interpretation ap_enable: wifi_handler ww fst
  "\<lambda>r v e. reply_status_vars (handle_ap_enable_request ww (fst r) (snd r) v e)"
  by unfold_locales
    (auto simp: handle_ap_enable_request_def handler_defs errno_defs dest!: ap_enable_apply_reply split: option.split_asm)

interpretation ap_disable: wifi_handler ww "\<lambda>i. i" "\<lambda>i v e. reply_status v (handle_ap_disable_request ww i e)"
  by unfold_locales (auto simp: handle_ap_disable_request_def handler_defs errno_defs split: option.split_asm)

interpretation set_ps: wifi_handler ww fst
  "\<lambda>r v e. reply_status v (handle_set_ps_config_request ww (fst r) (snd r) e)"
  by unfold_locales
    (auto simp: handle_set_ps_config_request_def handler_defs errno_defs dest!: ps_apply_reply
      split: option.split_asm)

interpretation get_ps: wifi_handler ww "\<lambda>i. i"
  "\<lambda>i v e. reply_data v Get_ps_config_resp (handle_get_ps_config_request ww i e)"
  by unfold_locales (auto simp: handle_get_ps_config_request_def handler_defs errno_defs split: option.split_asm)

interpretation set_reg: wifi_handler ww fst
  "\<lambda>r v e. reply_status v (handle_set_reg_domain_request ww (fst r) (snd r) e)"
  by unfold_locales
    (auto simp: handle_set_reg_domain_request_def handler_defs errno_defs dest!: reg_domain_apply_reply split: option.split_asm)

interpretation get_reg: wifi_handler ww "\<lambda>i. i"
  "\<lambda>i v e. reply_data v Get_reg_domain_resp (handle_get_reg_domain_request ww i e)"
  by unfold_locales (auto simp: handle_get_reg_domain_request_def handler_defs errno_defs split: option.split_asm)

interpretation iface_status: wifi_handler ww "\<lambda>i. i"
  "\<lambda>i v e. reply_data v Get_iface_status_resp (handle_get_iface_status_request ww i e)"
  by unfold_locales (auto simp: handle_get_iface_status_request_def handler_defs errno_defs split: option.split_asm)

interpretation raw_tx: wifi_handler ww fst
  "\<lambda>r v e. reply_status_vars (handle_send_raw_frame_request ww (fst r) (snd r) v e)"
  by unfold_locales (auto simp: handle_send_raw_frame_request_def handler_defs errno_defs split: option.split_asm)

interpretation raw_rx_on: wifi_handler ww fst
  "\<lambda>r v e. map_option (\<lambda>(x, v1, e1). (Enable_raw_rx_resp x, v1, e1))
     (handle_enable_raw_rx_request ww (fst r) (snd r) v e)"
  by unfold_locales (auto simp: handle_enable_raw_rx_request_def handler_defs errno_defs split: option.split_asm)

interpretation raw_rx_off: wifi_handler ww "\<lambda>i. i"
  "\<lambda>i v e. reply_status_vars (handle_disable_raw_rx_request ww i v e)"
  by unfold_locales (auto simp: handle_disable_raw_rx_request_def handler_defs errno_defs split: option.split_asm)

section \<open>The switch as a table\<close>

text \<open>The request type a payload belongs to, its handler, and the interface it names.\<close>

fun payload_type :: "WifiMgmtRequest_payload \<Rightarrow> u32" where
  "payload_type No_payload = 0"
| "payload_type (Connect_req _) = REQUEST_TYPE_CONNECT"
| "payload_type (Disconnect_req _) = REQUEST_TYPE_DISCONNECT"
| "payload_type (Scan_req _ _) = REQUEST_TYPE_SCAN"
| "payload_type (Ap_enable_req _ _) = REQUEST_TYPE_AP_ENABLE"
| "payload_type (Ap_disable_req _) = REQUEST_TYPE_AP_DISABLE"
| "payload_type Get_version_req = REQUEST_TYPE_GET_WIFI_VERSION"
| "payload_type (Set_ps_config_req _ _) = REQUEST_TYPE_SET_PS_CONFIG"
| "payload_type (Get_ps_config_req _) = REQUEST_TYPE_GET_PS_CONFIG"
| "payload_type (Set_reg_domain_req _ _) = REQUEST_TYPE_SET_REG_DOMAIN"
| "payload_type (Get_reg_domain_req _) = REQUEST_TYPE_GET_REG_DOMAIN"
| "payload_type (Get_iface_status_req _) = REQUEST_TYPE_GET_IFACE_STATUS"
| "payload_type (Send_raw_frame_req _ _) = REQUEST_TYPE_SEND_RAW_FRAME"
| "payload_type (Enable_raw_rx_req _ _) = REQUEST_TYPE_ENABLE_RAW_RX"
| "payload_type (Disable_raw_rx_req _) = REQUEST_TYPE_DISABLE_RAW_RX"

fun payload_iface :: "WifiMgmtRequest_payload \<Rightarrow> u32 option" where
  "payload_iface (Connect_req r) = Some (cr_iface_index r)"
| "payload_iface (Disconnect_req i) = Some i"
| "payload_iface (Scan_req i _) = Some i"
| "payload_iface (Ap_enable_req i _) = Some i"
| "payload_iface (Ap_disable_req i) = Some i"
| "payload_iface (Set_ps_config_req i _) = Some i"
| "payload_iface (Get_ps_config_req i) = Some i"
| "payload_iface (Set_reg_domain_req i _) = Some i"
| "payload_iface (Get_reg_domain_req i) = Some i"
| "payload_iface (Get_iface_status_req i) = Some i"
| "payload_iface (Send_raw_frame_req i _) = Some i"
| "payload_iface (Enable_raw_rx_req i _) = Some i"
| "payload_iface (Disable_raw_rx_req i) = Some i"
| "payload_iface _ = None"

definition known_request :: "u32 \<Rightarrow> bool" where
  "known_request t \<longleftrightarrow> t \<in> {1, 2, 3, 4, 5, 6, 7, 8, 9, 10, 11, 12, 13, 14, 15}"

lemma wifi_respond_version: "wifi_respond ww 12 payload v e = Some (Get_protocol_version_resp 1 2, v, e)"
  by (simp add: wifi_respond_def)

lemma wifi_respond_unknown:
  "\<not> known_request t \<Longrightarrow>
     wifi_respond ww t payload v e =
       Some (Status_resp (status_error (- ENOTSUP) ''Unsupported request type''), v, e)"
  by (auto simp: wifi_respond_def known_request_def)

lemma wifi_respond_mismatch:
  "known_request t \<Longrightarrow> t \<noteq> 12 \<Longrightarrow> payload_type payload \<noteq> t \<Longrightarrow>
     wifi_respond ww t payload v e = payload_type_mismatch v e"
  by (cases payload) (auto simp: wifi_respond_def known_request_def)

text \<open>A matching request is answered by its handler, and so under the handler's contract.\<close>

lemma wifi_respond_matching:
  assumes ends: "iface_search_ends (ww_if ww) e"
    and ty: "payload_type payload = t" and known: "known_request t"
  shows "\<exists>p v1 e1. wifi_respond ww t payload v e = Some (p, v1, e1) \<and> reply_consistent p \<and> vars_kept v v1 \<and>
     (\<forall>i. payload_iface payload = Some i \<and> resolve_wifi_iface (ww_if ww) i e = Some None \<longrightarrow>
        reply_code p = - ENODEV \<and> v1 = v \<and> e1 = e)"
proof (cases payload)
  case (Connect_req r)
  with connect.answered [OF ends, where r = r and v = v] ty show ?thesis by (auto simp: wifi_respond_def)
next
  case (Disconnect_req i)
  with disconnect.answered [OF ends, where r = i and v = v] ty show ?thesis by (auto simp: wifi_respond_def)
next
  case (Scan_req i c)
  with scan.answered [OF ends, where r = "(i, c)" and v = v] ty show ?thesis by (auto simp: wifi_respond_def)
next
  case (Ap_enable_req i c)
  with ap_enable.answered [OF ends, where r = "(i, c)" and v = v] ty show ?thesis by (auto simp: wifi_respond_def)
next
  case (Ap_disable_req i)
  with ap_disable.answered [OF ends, where r = i and v = v] ty show ?thesis by (auto simp: wifi_respond_def)
next
  case (Set_ps_config_req i c)
  with set_ps.answered [OF ends, where r = "(i, c)" and v = v] ty show ?thesis by (auto simp: wifi_respond_def)
next
  case (Get_ps_config_req i)
  with get_ps.answered [OF ends, where r = i and v = v] ty show ?thesis by (auto simp: wifi_respond_def)
next
  case (Set_reg_domain_req i c)
  with set_reg.answered [OF ends, where r = "(i, c)" and v = v] ty show ?thesis by (auto simp: wifi_respond_def)
next
  case (Get_reg_domain_req i)
  with get_reg.answered [OF ends, where r = i and v = v] ty show ?thesis by (auto simp: wifi_respond_def)
next
  case (Get_iface_status_req i)
  with iface_status.answered [OF ends, where r = i and v = v] ty show ?thesis by (auto simp: wifi_respond_def)
next
  case (Send_raw_frame_req i f)
  with raw_tx.answered [OF ends, where r = "(i, f)" and v = v] ty show ?thesis by (auto simp: wifi_respond_def)
next
  case (Enable_raw_rx_req i ch)
  with raw_rx_on.answered [OF ends, where r = "(i, ch)" and v = v] ty show ?thesis by (auto simp: wifi_respond_def)
next
  case (Disable_raw_rx_req i)
  with raw_rx_off.answered [OF ends, where r = i and v = v] ty show ?thesis by (auto simp: wifi_respond_def)
qed (use ty known in \<open>auto simp: wifi_respond_def known_request_def split: prod.split\<close>)

lemma wifi_respond_total:
  assumes ends: "iface_search_ends (ww_if ww) e"
  shows "\<exists>p v1 e1. wifi_respond ww t payload v e = Some (p, v1, e1) \<and> reply_consistent p \<and> vars_kept v v1"
proof -
  consider "\<not> known_request t" | "t = 12" | "known_request t" "t \<noteq> 12" "payload_type payload \<noteq> t"
    | "known_request t" "payload_type payload = t" by blast
  then show ?thesis
  proof cases
    case 4
    from wifi_respond_matching [OF ends this(2,1), of v] show ?thesis by blast
  qed (auto simp: wifi_respond_unknown wifi_respond_version wifi_respond_mismatch payload_type_mismatch_def
      errno_defs)
qed

text \<open>
  C13. For every decoded Wi-Fi management request a response structure is computed: it carries the
  id of the request, its status says success exactly when its code is 0, and neither are the scan
  results being collected touched nor the copies of the access point parameters overflowed.  A known
  type with the payload of another type is EBADMSG, with one exception: a request for the protocol
  version is answered with version 1.2 whatever its payload.  An unknown type is ENOTSUP, and a
  request for an interface that does not exist ENODEV; none of these changes anything.  Whether the
  response is sent depends on the encoder.
\<close>

theorem wifi_response_contract:
  assumes req: "WifiMgmtRequest_decode (ww_ops ww) buf = Some req"
    and ends: "iface_search_ends (ww_if ww) e"
  shows "\<exists>p v1 e1. wifi_mgmt_response ww buf v e =
       Some (\<lparr>wresp_request_id = wreq_request_id req, wresp_payload = p\<rparr>, v1, e1) \<and>
     reply_consistent p \<and> vars_kept v v1 \<and>
     (known_request (wreq_request_id req) \<and> wreq_request_id req \<noteq> REQUEST_TYPE_GET_PROTOCOL_VERSION \<and>
        payload_type (wreq_payload req) \<noteq> wreq_request_id req \<longrightarrow>
        reply_code p = - EBADMSG \<and> v1 = v \<and> e1 = e) \<and>
     (wreq_request_id req = REQUEST_TYPE_GET_PROTOCOL_VERSION \<longrightarrow>
        p = Get_protocol_version_resp 1 2 \<and> v1 = v \<and> e1 = e) \<and>
     (\<not> known_request (wreq_request_id req) \<longrightarrow> reply_code p = - ENOTSUP \<and> v1 = v \<and> e1 = e) \<and>
     (\<forall>i. known_request (wreq_request_id req) \<and> payload_type (wreq_payload req) = wreq_request_id req \<and>
        payload_iface (wreq_payload req) = Some i \<and> resolve_wifi_iface (ww_if ww) i e = Some None \<longrightarrow>
        reply_code p = - ENODEV \<and> v1 = v \<and> e1 = e)"
proof -
  let ?t = "wreq_request_id req" and ?p = "wreq_payload req"
  have resp: "wifi_mgmt_response ww buf v e = map_option (\<lambda>(p, v1, e1).
      (\<lparr>wresp_request_id = ?t, wresp_payload = p\<rparr>, v1, e1)) (wifi_respond ww ?t ?p v e)"
    using req by (simp add: wifi_mgmt_response_def)
  consider "\<not> known_request ?t" | "known_request ?t" "?t \<noteq> 12" "payload_type ?p \<noteq> ?t"
    | "?t = 12" | "known_request ?t" "payload_type ?p = ?t" by blast
  then show ?thesis
  proof cases
    case 3
    then have "payload_type ?p \<noteq> ?t" by (cases ?p) auto
    with 3 resp show ?thesis by (auto simp: wifi_respond_version known_request_def)
  next
    case 4
    then have "?t \<noteq> 12" by (cases ?p) auto
    with wifi_respond_matching [OF ends 4(2,1), of v] resp 4 show ?thesis by auto
  qed (use resp in \<open>auto simp: wifi_respond_unknown wifi_respond_mismatch payload_type_mismatch_def known_request_def
      errno_defs\<close>)
qed

end
