(* ===== verification/Wifi_Events.thy ===== *)
theory Wifi_Events
  imports Wifi_Handlers Net_If_Service
begin

text \<open>
  The notifications of \<open>device/wifi_mgmt_proxy.c\<close> (scan results, access point events, captured
  frames), its thread, and the capture thread of \<open>device/wifi_data.c\<close> as far as it reports frames.

  The state is a pair: the static variables of the two files and the device.  Events arrive
  serialised on the network thread; requests run on the proxy's thread and captured frames on the
  capture thread, so a run of the proxy is a sequence of labelled steps (\<open>wifi_step\<close>, \<open>wifi_run\<close>).
\<close>

section \<open>Notifications\<close>

definition event_iface_index :: "'e wifi_world \<Rightarrow> nat option \<Rightarrow> 'e \<Rightarrow> u32" where
  "event_iface_index ww iface e =
     (case iface of Some i \<Rightarrow> word_of_int (net_if_get_by_iface (ww_if ww) i e) | None \<Rightarrow> 0)"

text \<open>The common tail of the senders: encode, send, log a failure.\<close>

definition send_notification ::
  "'w uart_ops \<Rightarrow> kconfig \<Rightarrow> 'e wifi_world \<Rightarrow> WifiMgmtNotification \<Rightarrow> ('w, 'e) device
     \<Rightarrow> ('w, 'e) device option" where
  "send_notification os kc ww notification s =
     (case WifiMgmtNotification_encode (ww_ops ww) (sizeof_WifiMgmtNotification (ww_ops ww)) notification of
        Some out \<Rightarrow> map_option snd (serial_mux_send os kc SERIAL_TYPE_WIFI_MGMT (Some out) (length out) s)
      | None \<Rightarrow> Some s)"

definition scan_done_notification :: "'e wifi_world \<Rightarrow> nat option \<Rightarrow> int \<Rightarrow> wifi_vars \<Rightarrow> 'e \<Rightarrow> WifiMgmtNotification" where
  "scan_done_notification ww iface status v e =
     \<lparr>ev_iface_index = event_iface_index ww iface e,
      ev_data = Scan_done_event status (take (scan_result_count v) (scan_results v))\<rparr>"

definition send_scan_done_notification ::
  "'w uart_ops \<Rightarrow> kconfig \<Rightarrow> 'e wifi_world \<Rightarrow> nat option \<Rightarrow> int \<Rightarrow> wifi_vars \<times> ('w, 'e) device
     \<Rightarrow> (wifi_vars \<times> ('w, 'e) device) option" where
  "send_scan_done_notification os kc ww iface status x =
     (case x of (v, s) \<Rightarrow>
        map_option (Pair (v\<lparr>scan_result_count := 0\<rparr>))
          (send_notification os kc ww (scan_done_notification ww iface status v (env s)) s))"

definition scan_result_to_proto :: "wifi_scan_result \<Rightarrow> WifiScanResult" where
  "scan_result_to_proto entry =
     \<lparr>sr_ssid = take (min (zc_ssid_length entry) 32) (zc_ssid entry),
      sr_bssid = zc_mac entry,
      sr_channel = ucast (zc_channel entry),
      sr_rssi = zc_rssi entry,
      sr_security = zephyr_to_proto_security (zc_security entry),
      sr_wpa3_enterprise_type = zc_wpa3_ent_type entry,
      sr_mfp = zephyr_to_proto_mfp (zc_mfp entry),
      sr_band = zephyr_to_proto_band (zc_band entry)\<rparr>"

definition handle_wifi_scan_result :: "'e wifi_world \<Rightarrow> wifi_scan_result \<Rightarrow> wifi_vars \<Rightarrow> wifi_vars" where
  "handle_wifi_scan_result ww entry v =
     (if CONFIG_WIFI_MGMT_PROXY_MAX_SCAN_RESULTS (ww_ops ww) \<le> scan_result_count v then v
      else v\<lparr>scan_results := (scan_results v)[scan_result_count v := scan_result_to_proto entry],
             scan_result_count := scan_result_count v + 1\<rparr>)"

definition ap_status_to_proto :: "int \<Rightarrow> int" where
  "ap_status_to_proto status = (if status = 0 then 0 else - status)"

definition send_ap_sta_notification ::
  "'w uart_ops \<Rightarrow> kconfig \<Rightarrow> 'e wifi_world \<Rightarrow> nat option \<Rightarrow> bool \<Rightarrow> byte list option \<Rightarrow> ('w, 'e) device
     \<Rightarrow> ('w, 'e) device option" where
  "send_ap_sta_notification os kc ww iface connected sta_mac s =
     (case sta_mac of
        None \<Rightarrow> Some s
      | Some mac \<Rightarrow>
          send_notification os kc ww
            \<lparr>ev_iface_index = event_iface_index ww iface (env s),
             ev_data = (if connected then Ap_sta_connected_event mac else Ap_sta_disconnected_event mac)\<rparr> s)"

definition send_ap_result_notification ::
  "'w uart_ops \<Rightarrow> kconfig \<Rightarrow> 'e wifi_world \<Rightarrow> nat option \<Rightarrow> (int \<Rightarrow> WifiEvent_data) \<Rightarrow> int \<Rightarrow> ('w, 'e) device
     \<Rightarrow> ('w, 'e) device option" where
  "send_ap_result_notification os kc ww iface tag status s =
     send_notification os kc ww
       \<lparr>ev_iface_index = event_iface_index ww iface (env s), ev_data = tag status\<rparr> s"

text \<open>The events with their \<open>cb->info\<close>; a station event may come without station data.\<close>

datatype wifi_net_event =
    NET_EVENT_WIFI_SCAN_RESULT wifi_scan_result
  | NET_EVENT_WIFI_SCAN_DONE "int option"
  | NET_EVENT_WIFI_AP_ENABLE_RESULT int
  | NET_EVENT_WIFI_AP_DISABLE_RESULT int
  | NET_EVENT_WIFI_AP_STA_CONNECTED "byte list option"
  | NET_EVENT_WIFI_AP_STA_DISCONNECTED "byte list option"
  | Net_event_other nat

fun wifi_mgmt_net_event_handler ::
  "'w uart_ops \<Rightarrow> kconfig \<Rightarrow> 'e wifi_world \<Rightarrow> wifi_net_event \<Rightarrow> nat option \<Rightarrow> wifi_vars \<times> ('w, 'e) device
     \<Rightarrow> (wifi_vars \<times> ('w, 'e) device) option" where
  "wifi_mgmt_net_event_handler os kc ww (NET_EVENT_WIFI_SCAN_RESULT entry) iface (v, s) =
     Some (handle_wifi_scan_result ww entry v, s)"
| "wifi_mgmt_net_event_handler os kc ww (NET_EVENT_WIFI_SCAN_DONE wstatus) iface (v, s) =
     send_scan_done_notification os kc ww iface (case wstatus of Some st \<Rightarrow> st | None \<Rightarrow> 0) (v, s)"
| "wifi_mgmt_net_event_handler os kc ww (NET_EVENT_WIFI_AP_ENABLE_RESULT st) iface (v, s) =
     map_option (Pair v)
       (send_ap_result_notification os kc ww iface Ap_enable_result_event (ap_status_to_proto st) s)"
| "wifi_mgmt_net_event_handler os kc ww (NET_EVENT_WIFI_AP_DISABLE_RESULT st) iface (v, s) =
     map_option (Pair v)
       (send_ap_result_notification os kc ww iface Ap_disable_result_event (ap_status_to_proto st) s)"
| "wifi_mgmt_net_event_handler os kc ww (NET_EVENT_WIFI_AP_STA_CONNECTED sta) iface (v, s) =
     map_option (Pair v) (send_ap_sta_notification os kc ww iface True sta s)"
| "wifi_mgmt_net_event_handler os kc ww (NET_EVENT_WIFI_AP_STA_DISCONNECTED sta) iface (v, s) =
     map_option (Pair v) (send_ap_sta_notification os kc ww iface False sta s)"
| "wifi_mgmt_net_event_handler os kc ww (Net_event_other n) iface (v, s) = Some (v, s)"

section \<open>Captured frames\<close>

definition raw_rx_notify_cb ::
  "'w uart_ops \<Rightarrow> kconfig \<Rightarrow> 'e wifi_world \<Rightarrow> nat option \<Rightarrow> byte list \<Rightarrow> ('w, 'e) device
     \<Rightarrow> ('w, 'e) device option" where
  "raw_rx_notify_cb os kc ww iface frame s =
     send_notification os kc ww
       \<lparr>ev_iface_index = event_iface_index ww iface (env s), ev_data = Raw_frame_rx_event (take 2400 frame)\<rparr> s"

definition raw_rx_thread_round ::
  "'w uart_ops \<Rightarrow> kconfig \<Rightarrow> 'e wifi_world \<Rightarrow> wifi_vars \<times> ('w, 'e) device
     \<Rightarrow> (wifi_vars \<times> ('w, 'e) device) option" where
  "raw_rx_thread_round os kc ww x =
     (case x of (v, s) \<Rightarrow>
        (case raw_rx_poll_round (ww_raw ww) (wv_raw v) (env s) of (report, r1, e1) \<Rightarrow>
           map_option (Pair (v\<lparr>wv_raw := r1\<rparr>))
             (case report of
                Some (iface, frame) \<Rightarrow> raw_rx_notify_cb os kc ww iface frame (s\<lparr>env := e1\<rparr>)
              | None \<Rightarrow> Some (s\<lparr>env := e1\<rparr>))))"

definition init_proxy :: "wifi_vars \<Rightarrow> int \<times> wifi_vars" where
  "init_proxy v = (0, v\<lparr>wv_raw := wifi_data_set_raw_rx_cb True (wv_raw v)\<rparr>)"

section \<open>The thread\<close>

text \<open>
  One round of the thread's loop in the two parts another context can run between, as for the
  network interface proxy: \<open>k_event_wait\<close> is called with \<open>reset = true\<close> here too.
\<close>

definition wifi_mgmt_serve ::
  "'w uart_ops \<Rightarrow> kconfig \<Rightarrow> 'e wifi_world \<Rightarrow> wifi_vars \<times> ('w, 'e) device
     \<Rightarrow> (wifi_vars \<times> ('w, 'e) device) option" where
  "wifi_mgmt_serve os kc ww x =
     (case x of (v, s) \<Rightarrow>
        (case process_wifi_mgmt_request ww
                (take (wifi_mgmt_message_length s) (mem s Wifi_mgmt_rx_buffer))
                (sizeof_WifiMgmtResponse (ww_ops ww)) v (env s) of
           None \<Rightarrow> None
         | Some (resp, v1, e1) \<Rightarrow>
             let s1 = s\<lparr>env := e1,
                        mem_fault := mem_fault s \<or>
                          length (mem s Wifi_mgmt_rx_buffer) < wifi_mgmt_message_length s\<rparr>
             in map_option (Pair v1)
                  (if 0 < length resp
                   then map_option snd
                     (serial_mux_send os kc SERIAL_TYPE_WIFI_MGMT (Some resp) (length resp) s1)
                   else Some s1)))"

definition wifi_mgmt_rewait :: "('w, 'e) device \<Rightarrow> ('w, 'e) device" where
  "wifi_mgmt_rewait s = s\<lparr>wifi_mgmt_message_length := 0, wifi_mgmt_event := False\<rparr>"

definition wifi_mgmt_thread_round ::
  "'w uart_ops \<Rightarrow> kconfig \<Rightarrow> 'e wifi_world \<Rightarrow> wifi_vars \<times> ('w, 'e) device
     \<Rightarrow> (wifi_vars \<times> ('w, 'e) device) option" where
  "wifi_mgmt_thread_round os kc ww x =
     (if wifi_mgmt_event (snd x)
      then map_option (map_prod id wifi_mgmt_rewait) (wifi_mgmt_serve os kc ww x)
      else Some x)"

section \<open>Runs of the proxy\<close>

text \<open>What can happen: a network event, a round of one of the two threads, bytes on the link.\<close>

datatype wifi_label =
    Net_event wifi_net_event "nat option"
  | Thread_round
  | Capture_round
  | Link_event dev cfg_ptr

inductive wifi_step ::
  "'w uart_ops \<Rightarrow> 'e env_ops \<Rightarrow> kconfig \<Rightarrow> 'e wifi_world \<Rightarrow> wifi_vars \<times> ('w, 'e) device \<Rightarrow> wifi_label
     \<Rightarrow> wifi_vars \<times> ('w, 'e) device \<Rightarrow> bool" for os eo kc ww where
  net_event: "wifi_mgmt_net_event_handler os kc ww ev iface x = Some y \<Longrightarrow>
     wifi_step os eo kc ww x (Net_event ev iface) y"
| thread_round: "wifi_mgmt_thread_round os kc ww x = Some y \<Longrightarrow> wifi_step os eo kc ww x Thread_round y"
| capture_round: "raw_rx_thread_round os kc ww x = Some y \<Longrightarrow> wifi_step os eo kc ww x Capture_round y"
| link_event: "rx_event os eo kc dev c s = Some t \<Longrightarrow> wifi_step os eo kc ww (v, s) (Link_event dev c) (v, t)"

inductive_simps wifi_step_simps:
  "wifi_step os eo kc ww x (Net_event ev iface) y"
  "wifi_step os eo kc ww x Thread_round y"
  "wifi_step os eo kc ww x Capture_round y"

inductive wifi_run ::
  "'w uart_ops \<Rightarrow> 'e env_ops \<Rightarrow> kconfig \<Rightarrow> 'e wifi_world \<Rightarrow> wifi_vars \<times> ('w, 'e) device \<Rightarrow> wifi_label list
     \<Rightarrow> wifi_vars \<times> ('w, 'e) device \<Rightarrow> bool" for os eo kc ww where
  run_Nil: "wifi_run os eo kc ww x [] x"
| run_Cons: "wifi_step os eo kc ww x l y \<Longrightarrow> wifi_run os eo kc ww y ls z \<Longrightarrow> wifi_run os eo kc ww x (l # ls) z"

inductive_simps wifi_run_simps:
  "wifi_run os eo kc ww x [] y"
  "wifi_run os eo kc ww x (l # ls) y"

text \<open>The static arrays have the sizes of their declarations, the count stays inside its array.\<close>

definition wifi_vars_ok :: "'e wifi_world \<Rightarrow> wifi_vars \<Rightarrow> bool" where
  "wifi_vars_ok ww v \<longleftrightarrow>
     ap_arrays_ok v \<and>
     length (scan_results v) = CONFIG_WIFI_MGMT_PROXY_MAX_SCAN_RESULTS (ww_ops ww) \<and>
     scan_result_count v \<le> CONFIG_WIFI_MGMT_PROXY_MAX_SCAN_RESULTS (ww_ops ww)"

text \<open>The results collected so far, and what each step does to them.\<close>

definition collected :: "wifi_vars \<Rightarrow> WifiScanResult list" where
  "collected v = take (scan_result_count v) (scan_results v)"

fun collect :: "nat \<Rightarrow> WifiScanResult list \<Rightarrow> wifi_label \<Rightarrow> WifiScanResult list" where
  "collect n acc (Net_event (NET_EVENT_WIFI_SCAN_RESULT r) iface) = take n (acc @ [scan_result_to_proto r])"
| "collect n acc (Net_event (NET_EVENT_WIFI_SCAN_DONE st) iface) = []"
| "collect n acc l = acc"

lemma collected_scan_result:
  assumes "wifi_vars_ok ww v"
  shows "collected (handle_wifi_scan_result ww r v) =
     take (CONFIG_WIFI_MGMT_PROXY_MAX_SCAN_RESULTS (ww_ops ww)) (collected v @ [scan_result_to_proto r])"
  using assms
  by (auto simp: collected_def handle_wifi_scan_result_def wifi_vars_ok_def take_Suc_conv_app_nth min_def)

lemma wifi_vars_ok_scan_result:
  "wifi_vars_ok ww v \<Longrightarrow> wifi_vars_ok ww (handle_wifi_scan_result ww r v)"
  by (auto simp: wifi_vars_ok_def ap_arrays_ok_def handle_wifi_scan_result_def)

lemma scan_reset [simp]:
  "wifi_vars_ok ww v \<Longrightarrow> wifi_vars_ok ww (v\<lparr>scan_result_count := 0\<rparr>)"
  "collected (v\<lparr>scan_result_count := 0\<rparr>) = []"
  by (simp_all add: wifi_vars_ok_def ap_arrays_ok_def collected_def)

lemma wifi_vars_ok_kept: "wifi_vars_ok ww v \<Longrightarrow> vars_kept v v1 \<Longrightarrow> wifi_vars_ok ww v1"
  by (simp add: wifi_vars_ok_def vars_kept_def)

lemma collected_kept: "vars_kept v v1 \<Longrightarrow> collected v1 = collected v"
  by (simp add: collected_def vars_kept_def)

text \<open>No request changes the collection, whatever the stack does and even if no lookup would end.\<close>

lemma reply_keeps_vars:
  "reply_status v m = Some (p, v1, e1) \<Longrightarrow> v1 = v"
  "reply_data v tag d = Some (p, v1, e1) \<Longrightarrow> v1 = v"
  by (auto simp: reply_status_def reply_data_def)

lemma enable_raw_rx_keeps: "handle_enable_raw_rx_request ww i ch v e = Some (r, v1, e1) \<Longrightarrow> vars_kept v v1"
  by (auto simp: handle_enable_raw_rx_request_def with_wifi_iface_Some case_prod_unfold)

lemma wifi_respond_keeps: "wifi_respond ww t payload v e = Some (p, v1, e1) \<Longrightarrow> vars_kept v v1"
  unfolding wifi_respond_def
  using ap_enable.vars_kept_law [where ww = ww and v = v and e = e]
    raw_tx.vars_kept_law [where ww = ww and v = v and e = e]
    raw_rx_off.vars_kept_law [where ww = ww and v = v and e = e]
  by (auto split: if_split_asm WifiMgmtRequest_payload.split_asm prod.split_asm
      simp: payload_type_mismatch_def dest: reply_keeps_vars enable_raw_rx_keeps)

lemma process_wifi_keeps:
  "process_wifi_mgmt_request ww buf n v e = Some (out, v1, e1) \<Longrightarrow> vars_kept v v1"
  by (auto simp: process_wifi_mgmt_request_def wifi_mgmt_response_def dest: wifi_respond_keeps
      split: option.split_asm)

text \<open>One step keeps the sizes and does to the collection what its label says.\<close>

lemma wifi_step_collect:
  assumes "wifi_step os eo kc ww x l y" and ok: "wifi_vars_ok ww (fst x)"
  shows "wifi_vars_ok ww (fst y) \<and>
    collected (fst y) = collect (CONFIG_WIFI_MGMT_PROXY_MAX_SCAN_RESULTS (ww_ops ww)) (collected (fst x)) l"
  using assms(1)
proof (cases rule: wifi_step.cases)
  case (net_event ev iface)
  with ok show ?thesis
    by (cases x; cases ev)
      (auto simp: collected_scan_result wifi_vars_ok_scan_result send_scan_done_notification_def)
next
  case thread_round
  then have "vars_kept (fst x) (fst y)"
    by (auto simp: wifi_mgmt_thread_round_def wifi_mgmt_serve_def Let_def dest: process_wifi_keeps
        split: if_split_asm option.split_asm prod.split_asm)
  with ok thread_round show ?thesis by (simp add: wifi_vars_ok_kept collected_kept)
next
  case capture_round
  then have "vars_kept (fst x) (fst y)"
    by (auto simp: raw_rx_thread_round_def split: prod.split_asm option.split_asm)
  with ok capture_round show ?thesis by (simp add: wifi_vars_ok_kept collected_kept)
next
  case (link_event dev c s t v)
  with ok show ?thesis by simp
qed

lemma wifi_run_collect:
  assumes "wifi_run os eo kc ww x ls y" and "wifi_vars_ok ww (fst x)"
  shows "wifi_vars_ok ww (fst y) \<and>
    collected (fst y) =
      foldl (collect (CONFIG_WIFI_MGMT_PROXY_MAX_SCAN_RESULTS (ww_ops ww))) (collected (fst x)) ls"
  using assms
proof (induction rule: wifi_run.induct)
  case (run_Cons x l y ls z)
  then show ?case using wifi_step_collect [OF run_Cons.hyps(1) run_Cons.prems] by simp
qed simp

text \<open>
  C8. Whatever the proxy is doing meanwhile (serving requests, receiving frames, reporting
  captured ones), the scan results it holds are the first ones the radio has reported since the
  last completed scan, converted, in their order and no more than configured; and its static
  arrays keep their sizes in every reachable state.
\<close>

theorem scan_collection_refines:
  assumes "wifi_run os eo kc ww x ls y" and "wifi_vars_ok ww (fst x)"
  shows "wifi_vars_ok ww (fst y) \<and>
    collected (fst y) =
      foldl (collect (CONFIG_WIFI_MGMT_PROXY_MAX_SCAN_RESULTS (ww_ops ww))) (collected (fst x)) ls"
  by (rule wifi_run_collect [OF assms])

end
