(* ===== verification/Wifi_Service.thy ===== *)
theory Wifi_Service
  imports Wifi_Events
begin

text \<open>
  The Wi-Fi management proxy between link and radio: a request from the wire to the response on
  the wire, and the results of a scan from the radio to the notification on the wire.  The last
  section has a concrete radio stack and codec, on which the properties of theories
  \<open>Wifi_Handlers\<close>, \<open>Wifi_Events\<close> and of this one are applied.
\<close>

section \<open>A request is answered\<close>

text \<open>The response encoder stays inside its buffer, and the buffer fits into a frame.\<close>

definition wifi_codec_bounded :: "'e wifi_ops \<Rightarrow> bool" where
  "wifi_codec_bounded wo \<longleftrightarrow>
     sizeof_WifiMgmtResponse wo \<le> SERIAL_MAX_PAYLOAD_LEN \<and>
     sizeof_WifiMgmtNotification wo \<le> SERIAL_MAX_PAYLOAD_LEN \<and>
     (\<forall>n r out. WifiMgmtResponse_encode wo n r = Some out \<longrightarrow> length out \<le> n) \<and>
     (\<forall>n x out. WifiMgmtNotification_encode wo n x = Some out \<longrightarrow> length out \<le> n)"

lemma process_wifi_bounded:
  assumes "wifi_codec_bounded (ww_ops ww)"
    and "process_wifi_mgmt_request ww buf (sizeof_WifiMgmtResponse (ww_ops ww)) v e = Some (out, v1, e1)"
  shows "length out \<le> SERIAL_MAX_PAYLOAD_LEN"
proof -
  have "length out \<le> sizeof_WifiMgmtResponse (ww_ops ww)"
    using assms by (auto simp: process_wifi_mgmt_request_def wifi_codec_bounded_def split: option.split_asm)
  then show ?thesis using assms(1) by (simp add: wifi_codec_bounded_def)
qed

lemma wifi_mgmt_serve_ok:
  assumes law: "link_law os sent pending" and route: "mux_routes kc s SERIAL_TYPE_WIFI_MGMT c"
    and dev: "serial_dev (serial_configs s c) = Some dev" and enc: "wifi_codec_bounded (ww_ops ww)"
    and mem: "mem_ok kc s" and len: "wifi_mgmt_message_length s \<le> unat (sizeof_WifiMgmtRequest kc)"
    and proc: "process_wifi_mgmt_request ww
        (take (wifi_mgmt_message_length s) (mem s Wifi_mgmt_rx_buffer))
        (sizeof_WifiMgmtResponse (ww_ops ww)) v (env s) = Some (out, v1, e1)"
  obtains t where "wifi_mgmt_serve os kc ww (v, s) = Some (v1, t)" "env t = e1"
    "sent dev (world t) = sent dev (world s) @
       response_frame SERIAL_TYPE_WIFI_MGMT (tx_sequence_number (serial_configs s c)) out"
    "pending dev (world t) = pending dev (world s)" "mem_fault t = mem_fault s"
    "rx_ready t c dev = rx_ready s c dev"
    "rx_sequence_number (serial_configs t c) = rx_sequence_number (serial_configs s c)"
proof -
  let ?s = "s\<lparr>env := e1\<rparr>"
  have buf: "\<not> length (mem s Wifi_mgmt_rx_buffer) < wifi_mgmt_message_length s"
    using mem len by (simp add: mem_ok_def)
  have out: "length out \<le> SERIAL_MAX_PAYLOAD_LEN" by (rule process_wifi_bounded [OF enc proc])
  have route': "mux_routes kc ?s SERIAL_TYPE_WIFI_MGMT c" "serial_dev (serial_configs ?s c) = Some dev"
    using route dev by (simp_all add: mux_routes_def)
  show ?thesis
  proof (cases "out = []")
    case True
    with proc buf show ?thesis
      by (intro that [of ?s]) (simp_all add: wifi_mgmt_serve_def response_frame_def rx_ready_def)
  next
    case False
    obtain w where w: "serial_mux_send os kc 0 (Some out) (length out) ?s =
         Some (0, upd_config c
           (\<lambda>cf. cf\<lparr>tx_sequence_number := sequence_number_advance (tx_sequence_number cf)\<rparr>) (?s\<lparr>world := w\<rparr>))"
      "sent dev w = sent dev (world ?s) @
         bus_header_encode (frame_header 0 0 False (tx_sequence_number (serial_configs ?s c)) (length out)) @ out"
      "pending dev w = pending dev (world ?s)"
      by (rule serial_mux_send_ok [OF law route' out])
    with proc buf False show ?thesis
      by (intro that [of "upd_config c
           (\<lambda>cf. cf\<lparr>tx_sequence_number := sequence_number_advance (tx_sequence_number cf)\<rparr>) (?s\<lparr>world := w\<rparr>)"])
        (simp_all add: wifi_mgmt_serve_def response_frame_def rx_ready_def)
  qed
qed

lemma wifi_mgmt_answered:
  assumes law: "link_law os sent pending" and mem: "mem_ok kc s"
    and cfg: "CONFIG_SERIAL_PROXY_WIFI_MGMT kc" and idle: "wifi_mgmt_message_length s = 0"
    and arr: "frame_arrives pending s c dev h payload" and ty: "bh_type h = SERIAL_TYPE_WIFI_MGMT"
    and seq: "in_sequence s c h" and len: "length payload \<le> unat (sizeof_WifiMgmtRequest kc)"
    and route: "mux_routes kc s SERIAL_TYPE_WIFI_MGMT c" and enc: "wifi_codec_bounded (ww_ops ww)"
    and proc: "process_wifi_mgmt_request ww payload (sizeof_WifiMgmtResponse (ww_ops ww)) v (env s) =
      Some (out, v1, e1)"
  obtains t u where "rx_event os eo kc dev c s = Some t"
    "wifi_mgmt_thread_round os kc ww (v, t) = Some (v1, u)"
    "env u = e1" "wifi_mgmt_message_length u = 0" "\<not> wifi_mgmt_event u"
    "link_after sent pending s c dev
       (success_reply h @
        (if unat (sizeof_WifiMgmtRequest kc) < 2 * length payload
         then bus_header_encode (ack_frame SERIAL_TYPE_WIFI_MGMT (bh_seq h) ERROR_TYPE_OUT_OF_BUFFERS) else []) @
        response_frame SERIAL_TYPE_WIFI_MGMT (tx_sequence_number (serial_configs s c)) out)
       (sequence_number_advance (rx_sequence_number (serial_configs s c))) u"
    "sent dev (world t) = sent dev (world s) @ success_reply h @
        (if unat (sizeof_WifiMgmtRequest kc) < 2 * length payload
         then bus_header_encode (ack_frame SERIAL_TYPE_WIFI_MGMT (bh_seq h) ERROR_TYPE_OUT_OF_BUFFERS) else [])"
    "sent dev (world u) = sent dev (world t) @
       response_frame SERIAL_TYPE_WIFI_MGMT (tx_sequence_number (serial_configs s c)) out"
proof (rule wifi_mgmt_delivered [OF law mem cfg idle arr ty seq len, of eo])
  fix t
  assume t: "rx_event os eo kc dev c s = Some t" "wifi_mgmt_message_length t = length payload"
    "wifi_mgmt_event t" "take (length payload) (mem t Wifi_mgmt_rx_buffer) = payload"
    and link: "link_after sent pending s c dev (success_reply h @
        (if unat (sizeof_WifiMgmtRequest kc) < 2 * length payload
         then bus_header_encode (ack_frame 0 (bh_seq h) 2) else []))
       (sequence_number_advance (rx_sequence_number (serial_configs s c))) t"
    and keep: "env t = env s" "mux_ifaces t = mux_ifaces s" "mem_ok kc t"
      "tx_sequence_number (serial_configs t c) = tx_sequence_number (serial_configs s c)"
  have dev: "serial_dev (serial_configs t c) = Some dev"
    using link by (simp add: link_after_def rx_ready_def)
  obtain u where u: "wifi_mgmt_serve os kc ww (v, t) = Some (v1, u)" "env u = e1"
    "sent dev (world u) = sent dev (world t) @ response_frame 0 (tx_sequence_number (serial_configs t c)) out"
    "pending dev (world u) = pending dev (world t)" "mem_fault u = mem_fault t"
    "rx_ready u c dev = rx_ready t c dev"
    "rx_sequence_number (serial_configs u c) = rx_sequence_number (serial_configs t c)"
    by (rule wifi_mgmt_serve_ok [OF law _ dev enc keep(3)])
      (use route keep t len proc in \<open>simp_all add: mux_routes_def\<close>)
  have round: "wifi_mgmt_thread_round os kc ww (v, t) = Some (v1, wifi_mgmt_rewait u)"
    using t(3) u(1) by (simp add: wifi_mgmt_thread_round_def)
  show ?thesis
    by (rule that [OF t(1) round])
      (use link u keep(4) in \<open>simp_all add: link_after_def wifi_mgmt_rewait_def rx_ready_def\<close>)
qed

text \<open>
  C7. A Wi-Fi management request that arrives intact is answered: the host gets the
  acknowledgement (and a spurious OUT_OF_BUFFERS for a request longer than half of the buffer),
  then one WIFI_MGMT frame with the device's next sequence number that carries the encoded
  response (no frame when there is nothing to send).  The request is processed exactly once and
  the proxy waits for the next one.
\<close>

theorem wifi_mgmt_request_answered:
  assumes law: "link_law os sent pending" and mem: "mem_ok kc s"
    and cfg: "CONFIG_SERIAL_PROXY_WIFI_MGMT kc" and idle: "wifi_mgmt_message_length s = 0"
    and arr: "frame_arrives pending s c dev h payload" and ty: "bh_type h = SERIAL_TYPE_WIFI_MGMT"
    and seq: "in_sequence s c h" and len: "length payload \<le> unat (sizeof_WifiMgmtRequest kc)"
    and route: "mux_routes kc s SERIAL_TYPE_WIFI_MGMT c" and enc: "wifi_codec_bounded (ww_ops ww)"
    and proc: "process_wifi_mgmt_request ww payload (sizeof_WifiMgmtResponse (ww_ops ww)) v (env s) =
      Some (out, v1, e1)"
  shows "\<exists>t u. rx_event os eo kc dev c s = Some t \<and>
     wifi_mgmt_thread_round os kc ww (v, t) = Some (v1, u) \<and>
     env u = e1 \<and> wifi_mgmt_message_length u = 0 \<and> \<not> wifi_mgmt_event u \<and>
     link_after sent pending s c dev
       (success_reply h @
        (if unat (sizeof_WifiMgmtRequest kc) < 2 * length payload
         then bus_header_encode (ack_frame SERIAL_TYPE_WIFI_MGMT (bh_seq h) ERROR_TYPE_OUT_OF_BUFFERS) else []) @
        response_frame SERIAL_TYPE_WIFI_MGMT (tx_sequence_number (serial_configs s c)) out)
       (sequence_number_advance (rx_sequence_number (serial_configs s c))) u"
  by (rule wifi_mgmt_answered [OF assms, of eo]) blast

section \<open>A scan is reported\<close>

text \<open>The scan results among the labels of a run, and runs without a completed scan.\<close>

fun scan_report :: "wifi_label \<Rightarrow> WifiScanResult list" where
  "scan_report (Net_event (NET_EVENT_WIFI_SCAN_RESULT r) iface) = [scan_result_to_proto r]"
| "scan_report l = []"

fun is_scan_done :: "wifi_label \<Rightarrow> bool" where
  "is_scan_done (Net_event (NET_EVENT_WIFI_SCAN_DONE st) iface) = True"
| "is_scan_done l = False"

lemma take_take_append: "take n (take n xs @ ys) = take n (xs @ ys)"
  by (cases "length xs \<le> n") simp_all

lemma foldl_collect:
  assumes "\<forall>l \<in> set ls. \<not> is_scan_done l" and "length acc \<le> n"
  shows "foldl (collect n) acc ls = take n (acc @ concat (map scan_report ls))"
  using assms
proof (induction ls arbitrary: acc)
  case (Cons l ls)
  have step: "collect n acc l = take n (acc @ scan_report l)"
    using Cons.prems by (cases "(n, acc, l)" rule: collect.cases) auto
  have "foldl (collect n) (collect n acc l) ls = take n (collect n acc l @ concat (map scan_report ls))"
    using Cons.prems step by (intro Cons.IH) simp_all
  then show ?case by (simp only: step take_take_append foldl_Cons) simp
qed simp

lemma send_notification_ok:
  assumes law: "link_law os sent pending" and route: "mux_routes kc s SERIAL_TYPE_WIFI_MGMT c"
    and dev: "serial_dev (serial_configs s c) = Some dev" and enc: "wifi_codec_bounded (ww_ops ww)"
    and out: "WifiMgmtNotification_encode (ww_ops ww) (sizeof_WifiMgmtNotification (ww_ops ww)) x = Some out"
  obtains t where "send_notification os kc ww x s = Some t"
    "sent dev (world t) = sent dev (world s) @
       bus_header_encode (frame_header SERIAL_TYPE_WIFI_MGMT ERROR_TYPE_NO_ERROR False
         (tx_sequence_number (serial_configs s c)) (length out)) @ out"
    "env t = env s" "pending dev (world t) = pending dev (world s)"
proof -
  have "length out \<le> sizeof_WifiMgmtNotification (ww_ops ww)"
    using enc out by (auto simp: wifi_codec_bounded_def)
  then have len: "length out \<le> SERIAL_MAX_PAYLOAD_LEN" using enc by (simp add: wifi_codec_bounded_def)
  show ?thesis
    by (rule serial_mux_send_ok [OF law route dev len]) (use out in \<open>auto simp: send_notification_def intro!: that\<close>)
qed

text \<open>
  Everything the radio finds reaches the host: after a run in which the proxy has collected
  the results of a scan, interleaved with requests, captured frames and traffic on the link, the
  end of the scan sends one notification with the first results, in order and converted, up to the
  configured number, and the next scan starts with an empty collection.
\<close>

lemma scan_reported_to_host:
  assumes run: "wifi_run os eo kc ww x ls (v, s)" and ok: "wifi_vars_ok ww (fst x)"
    and empty: "collected (fst x) = []" and nodone: "\<forall>l \<in> set ls. \<not> is_scan_done l"
    and law: "link_law os sent pending" and route: "mux_routes kc s SERIAL_TYPE_WIFI_MGMT c"
    and dev: "serial_dev (serial_configs s c) = Some dev" and enc: "wifi_codec_bounded (ww_ops ww)"
    and out: "WifiMgmtNotification_encode (ww_ops ww) (sizeof_WifiMgmtNotification (ww_ops ww))
      \<lparr>ev_iface_index = event_iface_index ww iface (env s),
       ev_data = Scan_done_event status
         (take (CONFIG_WIFI_MGMT_PROXY_MAX_SCAN_RESULTS (ww_ops ww)) (concat (map scan_report ls)))\<rparr> = Some out"
  shows "\<exists>v1 t. wifi_step os eo kc ww (v, s) (Net_event (NET_EVENT_WIFI_SCAN_DONE (Some status)) iface) (v1, t) \<and>
     collected v1 = [] \<and>
     sent dev (world t) = sent dev (world s) @
       bus_header_encode (frame_header SERIAL_TYPE_WIFI_MGMT ERROR_TYPE_NO_ERROR False
         (tx_sequence_number (serial_configs s c)) (length out)) @ out"
proof -
  have step: "wifi_run os eo kc ww x ls (v, s) \<Longrightarrow> wifi_vars_ok ww (fst x) \<Longrightarrow> collected v =
      foldl (collect (CONFIG_WIFI_MGMT_PROXY_MAX_SCAN_RESULTS (ww_ops ww))) (collected (fst x)) ls"
    using wifi_run_collect [of os eo kc ww x ls "(v, s)"] by simp
  have coll: "collected v =
      take (CONFIG_WIFI_MGMT_PROXY_MAX_SCAN_RESULTS (ww_ops ww)) (concat (map scan_report ls))"
    using step [OF run ok] foldl_collect [OF nodone, of "[]"] empty by simp
  then have notif: "WifiMgmtNotification_encode (ww_ops ww) (sizeof_WifiMgmtNotification (ww_ops ww))
      (scan_done_notification ww iface status v (env s)) = Some out"
    using out by (simp add: scan_done_notification_def collected_def)
  obtain t where t: "send_notification os kc ww (scan_done_notification ww iface status v (env s)) s = Some t"
    "sent dev (world t) = sent dev (world s) @
       bus_header_encode (frame_header 0 0 False (tx_sequence_number (serial_configs s c)) (length out)) @ out"
    by (rule send_notification_ok [OF law route dev enc notif])
  then have "wifi_step os eo kc ww (v, s) (Net_event (NET_EVENT_WIFI_SCAN_DONE (Some status)) iface)
      (v\<lparr>scan_result_count := 0\<rparr>, t)"
    by (simp add: wifi_step_simps send_scan_done_notification_def)
  with t(2) show ?thesis by (intro exI [of _ "v\<lparr>scan_result_count := 0\<rparr>"] exI [of _ t]) simp
qed

section \<open>A concrete radio\<close>

text \<open>
  A stack that accepts every request and a codec for a few messages; requests that reach the
  driver are recorded in \<open>se_pkts\<close>.
\<close>

definition sim_log :: "byte list \<Rightarrow> sim_env \<Rightarrow> int \<times> sim_env" where
  "sim_log bs e = (0, e\<lparr>se_pkts := se_pkts e @ [bs]\<rparr>)"

definition idle_radio :: "'e wifi_ops" where
  "idle_radio =
     \<lparr>WifiMgmtRequest_decode = (\<lambda>bs. None), WifiMgmtResponse_encode = (\<lambda>n r. None),
      WifiMgmtNotification_encode = (\<lambda>n x. None),
      sizeof_WifiMgmtResponse = 700, sizeof_WifiMgmtNotification = 2600,
      CONFIG_WIFI_MGMT_PROXY_MAX_SCAN_RESULTS = 2, WIFI_CHANNEL_ANY = 255,
      WIFI_MGMT_SCAN_MAX_BSS_CNT = 10, MAX_REG_CHAN_NUM = 42, phy_rate_kbps = (\<lambda>_. 0),
      net_if_get_default = (\<lambda>e. Some 0),
      wifi_connect = (\<lambda>i p e. (0, e)), wifi_disconnect = (\<lambda>i e. (0, e)), wifi_scan = (\<lambda>i p e. (0, e)),
      wifi_ap_enable = (\<lambda>i p e. (0, e)), wifi_ap_disable = (\<lambda>i e. (0, e)),
      wifi_version_get = (\<lambda>i e. ((0, \<lparr>drv_version = None, fw_version = Some (replicate 40 (CHR ''v''))\<rparr>), e)),
      wifi_ps_set = (\<lambda>i p e. (0, e)),
      wifi_ps_config_get = (\<lambda>i e. ((0, \<lparr>psg_enabled = WIFI_PS_DISABLED, psg_listen_interval = 0,
        psg_wakeup_mode = 0, psg_timeout_ms = 0, psg_exit_strategy = 0, psg_mode = WIFI_PS_MODE_LEGACY\<rparr>), e)),
      wifi_reg_domain_set = (\<lambda>i cc force e. (0, e)),
      wifi_reg_domain_get = (\<lambda>i n e. ((0, \<lparr>zr_country_code = (0, 0), zr_force = False, zr_num_channels = 0,
        zr_chan_info = []\<rparr>), e)),
      wifi_iface_status_get = (\<lambda>i e. ((0, \<lparr>zs_state = WIFI_STATE_DISCONNECTED, zs_iface_mode = WIFI_MODE_INFRA,
        zs_ssid = [], zs_ssid_len = 0, zs_bssid = replicate 6 0, zs_band = WIFI_FREQ_BAND_2_4_GHZ,
        zs_channel = 0, zs_security = WIFI_SECURITY_TYPE_NONE, zs_mfp = WIFI_MFP_DISABLE, zs_rssi = 0,
        zs_link_mode = WIFI_1, zs_current_phy_tx_rate = 0, zs_dtim_period = 0, zs_beacon_interval = 0,
        zs_twt_capable = False\<rparr>), e))\<rparr>"

definition sim_radio :: "sim_env wifi_ops" where
  "sim_radio = idle_radio
     \<lparr>WifiMgmtRequest_decode := (\<lambda>bs.
        if bs = [8, 2, 26, 0] then Some \<lparr>wreq_request_id = 2, wreq_payload = Disconnect_req 0\<rparr>
        else if bs = [8, 2, 26, 2, 8, 9] then Some \<lparr>wreq_request_id = 2, wreq_payload = Disconnect_req 9\<rparr>
        else if bs = [8, 6, 58, 0] then Some \<lparr>wreq_request_id = 6, wreq_payload = Get_version_req\<rparr>
        else None),
      WifiMgmtResponse_encode := (\<lambda>n r.
        if n < 6 then None
        else case wresp_payload r of
          Status_resp st \<Rightarrow> Some [8, ucast (wresp_request_id r), 18, 2, 8, of_bool (st_success st)]
        | Get_version_resp (Some v) \<Rightarrow>
            if length (firmware_version v) < 32 then Some [8, ucast (wresp_request_id r), 26, 0] else None
        | _ \<Rightarrow> None),
      WifiMgmtNotification_encode := (\<lambda>n x.
        if n < 4 then None
        else case ev_data x of
          Scan_done_event st rs \<Rightarrow> Some [10, 2, 18, word_of_nat (length rs)]
        | _ \<Rightarrow> None),
      wifi_connect := (\<lambda>i p. sim_log (cp_ssid p)), wifi_disconnect := (\<lambda>i. sim_log [2]),
      wifi_ap_enable := (\<lambda>i p. sim_log (cp_ssid p)),
      wifi_reg_domain_set := (\<lambda>i cc force. sim_log [fst cc, snd cc]),
      wifi_reg_domain_get := (\<lambda>i n e. ((0, \<lparr>zr_country_code = (last (se_pkts e) ! 0, last (se_pkts e) ! 1),
        zr_force = False, zr_num_channels = 0, zr_chan_info = []\<rparr>), e))\<rparr>"

lemmas sim_radio_defs = sim_radio_def idle_radio_def

definition idle_raw :: "'e raw_ops" where
  "idle_raw =
     \<lparr>NET_IF_UP_flag = 0, packet_socket = (\<lambda>e. (3, e)), packet_bind = (\<lambda>fd i e. (0, e)),
      packet_close = (\<lambda>fd e. e), packet_sendto = (\<lambda>fd bs i e. (0, e)),
      packet_poll = (\<lambda>fd ms e. (- 1, e)), packet_recvfrom = (\<lambda>fd n e. ((0, False, []), e)),
      net_eth_txinjection_mode = (\<lambda>i on e. (0, e)), wifi_mode_set = (\<lambda>i idx m e. (0, e)),
      wifi_mode_get = (\<lambda>i idx e. ((0, 2), e)), wifi_channel_set = (\<lambda>i idx ch e. (0, e)),
      wifi_packet_filter_all = (\<lambda>i idx n e. (0, e)), wait_ms = (\<lambda>n e. e), start_zep_last_step = (\<lambda>e. 10)\<rparr>"

definition sim_raw :: "sim_env raw_ops" where
  "sim_raw = idle_raw\<lparr>packet_sendto := (\<lambda>fd bs i. sim_log (word_of_int i # bs))\<rparr>"

lemmas sim_raw_defs = sim_raw_def idle_raw_def

definition sim_ww :: "sim_env wifi_world" where
  "sim_ww = \<lparr>ww_if = sim_net_if, ww_ops = sim_radio, ww_raw = sim_raw\<rparr>"

definition sim_vars :: wifi_vars where
  "sim_vars =
     \<lparr>wv_raw = raw_vars_init, ap_enable_params = connect_params_zero,
      ap_enable_ssid = replicate 32 0, ap_enable_psk = replicate 64 0,
      scan_results = replicate 2 (scan_result_to_proto
        \<lparr>zc_ssid = [], zc_ssid_length = 0, zc_mac = replicate 6 0, zc_mac_length = 6, zc_channel = 0, zc_rssi = 0,
         zc_security = WIFI_SECURITY_TYPE_NONE, zc_wpa3_ent_type = 0, zc_mfp = WIFI_MFP_DISABLE,
         zc_band = WIFI_FREQ_BAND_2_4_GHZ\<rparr>),
      scan_result_count = 0\<rparr>"

lemma sim_ww_simps [simp]: "ww_if sim_ww = sim_net_if" "ww_ops sim_ww = sim_radio" "ww_raw sim_ww = sim_raw"
  by (simp_all add: sim_ww_def)

lemma sim_radio_bounded: "wifi_codec_bounded sim_radio"
  by (auto simp: wifi_codec_bounded_def sim_radio_defs
      split: WifiMgmtResponse_payload.split_asm WifiEvent_data.split_asm option.split_asm if_split_asm)

lemma sim_iface [simp]: "net_if_get_by_index sim_net_if n e = (if n = 1 then Some 0 else None)"
  by (simp add: sim_net_if_def)

lemma sim_search_ends: "iface_search_ends sim_net_if e"
  by (auto simp: iface_search_ends_def intro!: exI [of _ 1])

lemma sim_vars_ok: "wifi_vars_ok sim_ww sim_vars" "collected sim_vars = []"
  by (simp_all add: wifi_vars_ok_def ap_arrays_ok_def sim_vars_def collected_def sim_radio_defs)

theorem resolve_wifi_iface_spec_witness:
  "resolve_wifi_iface sim_net_if 0 (env (sim_device sim_kc [])) = Some (Some 0)"
  using resolve_wifi_iface_spec [of sim_net_if 1 "env (sim_device sim_kc [])" 0]
  by (simp add: sim_net_if_def)

theorem wifi_response_contract_witness:
  "\<exists>p v1 e1. wifi_mgmt_response sim_ww [8, 2, 26, 2, 8, 9] sim_vars (env (sim_device sim_kc [])) =
     Some (\<lparr>wresp_request_id = 2, wresp_payload = p\<rparr>, v1, e1) \<and> reply_code p = - ENODEV"
proof -
  have req: "WifiMgmtRequest_decode (ww_ops sim_ww) [8, 2, 26, 2, 8, 9] =
      Some \<lparr>wreq_request_id = 2, wreq_payload = Disconnect_req 9\<rparr>"
    by (simp add: sim_radio_defs)
  have ends: "iface_search_ends (ww_if sim_ww) (env (sim_device sim_kc []))" by (simp add: sim_search_ends)
  have "resolve_wifi_iface sim_net_if 9 (env (sim_device sim_kc [])) = Some None"
    by (simp add: resolve_wifi_iface_def)
  with wifi_response_contract [OF req ends, of sim_vars] show ?thesis
    by (auto simp: known_request_def)
qed

definition sim_found :: wifi_scan_result where
  "sim_found =
     \<lparr>zc_ssid = [0x61], zc_ssid_length = 1, zc_mac = replicate 6 1, zc_mac_length = 6, zc_channel = 6, zc_rssi = - 50,
      zc_security = WIFI_SECURITY_TYPE_PSK, zc_wpa3_ent_type = 0, zc_mfp = WIFI_MFP_OPTIONAL,
      zc_band = WIFI_FREQ_BAND_2_4_GHZ\<rparr>"

abbreviation (input) sim_scan_event :: wifi_label where
  "sim_scan_event \<equiv> Net_event (NET_EVENT_WIFI_SCAN_RESULT sim_found) (Some 0)"

text \<open>Three results, of which two are configured to be kept.\<close>

lemma sim_scan_run:
  "\<exists>v. wifi_run sim_uart sim_stacks sim_kc sim_ww (sim_vars, sim_device sim_kc [])
     [sim_scan_event, Thread_round, sim_scan_event, sim_scan_event] (v, sim_device sim_kc [])"
  by (auto simp: wifi_run_simps wifi_step_simps wifi_mgmt_thread_round_def)

theorem scan_collection_refines_witness:
  "\<exists>y. wifi_run sim_uart sim_stacks sim_kc sim_ww (sim_vars, sim_device sim_kc [])
     [sim_scan_event, Thread_round, sim_scan_event, sim_scan_event] y \<and>
     wifi_vars_ok sim_ww (fst y) \<and>
     collected (fst y) = [scan_result_to_proto sim_found, scan_result_to_proto sim_found]"
proof -
  obtain v where run: "wifi_run sim_uart sim_stacks sim_kc sim_ww (sim_vars, sim_device sim_kc [])
     [sim_scan_event, Thread_round, sim_scan_event, sim_scan_event] (v, sim_device sim_kc [])"
    using sim_scan_run by blast
  have max: "CONFIG_WIFI_MGMT_PROXY_MAX_SCAN_RESULTS sim_radio = 2" by (simp add: sim_radio_defs)
  have "wifi_vars_ok sim_ww v \<and>
      collected v = [scan_result_to_proto sim_found, scan_result_to_proto sim_found]"
    using scan_collection_refines [OF run] by (simp add: sim_vars_ok max)
  with run show ?thesis by (intro exI [of _ "(v, sim_device sim_kc [])"]) simp
qed

lemma scan_reported_to_host_witness:
  "\<exists>v v1 t. wifi_run sim_uart sim_stacks sim_kc sim_ww (sim_vars, sim_device sim_kc [])
       [sim_scan_event, Thread_round, sim_scan_event, sim_scan_event] (v, sim_device sim_kc []) \<and>
     wifi_step sim_uart sim_stacks sim_kc sim_ww (v, sim_device sim_kc [])
       (Net_event (NET_EVENT_WIFI_SCAN_DONE (Some 0)) (Some 0)) (v1, t) \<and> collected v1 = [] \<and>
     sim_tx (world t) 0 = bus_header_encode (frame_header 0 0 False 0 4) @ [10, 2, 18, 2]"
proof -
  obtain v where run: "wifi_run sim_uart sim_stacks sim_kc sim_ww (sim_vars, sim_device sim_kc [])
     [sim_scan_event, Thread_round, sim_scan_event, sim_scan_event] (v, sim_device sim_kc [])"
    using sim_scan_run by blast
  have route: "mux_routes sim_kc (sim_device sim_kc []) 0 Config_serial" by (simp add: mux_routes_def)
  have dev: "serial_dev (serial_configs (sim_device sim_kc []) Config_serial) = Some 0"
    by (simp add: sim_config_def)
  have out: "WifiMgmtNotification_encode (ww_ops sim_ww) (sizeof_WifiMgmtNotification (ww_ops sim_ww))
      \<lparr>ev_iface_index = event_iface_index sim_ww (Some 0) (env (sim_device sim_kc [])),
       ev_data = Scan_done_event 0 (take (CONFIG_WIFI_MGMT_PROXY_MAX_SCAN_RESULTS (ww_ops sim_ww))
         (concat (map scan_report [sim_scan_event, Thread_round, sim_scan_event, sim_scan_event])))\<rparr> =
      Some [10, 2, 18, 2]"
    by (simp add: sim_radio_defs)
  have "\<exists>v1 t. wifi_step sim_uart sim_stacks sim_kc sim_ww (v, sim_device sim_kc [])
       (Net_event (NET_EVENT_WIFI_SCAN_DONE (Some 0)) (Some 0)) (v1, t) \<and> collected v1 = [] \<and>
     sim_tx (world t) 0 = sim_tx (world (sim_device sim_kc [])) 0 @
       bus_header_encode (frame_header 0 0 False
         (tx_sequence_number (serial_configs (sim_device sim_kc []) Config_serial)) (length [10, 2, 18, 2 :: byte]))
       @ [10, 2, 18, 2]"
    by (rule scan_reported_to_host [OF run _ _ _ sim_uart_link route dev _ out])
      (simp_all add: sim_vars_ok sim_radio_bounded)
  then show ?thesis using run by (auto simp: sim_config_def frame_header_def)
qed

lemma sim_disconnect_response:
  "wifi_respond sim_ww 2 (Disconnect_req 0) v e =
     Some (Status_resp (status_ok ''Disconnect initiated''), v, e\<lparr>se_pkts := se_pkts e @ [[2]]\<rparr>)"
proof -
  have "first_wifi_iface sim_net_if e 1 = Some (Some 0)"
    by (subst first_wifi_iface.simps) (simp add: sim_net_if_def)
  then show ?thesis
    by (simp add: wifi_respond_def handle_disconnect_request_def with_wifi_iface_def resolve_wifi_iface_def
        reply_status_def sim_log_def status_of_ret_def sim_radio_defs)
qed

lemma sim_disconnect:
  "process_wifi_mgmt_request sim_ww [8, 2, 26, 0] (sizeof_WifiMgmtResponse sim_radio) v e =
     Some ([8, 2, 18, 2, 8, 1], v, e\<lparr>se_pkts := se_pkts e @ [[2]]\<rparr>)"
  using sim_disconnect_response [of v e]
  by (simp add: process_wifi_mgmt_request_def wifi_mgmt_response_def sim_radio_defs status_ok_def)

theorem wifi_mgmt_request_answered_witness:
  "\<exists>t u. rx_event sim_uart sim_stacks sim_kc 0 Config_serial
        (sim_device sim_kc (bus_header_encode (request_header 0 0 4) @ [8, 2, 26, 0])) = Some t \<and>
     wifi_mgmt_thread_round sim_uart sim_kc sim_ww (sim_vars, t) = Some (sim_vars, u) \<and>
     se_pkts (env u) = [[2]] \<and>
     sim_tx (world u) 0 = bus_header_encode (ack_frame 0 0 0) @
       bus_header_encode (frame_header 0 0 False 0 6) @ [8, 2, 18, 2, 8, 1]"
proof -
  let ?p = "[8, 2, 26, 0] :: byte list"
  let ?s = "sim_device sim_kc (bus_header_encode (request_header 0 0 4) @ ?p)"
  have arr: "frame_arrives (\<lambda>d w. sim_rx w d) ?s Config_serial 0 (request_header 0 0 4) ?p"
    by (rule sim_frame_arrives) simp_all
  have route: "mux_routes sim_kc ?s 0 Config_serial" by (simp add: mux_routes_def)
  have enc: "wifi_codec_bounded (ww_ops sim_ww)" by (simp add: sim_radio_bounded)
  have proc: "process_wifi_mgmt_request sim_ww ?p (sizeof_WifiMgmtResponse (ww_ops sim_ww)) sim_vars (env ?s) =
      Some ([8, 2, 18, 2, 8, 1], sim_vars, (env ?s)\<lparr>se_pkts := se_pkts (env ?s) @ [[2]]\<rparr>)"
    using sim_disconnect by simp
  show ?thesis
    using wifi_mgmt_request_answered [OF sim_uart_link _ _ _ arr _ _ _ route enc proc, of sim_stacks]
    by (auto simp: sim_in_sequence link_after_def success_reply_def response_frame_def sim_config_def
        frame_header_def)
qed

end
