(* ===== verification/Wifi_Behaviour.thy ===== *)
theory Wifi_Behaviour
  imports Wifi_Service
begin

text \<open>
  What single requests of the Wi-Fi management proxy promise: what the driver is given by a
  connect request, that a power save configuration can be read back, that a regulatory domain is
  confirmed, that raw frames are framed and accounted for; and three behaviours of the code that
  its users have to know.
\<close>

section \<open>Connect\<close>

text \<open>
  The checks the proxy makes: an SSID of 1 to 32 bytes; a pre-shared key, of 1 to 64 bytes, for the
  PSK types and only for them (so no key for WEP); a password, of 1 to 128 bytes, for SAE and only
  for it; an identity and a password, of any length, for EAP and only for it.
\<close>

definition connect_params_checked :: "wifi_connect_req_params \<Rightarrow> bool" where
  "connect_params_checked p \<longleftrightarrow>
     0 < length (cp_ssid p) \<and> length (cp_ssid p) \<le> 32 \<and>
     (cp_psk p \<noteq> None \<longleftrightarrow>
        cp_security p \<in> {WIFI_SECURITY_TYPE_PSK, WIFI_SECURITY_TYPE_WPA_PSK, WIFI_SECURITY_TYPE_PSK_SHA256}) \<and>
     (\<forall>k. cp_psk p = Some k \<longrightarrow> 0 < length k \<and> length k \<le> 64) \<and>
     (cp_sae_password p \<noteq> None \<longleftrightarrow> cp_security p = WIFI_SECURITY_TYPE_SAE) \<and>
     (\<forall>k. cp_sae_password p = Some k \<longrightarrow> 0 < length k \<and> length k \<le> 128) \<and>
     (cp_eap_identity p \<noteq> None \<longleftrightarrow> cp_security p \<in> {WIFI_SECURITY_TYPE_EAP, WIFI_SECURITY_TYPE_EAP_TLS}) \<and>
     (cp_eap_password p \<noteq> None \<longleftrightarrow> cp_security p \<in> {WIFI_SECURITY_TYPE_EAP, WIFI_SECURITY_TYPE_EAP_TLS})"

lemma connect_check_ok:
  assumes "connect_check req = None"
  shows "connect_params_checked (connect_params wo req)"
proof -
  define sec where "sec = proto_to_zephyr_security (cr_security_type req)"
  show ?thesis using assms
    by (cases sec)
      (auto simp: connect_check_def connect_params_checked_def connect_params_def Let_def
        sec_def [symmetric] split: if_split_asm)
qed

text \<open>
  C16. A connect request either reaches the driver of the interface it names with parameters that
  pass the proxy's checks (SSID of 1 to 32 bytes; a key of 1 to 64 bytes exactly for the PSK types, a
  password of 1 to 128 bytes exactly for SAE; EAP fields exactly for the EAP types, of any length),
  and the driver's answer is the answer to the host, or it is refused with ENODEV or EINVAL and the
  driver is not called at all.
\<close>

theorem connect_credentials_safe:
  assumes "handle_connect_request ww req e = Some (st, e1)"
  shows "(st_error_code st \<in> {- ENODEV, - EINVAL} \<and> \<not> st_success st \<and> e1 = e) \<or>
    (\<exists>iface. resolve_wifi_iface (ww_if ww) (cr_iface_index req) e = Some (Some iface) \<and>
       connect_params_checked (connect_params (ww_ops ww) req) \<and>
       wifi_connect (ww_ops ww) iface (connect_params (ww_ops ww) req) e = (st_error_code st, e1))"
  using assms unfolding handle_connect_request_def with_wifi_iface_Some
  by (cases "connect_check req") (auto simp: case_prod_unfold dest: connect_check_ok)

text \<open>
  The checks are not those of the message definition, which gives a pre-shared key 8 to 63
  characters and lets it carry the key of a WEP network too: a key of one byte passes, and a WEP
  request goes to the driver without its key.
\<close>

lemma connect_key_rules_differ:
  "cr_security_type req = Proto_SECURITY_PSK \<Longrightarrow> length (cr_psk req) = 1 \<Longrightarrow>
     0 < length (cr_ssid req) \<Longrightarrow> length (cr_ssid req) \<le> 32 \<Longrightarrow> connect_check req = None"
  "cr_security_type req = Proto_SECURITY_WEP \<Longrightarrow> cp_psk (connect_params wo req) = None"
  by (simp_all add: connect_check_def connect_params_def Let_def)

definition sim_connect :: WifiConnectRequest where
  "sim_connect =
     \<lparr>cr_iface_index = 1, cr_ssid = [0x61, 0x62], cr_security_type = Proto_SECURITY_PSK,
      cr_psk = replicate 8 0x31, cr_sae_password = [], cr_channel = 0, cr_bssid = replicate 6 0,
      cr_timeout_ms = 1500, cr_mfp = Proto_MFP_OPTIONAL, cr_band = Proto_BAND_ANY,
      cr_eap_identity = [], cr_eap_password = []\<rparr>"

theorem connect_credentials_safe_witness:
  "\<exists>st e1. handle_connect_request sim_ww sim_connect (env (sim_device sim_kc [])) = Some (st, e1) \<and>
     st_success st \<and> se_pkts e1 = [[0x61, 0x62]] \<and> connect_params_checked (connect_params sim_radio sim_connect)"
proof -
  let ?e = "env (sim_device sim_kc [])"
  have "resolve_wifi_iface sim_net_if 1 ?e = Some (Some 0)" by (simp add: resolve_wifi_iface_def)
  then have h: "handle_connect_request sim_ww sim_connect ?e =
      Some (status_ok ''Connect initiated'', ?e\<lparr>se_pkts := [[0x61, 0x62]]\<rparr>)"
    by (simp add: handle_connect_request_def with_wifi_iface_def connect_check_def sim_connect_def Let_def sim_radio_defs
        sim_log_def status_of_ret_def connect_params_def)
  show ?thesis using connect_credentials_safe [OF h] h by auto
qed

text \<open>
  C36. The connect time-out is rounded up: the driver gets the least number of seconds that
  covers the requested milliseconds.  The 999 longest time-outs, among them the value for "wait
  for ever", wrap around in the rounding and become 0.
\<close>

theorem connect_timeout_bounds:
  "if unat ms + 999 < 2 ^ 32
   then unat ms \<le> 1000 * unat (connect_timeout_s ms) \<and> 1000 * unat (connect_timeout_s ms) < unat ms + 1000
   else connect_timeout_s ms = 0"
proof -
  have sum: "unat (ms + 1000 - 1) = (unat ms + 999) mod 2 ^ 32"
  proof -
    have "ms + 1000 - 1 = ms + 999" by simp
    then show ?thesis using unat_word_ariths(1) [of ms 999] by (simp only:) simp
  qed
  have s: "unat (connect_timeout_s ms) = (unat ms + 999) mod 2 ^ 32 div 1000"
    unfolding connect_timeout_s_def unat_div sum by simp
  show ?thesis
  proof (cases "unat ms + 999 < 2 ^ 32")
    case True
    then have "unat (connect_timeout_s ms) = (unat ms + 999) div 1000" using s by simp
    moreover have "n \<le> 1000 * ((n + 999) div 1000) \<and> 1000 * ((n + 999) div 1000) < n + 1000" for n :: nat
      using mult_div_mod_eq [of 1000 "n + 999"] mod_less_divisor [of 1000 "n + 999"] by linarith
    ultimately show ?thesis using True by simp
  next
    case False
    have "unat ms < 2 ^ 32" using unsigned_less [of ms] by simp
    with False have "(unat ms + 999) mod 2 ^ 32 = unat ms + 999 - 2 ^ 32"
      by (simp add: mod_nat_eqI)
    with \<open>unat ms < 2 ^ 32\<close> have "(unat ms + 999) mod 2 ^ 32 < 1000" by simp
    with s have "unat (connect_timeout_s ms) = 0" by simp
    with False show ?thesis by (simp add: unat_eq_zero)
  qed
qed

section \<open>Power save\<close>

text \<open>A driver that keeps what it is given: one parameter per call, selected by its type.\<close>

definition ps_update :: "wifi_ps_params \<Rightarrow> wifi_ps_config \<Rightarrow> wifi_ps_config" where
  "ps_update p c =
     (case psp_type p of
        WIFI_PS_PARAM_STATE \<Rightarrow> c\<lparr>psg_enabled := psp_enabled p\<rparr>
      | WIFI_PS_PARAM_LISTEN_INTERVAL \<Rightarrow> c\<lparr>psg_listen_interval := psp_listen_interval p\<rparr>
      | WIFI_PS_PARAM_MODE \<Rightarrow> c\<lparr>psg_mode := psp_mode p\<rparr>
      | WIFI_PS_PARAM_TIMEOUT \<Rightarrow> c\<lparr>psg_timeout_ms := psp_timeout_ms p\<rparr>)"

definition ps_driver_law :: "'e wifi_ops \<Rightarrow> nat \<Rightarrow> ('e \<Rightarrow> wifi_ps_config) \<Rightarrow> bool" where
  "ps_driver_law wo iface cfg \<longleftrightarrow>
     (\<forall>p e. fst (wifi_ps_set wo iface p e) = 0 \<and> cfg (snd (wifi_ps_set wo iface p e)) = ps_update p (cfg e)) \<and>
     (\<forall>e. wifi_ps_config_get wo iface e = ((0, cfg e), e))"

lemma ps_apply_law:
  assumes "ps_driver_law (ww_ops ww) iface cfg"
  shows "fst (ps_apply ww iface steps e) = status_ok ''Set PS config success'' \<and>
     cfg (snd (ps_apply ww iface steps e)) = foldl (\<lambda>c x. ps_update (fst x) c) (cfg e) steps"
proof (induction steps arbitrary: e)
  case (Cons x steps)
  obtain p m where x: "x = (p, m)" by (cases x)
  have "fst (wifi_ps_set (ww_ops ww) iface p e) = 0"
    "cfg (snd (wifi_ps_set (ww_ops ww) iface p e)) = ps_update p (cfg e)"
    using assms by (simp_all add: ps_driver_law_def)
  then show ?case using Cons.IH [of "snd (wifi_ps_set (ww_ops ww) iface p e)"]
    by (simp add: x case_prod_unfold)
qed simp

lemma ps_steps_effect:
  "foldl (\<lambda>c x. ps_update (fst x) c) c (ps_steps s ty) =
     c\<lparr>psg_enabled := (if pss_enabled s = WIFI_PS_STATE_ENABLE then WIFI_PS_ENABLED else WIFI_PS_DISABLED),
       psg_listen_interval := (if 0 < pss_listen_interval_beacons s then ucast (pss_listen_interval_beacons s)
                               else psg_listen_interval c),
       psg_timeout_ms := (if 0 < pss_timeout_ms s then pss_timeout_ms s else psg_timeout_ms c),
       psg_mode := (if ty = WIFI_PS_TYPE_WMM then WIFI_PS_MODE_WMM else WIFI_PS_MODE_LEGACY)\<rparr>"
  by (cases c) (simp add: ps_steps_def Let_def ps_update_def)

text \<open>
  C18. A power save configuration that a driver keeps can be read back: the following query
  returns the state, the listen interval (its low 16 bits), the time-out and the mode that were
  set, and the previous listen interval or time-out where 0 was given.
\<close>

theorem ps_config_roundtrip:
  assumes law: "ps_driver_law (ww_ops ww) iface cfg"
    and iface: "\<forall>e'. resolve_wifi_iface (ww_if ww) i e' = Some (Some iface)"
  shows "\<exists>e1. handle_set_ps_config_request ww i (Some \<lparr>psc_ps_settings = Some s, psc_type = ty\<rparr>) e =
       Some (status_ok ''Set PS config success'', e1) \<and>
     handle_get_ps_config_request ww i e1 =
       Some (Inr \<lparr>psc_ps_settings = Some
           \<lparr>pss_enabled = (if pss_enabled s = WIFI_PS_STATE_ENABLE then WIFI_PS_STATE_ENABLE
                           else WIFI_PS_STATE_DISABLE),
            pss_wakeup_mode = psg_wakeup_mode (cfg e),
            pss_listen_interval_beacons =
              (if 0 < pss_listen_interval_beacons s then take_bit 16 (pss_listen_interval_beacons s)
               else ucast (psg_listen_interval (cfg e))),
            pss_timeout_ms = (if 0 < pss_timeout_ms s then pss_timeout_ms s else psg_timeout_ms (cfg e)),
            pss_exit_strategy = psg_exit_strategy (cfg e)\<rparr>,
          psc_type = (if ty = WIFI_PS_TYPE_WMM then WIFI_PS_TYPE_WMM else WIFI_PS_TYPE_MODEM)\<rparr>, e1)"
proof -
  let ?r = "ps_apply ww iface (ps_steps s ty) e"
  have r: "fst ?r = status_ok ''Set PS config success''"
    "cfg (snd ?r) = foldl (\<lambda>c x. ps_update (fst x) c) (cfg e) (ps_steps s ty)"
    using ps_apply_law [OF law, of "ps_steps s ty" e] by simp_all
  have set: "handle_set_ps_config_request ww i (Some \<lparr>psc_ps_settings = Some s, psc_type = ty\<rparr>) e =
      Some (status_ok ''Set PS config success'', snd ?r)"
    using iface r(1) by (simp add: handle_set_ps_config_request_def prod_eq_iff)
  have get: "wifi_ps_config_get (ww_ops ww) iface (snd ?r) = ((0, cfg (snd ?r)), snd ?r)"
    using law by (simp add: ps_driver_law_def)
  have low: "ucast (ucast x :: u16) = (take_bit 16 x :: u32)" for x
    by (rule bit_word_eqI) (auto simp: bit_simps)
  show ?thesis
    by (rule exI [of _ "snd ?r"])
      (use set get r(2) iface in \<open>simp add: handle_get_ps_config_request_def ps_steps_effect low\<close>)
qed

text \<open>A driver whose state is its power save configuration.\<close>

definition sim_ps :: "wifi_ps_config wifi_world" where
  "sim_ps =
     \<lparr>ww_if = sim_net_if,
      ww_ops = idle_radio\<lparr>wifi_ps_set := (\<lambda>i p e. (0, ps_update p e)), wifi_ps_config_get := (\<lambda>i e. ((0, e), e))\<rparr>,
      ww_raw = idle_raw\<rparr>"

theorem ps_config_roundtrip_witness:
  "\<exists>e1. handle_set_ps_config_request sim_ps 1
       (Some \<lparr>psc_ps_settings = Some \<lparr>pss_enabled = 1, pss_wakeup_mode = 0, pss_listen_interval_beacons = 0x10003,
          pss_timeout_ms = 0, pss_exit_strategy = 0\<rparr>, psc_type = 2\<rparr>)
       \<lparr>psg_enabled = WIFI_PS_DISABLED, psg_listen_interval = 10, psg_wakeup_mode = 1, psg_timeout_ms = 200,
        psg_exit_strategy = 0, psg_mode = WIFI_PS_MODE_LEGACY\<rparr> =
       Some (status_ok ''Set PS config success'', e1) \<and>
     handle_get_ps_config_request sim_ps 1 e1 =
       Some (Inr \<lparr>psc_ps_settings = Some \<lparr>pss_enabled = 1, pss_wakeup_mode = 1, pss_listen_interval_beacons = 3,
          pss_timeout_ms = 200, pss_exit_strategy = 0\<rparr>, psc_type = 2\<rparr>, e1)"
proof -
  have law: "ps_driver_law (ww_ops sim_ps) 0 (\<lambda>e. e)" by (simp add: ps_driver_law_def sim_ps_def)
  have iface: "\<forall>e'. resolve_wifi_iface (ww_if sim_ps) 1 e' = Some (Some 0)"
    by (simp add: sim_ps_def resolve_wifi_iface_def sim_net_if_def)
  have low: "take_bit 16 0x10003 = (3 :: u32)" by (simp add: take_bit_eq_mod)
  show ?thesis
    using ps_config_roundtrip [OF law iface, of "\<lparr>pss_enabled = 1, pss_wakeup_mode = 0,
          pss_listen_interval_beacons = 0x10003, pss_timeout_ms = 0, pss_exit_strategy = 0\<rparr>" 2
        "\<lparr>psg_enabled = WIFI_PS_DISABLED, psg_listen_interval = 10, psg_wakeup_mode = 1, psg_timeout_ms = 200,
          psg_exit_strategy = 0, psg_mode = WIFI_PS_MODE_LEGACY\<rparr>"]
    by (simp add: low)
qed

section \<open>Regulatory domain\<close>

lemma cc_upper_letter:
  assumes "cc_letter c"
  shows "0x41 \<le> cc_upper c" "cc_upper c \<le> 0x5A"
proof -
  have "c - 0x61 + 0x41 = c - 0x20" by simp
  moreover have "unat (c - 0x20) = unat c - 0x20" if "0x61 \<le> c"
    using that by (subst unat_sub) (simp_all add: word_le_nat_alt)
  ultimately have "0x41 \<le> cc_upper c \<and> cc_upper c \<le> 0x5A"
    using assms by (auto simp: cc_letter_def cc_upper_def word_le_nat_alt)
  then show "0x41 \<le> cc_upper c" "cc_upper c \<le> 0x5A" by simp_all
qed

text \<open>
  C17. Success of a regulatory domain request means that the driver has confirmed it: the country
  code was two letters, the driver accepted them in upper case, and asked afterwards it reports
  exactly these two letters.
\<close>

theorem set_reg_domain_confirmed:
  assumes h: "handle_set_reg_domain_request ww i (Some rd) e = Some (st, e1)" and ok: "st_success st"
  shows "\<exists>iface want e0 got. resolve_wifi_iface (ww_if ww) i e = Some (Some iface) \<and>
     want = (cc_upper (cc_char (rd_country_code rd) 0), cc_upper (cc_char (rd_country_code rd) 1)) \<and>
     0x41 \<le> fst want \<and> fst want \<le> 0x5A \<and> 0x41 \<le> snd want \<and> snd want \<le> 0x5A \<and>
     wifi_reg_domain_set (ww_ops ww) iface want (rd_force_update rd) e = (0, e0) \<and>
     wifi_reg_domain_get (ww_ops ww) iface (MAX_REG_CHAN_NUM (ww_ops ww)) e0 = ((0, got), e1) \<and>
     zr_country_code got = want"
proof -
  obtain iface where iface: "resolve_wifi_iface (ww_if ww) i e = Some (Some iface)"
    and r: "reg_domain_apply ww iface rd e = (st, e1)"
    using h ok by (auto simp: handle_set_reg_domain_request_def with_wifi_iface_Some)
  from r ok show ?thesis
    by (auto simp: reg_domain_apply_def Let_def iface cc_upper_letter split: prod.split_asm if_split_asm)
qed

theorem set_reg_domain_confirmed_witness:
  "\<exists>e1. handle_set_reg_domain_request sim_ww 1
       (Some \<lparr>rd_country_code = [0x66, 0x69], rd_force_update = False, rd_channel_info = []\<rparr>)
       (env (sim_device sim_kc [])) = Some (status_ok ''Set RegDomain success'', e1) \<and>
     se_pkts e1 = [[0x46, 0x49]]"
proof -
  let ?e = "env (sim_device sim_kc [])"
  let ?rd = "\<lparr>rd_country_code = [0x66, 0x69], rd_force_update = False, rd_channel_info = []\<rparr>"
  have "resolve_wifi_iface sim_net_if 1 ?e = Some (Some 0)" by (simp add: resolve_wifi_iface_def)
  then have h: "handle_set_reg_domain_request sim_ww 1 (Some ?rd) ?e =
      Some (status_ok ''Set RegDomain success'', ?e\<lparr>se_pkts := [[0x46, 0x49]]\<rparr>)"
    by (simp add: handle_set_reg_domain_request_def with_wifi_iface_def reg_domain_apply_def Let_def
        cc_char_def cc_letter_def cc_upper_def sim_radio_defs sim_log_def)
  show ?thesis using set_reg_domain_confirmed [OF h] h by auto
qed

section \<open>Firmware version\<close>

text \<open>The encoder refuses a string field without a terminating NUL.\<close>

definition refuses_unterminated :: "'e wifi_ops \<Rightarrow> bool" where
  "refuses_unterminated wo \<longleftrightarrow>
     (\<forall>n id ver. 32 \<le> length (firmware_version ver) \<longrightarrow>
        WifiMgmtResponse_encode wo n \<lparr>wresp_request_id = id, wresp_payload = Get_version_resp (Some ver)\<rparr> = None)"

text \<open>
  A version request is never answered when the driver's firmware version has 32 characters
  or more: the copy is bounded by the 63 characters of a status message, not by the 32 bytes of the
  version field, so the field is left without its NUL and the encoder gives up.
\<close>

lemma long_firmware_version_unanswered:
  assumes req: "WifiMgmtRequest_decode (ww_ops ww) buf =
      Some \<lparr>wreq_request_id = REQUEST_TYPE_GET_WIFI_VERSION, wreq_payload = Get_version_req\<rparr>"
    and ver: "wifi_version_get (ww_ops ww) (net_if_get_default (ww_ops ww) e) e = ((0, ver), e1)"
    and fw: "fw_version ver = Some fw" "32 \<le> length fw" and enc: "refuses_unterminated (ww_ops ww)"
  shows "process_wifi_mgmt_request ww buf n v e = Some ([], v, e1)"
  using assms
  by (simp add: process_wifi_mgmt_request_def wifi_mgmt_response_def wifi_respond_def
      handle_get_version_request_def set_status_error_msg_bytes_def refuses_unterminated_def)

lemma long_firmware_version_unanswered_witness:
  "process_wifi_mgmt_request sim_ww [8, 6, 58, 0] 700 sim_vars (env (sim_device sim_kc [])) =
     Some ([], sim_vars, env (sim_device sim_kc []))"
  by (rule long_firmware_version_unanswered [where fw = "replicate 40 (CHR ''v'')"
        and ver = "\<lparr>drv_version = None, fw_version = Some (replicate 40 (CHR ''v''))\<rparr>"])
    (simp_all add: sim_radio_defs refuses_unterminated_def)

section \<open>Raw frames\<close>

text \<open>
  C19. The outcome of a raw transmission is what the diagnostics say: the last result and length
  are recorded, the counter counts exactly the successful calls, and a success means that the
  interface is a Wi-Fi interface, that the frame has 24 to 2346 bytes, and that the packet socket
  took it whole behind the driver's 12-byte header, whose length field is the frame's length.
\<close>

theorem raw_frame_tx_contract:
  assumes "wifi_data_raw_frame_tx no ro (Some i) (Some bs) (length bs) v e = (ret, v1, e1)"
  shows "raw_tx_last_ret v1 = ret \<and> raw_tx_last_frame_len v1 = length bs \<and>
    raw_tx_frame_count v1 = raw_tx_frame_count v + of_bool (ret = 0) \<and>
    (ret = 0 \<longrightarrow> net_if_is_wifi no i e \<and> 24 \<le> length bs \<and> length bs \<le> 2346 \<and>
       (\<exists>e0 n hdr. packet_sendto ro (raw_tx_sockfd v1) (hdr @ bs) (raw_tx_ifindex v1) e0 = (n, e1) \<and>
          0 \<le> n \<and> length hdr = 12 \<and> unat (mk_u16 (hdr ! 6) (hdr ! 5)) = length bs))"
proof -
  have hdr: "length (raw_tx_pkt_header m) = 12"
    "m < 65536 \<Longrightarrow> unat (mk_u16 (raw_tx_pkt_header m ! 6) (raw_tx_pkt_header m ! 5)) = m" for m
    by (simp_all add: raw_tx_pkt_header_def unat_word_of_nat_16)
  have sock: "raw_tx_frame_count v' = raw_tx_frame_count u \<and> raw_tx_last_frame_len v' = raw_tx_last_frame_len u"
    if "raw_tx_socket_setup no ro i u e' = (r, v', e'')" for u e' r v' e''
    using that by (auto simp: raw_tx_socket_setup_def Let_def split: if_split_asm prod.split_asm)
  have sent: "\<exists>e0 n hdr. packet_sendto ro fd (hdr @ bs) idx e0 = (n, e1) \<and> 0 \<le> n \<and> length hdr = 12 \<and>
      unat (mk_u16 (hdr ! 6) (hdr ! 5)) = length bs"
    if "packet_sendto ro fd (raw_tx_pkt_header (length bs) @ bs) idx e0 = (n, e1)" "\<not> n < 0" "length bs \<le> 2346"
    for fd idx e0 n
    using that hdr by (intro exI [of _ e0] exI [of _ n] exI [of _ "raw_tx_pkt_header (length bs)"]) simp
  show ?thesis
  proof (cases "net_if_is_wifi no i e \<and> 24 \<le> length bs \<and> length bs \<le> 2346")
    case False
    with assms show ?thesis
      by (auto simp: wifi_data_raw_frame_tx_def Let_def errno_defs split: if_split_asm)
  next
    case True
    with assms show ?thesis
      by (auto simp: wifi_data_raw_frame_tx_def Let_def errno_defs dest!: sock intro: sent
          split: if_split_asm prod.split_asm)
  qed
qed

theorem raw_frame_tx_contract_witness:
  "\<exists>v1 e1. wifi_data_raw_frame_tx sim_net_if sim_raw (Some 0) (Some (replicate 24 7)) 24 raw_vars_init
       (env (sim_device sim_kc [])) = (0, v1, e1) \<and>
     raw_tx_frame_count v1 = 1 \<and> raw_tx_last_ret v1 = 0 \<and> length (se_pkts e1) = 1"
proof -
  have "fst (wifi_data_raw_frame_tx sim_net_if sim_raw (Some 0) (Some (replicate 24 7)) (length (replicate 24 (7 :: byte)))
       raw_vars_init (env (sim_device sim_kc []))) = 0 \<and>
    length (se_pkts (snd (snd (wifi_data_raw_frame_tx sim_net_if sim_raw (Some 0) (Some (replicate 24 7))
       (length (replicate 24 (7 :: byte))) raw_vars_init (env (sim_device sim_kc [])))))) = 1"
    by (simp add: wifi_data_raw_frame_tx_def raw_tx_socket_setup_def sim_raw_defs sim_net_if_def sim_log_def
        raw_vars_init_def Let_def)
  then obtain v1 e1 where r: "wifi_data_raw_frame_tx sim_net_if sim_raw (Some 0) (Some (replicate 24 7))
      (length (replicate 24 (7 :: byte))) raw_vars_init (env (sim_device sim_kc [])) = (0, v1, e1)"
    "length (se_pkts e1) = 1"
    by (metis prod.collapse)
  from raw_frame_tx_contract [OF r(1)] r show ?thesis by (auto simp: raw_vars_init_def)
qed

text \<open>
  The socket of the first raw transmission is used for all later ones: a frame that the host
  sends on another interface is accepted, but goes out with the interface index of the first.
\<close>

lemma raw_tx_wrong_interface:
  assumes first: "wifi_data_raw_frame_tx no ro (Some i) (Some bs) (length bs) v e = (0, v1, e1)"
    and fresh: "raw_tx_sockfd v < 0" and idx: "\<forall>e'. net_if_get_by_iface no i e' = idx"
    and snd: "wifi_data_raw_frame_tx no ro (Some j) (Some bs') (length bs') v1 e1 = (0, v2, e2)"
  shows "\<exists>e0 n. packet_sendto ro (raw_tx_sockfd v1) (raw_tx_pkt_header (length bs') @ bs') idx e0 = (n, e2) \<and> 0 \<le> n"
proof -
  have sock: "0 \<le> raw_tx_sockfd v' \<and> raw_tx_ifindex v' = idx"
    if "raw_tx_socket_setup no ro i u e' = (0, v', e'')" "raw_tx_sockfd u < 0" for u e' v' e''
    using that idx by (auto simp: raw_tx_socket_setup_def Let_def errno_defs split: if_split_asm prod.split_asm)
  have "0 \<le> raw_tx_sockfd v1 \<and> raw_tx_ifindex v1 = idx"
    using first fresh
    by (auto simp: wifi_data_raw_frame_tx_def Let_def errno_defs dest!: sock split: if_split_asm prod.split_asm)
  with snd show ?thesis
    by (auto simp: wifi_data_raw_frame_tx_def raw_tx_socket_setup_def Let_def errno_defs not_less
        split: if_split_asm prod.split_asm)
qed

text \<open>
  After the capture thread has ended on an error, capture cannot be enabled again: the
  socket is still open, so the request reports success without doing anything, no thread is
  running, and no frame will be reported until capture has been disabled.
\<close>

lemma raw_rx_enable_without_thread:
  assumes run: "raw_rx_running v" "0 \<le> raw_rx_sockfd v"
    and err: "packet_poll ro (raw_rx_sockfd v) 100 e = (pret, e1)" "pret < 0"
    and wifi: "net_if_is_wifi no i e2"
  shows "\<exists>v1. raw_rx_poll_round ro v e = (None, v1, e1) \<and>
     wifi_data_raw_frame_rx_enable no ro (Some i) channel v1 e2 = (0, v1, e2) \<and>
     \<not> raw_rx_running v1 \<and> raw_rx_poll_round ro v1 e3 = (None, v1, e3)"
  using assms by (auto simp: raw_rx_poll_round_def wifi_data_raw_frame_rx_enable_def)


text \<open>A stack with two interfaces, and one whose capture socket has failed.\<close>

definition sim_net_if2 :: "sim_env net_if_ops" where
  "sim_net_if2 = sim_net_if\<lparr>net_if_get_by_iface := (\<lambda>i e. 1 + int i)\<rparr>"

lemma raw_tx_wrong_interface_witness:
  "\<exists>v1 e1 v2 e2. wifi_data_raw_frame_tx sim_net_if2 sim_raw (Some 0) (Some (replicate 24 7))
       (length (replicate 24 (7 :: byte))) raw_vars_init (env (sim_device sim_kc [])) = (0, v1, e1) \<and>
     wifi_data_raw_frame_tx sim_net_if2 sim_raw (Some 1) (Some (replicate 24 9))
       (length (replicate 24 (9 :: byte))) v1 e1 = (0, v2, e2) \<and>
     (\<exists>e0 n. packet_sendto sim_raw (raw_tx_sockfd v1)
        (raw_tx_pkt_header (length (replicate 24 (9 :: byte))) @ replicate 24 9) 1 e0 = (n, e2))"
proof -
  note defs = wifi_data_raw_frame_tx_def raw_tx_socket_setup_def sim_net_if2_def sim_net_if_def sim_raw_defs
    sim_log_def raw_vars_init_def Let_def
  obtain v1 e1 where f: "wifi_data_raw_frame_tx sim_net_if2 sim_raw (Some 0) (Some (replicate 24 7))
      (length (replicate 24 (7 :: byte))) raw_vars_init (env (sim_device sim_kc [])) = (0, v1, e1)"
    and v1: "0 \<le> raw_tx_sockfd v1"
    by (simp add: defs)
  obtain v2 e2 where s: "wifi_data_raw_frame_tx sim_net_if2 sim_raw (Some 1) (Some (replicate 24 9))
      (length (replicate 24 (9 :: byte))) v1 e1 = (0, v2, e2)"
    using v1 by (simp add: defs)
  have idx: "\<forall>e'. net_if_get_by_iface sim_net_if2 0 e' = 1" by (simp add: sim_net_if2_def)
  have fresh: "raw_tx_sockfd raw_vars_init < 0" by (simp add: raw_vars_init_def)
  show ?thesis using raw_tx_wrong_interface [OF f fresh idx s] f s by blast
qed

lemma raw_rx_enable_without_thread_witness:
  "\<exists>v1. raw_rx_poll_round sim_raw (raw_vars_init\<lparr>raw_rx_running := True, raw_rx_sockfd := 3\<rparr>)
       (env (sim_device sim_kc [])) = (None, v1, env (sim_device sim_kc [])) \<and>
     wifi_data_raw_frame_rx_enable sim_net_if sim_raw (Some 0) 6 v1 (env (sim_device sim_kc [])) =
       (0, v1, env (sim_device sim_kc [])) \<and> \<not> raw_rx_running v1"
  using raw_rx_enable_without_thread [of "raw_vars_init\<lparr>raw_rx_running := True, raw_rx_sockfd := 3\<rparr>" sim_raw
      "env (sim_device sim_kc [])" "- 1" "env (sim_device sim_kc [])" sim_net_if 0 "env (sim_device sim_kc [])" 6]
  by (auto simp: sim_raw_defs sim_net_if_def)

end
