(* ===== verification/Host_Wifi.thy ===== *)
theory Host_Wifi
  imports Bus_Requests Wifi_Service
begin

text \<open>
  The host's virtual Wi-Fi driver, \<open>host/host_wifi.c\<close>: data frames in both directions, the
  notifications of the device, and one operation per entry of \<open>virt_wifi_ops\<close>.

  The state behind the bus handlers is \<open>'n virt_wifi\<close>: the static \<open>scan_cb\<close>, the network stack
  \<open>'n\<close> of the host, and \<open>vw_fault\<close>, which an overrun of \<open>resp_buf\<close> sets.  The stack and the codec are
  not part of the sources; \<open>host_wifi_ops\<close> has a field for each of their functions the file calls.
  An operation that talks to the device takes, like \<open>bus_request\<close>, the script of what arrives while
  it waits.
\<close>

section \<open>State and environment\<close>

type_synonym 'n scan_result_cb_t = "nat option \<Rightarrow> int \<Rightarrow> wifi_scan_result option \<Rightarrow> 'n \<Rightarrow> 'n"

record 'n virt_wifi =
  scan_cb :: "'n scan_result_cb_t option"
  net_stack :: 'n
  vw_fault :: bool

datatype wifi_ap_status = WIFI_STATUS_AP_SUCCESS | WIFI_STATUS_AP_FAIL

text \<open>
  A submessage that is absent from the wire decodes to a zeroed structure.  \<open>net_buf_add_mem\<close> gives
  a pointer, so the test of its result for a negative value in the receive path never succeeds.
\<close>

record 'n host_wifi_ops =
  WifiMgmtRequest_encode :: "nat \<Rightarrow> WifiMgmtRequest \<Rightarrow> byte list option"
  WifiMgmtResponse_decode :: "byte list \<Rightarrow> WifiMgmtResponse option"
  WifiMgmtNotification_decode :: "byte list \<Rightarrow> WifiMgmtNotification option"
  sizeof_req_buf :: nat
  sizeof_resp_buf :: nat
  host_net_if_get_by_index :: "int \<Rightarrow> 'n \<Rightarrow> nat option"
  host_net_if_get_default :: "'n \<Rightarrow> nat option"
  set_eth_if_type_wifi :: "nat option \<Rightarrow> 'n \<Rightarrow> 'n"
  net_pkt_alloc_with_buffer :: "nat \<Rightarrow> nat \<Rightarrow> 'n \<Rightarrow> nat option \<times> 'n"
  net_pkt_add_mem :: "nat \<Rightarrow> byte list \<Rightarrow> 'n \<Rightarrow> 'n"
  host_net_pkt_unref :: "nat \<Rightarrow> 'n \<Rightarrow> 'n"
  net_if_recv_data :: "nat \<Rightarrow> nat \<Rightarrow> 'n \<Rightarrow> 'n"
  wifi_mgmt_raise_connect_result_event :: "nat option \<Rightarrow> int \<Rightarrow> 'n \<Rightarrow> 'n"
  wifi_mgmt_raise_disconnect_result_event :: "nat option \<Rightarrow> int \<Rightarrow> 'n \<Rightarrow> 'n"
  wifi_mgmt_raise_iface_status_event :: "nat option \<Rightarrow> wifi_iface_status \<Rightarrow> 'n \<Rightarrow> 'n"
  wifi_mgmt_raise_ap_enable_result_event :: "nat option \<Rightarrow> wifi_ap_status \<Rightarrow> 'n \<Rightarrow> 'n"
  wifi_mgmt_raise_ap_disable_result_event :: "nat option \<Rightarrow> wifi_ap_status \<Rightarrow> 'n \<Rightarrow> 'n"
  notify_ap_sta_connected :: "nat option \<Rightarrow> byte list \<Rightarrow> 'n \<Rightarrow> 'n"
  notify_ap_sta_disconnected :: "nat option \<Rightarrow> byte list \<Rightarrow> 'n \<Rightarrow> 'n"

abbreviation (input) VIRT_WIFI_IFACE_INDEX :: u32 where "VIRT_WIFI_IFACE_INDEX \<equiv> 1"

abbreviation upd_stack :: "('n \<Rightarrow> 'n) \<Rightarrow> 'n virt_wifi \<Rightarrow> 'n virt_wifi" where
  "upd_stack f a \<equiv> a\<lparr>net_stack := f (net_stack a)\<rparr>"

definition virt_wifi_netif :: "'n host_wifi_ops \<Rightarrow> 'n \<Rightarrow> nat option" where
  "virt_wifi_netif ho e =
     (case host_net_if_get_by_index ho 1 e of Some i \<Rightarrow> Some i | None \<Rightarrow> host_net_if_get_default ho e)"

section \<open>Data frames\<close>

text \<open>
  A packet is the list of the data of its fragments; \<open>behind\<close> is what memory holds behind the data
  of the first one.  The length is that of all fragments, the pointer that of the first.
\<close>

definition virt_wifi_l2_send ::
  "'w uart_ops \<Rightarrow> 'n host_wifi_ops \<Rightarrow> nat \<Rightarrow> byte list list \<Rightarrow> byte list \<Rightarrow> ('w, 'n virt_wifi) host
     \<Rightarrow> (int \<times> ('w, 'n virt_wifi) host) option" where
  "virt_wifi_l2_send os ho pkt frags behind b =
     do { (rc, b1) \<leftarrow> bus_send os (uint SERIAL_TYPE_WIFI_DATA) (Some (hd frags @ behind))
             (sum_list (map length frags)) b;
          Some (rc, b1\<lparr>app := upd_stack (host_net_pkt_unref ho pkt) (app b1)\<rparr>) }"

definition wifi_data_rx :: "'n host_wifi_ops \<Rightarrow> 'n virt_wifi rx_handler" where
  "wifi_data_rx ho payload len user a =
     (case user of
        None \<Rightarrow> a
      | Some iface \<Rightarrow>
          if len = 0 then a
          else
            (case net_pkt_alloc_with_buffer ho iface len (net_stack a) of
               (None, e1) \<Rightarrow> a\<lparr>net_stack := e1\<rparr>
             | (Some pkt, e1) \<Rightarrow>
                 a\<lparr>net_stack := net_if_recv_data ho iface pkt (net_pkt_add_mem ho pkt (take len payload) e1)\<rparr>))"

section \<open>Notifications\<close>

text \<open>The zeroed structures; an SSID array is kept up to its maximum length.\<close>

definition scan_result_zero :: wifi_scan_result where
  "scan_result_zero =
     \<lparr>zc_ssid = replicate 32 0, zc_ssid_length = 0, zc_mac = replicate 6 0, zc_mac_length = 0, zc_channel = 0,
      zc_rssi = 0, zc_security = WIFI_SECURITY_TYPE_NONE, zc_wpa3_ent_type = 0, zc_mfp = WIFI_MFP_DISABLE,
      zc_band = WIFI_FREQ_BAND_2_4_GHZ\<rparr>"

text \<open>One result of \<open>handle_scan_done\<close>; \<open>(int8_t)\<close> and \<open>(uint8_t)\<close> keep the low eight bits.\<close>

definition host_scan_result :: "WifiScanResult \<Rightarrow> wifi_scan_result" where
  "host_scan_result r =
     (let res = scan_result_zero
        \<lparr>zc_rssi := sint (word_of_int (sr_rssi r) :: byte),
         zc_security := host_proto_to_zephyr_security (sr_security r),
         zc_mfp := host_proto_to_zephyr_mfp (sr_mfp r),
         zc_channel := ucast (sr_channel r),
         zc_mac := sr_bssid r, zc_mac_length := 6\<rparr>
      in if length (sr_ssid r) \<le> 32
         then res\<lparr>zc_ssid := overwrite 0 (sr_ssid r) (zc_ssid res), zc_ssid_length := length (sr_ssid r)\<rparr>
         else res)"

definition handle_scan_done :: "int \<Rightarrow> WifiScanResult list \<Rightarrow> nat option \<Rightarrow> 'n virt_wifi \<Rightarrow> 'n virt_wifi" where
  "handle_scan_done status all_results iface a =
     (case scan_cb a of
        None \<Rightarrow> a
      | Some cb \<Rightarrow>
          upd_stack (\<lambda>e. cb iface status None
            (foldl (\<lambda>e r. cb iface status (Some (host_scan_result r)) e) e all_results)) a)"

text \<open>
  The fields both readers of \<open>WifiInterfaceStatus\<close> fill, on top of the structure they are given;
  they differ in the conversion of the channel.
\<close>

definition host_iface_status ::
  "(u32 \<Rightarrow> u32) \<Rightarrow> WifiInterfaceStatus \<Rightarrow> wifi_iface_status \<Rightarrow> wifi_iface_status" where
  "host_iface_status chan s z =
     (let z1 = z\<lparr>zs_state := host_proto_to_zephyr_state (is_state s),
                 zs_iface_mode := host_proto_to_zephyr_mode (is_mode s),
                 zs_security := host_proto_to_zephyr_security (is_security s),
                 zs_mfp := host_proto_to_zephyr_mfp (is_mfp s),
                 zs_channel := chan (is_channel s), zs_rssi := is_rssi s, zs_bssid := is_bssid s\<rparr>
      in if length (is_ssid s) \<le> 32
         then z1\<lparr>zs_ssid := overwrite 0 (is_ssid s) (zs_ssid z1), zs_ssid_len := length (is_ssid s)\<rparr>
         else z1)"

definition wifi_mgmt_notify :: "'n host_wifi_ops \<Rightarrow> 'n virt_wifi rx_handler" where
  "wifi_mgmt_notify ho payload len user a =
     (case WifiMgmtNotification_decode ho (take len payload) of
        None \<Rightarrow> a
      | Some notif \<Rightarrow>
          let iface = virt_wifi_netif ho (net_stack a);
              ap_status = (\<lambda>st. if st = 0 then WIFI_STATUS_AP_SUCCESS else WIFI_STATUS_AP_FAIL)
          in (case ev_data notif of
                Scan_done_event status rs \<Rightarrow> handle_scan_done status rs iface a
              | Connect_result_event status \<Rightarrow>
                  upd_stack (wifi_mgmt_raise_connect_result_event ho iface status) a
              | Disconnect_result_event by_user reason \<Rightarrow>
                  upd_stack (wifi_mgmt_raise_disconnect_result_event ho iface 0) a
              | Interface_status_event s \<Rightarrow>
                  upd_stack (wifi_mgmt_raise_iface_status_event ho iface
                    (host_iface_status (\<lambda>c. c) s iface_status_zero)) a
              | Ap_enable_result_event status \<Rightarrow>
                  upd_stack (wifi_mgmt_raise_ap_enable_result_event ho iface (ap_status status)) a
              | Ap_disable_result_event status \<Rightarrow>
                  upd_stack (wifi_mgmt_raise_ap_disable_result_event ho iface (ap_status status)) a
              | Ap_sta_connected_event mac \<Rightarrow> upd_stack (notify_ap_sta_connected ho iface mac) a
              | Ap_sta_disconnected_event mac \<Rightarrow> upd_stack (notify_ap_sta_disconnected ho iface mac) a
              | Raw_frame_rx_event frame \<Rightarrow> a
              | No_event \<Rightarrow> a))"

section \<open>Requests\<close>

text \<open>The result is the return value and, when it is 0, the decoded response.\<close>

definition mgmt_roundtrip ::
  "'w uart_ops \<Rightarrow> 'n host_wifi_ops \<Rightarrow> WifiMgmtRequest \<Rightarrow> 'w script \<Rightarrow> ('w, 'n virt_wifi) host
     \<Rightarrow> ((int \<times> WifiMgmtResponse option) \<times> 'w script \<times> ('w, 'n virt_wifi) host) option" where
  "mgmt_roundtrip os ho req sc b =
     (case WifiMgmtRequest_encode ho (sizeof_req_buf ho) req of
        None \<Rightarrow> Some ((- EMSGSIZE, None), sc, b)
      | Some bytes \<Rightarrow>
          do { ((rc, resp), sc1, b1) \<leftarrow>
                 bus_request os (uint SERIAL_TYPE_WIFI_MGMT) (Some bytes) (length bytes) True sc b;
               (case (rc = 0, resp) of
                  (True, Some out) \<Rightarrow>
                    let b2 = b1\<lparr>app := (app b1)\<lparr>vw_fault := vw_fault (app b1) \<or> sizeof_resp_buf ho < length out\<rparr>\<rparr>
                    in (case WifiMgmtResponse_decode ho out of
                          None \<Rightarrow> Some ((- EBADMSG, None), sc1, b2)
                        | Some r \<Rightarrow> Some ((0, Some r), sc1, b2))
                | _ \<Rightarrow> Some ((rc, None), sc1, b1)) })"

definition decode_status :: "WifiMgmtResponse \<Rightarrow> int" where
  "decode_status resp =
     (case wresp_payload resp of
        Status_resp st \<Rightarrow> if st_success st then 0 else st_error_code st
      | _ \<Rightarrow> - EBADMSG)"

text \<open>The common end of the operations: \<open>k\<close> reads the response, \<open>x\<close> is what the caller sees without one.\<close>

definition mgmt_op ::
  "'w uart_ops \<Rightarrow> 'n host_wifi_ops \<Rightarrow> WifiMgmtRequest \<Rightarrow> 'x \<Rightarrow> (WifiMgmtResponse \<Rightarrow> int \<times> 'x) \<Rightarrow> 'w script
     \<Rightarrow> ('w, 'n virt_wifi) host \<Rightarrow> ((int \<times> 'x) \<times> 'w script \<times> ('w, 'n virt_wifi) host) option" where
  "mgmt_op os ho req x k sc b =
     map_option (\<lambda>((rc, resp), sc1, b1).
        (case resp of Some r \<Rightarrow> k r | None \<Rightarrow> (rc, x), sc1, b1))
       (mgmt_roundtrip os ho req sc b)"

definition scan_request :: "wifi_scan_params \<Rightarrow> WifiMgmtRequest" where
  "scan_request params =
     \<lparr>wreq_request_id = REQUEST_TYPE_SCAN,
      wreq_payload = Scan_req VIRT_WIFI_IFACE_INDEX (Some
        \<lparr>sq_scan_type = host_zephyr_to_proto_scan_type (sp_scan_type params),
         sq_bands = ucast (sp_bands params),
         sq_dwell_time_active = ucast (sp_dwell_time_active params),
         sq_dwell_time_passive = ucast (sp_dwell_time_passive params),
         sq_max_bss_cnt = ucast (sp_max_bss_cnt params)\<rparr>)\<rparr>"

definition virt_wifi_scan ::
  "'w uart_ops \<Rightarrow> 'n host_wifi_ops \<Rightarrow> wifi_scan_params \<Rightarrow> 'n scan_result_cb_t option \<Rightarrow> 'w script
     \<Rightarrow> ('w, 'n virt_wifi) host \<Rightarrow> (int \<times> 'w script \<times> ('w, 'n virt_wifi) host) option" where
  "virt_wifi_scan os ho params cb sc b =
     map_option (\<lambda>((rc, resp), sc1, b1).
        case resp of
          None \<Rightarrow> (rc, sc1, b1\<lparr>app := (app b1)\<lparr>scan_cb := None\<rparr>\<rparr>)
        | Some r \<Rightarrow> (decode_status r, sc1, b1))
       (mgmt_roundtrip os ho (scan_request params) sc (b\<lparr>app := (app b)\<lparr>scan_cb := cb\<rparr>\<rparr>))"

definition connect_request :: "wifi_connect_req_params \<Rightarrow> WifiConnectRequest" where
  "connect_request params =
     \<lparr>cr_iface_index = VIRT_WIFI_IFACE_INDEX,
      cr_ssid = (if length (cp_ssid params) \<le> 32 then cp_ssid params else []),
      cr_security_type = host_zephyr_to_proto_security (cp_security params),
      cr_psk = (case cp_psk params of Some psk \<Rightarrow> if length psk \<le> 65 then psk else [] | None \<Rightarrow> []),
      cr_sae_password = [], cr_channel = ucast (cp_channel params), cr_bssid = replicate 6 0,
      cr_timeout_ms = 0, cr_mfp = host_zephyr_to_proto_mfp (cp_mfp params), cr_band = Proto_BAND_ANY,
      cr_eap_identity = [], cr_eap_password = []\<rparr>"

definition virt_wifi_connect ::
  "'w uart_ops \<Rightarrow> 'n host_wifi_ops \<Rightarrow> wifi_connect_req_params \<Rightarrow> 'w script
     \<Rightarrow> ('w, 'n virt_wifi) host \<Rightarrow> ((int \<times> unit) \<times> 'w script \<times> ('w, 'n virt_wifi) host) option" where
  "virt_wifi_connect os ho params =
     mgmt_op os ho \<lparr>wreq_request_id = REQUEST_TYPE_CONNECT, wreq_payload = Connect_req (connect_request params)\<rparr>
       () (\<lambda>r. (decode_status r, ()))"

definition virt_wifi_disconnect ::
  "'w uart_ops \<Rightarrow> 'n host_wifi_ops \<Rightarrow> 'w script \<Rightarrow> ('w, 'n virt_wifi) host
     \<Rightarrow> ((int \<times> unit) \<times> 'w script \<times> ('w, 'n virt_wifi) host) option" where
  "virt_wifi_disconnect os ho =
     mgmt_op os ho \<lparr>wreq_request_id = REQUEST_TYPE_DISCONNECT, wreq_payload = Disconnect_req VIRT_WIFI_IFACE_INDEX\<rparr>
       () (\<lambda>r. (decode_status r, ()))"

definition ap_enable_request :: "wifi_connect_req_params \<Rightarrow> WifiApEnableParams" where
  "ap_enable_request params =
     \<lparr>ap_ssid = (if length (cp_ssid params) \<le> 32 then cp_ssid params else []),
      ap_channel = 0, ap_band = Proto_BAND_ANY,
      ap_security_type = host_zephyr_to_proto_security (cp_security params),
      ap_psk = (case cp_psk params of Some psk \<Rightarrow> if length psk \<le> 65 then psk else [] | None \<Rightarrow> [])\<rparr>"

definition virt_wifi_ap_enable ::
  "'w uart_ops \<Rightarrow> 'n host_wifi_ops \<Rightarrow> wifi_connect_req_params \<Rightarrow> 'w script
     \<Rightarrow> ('w, 'n virt_wifi) host \<Rightarrow> ((int \<times> unit) \<times> 'w script \<times> ('w, 'n virt_wifi) host) option" where
  "virt_wifi_ap_enable os ho params =
     mgmt_op os ho \<lparr>wreq_request_id = REQUEST_TYPE_AP_ENABLE,
         wreq_payload = Ap_enable_req VIRT_WIFI_IFACE_INDEX (Some (ap_enable_request params))\<rparr>
       () (\<lambda>r. (decode_status r, ()))"

definition virt_wifi_ap_disable ::
  "'w uart_ops \<Rightarrow> 'n host_wifi_ops \<Rightarrow> 'w script \<Rightarrow> ('w, 'n virt_wifi) host
     \<Rightarrow> ((int \<times> unit) \<times> 'w script \<times> ('w, 'n virt_wifi) host) option" where
  "virt_wifi_ap_disable os ho =
     mgmt_op os ho \<lparr>wreq_request_id = REQUEST_TYPE_AP_DISABLE, wreq_payload = Ap_disable_req VIRT_WIFI_IFACE_INDEX\<rparr>
       () (\<lambda>r. (decode_status r, ()))"

text \<open>The queries return, with the result, the structure they fill.\<close>

definition virt_wifi_iface_status ::
  "'w uart_ops \<Rightarrow> 'n host_wifi_ops \<Rightarrow> wifi_iface_status \<Rightarrow> 'w script \<Rightarrow> ('w, 'n virt_wifi) host
     \<Rightarrow> ((int \<times> wifi_iface_status) \<times> 'w script \<times> ('w, 'n virt_wifi) host) option" where
  "virt_wifi_iface_status os ho status =
     mgmt_op os ho \<lparr>wreq_request_id = REQUEST_TYPE_GET_IFACE_STATUS,
         wreq_payload = Get_iface_status_req VIRT_WIFI_IFACE_INDEX\<rparr> status
       (\<lambda>r. case wresp_payload r of
          Get_iface_status_resp s \<Rightarrow> (0, host_iface_status (\<lambda>c. ucast (ucast c :: byte)) s status)
        | _ \<Rightarrow> (decode_status r, status))"

text \<open>\<open>%u\<close>.\<close>

fun dec_digits :: "nat \<Rightarrow> string" where
  "dec_digits n =
     (if n < 10 then [char_of (48 + n)] else dec_digits (n div 10) @ [char_of (48 + n mod 10)])"

declare dec_digits.simps [simp del]

text \<open>The version strings are static buffers of 16 and 32 bytes.\<close>

definition host_version :: "WifiVersion \<Rightarrow> wifi_version" where
  "host_version v =
     \<lparr>drv_version = Some (take 15 (dec_digits (unat (driver_major v)) @ ''.'' @
        dec_digits (unat (driver_minor v)) @ ''.'' @ dec_digits (unat (driver_patch v)))),
      fw_version = Some (take 31 (firmware_version v))\<rparr>"

definition virt_wifi_get_version ::
  "'w uart_ops \<Rightarrow> 'n host_wifi_ops \<Rightarrow> wifi_version \<Rightarrow> 'w script \<Rightarrow> ('w, 'n virt_wifi) host
     \<Rightarrow> ((int \<times> wifi_version) \<times> 'w script \<times> ('w, 'n virt_wifi) host) option" where
  "virt_wifi_get_version os ho params =
     mgmt_op os ho \<lparr>wreq_request_id = REQUEST_TYPE_GET_WIFI_VERSION, wreq_payload = Get_version_req\<rparr> params
       (\<lambda>r. case wresp_payload r of
          Get_version_resp ver \<Rightarrow>
            (0, host_version (case ver of Some v \<Rightarrow> v
              | None \<Rightarrow> \<lparr>driver_major = 0, driver_minor = 0, driver_patch = 0, firmware_version = ''''\<rparr>))
        | _ \<Rightarrow> (decode_status r, params))"

definition virt_wifi_get_ps_config ::
  "'w uart_ops \<Rightarrow> 'n host_wifi_ops \<Rightarrow> wifi_ps_config \<Rightarrow> 'w script \<Rightarrow> ('w, 'n virt_wifi) host
     \<Rightarrow> ((int \<times> wifi_ps_config) \<times> 'w script \<times> ('w, 'n virt_wifi) host) option" where
  "virt_wifi_get_ps_config os ho config =
     mgmt_op os ho \<lparr>wreq_request_id = REQUEST_TYPE_GET_PS_CONFIG,
         wreq_payload = Get_ps_config_req VIRT_WIFI_IFACE_INDEX\<rparr> config
       (\<lambda>r. case wresp_payload r of
          Get_ps_config_resp c \<Rightarrow>
            (0, config\<lparr>psg_enabled :=
              (case psc_ps_settings c of
                 Some s \<Rightarrow> if pss_enabled s = WIFI_PS_STATE_ENABLE then WIFI_PS_ENABLED else WIFI_PS_DISABLED
               | None \<Rightarrow> WIFI_PS_DISABLED)\<rparr>)
        | _ \<Rightarrow> (decode_status r, config))"

text \<open>\<open>is_get\<close> is \<open>reg_domain->oper == WIFI_MGMT_GET\<close>; a country code is sent up to its first NUL.\<close>

definition virt_wifi_reg_domain ::
  "'w uart_ops \<Rightarrow> 'n host_wifi_ops \<Rightarrow> bool \<Rightarrow> wifi_reg_domain \<Rightarrow> 'w script \<Rightarrow> ('w, 'n virt_wifi) host
     \<Rightarrow> ((int \<times> wifi_reg_domain) \<times> 'w script \<times> ('w, 'n virt_wifi) host) option" where
  "virt_wifi_reg_domain os ho is_get reg_domain =
     mgmt_op os ho
       (if is_get
        then \<lparr>wreq_request_id = REQUEST_TYPE_GET_REG_DOMAIN,
              wreq_payload = Get_reg_domain_req VIRT_WIFI_IFACE_INDEX\<rparr>
        else \<lparr>wreq_request_id = REQUEST_TYPE_SET_REG_DOMAIN,
              wreq_payload = Set_reg_domain_req 0 (Some
                \<lparr>rd_country_code = takeWhile (\<lambda>c. c \<noteq> 0)
                   [fst (zr_country_code reg_domain), snd (zr_country_code reg_domain)],
                 rd_force_update = False, rd_channel_info = []\<rparr>)\<rparr>)
       reg_domain
       (\<lambda>r. case (is_get, wresp_payload r) of
          (True, Get_reg_domain_resp d) \<Rightarrow>
            (0, reg_domain\<lparr>zr_country_code := (cc_char (rd_country_code d) 0, cc_char (rd_country_code d) 1)\<rparr>)
        | _ \<Rightarrow> (decode_status r, reg_domain))"

section \<open>Initialisation\<close>

definition virt_wifi_init ::
  "'w uart_ops \<Rightarrow> 'n host_wifi_ops \<Rightarrow> dev option \<Rightarrow> 'w script \<Rightarrow> ('w, 'n virt_wifi) host
     \<Rightarrow> (int \<times> 'w script \<times> ('w, 'n virt_wifi) host) option" where
  "virt_wifi_init os ho chosen sc b =
     map_option (\<lambda>(rc, sc1, b1).
        if rc \<noteq> 0 then (rc, sc1, b1)
        else
          let iface = virt_wifi_netif ho (net_stack (app b1));
              b2 = b1\<lparr>app := upd_stack (set_eth_if_type_wifi ho iface) (app b1)\<rparr>;
              b3 = snd (bus_register_handler (uint SERIAL_TYPE_WIFI_DATA) (Some (wifi_data_rx ho)) b2);
              b4 = bus_set_handler_user (uint SERIAL_TYPE_WIFI_DATA) iface b3;
              b5 = snd (bus_register_handler (uint SERIAL_TYPE_WIFI_MGMT) (Some (wifi_mgmt_notify ho)) b4)
          in (0, sc1, b5))
       (bus_open os chosen sc b)"

end
