(* ===== verification/Host_Wifi_Service.thy ===== *)
theory Host_Wifi_Service
  imports Host_Wifi Link_Ends Wifi_Behaviour
begin

text \<open>
  The host's Wi-Fi driver against the device's proxy: what a request of the driver makes the radio
  do, what the driver makes of the answers and of scan reports, and its data path.  The properties
  that run over both ends of the link are in the root theory; their host side is proved here.
\<close>

section \<open>Management requests\<close>

text \<open>A request that is answered by one frame after its acknowledgement.\<close>

lemma mgmt_roundtrip_answered:
  assumes law: "link_law os sent pending" and b: "bus_ready b dev" "opened b" "rx_sem b = 0"
      "pending dev (bworld b) = []"
    and enc: "WifiMgmtRequest_encode ho (sizeof_req_buf ho) req = Some bytes"
    and len: "0 < length bytes" "length bytes \<le> SERIAL_MAX_PAYLOAD_LEN"
    and f1: "brings sent pending dev (bus_header_encode ack) f1" and ack: "valid_frame ack []"
      "bh_error ack = ERROR_TYPE_NO_ERROR"
    and f2: "brings sent pending dev (bus_header_encode h @ out) f2" and h: "valid_frame h out"
      "bh_type h = SERIAL_TYPE_WIFI_MGMT" "out \<noteq> []"
    and fit: "length out \<le> sizeof_resp_buf ho"
  obtains b' where
    "mgmt_roundtrip os ho req (Rx_arrival f1 # Rx_arrival f2 # sc) b =
       Some ((case WifiMgmtResponse_decode ho out of None \<Rightarrow> (- EBADMSG, None) | Some r \<Rightarrow> (0, Some r)), sc, b')"
    "app b' = app b" "tx_seq b' = bus_seq_next (tx_seq b)" "bus_ready b' dev" "opened b'" "rx_sem b' = 0"
    "pending dev (bworld b') = []" "\<not> request_pending b'"
proof -
  have ty: "0 \<le> (0 :: int)" "(0 :: int) < 9" "bh_type h = word_of_int 0" using h(2) by simp_all
  obtain b' where b': "bus_request os 0 (Some bytes) (length bytes) True (Rx_arrival f1 # Rx_arrival f2 # sc) b =
       Some ((0, Some out), sc, b')"
    "tx_seq b' = bus_seq_next (tx_seq b)" "\<not> request_pending b'" "bus_ready b' dev" "app b' = app b" "opened b'"
    "rx_sem b' = 0" "pending dev (bworld b') = []"
    using bus_request_answered [OF law b ty(1,2) len f1 ack f2 h(1) ty(3) h(3), of sc] by blast
  have [simp]: "b'\<lparr>app := (app b')\<lparr>vw_fault := vw_fault (app b')\<rparr>\<rparr> = b'" by simp
  from b' fit enc show ?thesis
    by (intro that [of b']) (auto simp: mgmt_roundtrip_def not_less split: option.split)
qed

section \<open>Connecting\<close>

text \<open>
  What comes out of the radio's side for a security type or a frame protection option that passes
  through the protocol's enumerations.
\<close>

definition link_security :: "wifi_security_type \<Rightarrow> wifi_security_type" where
  "link_security z =
     (case z of
        WIFI_SECURITY_TYPE_WPA_PSK \<Rightarrow> WIFI_SECURITY_TYPE_PSK
      | WIFI_SECURITY_TYPE_WPA_AUTO_PERSONAL \<Rightarrow> WIFI_SECURITY_TYPE_PSK
      | WIFI_SECURITY_TYPE_SAE_H2E \<Rightarrow> WIFI_SECURITY_TYPE_SAE
      | WIFI_SECURITY_TYPE_SAE_AUTO \<Rightarrow> WIFI_SECURITY_TYPE_SAE
      | WIFI_SECURITY_TYPE_EAP_TLS \<Rightarrow> WIFI_SECURITY_TYPE_NONE
      | Wifi_security_other _ \<Rightarrow> WIFI_SECURITY_TYPE_NONE
      | _ \<Rightarrow> z)"

definition link_mfp :: "wifi_mfp_options \<Rightarrow> wifi_mfp_options" where
  "link_mfp m = (case m of Wifi_mfp_other _ \<Rightarrow> WIFI_MFP_DISABLE | _ \<Rightarrow> m)"

lemma link_enums [simp]:
  "proto_to_zephyr_security (host_zephyr_to_proto_security z) = link_security z"
  "proto_to_zephyr_mfp (host_zephyr_to_proto_mfp m) = link_mfp m"
  unfolding link_security_def link_mfp_def
  by (rule request_parameters_survive [THEN conjunct1])
    (rule request_parameters_survive [THEN conjunct2, THEN conjunct1])

lemma decode_status_of_ret: "decode_status \<lparr>wresp_request_id = i, wresp_payload = Status_resp (status_of_ret ret bad good)\<rparr> = ret"
  by (simp add: decode_status_def status_of_ret_def status_error_def status_ok_def)

text \<open>What the radio is told when the host's stack asks for a network with a pre-shared key.\<close>

definition psk_connect :: "'e wifi_ops \<Rightarrow> wifi_connect_req_params \<Rightarrow> wifi_connect_req_params" where
  "psk_connect wo p = connect_params_zero
     \<lparr>cp_ssid := cp_ssid p, cp_psk := cp_psk p, cp_security := link_security (cp_security p),
      cp_channel := (if cp_channel p = 0 then WIFI_CHANNEL_ANY wo else cp_channel p),
      cp_mfp := link_mfp (cp_mfp p)\<rparr>"

lemma ucast_ucast_byte [simp]: "ucast (ucast x :: u32) = (x :: byte)"
  by (rule bit_word_eqI) (auto simp: bit_simps)

lemma ucast_eq_0_byte [simp]: "(ucast (x :: byte) :: u32) = 0 \<longleftrightarrow> x = 0"
  by (metis ucast_ucast_byte ucast_0)

lemma connect_params_psk:
  assumes "link_security (cp_security p) \<in> {WIFI_SECURITY_TYPE_PSK, WIFI_SECURITY_TYPE_PSK_SHA256}"
    and "length (cp_ssid p) \<le> 32" and "cp_psk p = Some psk" "length psk \<le> 64"
  shows "connect_params wo (connect_request p) = psk_connect wo p"
  using assms
  by (auto simp: connect_params_def connect_request_def psk_connect_def connect_params_zero_def Let_def
      connect_timeout_s_def)

text \<open>
  C15. Connecting to a network with a pre-shared key works across the link: the request that the
  host's driver builds makes the device call the radio once, with the name, key, channel and frame
  protection the host's stack gave, and, when the response arrives, what the radio answers is what
  the driver returns.  The security types PSK and PSK_SHA256 stay as they are; WPA_PSK and
  WPA_AUTO_PERSONAL reach the radio as PSK.  BSSID, band and time-out are not transmitted: the
  radio gets "any", 2.4 GHz and 0; channel 0 becomes "any", and frame protection outside the three
  named options becomes "disable".
\<close>

theorem psk_connect_reaches_driver:
  assumes sec: "cp_security p \<in> {WIFI_SECURITY_TYPE_PSK, WIFI_SECURITY_TYPE_WPA_PSK,
      WIFI_SECURITY_TYPE_WPA_AUTO_PERSONAL, WIFI_SECURITY_TYPE_PSK_SHA256}"
    and ssid: "0 < length (cp_ssid p)" "length (cp_ssid p) \<le> 32"
    and psk: "cp_psk p = Some psk" "0 < length psk" "length psk \<le> 64"
    and iface: "resolve_wifi_iface (ww_if ww) VIRT_WIFI_IFACE_INDEX e = Some (Some i)"
    and drv: "wifi_connect (ww_ops ww) i (psk_connect (ww_ops ww) p) e = (ret, e1)"
  shows "cp_ssid (psk_connect (ww_ops ww) p) = cp_ssid p \<and> cp_psk (psk_connect (ww_ops ww) p) = Some psk \<and>
     cp_security (psk_connect (ww_ops ww) p) =
       (if cp_security p = WIFI_SECURITY_TYPE_PSK_SHA256 then WIFI_SECURITY_TYPE_PSK_SHA256
        else WIFI_SECURITY_TYPE_PSK) \<and>
     (\<exists>resp. wifi_respond ww REQUEST_TYPE_CONNECT (Connect_req (connect_request p)) v e = Some (resp, v, e1) \<and>
     (mgmt_roundtrip os ho \<lparr>wreq_request_id = REQUEST_TYPE_CONNECT, wreq_payload = Connect_req (connect_request p)\<rparr>
          sc b = Some ((0, Some \<lparr>wresp_request_id = REQUEST_TYPE_CONNECT, wresp_payload = resp\<rparr>), sc1, b1) \<longrightarrow>
      virt_wifi_connect os ho p sc b = Some ((ret, ()), sc1, b1)))"
proof -
  have sec': "link_security (cp_security p) \<in> {WIFI_SECURITY_TYPE_PSK, WIFI_SECURITY_TYPE_PSK_SHA256}"
    using sec by (auto simp: link_security_def)
  have chk: "connect_check (connect_request p) = None"
    using sec' ssid psk by (auto simp: connect_check_def connect_request_def Let_def)
  let ?st = "status_of_ret ret ''Wi-Fi connect request failed'' ''Connect initiated''"
  have idx: "cr_iface_index (connect_request p) = 1" by (simp add: connect_request_def)
  have "handle_connect_request ww (connect_request p) e = Some (?st, e1)"
    using iface drv by (simp add: handle_connect_request_def with_wifi_iface_def idx chk
        connect_params_psk [OF sec' ssid(2) psk(1,3)])
  then have "wifi_respond ww 1 (Connect_req (connect_request p)) v e = Some (Status_resp ?st, v, e1)"
    by (simp add: wifi_respond_def reply_status_def)
  then have "\<exists>resp. wifi_respond ww 1 (Connect_req (connect_request p)) v e = Some (resp, v, e1) \<and>
     (mgmt_roundtrip os ho \<lparr>wreq_request_id = 1, wreq_payload = Connect_req (connect_request p)\<rparr>
          sc b = Some ((0, Some \<lparr>wresp_request_id = 1, wresp_payload = resp\<rparr>), sc1, b1) \<longrightarrow>
      virt_wifi_connect os ho p sc b = Some ((ret, ()), sc1, b1))"
    by (intro exI [of _ "Status_resp ?st"]) (simp add: virt_wifi_connect_def mgmt_op_def decode_status_of_ret)
  then show ?thesis using sec psk by (auto simp: psk_connect_def link_security_def)
qed

text \<open>
  C35. No network with SAE security can be joined through the driver: it does not transmit the
  password, so the device never calls the radio for such a request; it answers EINVAL, or ENODEV when
  it has no such interface, and the driver returns that code when the response arrives.
\<close>

theorem sae_connect_refused:
  assumes sec: "cp_security p \<in> {WIFI_SECURITY_TYPE_SAE, WIFI_SECURITY_TYPE_SAE_H2E, WIFI_SECURITY_TYPE_SAE_AUTO}"
    and iface: "resolve_wifi_iface (ww_if ww) VIRT_WIFI_IFACE_INDEX e = Some oi"
  shows "\<exists>resp. wifi_respond ww REQUEST_TYPE_CONNECT (Connect_req (connect_request p)) v e = Some (resp, v, e) \<and>
     (mgmt_roundtrip os ho \<lparr>wreq_request_id = REQUEST_TYPE_CONNECT, wreq_payload = Connect_req (connect_request p)\<rparr>
          sc b = Some ((0, Some \<lparr>wresp_request_id = REQUEST_TYPE_CONNECT, wresp_payload = resp\<rparr>), sc1, b1) \<longrightarrow>
      virt_wifi_connect os ho p sc b = Some ((if oi = None then - ENODEV else - EINVAL, ()), sc1, b1))"
proof -
  have sec': "link_security (cp_security p) = WIFI_SECURITY_TYPE_SAE" using sec by (auto simp: link_security_def)
  have "connect_check (connect_request p) \<noteq> None"
    using sec' by (simp add: connect_check_def connect_request_def Let_def)
  then obtain msg where chk: "connect_check (connect_request p) = Some msg" by blast
  have idx: "cr_iface_index (connect_request p) = 1" by (simp add: connect_request_def)
  let ?st = "if oi = None then status_error (- ENODEV) ''Interface not found'' else status_error (- EINVAL) msg"
  have "wifi_respond ww 1 (Connect_req (connect_request p)) v e = Some (Status_resp ?st, v, e)"
    using iface
    by (auto simp: wifi_respond_def reply_status_def handle_connect_request_def with_wifi_iface_def idx chk
        split: option.splits)
  then show ?thesis
    by (intro exI [of _ "Status_resp ?st"])
      (simp add: virt_wifi_connect_def mgmt_op_def decode_status_def status_error_def)
qed

section \<open>Version\<close>

text \<open>
  When the radio cannot tell its version, the caller on the host is told that it can: the
  device answers with an empty version, which the driver reports as success with version 0.0.0.
\<close>

lemma version_failure_reported_ok:
  assumes "wifi_version_get (ww_ops ww) (net_if_get_default (ww_ops ww) e) e = ((ret, ver), e1)" and "ret \<noteq> 0"
  shows "\<exists>resp. wifi_respond ww REQUEST_TYPE_GET_WIFI_VERSION Get_version_req v e = Some (resp, v, e1) \<and>
     (mgmt_roundtrip os ho \<lparr>wreq_request_id = REQUEST_TYPE_GET_WIFI_VERSION, wreq_payload = Get_version_req\<rparr>
          sc b = Some ((0, Some \<lparr>wresp_request_id = REQUEST_TYPE_GET_WIFI_VERSION, wresp_payload = resp\<rparr>), sc1, b1) \<longrightarrow>
      virt_wifi_get_version os ho params sc b =
        Some ((0, \<lparr>drv_version = Some ''0.0.0'', fw_version = Some ''''\<rparr>), sc1, b1))"
proof -
  have zero: "dec_digits 0 = ''0''" by (simp add: dec_digits.simps) code_simp
  have "wifi_respond ww 6 Get_version_req v e = Some (Get_version_resp None, v, e1)"
    using assms by (simp add: wifi_respond_def handle_get_version_request_def)
  then show ?thesis
    by (intro exI [of _ "Get_version_resp None"])
      (simp add: virt_wifi_get_version_def mgmt_op_def host_version_def zero)
qed

section \<open>Scan reports\<close>

text \<open>
  A scan result of the radio, and what the host's stack sees of it: the name padded with zeros, the
  security type as it passes the link; band and WPA3 type are not handed on.
\<close>

definition scan_result_ok :: "wifi_scan_result \<Rightarrow> bool" where
  "scan_result_ok r \<longleftrightarrow> zc_ssid_length r \<le> length (zc_ssid r) \<and> zc_ssid_length r \<le> 32 \<and>
     - 128 \<le> zc_rssi r \<and> zc_rssi r < 128"

definition scan_result_seen :: "wifi_scan_result \<Rightarrow> wifi_scan_result" where
  "scan_result_seen r = r
     \<lparr>zc_ssid := take (zc_ssid_length r) (zc_ssid r) @ replicate (32 - zc_ssid_length r) 0,
      zc_mac_length := 6, zc_security := link_security (zc_security r), zc_wpa3_ent_type := 0,
      zc_mfp := link_mfp (zc_mfp r), zc_band := WIFI_FREQ_BAND_2_4_GHZ\<rparr>"

lemma link_security_seen: "host_proto_to_zephyr_security (zephyr_to_proto_security z) = link_security z"
  by (cases z) (simp_all add: link_security_def)

lemma link_mfp_seen: "host_proto_to_zephyr_mfp (zephyr_to_proto_mfp m) = link_mfp m"
  by (cases m) (simp_all add: link_mfp_def)

lemma sint_byte: "- 128 \<le> x \<Longrightarrow> x < 128 \<Longrightarrow> sint (word_of_int x :: byte) = x"
  by (simp add: sint_sbintrunc' signed_take_bit_int_eq_self)

lemma host_scan_result_seen:
  assumes "scan_result_ok r"
  shows "host_scan_result (scan_result_to_proto r) = scan_result_seen r"
proof -
  have "sint (word_of_int (zc_rssi r) :: byte) = zc_rssi r"
    using assms by (intro sint_byte) (simp_all add: scan_result_ok_def)
  with assms show ?thesis
    by (simp add: host_scan_result_def scan_result_to_proto_def scan_result_seen_def scan_result_zero_def
        scan_result_ok_def link_security_seen link_mfp_seen overwrite_def Let_def min_absorb1 min_absorb2)
qed

text \<open>The results among the labels of a run of the device's proxy, as the radio reports them.\<close>

fun radio_result :: "wifi_label \<Rightarrow> wifi_scan_result list" where
  "radio_result (Net_event (NET_EVENT_WIFI_SCAN_RESULT r) iface) = [r]"
| "radio_result l = []"

lemma concat_scan_report:
  "concat (map scan_report ls) = map scan_result_to_proto (concat (map radio_result ls))"
proof (induction ls)
  case (Cons l ls)
  then show ?case by (cases l rule: radio_result.cases) simp_all
qed simp

lemma foldl_seen:
  assumes "\<forall>r \<in> set rs. scan_result_ok r"
  shows "foldl (\<lambda>e r. f (host_scan_result r) e) e (map scan_result_to_proto rs) =
    foldl (\<lambda>e r. f (scan_result_seen r) e) e rs"
  using assms by (induction rs arbitrary: e) (simp_all add: host_scan_result_seen)

lemma scan_report_received:
  assumes law: "link_law os sent pending" and rdy: "bus_ready b dev" and idle: "\<not> request_pending b"
    and drv: "handler b SERIAL_TYPE_WIFI_MGMT = Some (wifi_mgmt_notify ho)" "scan_cb (app b) = Some cb"
    and fr: "device_frame pending b dev h payload" and ty: "bh_type h = SERIAL_TYPE_WIFI_MGMT" "payload \<noteq> []"
    and dec: "WifiMgmtNotification_decode ho payload =
      Some \<lparr>ev_iface_index = j, ev_data = Scan_done_event status (map scan_result_to_proto rs)\<rparr>"
    and ok: "\<forall>r \<in> set rs. scan_result_ok r"
  obtains b' where "bus_rx_event os b = Some b'" "bus_ready b' dev" "scan_cb (app b') = Some cb"
    "net_stack (app b') =
       (let iface = virt_wifi_netif ho (net_stack (app b))
        in cb iface status None (foldl (\<lambda>e r. cb iface status (Some (scan_result_seen r)) e) (net_stack (app b)) rs))"
proof -
  let ?buf = "overwrite 0 payload (rx_buf b)"
  have len: "unat (bh_length h) = length payload" "bh_length h \<noteq> 0" "length payload \<le> 4096"
    using fr ty(2) by (auto simp: device_frame_def bus_validate_rx_iff)
  obtain w where w: "bus_rx_event os b =
      Some (frame_taken h (b\<lparr>bworld := w, hdr := h, bus_bytes_read := 0, rx_buf := ?buf\<rparr>))"
    by (rule bus_rx_event_frame [OF law rdy fr])
  have buf: "take (length payload) ?buf = payload" "length ?buf = 4096"
    using rdy len by (simp_all add: bus_ready_def overwrite_def)
  let ?i = "virt_wifi_netif ho (net_stack (app b))"
  let ?cb = "\<lambda>r e. cb ?i status (Some r) e"
  show ?thesis
    by (rule that [OF w])
      (use rdy idle drv ty len buf dec foldl_seen [OF ok, of ?cb "net_stack (app b)"] in
        \<open>simp_all add: frame_taken_def call_handler_def bus_ready_def wifi_mgmt_notify_def handle_scan_done_def Let_def\<close>)
qed

text \<open>
  C33. A scan report that arrives while a request is waiting is taken for the response: its bytes
  are decoded as a response and whatever that gives is the result of the request; the state of the
  driver stays as it was, so the scan callback is not called, though the driver's handler would
  have called it with the results.
\<close>

theorem scan_report_taken_as_response:
  assumes law: "link_law os sent pending" and b: "bus_ready b dev" "opened b" "rx_sem b = 0"
      "pending dev (bworld b) = []"
    and enc: "WifiMgmtRequest_encode ho (sizeof_req_buf ho) req = Some bytes"
    and len: "0 < length bytes" "length bytes \<le> SERIAL_MAX_PAYLOAD_LEN"
    and f1: "brings sent pending dev (bus_header_encode ack) f1" and ack: "valid_frame ack []"
      "bh_error ack = ERROR_TYPE_NO_ERROR"
    and f2: "brings sent pending dev (bus_header_encode h @ note) f2" and h: "valid_frame h note"
      "bh_type h = SERIAL_TYPE_WIFI_MGMT" "note \<noteq> []" "length note \<le> sizeof_resp_buf ho"
    and report: "WifiMgmtNotification_decode ho note =
      Some \<lparr>ev_iface_index = j, ev_data = Scan_done_event status rs\<rparr>"
  shows "\<exists>b'. mgmt_roundtrip os ho req (Rx_arrival f1 # Rx_arrival f2 # sc) b =
       Some ((case WifiMgmtResponse_decode ho note of None \<Rightarrow> (- EBADMSG, None) | Some r \<Rightarrow> (0, Some r)), sc, b') \<and>
     app b' = app b \<and>
     wifi_mgmt_notify ho note (length note) user (app b) =
       handle_scan_done status rs (virt_wifi_netif ho (net_stack (app b))) (app b)"
proof -
  obtain b' where "mgmt_roundtrip os ho req (Rx_arrival f1 # Rx_arrival f2 # sc) b =
       Some ((case WifiMgmtResponse_decode ho note of None \<Rightarrow> (- EBADMSG, None) | Some r \<Rightarrow> (0, Some r)), sc, b')"
    "app b' = app b"
    by (rule mgmt_roundtrip_answered [OF law b enc len f1 ack f2 h, of sc])
  with report show ?thesis by (simp add: wifi_mgmt_notify_def Let_def)
qed

section \<open>Data frames\<close>

text \<open>
  C32. A data packet in one fragment is put on the wire unchanged, in one WIFI_DATA frame with the
  next sequence number.  Of a packet in several fragments only the first is sent, followed by as
  many bytes of whatever lies behind it in memory as the other fragments have.  The packet is
  released in both cases.
\<close>

theorem l2_send_frames:
  assumes law: "link_law os sent pending" and b: "opened b" "uart b = Some dev"
    and frags: "frags = first # rest" and n: "n = sum_list (map length rest)"
    and len: "0 < length first + n" "length first + n \<le> SERIAL_MAX_PAYLOAD_LEN" and mem: "n \<le> length behind"
  shows "\<exists>b'. virt_wifi_l2_send os ho pkt frags behind b = Some (0, b') \<and>
     tx_seq b' = bus_seq_next (tx_seq b) \<and>
     net_stack (app b') = host_net_pkt_unref ho pkt (net_stack (app b)) \<and>
     sent dev (bworld b') = sent dev (bworld b) @
       bus_header_encode (tx_header (uint SERIAL_TYPE_WIFI_DATA) (tx_seq b) (length (concat frags))) @
       first @ take n behind"
proof -
  let ?p = "first @ take n behind"
  have p: "length ?p = length first + n" "length (concat frags) = length ?p"
    using mem n frags by (simp_all add: length_concat)
  have len': "0 < length ?p" "length ?p \<le> 4096" using len by (simp_all only: p(1))
  have ty: "0 \<le> (1 :: int)" "(1 :: int) < 9" by simp_all
  obtain w where w: "bus_send os 1 (Some ?p) (length ?p) b = Some (0, b\<lparr>tx_seq := bus_seq_next (tx_seq b), bworld := w\<rparr>)"
    "sent dev w = sent dev (bworld b) @ bus_header_encode (tx_header 1 (tx_seq b) (length ?p)) @ ?p"
    by (rule bus_send_link [OF law b ty len'])
  have cut: "bus_send os 1 (Some xs) m b = bus_send os 1 (Some (take m xs)) m b" for xs m
    using b(2) by (cases "0 < m") (simp_all add: bus_send_def bus_send_raw_def)
  have "take (length first + n) (first @ behind) = ?p" by simp
  with w(1) have "bus_send os 1 (Some (first @ behind)) (length first + n) b =
      Some (0, b\<lparr>tx_seq := bus_seq_next (tx_seq b), bworld := w\<rparr>)"
    using cut [of "first @ behind" "length first + n"] by (simp only: p(1))
  then show ?thesis
    using w(2) p frags n by (simp add: virt_wifi_l2_send_def)
qed

text \<open>
  After initialisation the driver gets both kinds of traffic, and a data frame reaches the stack as
  one packet with the frame's bytes, if the stack has a buffer for it.
\<close>

lemma virt_wifi_init_registers:
  assumes "virt_wifi_init os ho chosen sc b = Some (0, sc1, b1)"
  shows "handler b1 SERIAL_TYPE_WIFI_MGMT = Some (wifi_mgmt_notify ho)"
    "handler b1 SERIAL_TYPE_WIFI_DATA = Some (wifi_data_rx ho)"
    "\<exists>e. handler_user b1 SERIAL_TYPE_WIFI_DATA = virt_wifi_netif ho e"
proof -
  obtain rc sc0 b0 where o: "bus_open os chosen sc b = Some (rc, sc0, b0)"
    using assms by (auto simp: virt_wifi_init_def)
  then have "rc = 0" using assms by (simp add: virt_wifi_init_def split: if_split_asm)
  with o assms show "handler b1 SERIAL_TYPE_WIFI_MGMT = Some (wifi_mgmt_notify ho)"
    "handler b1 SERIAL_TYPE_WIFI_DATA = Some (wifi_data_rx ho)"
    "\<exists>e. handler_user b1 SERIAL_TYPE_WIFI_DATA = virt_wifi_netif ho e"
    by (auto simp: virt_wifi_init_def Let_def bus_register_handler_def bus_set_handler_user_def)
qed

lemma wifi_data_frame_received:
  assumes law: "link_law os sent pending" and rdy: "bus_ready b dev" and idle: "\<not> request_pending b"
    and drv: "handler b SERIAL_TYPE_WIFI_DATA = Some (wifi_data_rx ho)" "handler_user b SERIAL_TYPE_WIFI_DATA = Some i"
    and fr: "device_frame pending b dev h payload" and ty: "bh_type h = SERIAL_TYPE_WIFI_DATA" "payload \<noteq> []"
    and get: "net_pkt_alloc_with_buffer ho i (length payload) (net_stack (app b)) = (mp, e1)"
  obtains b' where "bus_rx_event os b = Some b'" "bus_ready b' dev"
    "net_stack (app b') = (case mp of None \<Rightarrow> e1
       | Some pkt \<Rightarrow> net_if_recv_data ho i pkt (net_pkt_add_mem ho pkt payload e1))"
proof -
  let ?buf = "overwrite 0 payload (rx_buf b)"
  have len: "unat (bh_length h) = length payload" "bh_length h \<noteq> 0" "length payload \<le> 4096"
    using fr ty(2) by (auto simp: device_frame_def bus_validate_rx_iff)
  obtain w where w: "bus_rx_event os b =
      Some (frame_taken h (b\<lparr>bworld := w, hdr := h, bus_bytes_read := 0, rx_buf := ?buf\<rparr>))"
    by (rule bus_rx_event_frame [OF law rdy fr])
  have buf: "take (length payload) ?buf = payload" "length ?buf = 4096"
    using rdy len by (simp_all add: bus_ready_def overwrite_def)
  show ?thesis
    by (rule that [OF w])
      (use rdy idle drv ty len buf get in
        \<open>auto simp: frame_taken_def call_handler_def bus_ready_def wifi_data_rx_def split: option.split\<close>)
qed

section \<open>A concrete host\<close>

text \<open>
  A stack that records what the scan callback gets, and a codec that is the counterpart of the
  concrete radio's.
\<close>

type_synonym sim_reports = "(int \<times> wifi_scan_result option) list"

definition sim_cb :: "sim_reports scan_result_cb_t" where
  "sim_cb iface status entry e = e @ [(status, entry)]"

definition sim_found_report :: WifiMgmtNotification where
  "sim_found_report =
     \<lparr>ev_iface_index = 1, ev_data = Scan_done_event 0 (map scan_result_to_proto [sim_found, sim_found])\<rparr>"

definition sim_wifi :: "sim_reports host_wifi_ops" where
  "sim_wifi =
     \<lparr>WifiMgmtRequest_encode = (\<lambda>n req.
        if n < 4 then None
        else case wreq_payload req of
          Connect_req r \<Rightarrow> Some [8, 1, 18, 0]
        | Disconnect_req i \<Rightarrow> Some [8, 2, 26, 0]
        | Get_version_req \<Rightarrow> Some [8, 6, 58, 0]
        | _ \<Rightarrow> None),
      WifiMgmtResponse_decode = (\<lambda>bs.
        if bs = [8, 1, 18, 2, 8, 1]
        then Some \<lparr>wresp_request_id = 1, wresp_payload = Status_resp (status_ok ''Connect initiated'')\<rparr>
        else if bs = [8, 1, 18, 2, 8, 0]
        then Some \<lparr>wresp_request_id = 1,
                   wresp_payload = Status_resp (status_error (- EINVAL) ''Invalid SAE password length'')\<rparr>
        else if bs = [8, 2, 18, 2, 8, 1]
        then Some \<lparr>wresp_request_id = 2, wresp_payload = Status_resp (status_ok ''Disconnect initiated'')\<rparr>
        else if bs = [8, 6, 26, 0] then Some \<lparr>wresp_request_id = 6, wresp_payload = Get_version_resp None\<rparr>
        else None),
      WifiMgmtNotification_decode = (\<lambda>bs. if bs = [10, 2, 18, 2] then Some sim_found_report else None),
      sizeof_req_buf = 600, sizeof_resp_buf = 700,
      host_net_if_get_by_index = (\<lambda>n e. if n = 1 then Some 7 else None),
      host_net_if_get_default = (\<lambda>e. None), set_eth_if_type_wifi = (\<lambda>i e. e),
      net_pkt_alloc_with_buffer = (\<lambda>i n e. (None, e)), net_pkt_add_mem = (\<lambda>p bs e. e),
      host_net_pkt_unref = (\<lambda>p e. e), net_if_recv_data = (\<lambda>i p e. e),
      wifi_mgmt_raise_connect_result_event = (\<lambda>i st e. e),
      wifi_mgmt_raise_disconnect_result_event = (\<lambda>i st e. e),
      wifi_mgmt_raise_iface_status_event = (\<lambda>i st e. e),
      wifi_mgmt_raise_ap_enable_result_event = (\<lambda>i st e. e),
      wifi_mgmt_raise_ap_disable_result_event = (\<lambda>i st e. e),
      notify_ap_sta_connected = (\<lambda>i mac e. e), notify_ap_sta_disconnected = (\<lambda>i mac e. e)\<rparr>"

definition sim_wifi_host :: "byte list \<Rightarrow> (sim_world, sim_reports virt_wifi) host" where
  "sim_wifi_host rx =
     \<lparr>bworld = sim_idle\<lparr>sim_rx := (\<lambda>_. rx)\<rparr>, app = \<lparr>scan_cb = Some sim_cb, net_stack = [], vw_fault = False\<rparr>,
      uart = Some 0, bus_parse = PARSING_STATE_TYPE, hdr = no_header, bus_bytes_read = 0,
      rx_buf = replicate 4096 0, rx_work = False, tx_seq = 0, rx_seq = 0, rx_sem = 0,
      request_pending = False, last_hdr = no_header, supported_types = 0,
      handler = (\<lambda>ty. if ty = 0 then Some (wifi_mgmt_notify sim_wifi) else None), handler_user = (\<lambda>_. None),
      opened = True\<rparr>"

lemma sim_wifi_host_simps [simp]:
  "bus_ready (sim_wifi_host rx) 0" "\<not> request_pending (sim_wifi_host rx)" "opened (sim_wifi_host rx)"
  "uart (sim_wifi_host rx) = Some 0" "tx_seq (sim_wifi_host rx) = 0" "rx_sem (sim_wifi_host rx) = 0"
  "sim_rx (bworld (sim_wifi_host rx)) d = rx" "sim_tx (bworld (sim_wifi_host rx)) d = []"
  "handler (sim_wifi_host rx) 0 = Some (wifi_mgmt_notify sim_wifi)"
  "app (sim_wifi_host rx) = \<lparr>scan_cb = Some sim_cb, net_stack = [], vw_fault = False\<rparr>"
  by (simp_all add: sim_wifi_host_def bus_ready_def sim_idle_def)

text \<open>The acknowledgement and a frame with the given payload, as events of a script.\<close>

definition sim_answer :: "byte list \<Rightarrow> sim_world script" where
  "sim_answer out =
     [Rx_arrival (sim_bring (bus_header_encode (reply_header 0 0 0 0))),
      Rx_arrival (sim_bring (bus_header_encode (reply_header 0 0 0 (length out)) @ out))]"

lemma sim_roundtrip:
  assumes enc: "WifiMgmtRequest_encode sim_wifi 600 req = Some bytes" "bytes \<noteq> []" "length bytes \<le> 4096"
    and out: "out \<noteq> []" "length out \<le> 700" and dec: "WifiMgmtResponse_decode sim_wifi out = Some r"
  obtains b' where "mgmt_roundtrip sim_uart sim_wifi req (sim_answer out) (sim_wifi_host []) = Some ((0, Some r), [], b')"
proof -
  have sz: "sizeof_req_buf sim_wifi = 600" "sizeof_resp_buf sim_wifi = 700" by (simp_all add: sim_wifi_def)
  have val: "valid_frame (reply_header 0 0 0 0) []" "valid_frame (reply_header 0 0 0 (length out)) out"
    using out by (auto intro!: sim_valid_frame)
  have enc': "WifiMgmtRequest_encode sim_wifi (sizeof_req_buf sim_wifi) req = Some bytes" using enc(1) by (simp add: sz)
  show ?thesis
    by (rule mgmt_roundtrip_answered [OF sim_uart_link _ _ _ _ enc' _ enc(3) sim_brings val(1) _ sim_brings val(2),
          where b = "sim_wifi_host []" and dev = 0 and sc = "[]"])
      (use enc(2) out dec sz in \<open>auto simp: sim_answer_def intro: that\<close>)
qed

lemma sim_iface_1 [simp]: "resolve_wifi_iface sim_net_if 1 e = Some (Some 0)"
  by (simp add: resolve_wifi_iface_def)

lemma sim_wifi_encode [simp]:
  "WifiMgmtRequest_encode sim_wifi 600 \<lparr>wreq_request_id = 1, wreq_payload = Connect_req r\<rparr> = Some [8, 1, 18, 0]"
  "WifiMgmtRequest_encode sim_wifi 600 \<lparr>wreq_request_id = 2, wreq_payload = Disconnect_req i\<rparr> = Some [8, 2, 26, 0]"
  "WifiMgmtRequest_encode sim_wifi 600 \<lparr>wreq_request_id = 6, wreq_payload = Get_version_req\<rparr> = Some [8, 6, 58, 0]"
  by (simp_all add: sim_wifi_def)

lemma sim_wifi_decode [simp]:
  "WifiMgmtResponse_decode sim_wifi [8, 1, 18, 2, 8, 1] =
     Some \<lparr>wresp_request_id = 1, wresp_payload = Status_resp (status_ok ''Connect initiated'')\<rparr>"
  "WifiMgmtResponse_decode sim_wifi [8, 1, 18, 2, 8, 0] =
     Some \<lparr>wresp_request_id = 1,
           wresp_payload = Status_resp (status_error (- EINVAL) ''Invalid SAE password length'')\<rparr>"
  "WifiMgmtResponse_decode sim_wifi [8, 2, 18, 2, 8, 1] =
     Some \<lparr>wresp_request_id = 2, wresp_payload = Status_resp (status_ok ''Disconnect initiated'')\<rparr>"
  "WifiMgmtResponse_decode sim_wifi [8, 6, 26, 0] = Some \<lparr>wresp_request_id = 6, wresp_payload = Get_version_resp None\<rparr>"
  by (simp_all add: sim_wifi_def)

definition sim_psk_params :: wifi_connect_req_params where
  "sim_psk_params = connect_params_zero
     \<lparr>cp_ssid := [0x61, 0x62], cp_psk := Some (replicate 8 0x31), cp_security := WIFI_SECURITY_TYPE_WPA_PSK,
      cp_channel := 6, cp_mfp := WIFI_MFP_OPTIONAL\<rparr>"

theorem psk_connect_reaches_driver_witness:
  "\<exists>v e1 b'. wifi_respond sim_ww 1 (Connect_req (connect_request sim_psk_params)) sim_vars (env (sim_device sim_kc [])) =
       Some (v, sim_vars, e1) \<and> se_pkts e1 = [[0x61, 0x62]] \<and>
     virt_wifi_connect sim_uart sim_wifi sim_psk_params (sim_answer [8, 1, 18, 2, 8, 1]) (sim_wifi_host []) =
       Some ((0, ()), [], b')"
proof -
  let ?e = "env (sim_device sim_kc [])" and ?p = "sim_psk_params"
  let ?req = "\<lparr>wreq_request_id = 1, wreq_payload = Connect_req (connect_request ?p)\<rparr>"
  let ?r = "\<lparr>wresp_request_id = 1, wresp_payload = Status_resp (status_ok ''Connect initiated'')\<rparr>"
  have sec: "cp_security ?p \<in> {WIFI_SECURITY_TYPE_PSK, WIFI_SECURITY_TYPE_WPA_PSK,
      WIFI_SECURITY_TYPE_WPA_AUTO_PERSONAL, WIFI_SECURITY_TYPE_PSK_SHA256}"
    and len: "0 < length (cp_ssid ?p)" "length (cp_ssid ?p) \<le> 32" "cp_psk ?p = Some (replicate 8 0x31)"
      "0 < length (replicate 8 (0x31 :: byte))" "length (replicate 8 (0x31 :: byte)) \<le> 64"
    by (simp_all add: sim_psk_params_def connect_params_zero_def)
  have drv: "wifi_connect (ww_ops sim_ww) 0 (psk_connect (ww_ops sim_ww) ?p) ?e = (0, ?e\<lparr>se_pkts := [[0x61, 0x62]]\<rparr>)"
    by (simp add: sim_radio_defs sim_log_def psk_connect_def sim_psk_params_def connect_params_zero_def)
  obtain b' where b': "mgmt_roundtrip sim_uart sim_wifi ?req (sim_answer [8, 1, 18, 2, 8, 1]) (sim_wifi_host []) =
      Some ((0, Some ?r), [], b')"
    by (rule sim_roundtrip [of ?req "[8, 1, 18, 0]" "[8, 1, 18, 2, 8, 1]" ?r]) simp_all
  have iface: "resolve_wifi_iface (ww_if sim_ww) 1 ?e = Some (Some 0)" by simp
  have resp: "wifi_respond sim_ww 1 (Connect_req (connect_request ?p)) sim_vars ?e =
      Some (wresp_payload ?r, sim_vars, ?e\<lparr>se_pkts := [[0x61, 0x62]]\<rparr>)"
    by (simp add: wifi_respond_def reply_status_def handle_connect_request_def with_wifi_iface_def
        resolve_wifi_iface_def connect_request_def connect_check_def sim_psk_params_def connect_params_zero_def
        connect_params_def link_security_def sim_radio_defs sim_log_def status_of_ret_def Let_def)
  show ?thesis
    using psk_connect_reaches_driver [OF sec len iface drv, of sim_vars sim_uart sim_wifi
        "sim_answer [8, 1, 18, 2, 8, 1]" "sim_wifi_host []" "[]" b'] b' resp
    by auto
qed

theorem sae_connect_refused_witness:
  "\<exists>v b'. wifi_respond sim_ww 1 (Connect_req (connect_request (sim_psk_params\<lparr>cp_security := WIFI_SECURITY_TYPE_SAE,
        cp_sae_password := Some [0x31]\<rparr>))) sim_vars (env (sim_device sim_kc [])) =
       Some (v, sim_vars, env (sim_device sim_kc [])) \<and>
     virt_wifi_connect sim_uart sim_wifi (sim_psk_params\<lparr>cp_security := WIFI_SECURITY_TYPE_SAE,
        cp_sae_password := Some [0x31]\<rparr>) (sim_answer [8, 1, 18, 2, 8, 0]) (sim_wifi_host []) =
       Some ((- EINVAL, ()), [], b')"
proof -
  let ?p = "sim_psk_params\<lparr>cp_security := WIFI_SECURITY_TYPE_SAE, cp_sae_password := Some [0x31]\<rparr>"
  let ?e = "env (sim_device sim_kc [])"
  let ?req = "\<lparr>wreq_request_id = 1, wreq_payload = Connect_req (connect_request ?p)\<rparr>"
  let ?r = "\<lparr>wresp_request_id = 1, wresp_payload = Status_resp (status_error (- EINVAL) ''Invalid SAE password length'')\<rparr>"
  have sec: "cp_security ?p \<in> {WIFI_SECURITY_TYPE_SAE, WIFI_SECURITY_TYPE_SAE_H2E, WIFI_SECURITY_TYPE_SAE_AUTO}"
    by simp
  have iface: "resolve_wifi_iface (ww_if sim_ww) 1 ?e = Some (Some 0)" by simp
  obtain b' where b': "mgmt_roundtrip sim_uart sim_wifi ?req (sim_answer [8, 1, 18, 2, 8, 0]) (sim_wifi_host []) =
      Some ((0, Some ?r), [], b')"
    by (rule sim_roundtrip [of ?req "[8, 1, 18, 0]" "[8, 1, 18, 2, 8, 0]" ?r]) simp_all
  have resp: "wifi_respond sim_ww 1 (Connect_req (connect_request ?p)) sim_vars ?e = Some (wresp_payload ?r, sim_vars, ?e)"
    by (simp add: wifi_respond_def reply_status_def handle_connect_request_def with_wifi_iface_def
        resolve_wifi_iface_def connect_request_def connect_check_def sim_psk_params_def connect_params_zero_def
        link_security_def Let_def)
  show ?thesis
    using sae_connect_refused [OF sec iface, of sim_vars sim_uart sim_wifi
        "sim_answer [8, 1, 18, 2, 8, 0]" "sim_wifi_host []" "[]" b'] b' resp
    by auto
qed

text \<open>A radio that cannot tell its version.\<close>

definition sim_mute_ww :: "sim_env wifi_world" where
  "sim_mute_ww = sim_ww\<lparr>ww_ops := sim_radio\<lparr>wifi_version_get :=
     (\<lambda>i e. ((- EIO, \<lparr>drv_version = None, fw_version = None\<rparr>), e))\<rparr>\<rparr>"

lemma version_failure_reported_ok_witness:
  "\<exists>v b'. wifi_respond sim_mute_ww 6 Get_version_req sim_vars (env (sim_device sim_kc [])) =
       Some (v, sim_vars, env (sim_device sim_kc [])) \<and>
     virt_wifi_get_version sim_uart sim_wifi \<lparr>drv_version = None, fw_version = None\<rparr>
       (sim_answer [8, 6, 26, 0]) (sim_wifi_host []) =
       Some ((0, \<lparr>drv_version = Some ''0.0.0'', fw_version = Some ''''\<rparr>), [], b')"
proof -
  let ?e = "env (sim_device sim_kc [])" and ?v = "\<lparr>drv_version = None, fw_version = None\<rparr>"
  let ?req = "\<lparr>wreq_request_id = 6, wreq_payload = Get_version_req\<rparr>"
  let ?r = "\<lparr>wresp_request_id = 6, wresp_payload = Get_version_resp None\<rparr>"
  have ver: "wifi_version_get (ww_ops sim_mute_ww) (net_if_get_default (ww_ops sim_mute_ww) ?e) ?e = ((- EIO, ?v), ?e)"
    by (simp add: sim_mute_ww_def)
  have ret: "- EIO \<noteq> 0" by (simp add: errno_defs)
  obtain b' where b': "mgmt_roundtrip sim_uart sim_wifi ?req (sim_answer [8, 6, 26, 0]) (sim_wifi_host []) =
      Some ((0, Some ?r), [], b')"
    by (rule sim_roundtrip [of ?req "[8, 6, 58, 0]" "[8, 6, 26, 0]" ?r]) simp_all
  have resp: "wifi_respond sim_mute_ww 6 Get_version_req sim_vars ?e = Some (wresp_payload ?r, sim_vars, ?e)"
    using ver ret by (simp add: wifi_respond_def handle_get_version_request_def)
  show ?thesis
    using version_failure_reported_ok [OF ver ret, of sim_vars sim_uart sim_wifi "sim_answer [8, 6, 26, 0]"
        "sim_wifi_host []" "[]" b' ?v] b' resp
    by auto
qed

theorem scan_report_taken_as_response_witness:
  "\<exists>b'. mgmt_roundtrip sim_uart sim_wifi \<lparr>wreq_request_id = 2, wreq_payload = Disconnect_req 1\<rparr>
       (sim_answer [10, 2, 18, 2]) (sim_wifi_host []) = Some ((- EBADMSG, None), [], b') \<and>
     net_stack (app b') = [] \<and>
     net_stack (wifi_mgmt_notify sim_wifi [10, 2, 18, 2] 4 None (app (sim_wifi_host []))) =
       [(0, Some (scan_result_seen sim_found)), (0, Some (scan_result_seen sim_found)), (0, None)]"
proof -
  let ?n = "[10, 2, 18, 2] :: byte list" and ?b = "sim_wifi_host []"
  let ?req = "\<lparr>wreq_request_id = 2, wreq_payload = Disconnect_req 1\<rparr>"
  have sz: "sizeof_req_buf sim_wifi = 600" "sizeof_resp_buf sim_wifi = 700" by (simp_all add: sim_wifi_def)
  have b: "bus_ready ?b 0" "opened ?b" "rx_sem ?b = 0" "sim_rx (bworld ?b) 0 = []" by simp_all
  have enc: "WifiMgmtRequest_encode sim_wifi (sizeof_req_buf sim_wifi) ?req = Some [8, 2, 26, 0]" by (simp add: sz)
  have len: "0 < length [8 :: byte, 2, 26, 0]" "length [8 :: byte, 2, 26, 0] \<le> 4096" by simp_all
  have val: "valid_frame (reply_header 0 0 0 0) []" "valid_frame (reply_header 0 0 0 (length ?n)) ?n"
    "bh_error (reply_header 0 0 0 0) = 0" "bh_type (reply_header 0 0 0 (length ?n)) = 0" "?n \<noteq> []"
    "length ?n \<le> sizeof_resp_buf sim_wifi"
    by (auto intro!: sim_valid_frame simp: sz)
  have report: "WifiMgmtNotification_decode sim_wifi ?n = Some \<lparr>ev_iface_index = 1,
      ev_data = Scan_done_event 0 (map scan_result_to_proto [sim_found, sim_found])\<rparr>"
    by (simp add: sim_wifi_def sim_found_report_def)
  have bad: "WifiMgmtResponse_decode sim_wifi ?n = None" by (simp add: sim_wifi_def)
  have ok: "scan_result_ok sim_found" by (simp add: scan_result_ok_def sim_found_def)
  have four: "length ?n = 4" by simp
  show ?thesis
    using scan_report_taken_as_response [OF sim_uart_link b enc len sim_brings val(1,3) sim_brings val(2,4,5,6) report,
        of "[]" None] bad host_scan_result_seen [OF ok]
    unfolding four sim_answer_def by (auto simp: handle_scan_done_def sim_cb_def)
qed

theorem l2_send_frames_witness:
  "\<exists>b'. virt_wifi_l2_send sim_uart sim_wifi 3 [[1, 2], [3]] [9, 9] (sim_wifi_host []) = Some (0, b') \<and>
     sim_tx (bworld b') 0 = bus_header_encode (tx_header 1 0 3) @ [1, 2, 9]"
proof -
  have three: "length (concat [[1, 2], [3 :: byte]]) = 3" by simp
  show ?thesis
    using l2_send_frames [where b = "sim_wifi_host []" and dev = 0 and frags = "[[1, 2], [3]]" and first = "[1, 2]"
        and rest = "[[3]]" and n = 1 and behind = "[9, 9]" and ho = sim_wifi and pkt = 3, OF sim_uart_link]
    unfolding three by auto
qed

end
