(* ===== verification/Station_App.thy ===== *)
theory Station_App
  imports Wifi_Messages
begin

text \<open>
  \<open>nrf7002dk/src/main.c\<close>: the application on the device.  It follows the connect and disconnect
  events of the Wi-Fi stack in the flags \<open>context\<close>, blinks the LED while connected, logs the
  interface state when it has changed, parses the key of the flash interface, and waits until the
  Wi-Fi library reports that it is ready.

  Outside code is the record \<open>station_ops\<close>: the status request of the network stack with the
  default interface, Zephyr's numbering of the interface states, the GPIO driver, the encryption
  call of the flash driver and the registration with the Wi-Fi ready library.  Log output is the
  list \<open>sta_log\<close>, oldest line first, for the lines that report a state.
\<close>

section \<open>State and outside code\<close>

datatype station_event =
    Connect_result int
  | Disconnect_result int
  | Ipv4_dhcp_bound
  | Station_event_other nat

datatype station_log =
    Status_request_failed
  | State_line wifi_iface_state
  | Association_lines wifi_iface_status
  | Connection_failed int
  | Connected_line
  | Disconnection_request bool int
  | Received_disconnected

record 'e station_ops =
  sta_net_if_get_default :: "'e \<Rightarrow> nat option"
  sta_iface_status :: "nat option \<Rightarrow> 'e \<Rightarrow> (int \<times> wifi_iface_status) \<times> 'e"
  wifi_state_number :: "wifi_iface_state \<Rightarrow> nat"
  led_is_ready :: bool
  gpio_pin_configure_result :: int
  qspi_enable_encryption :: "byte list \<Rightarrow> int"
  net_if_get_first_wifi :: "nat option"
  register_wifi_ready_callback :: "nat \<Rightarrow> int"

record sta_flags =
  connected :: bool
  connect_result :: bool
  disconnect_requested :: bool

record 'e station =
  context_flags :: sta_flags
  have_last :: bool
  last_state :: wifi_iface_state
  led_on :: bool
  sta_log :: "station_log list"
  sta_env :: 'e

definition sta_flags_zero :: sta_flags where
  "sta_flags_zero = \<lparr>connected = False, connect_result = False, disconnect_requested = False\<rparr>"

definition log_line :: "station_log \<Rightarrow> 'e station \<Rightarrow> 'e station" where
  "log_line l s = s\<lparr>sta_log := sta_log s @ [l]\<rparr>"

abbreviation is_connected :: "'e station \<Rightarrow> bool" where
  "is_connected s \<equiv> connected (context_flags s)"

section \<open>The LED thread\<close>

text \<open>
  The part of \<open>toggle_led\<close> before its loop: \<open>None\<close> when the thread ends, otherwise the pin is
  configured as an active output.  \<open>toggle_led_round\<close> is one pass of the loop.
\<close>

definition toggle_led_start :: "'e station_ops \<Rightarrow> 'e station \<Rightarrow> 'e station option" where
  "toggle_led_start so s =
     (if \<not> led_is_ready so then None
      else if gpio_pin_configure_result so < 0 then None
      else Some (s\<lparr>led_on := True\<rparr>))"

definition toggle_led_round :: "'e station \<Rightarrow> 'e station" where
  "toggle_led_round s =
     (if is_connected s then s\<lparr>led_on := \<not> led_on s\<rparr> else s\<lparr>led_on := False\<rparr>)"

section \<open>Status and events\<close>

definition ENOEXEC :: int where [errno_defs]: "ENOEXEC = 8"

definition cmd_wifi_status :: "'e station_ops \<Rightarrow> 'e station \<Rightarrow> int \<times> 'e station" where
  "cmd_wifi_status so s =
     (case sta_iface_status so (sta_net_if_get_default so (sta_env s)) (sta_env s) of
        ((rc, status), e1) \<Rightarrow>
          let s1 = s\<lparr>sta_env := e1\<rparr> in
          if rc \<noteq> 0 then (- ENOEXEC, log_line Status_request_failed s1)
          else if have_last s1 \<and> zs_state status = last_state s1 then (0, s1)
          else
            let s2 = log_line (State_line (zs_state status))
                       (s1\<lparr>have_last := True, last_state := zs_state status\<rparr>)
            in (0, if wifi_state_number so WIFI_STATE_ASSOCIATED \<le> wifi_state_number so (zs_state status)
                   then log_line (Association_lines status) s2 else s2))"

definition handle_wifi_connect_result :: "int \<Rightarrow> 'e station \<Rightarrow> 'e station" where
  "handle_wifi_connect_result status s =
     (if is_connected s then s
      else
        let s1 = (if status \<noteq> 0 then log_line (Connection_failed status) s
                  else (log_line Connected_line s)
                         \<lparr>context_flags := (context_flags s)\<lparr>connected := True\<rparr>\<rparr>)
        in s1\<lparr>context_flags := (context_flags s1)\<lparr>connect_result := True\<rparr>\<rparr>)"

definition handle_wifi_disconnect_result :: "'e station_ops \<Rightarrow> int \<Rightarrow> 'e station \<Rightarrow> 'e station" where
  "handle_wifi_disconnect_result so status s =
     (if \<not> is_connected s then s
      else
        let s1 = (if disconnect_requested (context_flags s)
                  then (log_line (Disconnection_request (status \<noteq> 0) status) s)
                         \<lparr>context_flags := (context_flags s)\<lparr>disconnect_requested := False\<rparr>\<rparr>
                  else (log_line Received_disconnected s)
                         \<lparr>context_flags := (context_flags s)\<lparr>connected := False\<rparr>\<rparr>)
        in snd (cmd_wifi_status so s1))"

fun sta_wifi_mgmt_event_handler :: "'e station_ops \<Rightarrow> station_event \<Rightarrow> 'e station \<Rightarrow> 'e station" where
  "sta_wifi_mgmt_event_handler so (Connect_result status) s = handle_wifi_connect_result status s"
| "sta_wifi_mgmt_event_handler so (Disconnect_result status) s = handle_wifi_disconnect_result so status s"
| "sta_wifi_mgmt_event_handler so _ s = s"

fun sta_net_mgmt_event_handler :: "station_event \<Rightarrow> 'e station \<Rightarrow> 'e station" where
  "sta_net_mgmt_event_handler Ipv4_dhcp_bound s = s"
| "sta_net_mgmt_event_handler _ s = s"

text \<open>
  \<open>net_mgmt_callback_init\<close> clears the flags and registers both handlers: from then on the stack
  calls each handler for the events of its mask, the first for the two Wi-Fi results, the second
  for the DHCP event.
\<close>

definition net_mgmt_callback_init :: "'e station \<Rightarrow> 'e station" where
  "net_mgmt_callback_init s = s\<lparr>context_flags := sta_flags_zero\<rparr>"

fun station_dispatch :: "'e station_ops \<Rightarrow> station_event \<Rightarrow> 'e station \<Rightarrow> 'e station" where
  "station_dispatch so (Connect_result st) s = sta_wifi_mgmt_event_handler so (Connect_result st) s"
| "station_dispatch so (Disconnect_result st) s = sta_wifi_mgmt_event_handler so (Disconnect_result st) s"
| "station_dispatch so Ipv4_dhcp_bound s = sta_net_mgmt_event_handler Ipv4_dhcp_bound s"
| "station_dispatch so (Station_event_other n) s = s"

text \<open>The two contexts that run after the start: events of the stack and passes of the LED loop.\<close>

datatype station_act = Net_event station_event | Led_pass

fun station_act_step :: "'e station_ops \<Rightarrow> station_act \<Rightarrow> 'e station \<Rightarrow> 'e station" where
  "station_act_step so (Net_event ev) s = station_dispatch so ev s"
| "station_act_step so Led_pass s = toggle_led_round s"

definition station_run :: "'e station_ops \<Rightarrow> station_act list \<Rightarrow> 'e station \<Rightarrow> 'e station" where
  "station_run so as s = fold (station_act_step so) as (net_mgmt_callback_init s)"

text \<open>The static variables at boot.\<close>

definition station_boot :: "'e \<Rightarrow> 'e station" where
  "station_boot e =
     \<lparr>context_flags = sta_flags_zero, have_last = False, last_state = WIFI_STATE_DISCONNECTED,
      led_on = False, sta_log = [], sta_env = e\<rparr>"

section \<open>What the events do to the flags\<close>

lemma log_line_fields [simp]:
  "context_flags (log_line l s) = context_flags s" "have_last (log_line l s) = have_last s"
  "last_state (log_line l s) = last_state s" "led_on (log_line l s) = led_on s"
  "sta_env (log_line l s) = sta_env s" "sta_log (log_line l s) = sta_log s @ [l]"
  by (simp_all add: log_line_def)

lemma cmd_wifi_status_flags [simp]:
  "context_flags (snd (cmd_wifi_status so s)) = context_flags s"
  "led_on (snd (cmd_wifi_status so s)) = led_on s"
  by (auto simp: cmd_wifi_status_def Let_def split: prod.splits)

lemma station_act_cases [case_names connect disconnect dhcp other led]:
  obtains st where "a = Net_event (Connect_result st)" | st where "a = Net_event (Disconnect_result st)"
  | "a = Net_event Ipv4_dhcp_bound" | n where "a = Net_event (Station_event_other n)" | "a = Led_pass"
  by (metis station_act.exhaust station_event.exhaust)

lemma connected_after_event:
  "\<not> disconnect_requested (context_flags s) \<Longrightarrow>
     is_connected (station_act_step so a s) \<longleftrightarrow>
       a = Net_event (Connect_result 0) \<or> is_connected s \<and> (\<forall>st. a \<noteq> Net_event (Disconnect_result st))"
  by (cases a rule: station_act_cases)
    (simp_all add: handle_wifi_connect_result_def handle_wifi_disconnect_result_def Let_def
      toggle_led_round_def)

lemma never_disconnect_requested:
  "\<not> disconnect_requested (context_flags s) \<Longrightarrow>
     \<not> disconnect_requested (context_flags (station_act_step so a s))"
  by (cases a rule: station_act_cases)
    (simp_all add: handle_wifi_connect_result_def handle_wifi_disconnect_result_def Let_def
      toggle_led_round_def)

text \<open>\<open>disconnect_requested\<close> is never set: its branch of the disconnect handler is not reached.\<close>

lemma station_run_not_requested: "\<not> disconnect_requested (context_flags (station_run so as s))"
  unfolding station_run_def
  by (induction as rule: rev_induct)
    (simp_all add: net_mgmt_callback_init_def sta_flags_zero_def never_disconnect_requested)

lemma station_run_snoc:
  "station_run so (as @ [a]) s = station_act_step so a (station_run so as s)"
  by (simp add: station_run_def)

definition link_up :: "station_act list \<Rightarrow> bool" where
  "link_up as \<longleftrightarrow> (\<exists>before after. as = before @ Net_event (Connect_result 0) # after \<and>
     (\<forall>st. Net_event (Disconnect_result st) \<notin> set after))"

lemma link_up_snoc:
  "link_up (as @ [a]) \<longleftrightarrow>
     a = Net_event (Connect_result 0) \<or> link_up as \<and> (\<forall>st. a \<noteq> Net_event (Disconnect_result st))"
    (is "?L \<longleftrightarrow> ?R")
proof
  assume ?L
  then obtain b c where bc: "as @ [a] = b @ Net_event (Connect_result 0) # c"
    "\<forall>st. Net_event (Disconnect_result st) \<notin> set c"
    by (auto simp: link_up_def)
  show ?R
  proof (cases c rule: rev_exhaust)
    case Nil
    then show ?thesis using bc(1) by simp
  next
    case (snoc c' x)
    then have "as = b @ Net_event (Connect_result 0) # c'" "a = x" using bc(1) by simp_all
    then show ?thesis using snoc bc(2) unfolding link_up_def by auto
  qed
next
  assume ?R
  then show ?L
  proof
    assume "a = Net_event (Connect_result 0)"
    then show ?thesis unfolding link_up_def by (intro exI [of _ as] exI [of _ "[]"]) simp
  next
    assume R: "link_up as \<and> (\<forall>st. a \<noteq> Net_event (Disconnect_result st))"
    then obtain b c where "as = b @ Net_event (Connect_result 0) # c"
      "\<forall>st. Net_event (Disconnect_result st) \<notin> set c"
      by (auto simp: link_up_def)
    then show ?thesis using R unfolding link_up_def by (intro exI [of _ b] exI [of _ "c @ [a]"]) auto
  qed
qed

lemma station_run_connected: "is_connected (station_run so as s) \<longleftrightarrow> link_up as"
proof (induction as rule: rev_induct)
  case Nil
  then show ?case
    by (simp add: station_run_def net_mgmt_callback_init_def sta_flags_zero_def link_up_def)
next
  case (snoc a as)
  then show ?case
    by (simp add: station_run_snoc connected_after_event station_run_not_requested link_up_snoc)
qed

text \<open>
  C21.  In every interleaving of stack events and LED passes after the start, the application's
  \<open>connected\<close> flag is set exactly when some connect result reported success and no disconnect
  result (whatever its status) came after it; and a pass of the LED loop leaves the LED on only
  while connected, inverting it there.
\<close>

theorem station_connected_spec:
  "(is_connected (station_run so as s) \<longleftrightarrow>
     (\<exists>before after. as = before @ Net_event (Connect_result 0) # after \<and>
        (\<forall>st. Net_event (Disconnect_result st) \<notin> set after))) \<and>
   (led_on (station_run so (as @ [Led_pass]) s) \<longleftrightarrow>
     is_connected (station_run so as s) \<and> \<not> led_on (station_run so as s))"
  using station_run_connected [of so as s]
  by (simp add: link_up_def station_run_snoc toggle_led_round_def)

section \<open>The state log\<close>

fun logged_states :: "station_log list \<Rightarrow> wifi_iface_state list" where
  "logged_states [] = []"
| "logged_states (State_line st # ls) = st # logged_states ls"
| "logged_states (l # ls) = logged_states ls"

lemma logged_states_append [simp]:
  "logged_states (ls @ ls') = logged_states ls @ logged_states ls'"
  by (induction ls rule: logged_states.induct) simp_all

definition state_log_inv :: "'e station \<Rightarrow> bool" where
  "state_log_inv s \<longleftrightarrow>
     distinct_adj (logged_states (sta_log s)) \<and>
     (if have_last s then logged_states (sta_log s) \<noteq> [] \<and> last (logged_states (sta_log s)) = last_state s
      else logged_states (sta_log s) = [])"

lemma state_log_inv_log_line:
  "logged_states [l] = [] \<Longrightarrow> state_log_inv s \<Longrightarrow> state_log_inv (log_line l s)"
  by (simp add: state_log_inv_def)

lemma state_log_inv_frame:
  "state_log_inv s \<Longrightarrow> state_log_inv (s\<lparr>context_flags := c\<rparr>)"
  "state_log_inv s \<Longrightarrow> state_log_inv (s\<lparr>led_on := b\<rparr>)"
  "state_log_inv s \<Longrightarrow> state_log_inv (s\<lparr>sta_env := e\<rparr>)"
  by (simp_all add: state_log_inv_def)

lemma state_log_inv_new_state:
  "state_log_inv s \<Longrightarrow> \<not> (have_last s \<and> st = last_state s) \<Longrightarrow>
     state_log_inv (log_line (State_line st) (s\<lparr>have_last := True, last_state := st\<rparr>))"
  by (auto simp: state_log_inv_def distinct_adj_append_iff split: if_splits)

lemma state_log_inv_cmd_wifi_status:
  assumes "state_log_inv s"
  shows "state_log_inv (snd (cmd_wifi_status so s))"
proof -
  obtain rc st e1 where r:
    "sta_iface_status so (sta_net_if_get_default so (sta_env s)) (sta_env s) = ((rc, st), e1)"
    by (metis prod.exhaust)
  have s1: "state_log_inv (s\<lparr>sta_env := e1\<rparr>)" by (rule state_log_inv_frame) (rule assms)
  show ?thesis
    using state_log_inv_new_state [OF s1, of "zs_state st"] s1
    by (simp add: cmd_wifi_status_def r Let_def state_log_inv_log_line)
qed

lemma state_log_inv_step:
  assumes "state_log_inv s"
  shows "state_log_inv (station_act_step so a s)"
  using assms
  by (cases a rule: station_act_cases)
    (simp_all add: handle_wifi_connect_result_def handle_wifi_disconnect_result_def Let_def
      toggle_led_round_def state_log_inv_cmd_wifi_status state_log_inv_frame state_log_inv_log_line)

text \<open>
  From boot, whatever events and LED passes follow, the log never holds the same interface state
  twice in a row, and a state line has been written exactly when \<open>have_last\<close> is set.
\<close>

lemma station_log_changes_only:
  "distinct_adj (logged_states (sta_log (station_run so as (station_boot e)))) \<and>
   (have_last (station_run so as (station_boot e)) \<longleftrightarrow>
      logged_states (sta_log (station_run so as (station_boot e))) \<noteq> [])"
proof -
  have "state_log_inv (station_run so as (station_boot e))"
  proof (induction as rule: rev_induct)
    case Nil
    then show ?case
      by (simp add: station_run_def net_mgmt_callback_init_def station_boot_def state_log_inv_def)
  next
    case (snoc a as)
    then show ?case by (simp add: station_run_snoc state_log_inv_step)
  qed
  then show ?thesis by (simp add: state_log_inv_def split: if_splits)
qed

section \<open>The encryption key\<close>

text \<open>
  \<open>strtol (s, NULL, 16)\<close>: white space, a sign, an optional \<open>0x\<close> that a hexadecimal digit
  follows, and the longest run of digits; no digits give 0.  The two characters that
  \<open>bytes_from_str\<close> passes never reach the limits of \<open>long\<close>.
\<close>

definition hex_digit :: "char \<Rightarrow> int option" where
  "hex_digit c =
     (let n = (of_char c :: int) in
      if 48 \<le> n \<and> n \<le> 57 then Some (n - 48)
      else if 97 \<le> n \<and> n \<le> 102 then Some (n - 87)
      else if 65 \<le> n \<and> n \<le> 70 then Some (n - 55)
      else None)"

fun hex_value :: "int \<Rightarrow> string \<Rightarrow> int" where
  "hex_value acc [] = acc"
| "hex_value acc (c # cs) = (case hex_digit c of Some d \<Rightarrow> hex_value (16 * acc + d) cs | None \<Rightarrow> acc)"

definition c_isspace :: "char \<Rightarrow> bool" where
  "c_isspace c = (let n = (of_char c :: nat) in n = 32 \<or> 9 \<le> n \<and> n \<le> 13)"

definition skip_0x :: "string \<Rightarrow> string" where
  "skip_0x s =
     (case s of z # x # d # cs \<Rightarrow>
        if z = CHR ''0'' \<and> (x = CHR ''x'' \<or> x = CHR ''X'') \<and> hex_digit d \<noteq> None then d # cs else s
      | _ \<Rightarrow> s)"

definition strtol_16 :: "string \<Rightarrow> int" where
  "strtol_16 s =
     (case dropWhile c_isspace s of
        [] \<Rightarrow> 0
      | c # cs \<Rightarrow>
          if c = CHR ''-'' then - hex_value 0 (skip_0x cs)
          else if c = CHR ''+'' then hex_value 0 (skip_0x cs)
          else hex_value 0 (skip_0x (c # cs)))"

definition bytes_from_str :: "string \<Rightarrow> byte list \<Rightarrow> nat \<Rightarrow> int \<times> byte list" where
  "bytes_from_str str bytes bytes_len =
     (if length str \<noteq> bytes_len * 2 then (- EINVAL, bytes)
      else (0, fold (\<lambda>i bs. bs[i := word_of_int (strtol_16 (take 2 (drop (i * 2) str)))])
                 [0..<bytes_len] bytes))"

text \<open>The two hexadecimal digits of a byte, as \<open>%02x\<close> prints them.\<close>

definition hex_char :: "nat \<Rightarrow> char" where
  "hex_char n = ''0123456789abcdef'' ! n"

definition hex_byte :: "byte \<Rightarrow> string" where
  "hex_byte b = [hex_char (unat b div 16), hex_char (unat b mod 16)]"

lemma hex_char_facts:
  assumes "n < 16"
  shows "hex_digit (hex_char n) = Some (int n)" "\<not> c_isspace (hex_char n)"
    "hex_char n \<noteq> CHR ''-''" "hex_char n \<noteq> CHR ''+''"
proof -
  have "\<forall>k\<in>{0..<16}. hex_digit (hex_char k) = Some (int k) \<and> \<not> c_isspace (hex_char k) \<and>
      hex_char k \<noteq> CHR ''-'' \<and> hex_char k \<noteq> CHR ''+''"
    by (simp add: hex_char_def hex_digit_def c_isspace_def atLeastLessThan_nat_numeral)
  then show "hex_digit (hex_char n) = Some (int n)" "\<not> c_isspace (hex_char n)"
    "hex_char n \<noteq> CHR ''-''" "hex_char n \<noteq> CHR ''+''"
    using assms by auto
qed

lemma skip_0x_two [simp]: "skip_0x [c, d] = [c, d]"
  by (simp add: skip_0x_def)

lemma strtol_16_hex_byte: "strtol_16 (hex_byte b) = uint b"
proof -
  have "unat b div 16 < 16" using unsigned_less [where w = b and ?'a = nat] by simp
  then have "strtol_16 (hex_byte b) = 16 * int (unat b div 16) + int (unat b mod 16)"
    by (simp add: strtol_16_def hex_byte_def hex_char_facts)
  also have "\<dots> = int (16 * (unat b div 16) + unat b mod 16)"
    by (simp only: of_nat_add of_nat_mult of_nat_numeral)
  also have "16 * (unat b div 16) + unat b mod 16 = unat b" by (rule mult_div_mod_eq)
  finally show ?thesis by simp
qed

lemma fold_update_upt:
  "n \<le> length bs \<Longrightarrow> fold (\<lambda>i bs. bs[i := f i]) [0..<n] bs = map f [0..<n] @ drop n bs"
proof (induction n)
  case (Suc n)
  then obtain d ds where "drop n bs = d # ds" "ds = drop (Suc n) bs"
    by (metis Cons_nth_drop_Suc Suc_le_eq)
  with Suc show ?case by (simp add: list_update_append)
qed simp

lemma hex_pair_at:
  "i < length bs \<Longrightarrow> take 2 (drop (i * 2) (concat (map hex_byte bs))) = hex_byte (bs ! i)"
proof (induction bs arbitrary: i)
  case (Cons b bs)
  then show ?case by (cases i) (simp_all add: hex_byte_def numeral_2_eq_2)
qed simp

lemma length_hex_bytes [simp]: "length (concat (map hex_byte bs)) = length bs * 2"
  by (induction bs) (simp_all add: hex_byte_def)

lemma bytes_from_str_hex:
  assumes "length buf = length key"
  shows "bytes_from_str (concat (map hex_byte key)) buf (length buf) = (0, key)"
proof -
  have "map (\<lambda>i. word_of_int (strtol_16 (take 2 (drop (i * 2) (concat (map hex_byte key))))))
          [0..<length key] = map (\<lambda>i. key ! i) [0..<length key]"
    by (intro map_cong) (simp_all add: hex_pair_at strtol_16_hex_byte)
  then show ?thesis using assms by (simp add: bytes_from_str_def fold_update_upt map_nth)
qed

text \<open>
  Characters that are no digits are not refused: the result is 0 for every string of the right
  length, and a pair that starts with such a character becomes the byte 0.
\<close>

lemma qspi_key_digits_unchecked:
  assumes "length str = n * 2" and "length buf = n"
  shows "fst (bytes_from_str str buf n) = 0"
    and "i < n \<Longrightarrow> hex_digit (str ! (2 * i)) = None \<Longrightarrow> \<not> c_isspace (str ! (2 * i)) \<Longrightarrow>
      str ! (2 * i) \<notin> {CHR ''-'', CHR ''+''} \<Longrightarrow> snd (bytes_from_str str buf n) ! i = 0"
proof -
  show "fst (bytes_from_str str buf n) = 0" using assms by (simp add: bytes_from_str_def)
  assume i: "i < n" and d: "hex_digit (str ! (2 * i)) = None" and sp: "\<not> c_isspace (str ! (2 * i))"
    and sg: "str ! (2 * i) \<notin> {CHR ''-'', CHR ''+''}"
  have "take 2 (drop (i * 2) str) = [str ! (2 * i), str ! (2 * i + 1)]"
    using i assms(1)
    by (simp add: numeral_2_eq_2 take_Suc_conv_app_nth mult.commute)
  then have "strtol_16 (take 2 (drop (i * 2) str)) = 0"
    using d sp sg by (simp add: strtol_16_def)
  then show "snd (bytes_from_str str buf n) ! i = 0"
    using i assms by (simp add: bytes_from_str_def fold_update_upt nth_append)
qed

text \<open>
  The first part of \<open>start_app\<close>: \<open>Some r\<close> when it returns \<open>r\<close>, \<open>None\<close> when it goes on to its
  loop; with the key it gave to the flash driver.
\<close>

definition start_app_key :: "'e station_ops \<Rightarrow> string \<Rightarrow> byte list \<Rightarrow> int option \<times> byte list option" where
  "start_app_key so cfg_key key =
     (if length cfg_key \<noteq> 0 then
        case bytes_from_str cfg_key key (length key) of (ret, key1) \<Rightarrow>
          if ret \<noteq> 0 then (Some 0, None)
          else if qspi_enable_encryption so key1 \<noteq> 0 then (Some 0, Some key1)
          else (None, Some key1)
      else (None, None))"

text \<open>
  C23.  A configured encryption key, written as two hexadecimal digits per byte, is given to the
  flash driver byte for byte, and the application goes on exactly when the driver accepts it; a
  non-empty key string of any other length ends \<open>start_app\<close> with 0 and no key is given to the
  driver.
\<close>

theorem qspi_key_roundtrip:
  assumes "length key = length buf" and "buf \<noteq> []" and "length str \<noteq> 2 * length buf" and "str \<noteq> []"
  shows "start_app_key so (concat (map hex_byte key)) buf =
      ((if qspi_enable_encryption so key = 0 then None else Some 0), Some key) \<and>
    start_app_key so str buf = (Some 0, None)"
  using bytes_from_str_hex [of buf key] assms
  by (auto simp: start_app_key_def bytes_from_str_def [of str] EINVAL_def)

definition sta_ops_example :: "unit station_ops" where
  "sta_ops_example =
     \<lparr>sta_net_if_get_default = (\<lambda>e. Some 1), sta_iface_status = (\<lambda>i e. ((-1, iface_status_zero), e)),
      wifi_state_number = (\<lambda>st. 0), led_is_ready = True, gpio_pin_configure_result = 0,
      qspi_enable_encryption = (\<lambda>key. if length key = 2 then 0 else -1),
      net_if_get_first_wifi = Some 1, register_wifi_ready_callback = (\<lambda>i. 0)\<rparr>"

theorem qspi_key_roundtrip_witness:
  "start_app_key sta_ops_example ''0aff'' [0, 0] = (None, Some [0x0a, 0xff]) \<and>
   start_app_key sta_ops_example ''0af'' [0, 0] = (Some 0, None)"
proof -
  have "concat (map hex_byte [0x0a, 0xff]) = ''0aff''"
    by (simp add: hex_byte_def hex_char_def)
  then show ?thesis
    using qspi_key_roundtrip [of "[0x0a, 0xff]" "[0, 0]" "''0af''" sta_ops_example]
    by (simp add: sta_ops_example_def)
qed

section \<open>Waiting for the Wi-Fi library\<close>

text \<open>
  The semaphore \<open>wifi_ready_state_changed_sem\<close> (initially 0, at most 1), the status
  \<open>wifi_ready_status\<close>, the position of the thread in the loop of \<open>start_app\<close> and whether the
  callback is between its two statements.  Reading and writing are separate actions, so every
  interleaving of the callback with the thread is a list of actions; an action that is not
  possible in a state gives \<open>None\<close>.  \<open>k_sem_take\<close> without a time limit returns 0 with the
  semaphore, or an error when it is reset.
\<close>

datatype app_position = Taking | Checking | Proxy_mode | Returned int

record ready_state =
  sem_count :: nat
  wifi_ready_status :: bool
  app_pos :: app_position
  in_callback :: bool

datatype ready_act = Cb_store bool | Cb_give | App_take | App_take_error int | App_check

definition ready_boot :: ready_state where
  "ready_boot = \<lparr>sem_count = 0, wifi_ready_status = False, app_pos = Taking, in_callback = False\<rparr>"

definition k_sem_give :: "nat \<Rightarrow> nat \<Rightarrow> nat" where
  "k_sem_give limit n = (if n < limit then n + 1 else n)"

fun wifi_ready_step :: "ready_act \<Rightarrow> ready_state \<Rightarrow> ready_state option" where
  "wifi_ready_step (Cb_store b) r =
     (if in_callback r then None else Some (r\<lparr>wifi_ready_status := b, in_callback := True\<rparr>))"
| "wifi_ready_step Cb_give r =
     (if in_callback r then Some (r\<lparr>sem_count := k_sem_give 1 (sem_count r), in_callback := False\<rparr>)
      else None)"
| "wifi_ready_step App_take r =
     (if app_pos r = Taking \<and> 0 < sem_count r
      then Some (r\<lparr>sem_count := sem_count r - 1, app_pos := Checking\<rparr>) else None)"
| "wifi_ready_step (App_take_error ret) r =
     (if app_pos r = Taking \<and> ret \<noteq> 0 then Some (r\<lparr>app_pos := Returned ret\<rparr>) else None)"
| "wifi_ready_step App_check r =
     (if app_pos r = Checking
      then Some (r\<lparr>app_pos := (if wifi_ready_status r then Proxy_mode else Taking)\<rparr>) else None)"

fun ready_run :: "ready_act list \<Rightarrow> ready_state \<Rightarrow> ready_state option" where
  "ready_run [] r = Some r"
| "ready_run (a # as) r = (case wifi_ready_step a r of Some r' \<Rightarrow> ready_run as r' | None \<Rightarrow> None)"

lemma ready_run_append:
  "ready_run (as @ bs) r = (case ready_run as r of Some r' \<Rightarrow> ready_run bs r' | None \<Rightarrow> None)"
  by (induction as r rule: ready_run.induct) (simp_all split: option.splits)

text \<open>
  No wake-up is lost: a waiting thread with the status ready finds the semaphore given, or the
  callback is about to give it.
\<close>

definition no_lost_wakeup :: "ready_state \<Rightarrow> bool" where
  "no_lost_wakeup r \<longleftrightarrow> sem_count r \<le> 1 \<and>
     (app_pos r = Taking \<longrightarrow> wifi_ready_status r \<longrightarrow> 0 < sem_count r \<or> in_callback r)"

lemma no_lost_wakeup_step:
  "wifi_ready_step a r = Some r' \<Longrightarrow> no_lost_wakeup r \<Longrightarrow> no_lost_wakeup r'"
  by (cases a) (auto simp: no_lost_wakeup_def k_sem_give_def split: if_splits)

lemma no_lost_wakeup_run:
  "ready_run as r = Some r' \<Longrightarrow> no_lost_wakeup r \<Longrightarrow> no_lost_wakeup r'"
  by (induction as r rule: ready_run.induct)
    (auto split: option.splits dest: no_lost_wakeup_step)

text \<open>The actions of the thread and the end of a callback, which need no new event.\<close>

definition internal_act :: "ready_act \<Rightarrow> bool" where
  "internal_act a \<longleftrightarrow> a \<in> {Cb_give, App_take, App_check}"

fun ready_potential :: "ready_state \<Rightarrow> nat" where
  "ready_potential r =
     (if in_callback r then 3 else 0) + 2 * sem_count r + (if app_pos r = Checking then 1 else 0)"

lemma ready_potential_decreases:
  "wifi_ready_step a r = Some r' \<Longrightarrow> internal_act a \<Longrightarrow> sem_count r \<le> 1 \<Longrightarrow>
     ready_potential r' < ready_potential r \<and> wifi_ready_status r' = wifi_ready_status r"
  by (auto simp: internal_act_def k_sem_give_def split: if_splits)

lemma internal_run_bounded:
  "ready_run as r = Some r' \<Longrightarrow> list_all internal_act as \<Longrightarrow> no_lost_wakeup r \<Longrightarrow>
     length as + ready_potential r' \<le> ready_potential r \<and> wifi_ready_status r' = wifi_ready_status r"
proof (induction as r rule: ready_run.induct)
  case (2 a as r)
  then obtain r1 where r1: "wifi_ready_step a r = Some r1" "ready_run as r1 = Some r'"
    by (auto split: option.splits)
  moreover have "no_lost_wakeup r1" using r1(1) 2(4) by (rule no_lost_wakeup_step)
  moreover have "ready_potential r1 < ready_potential r \<and> wifi_ready_status r1 = wifi_ready_status r"
    using r1(1) 2(3,4) by (intro ready_potential_decreases) (auto simp: no_lost_wakeup_def)
  ultimately show ?case using 2 by fastforce
qed simp

lemma quiescent_position:
  assumes "no_lost_wakeup r" and "\<forall>a. internal_act a \<longrightarrow> wifi_ready_step a r = None"
    and "wifi_ready_status r" and "\<And>ret. app_pos r \<noteq> Returned ret"
  shows "app_pos r = Proxy_mode"
proof -
  have "\<not> in_callback r" "\<not> (app_pos r = Taking \<and> 0 < sem_count r)" "app_pos r \<noteq> Checking"
    using assms(2) by (auto simp: internal_act_def split: if_splits)
  then show ?thesis using assms(1,3,4) by (cases "app_pos r") (auto simp: no_lost_wakeup_def)
qed

lemma returned_needs_error:
  "ready_run as r = Some r' \<Longrightarrow> app_pos r' = Returned ret \<Longrightarrow>
     app_pos r = Returned ret \<or> App_take_error ret \<in> set as"
proof (induction as r rule: ready_run.induct)
  case (2 a as r)
  then obtain r1 where "wifi_ready_step a r = Some r1" "ready_run as r1 = Some r'"
    by (auto split: option.splits)
  with 2 show ?case by (cases a) (fastforce split: if_splits)+
qed simp

lemma status_needs_store:
  "ready_run as r = Some r' \<Longrightarrow> wifi_ready_status r' \<Longrightarrow> Cb_store True \<in> set as \<or> wifi_ready_status r"
proof (induction as r rule: ready_run.induct)
  case (2 a as r)
  then obtain r1 where "wifi_ready_step a r = Some r1" "ready_run as r1 = Some r'"
    by (auto split: option.splits)
  with 2 show ?case by (cases a) (fastforce split: if_splits)+
qed simp

lemma ready_run_snoc:
  "ready_run (as @ [a]) r = Some r' \<longleftrightarrow> (\<exists>r1. ready_run as r = Some r1 \<and> wifi_ready_step a r1 = Some r')"
  by (auto simp: ready_run_append split: option.splits)

text \<open>The way into proxy mode is the check, and only with the status ready.\<close>

lemma enters_proxy_mode:
  "wifi_ready_step a r = Some r' \<Longrightarrow> app_pos r' = Proxy_mode \<Longrightarrow>
     app_pos r = Proxy_mode \<or> a = App_check \<and> wifi_ready_status r"
  by (cases a) (auto split: if_splits)

lemma proxy_mode_checked:
  "ready_run as ready_boot = Some r \<Longrightarrow> app_pos r = Proxy_mode \<Longrightarrow>
     \<exists>pre post r0. as = pre @ App_check # post \<and> ready_run pre ready_boot = Some r0 \<and> wifi_ready_status r0"
proof (induction as arbitrary: r rule: rev_induct)
  case Nil
  then show ?case by (auto simp: ready_boot_def)
next
  case (snoc a as)
  then obtain r1 where r1: "ready_run as ready_boot = Some r1" "wifi_ready_step a r1 = Some r"
    by (auto simp: ready_run_snoc)
  from enters_proxy_mode [OF r1(2) snoc.prems(2)] show ?case
  proof
    assume "app_pos r1 = Proxy_mode"
    from snoc.IH [OF r1(1) this] show ?thesis by fastforce
  next
    assume "a = App_check \<and> wifi_ready_status r1"
    with r1(1) show ?thesis by (intro exI [of _ as] exI [of _ "[]"] exI [of _ r1]) simp
  qed
qed

text \<open>
  C20.  Whatever the order in which the ready callbacks and the application's thread have run: the
  application is in proxy mode only when its check has found the status ready, which some callback
  had reported before.  And when the semaphore was not reset and the last reported status is
  ready, at most six further actions of the thread and the running callback are possible without a
  new event, and when none is left the application is in proxy mode.
\<close>

theorem ready_reaches_proxy_mode:
  assumes "ready_run as ready_boot = Some r"
  shows "(app_pos r = Proxy_mode \<longrightarrow>
      (\<exists>pre post r0. as = pre @ App_check # post \<and> ready_run pre ready_boot = Some r0 \<and>
         wifi_ready_status r0 \<and> Cb_store True \<in> set pre)) \<and>
    ((\<forall>ret. App_take_error ret \<notin> set as) \<and> wifi_ready_status r \<longrightarrow>
      (\<forall>bs r'. ready_run bs r = Some r' \<and> list_all internal_act bs \<longrightarrow> length bs \<le> 6 \<and>
         ((\<forall>a. internal_act a \<longrightarrow> wifi_ready_step a r' = None) \<longrightarrow> app_pos r' = Proxy_mode)))"
proof (intro conjI impI allI)
  assume "app_pos r = Proxy_mode"
  then obtain pre post r0 where pre: "as = pre @ App_check # post" "ready_run pre ready_boot = Some r0"
    "wifi_ready_status r0"
    using proxy_mode_checked [OF assms] by blast
  moreover have "Cb_store True \<in> set pre"
    using status_needs_store [OF pre(2,3)] by (simp add: ready_boot_def)
  ultimately show "\<exists>pre post r0. as = pre @ App_check # post \<and> ready_run pre ready_boot = Some r0 \<and>
      wifi_ready_status r0 \<and> Cb_store True \<in> set pre" by blast
next
  fix bs r'
  assume ok: "(\<forall>ret. App_take_error ret \<notin> set as) \<and> wifi_ready_status r"
    and bs: "ready_run bs r = Some r' \<and> list_all internal_act bs"
  have inv: "no_lost_wakeup r"
    by (rule no_lost_wakeup_run [OF assms]) (simp add: no_lost_wakeup_def ready_boot_def)
  have bound: "length bs + ready_potential r' \<le> ready_potential r" "wifi_ready_status r'"
    using internal_run_bounded [OF _ _ inv] ok bs by auto
  have "ready_potential r \<le> 6" using inv by (simp add: no_lost_wakeup_def)
  with bound(1) show "length bs \<le> 6" by (simp del: ready_potential.simps)
  assume quiet: "\<forall>a. internal_act a \<longrightarrow> wifi_ready_step a r' = None"
  have "App_take_error ret \<notin> set bs" for ret
    using bs by (auto simp: list_all_iff internal_act_def)
  then have "app_pos r' \<noteq> Returned ret" for ret
    using returned_needs_error [of "as @ bs" ready_boot r' ret] assms ok bs
    by (auto simp: ready_run_append ready_boot_def)
  then show "app_pos r' = Proxy_mode"
    using quiescent_position [OF no_lost_wakeup_run [OF _ inv] quiet bound(2)] bs by blast
qed

theorem ready_reaches_proxy_mode_witness:
  "\<exists>r r'. ready_run [Cb_store False, Cb_give, App_take, App_check, Cb_store True] ready_boot = Some r \<and>
     ready_run [Cb_give, App_take, App_check] r = Some r' \<and> app_pos r' = Proxy_mode"
proof -
  define r where "r = \<lparr>sem_count = 0, wifi_ready_status = True, app_pos = Taking, in_callback = True\<rparr>"
  define r' where
    "r' = \<lparr>sem_count = 0, wifi_ready_status = True, app_pos = Proxy_mode, in_callback = False\<rparr>"
  have as: "ready_run [Cb_store False, Cb_give, App_take, App_check, Cb_store True] ready_boot = Some r"
    by (simp add: ready_boot_def r_def k_sem_give_def)
  have bs: "ready_run [Cb_give, App_take, App_check] r = Some r'"
    by (simp add: r_def r'_def k_sem_give_def)
  have quiet: "\<forall>a. internal_act a \<longrightarrow> wifi_ready_step a r' = None"
    by (auto simp: internal_act_def r'_def)
  have "\<forall>ret. App_take_error ret \<notin> set [Cb_store False, Cb_give, App_take, App_check, Cb_store True]"
    and "wifi_ready_status r" and "list_all internal_act [Cb_give, App_take, App_check]"
    by (simp_all add: r_def internal_act_def)
  with ready_reaches_proxy_mode [OF as] bs quiet have "app_pos r' = Proxy_mode" by blast
  then show ?thesis using as bs by blast
qed

section \<open>Start-up\<close>

text \<open>
  \<open>main\<close> with the Wi-Fi ready library: the result, whether the thread of \<open>start_app\<close> was started,
  and the state.  The twelve log lines, one second apart, before it are not modelled.
\<close>

definition register_wifi_ready :: "'e station_ops \<Rightarrow> int" where
  "register_wifi_ready so =
     (case net_if_get_first_wifi so of
        None \<Rightarrow> -1
      | Some iface \<Rightarrow> register_wifi_ready_callback so iface)"

definition station_main :: "'e station_ops \<Rightarrow> 'e station \<Rightarrow> int \<times> bool \<times> 'e station" where
  "station_main so s =
     (let s1 = net_mgmt_callback_init s; ret = register_wifi_ready so in
      if ret \<noteq> 0 then (ret, False, s1) else (ret, True, s1))"

lemma station_main_starts:
  "fst (snd (station_main so s)) \<longleftrightarrow>
     (\<exists>iface. net_if_get_first_wifi so = Some iface \<and> register_wifi_ready_callback so iface = 0)"
  "fst (snd (station_main so s)) \<longleftrightarrow> fst (station_main so s) = 0"
  by (auto simp: station_main_def register_wifi_ready_def Let_def split: option.splits)

end
