(* ===== verification/Host_App.thy ===== *)
theory Host_App
  imports Host_Wifi
begin

text \<open>
  \<open>host/src/main.c\<close> and \<open>host/src/e2e_test.c\<close>: the application on the host.  It opens the bus and
  starts two threads: one brings the virtual Wi-Fi interface up, scans, connects and waits for an
  address, the other scans for Bluetooth devices.

  The network stack and the Bluetooth stack are the record \<open>e2e_ops\<close>.  What the stack reports
  while the Wi-Fi thread is in a call or waits for a semaphore is a script: events, each with the
  interface it came from, and \<open>Resume\<close>, which ends a call or is the time-out of a wait.
\<close>

section \<open>State and outside code\<close>

datatype e2e_event =
    E_scan_result "wifi_scan_result option"
  | E_scan_done
  | E_connect_result "int option"
  | E_dhcp_bound
  | E_other nat

datatype e2e_sem = Scan_done_sem | Connect_sem | Dhcp_sem

datatype e2e_log =
    Scan_line int wifi_security_type "byte list"
  | Dhcp_line string string
  | Bt_device "byte list" int
  | Bt_scan_failed int
  | Bt_scan_done int

datatype e2e_item = Ev e2e_event "nat option" | Resume

record 'e e2e_ops =
  e2e_ipv4_config :: "nat option \<Rightarrow> 'e \<Rightarrow> (byte list \<times> byte list) option"
  e2e_net_if_get_by_index :: "nat \<Rightarrow> 'e \<Rightarrow> nat option"
  e2e_net_if_up :: "nat \<Rightarrow> 'e \<Rightarrow> 'e"
  e2e_wifi_scan :: "nat \<Rightarrow> 'e \<Rightarrow> int \<times> 'e"
  e2e_wifi_connect :: "nat \<Rightarrow> wifi_connect_req_params \<Rightarrow> 'e \<Rightarrow> int \<times> 'e"
  bt_le_scan_start :: "'e \<Rightarrow> int \<times> 'e"
  bt_le_scan_stop :: "'e \<Rightarrow> 'e"
  CONFIG_HOST_TEST_WIFI_SSID :: "byte list"
  CONFIG_HOST_TEST_WIFI_PSK :: "byte list"
  E2E_WIFI_CHANNEL_ANY :: byte

record 'e e2e =
  wifi_iface :: "nat option"
  sems :: "e2e_sem \<Rightarrow> nat"
  connect_status :: int
  bt_found_count :: int
  e2e_log :: "e2e_log list"
  e2e_env :: 'e

definition e2e_boot :: "'e \<Rightarrow> 'e e2e" where
  "e2e_boot e =
     \<lparr>wifi_iface = None, sems = (\<lambda>_. 0), connect_status = -1, bt_found_count = 0, e2e_log = [],
      e2e_env = e\<rparr>"

definition sem_give :: "e2e_sem \<Rightarrow> 'e e2e \<Rightarrow> 'e e2e" where
  "sem_give q s = s\<lparr>sems := (sems s)(q := min 1 (sems s q + 1))\<rparr>"

definition e2e_log_line :: "e2e_log \<Rightarrow> 'e e2e \<Rightarrow> 'e e2e" where
  "e2e_log_line l s = s\<lparr>e2e_log := e2e_log s @ [l]\<rparr>"

section \<open>Events\<close>

text \<open>\<open>snprintf\<close> into a buffer of \<open>sz\<close> bytes keeps the first \<open>sz - 1\<close> characters.\<close>

definition sprint_ipv4 :: "byte list \<Rightarrow> nat \<Rightarrow> string" where
  "sprint_ipv4 addr sz =
     take (sz - 1)
       (dec_digits (unat (addr ! 0)) @ ''.'' @ dec_digits (unat (addr ! 1)) @ ''.'' @
        dec_digits (unat (addr ! 2)) @ ''.'' @ dec_digits (unat (addr ! 3)))"

definition WIFI_SSID_MAX_LEN :: nat where "WIFI_SSID_MAX_LEN = 32"

fun net_mgmt_handler :: "'e e2e_ops \<Rightarrow> e2e_event \<Rightarrow> nat option \<Rightarrow> 'e e2e \<Rightarrow> 'e e2e" where
  "net_mgmt_handler eo ev iface s =
     (if iface \<noteq> None \<and> iface \<noteq> wifi_iface s then s
      else (case ev of
          E_scan_result None \<Rightarrow> s
        | E_scan_result (Some res) \<Rightarrow>
            let len = zc_ssid_length res;
                len' = (if WIFI_SSID_MAX_LEN < len then WIFI_SSID_MAX_LEN else len)
            in e2e_log_line (Scan_line (zc_rssi res) (zc_security res) (take len' (zc_ssid res))) s
        | E_scan_done \<Rightarrow> sem_give Scan_done_sem s
        | E_connect_result status \<Rightarrow>
            sem_give Connect_sem
              (s\<lparr>connect_status := (case status of Some st \<Rightarrow> st | None \<Rightarrow> -1)\<rparr>)
        | E_dhcp_bound \<Rightarrow>
            (case e2e_ipv4_config eo (wifi_iface s) (e2e_env s) of
               Some (addr, gw) \<Rightarrow>
                 sem_give Dhcp_sem (e2e_log_line (Dhcp_line (sprint_ipv4 addr 16) (sprint_ipv4 gw 16)) s)
             | None \<Rightarrow> sem_give Dhcp_sem (e2e_log_line (Dhcp_line ''0.0.0.0'' ''0.0.0.0'') s))
        | E_other n \<Rightarrow> s))"

declare net_mgmt_handler.simps [simp del]

section \<open>Calls and waits\<close>

fun deliver :: "'e e2e_ops \<Rightarrow> e2e_item list \<Rightarrow> 'e e2e \<Rightarrow> e2e_item list \<times> 'e e2e" where
  "deliver eo [] s = ([], s)"
| "deliver eo (Resume # sc) s = (sc, s)"
| "deliver eo (Ev ev i # sc) s = deliver eo sc (net_mgmt_handler eo ev i s)"

fun e2e_sem_take :: "'e e2e_ops \<Rightarrow> e2e_sem \<Rightarrow> e2e_item list \<Rightarrow> 'e e2e \<Rightarrow> int \<times> e2e_item list \<times> 'e e2e" where
  "e2e_sem_take eo q sc s =
     (if 0 < sems s q then (0, sc, s\<lparr>sems := (sems s)(q := sems s q - 1)\<rparr>)
      else (case sc of
          [] \<Rightarrow> (- EAGAIN, [], s)
        | Resume # sc' \<Rightarrow> (- EAGAIN, sc', s)
        | Ev ev i # sc' \<Rightarrow> e2e_sem_take eo q sc' (net_mgmt_handler eo ev i s)))"

lemma e2e_sem_take_cases:
  "0 < sems s q \<Longrightarrow> e2e_sem_take eo q sc s = (0, sc, s\<lparr>sems := (sems s)(q := sems s q - 1)\<rparr>)"
  "sems s q = 0 \<Longrightarrow> e2e_sem_take eo q [] s = (- EAGAIN, [], s)"
  "sems s q = 0 \<Longrightarrow> e2e_sem_take eo q (Resume # sc) s = (- EAGAIN, sc, s)"
  "sems s q = 0 \<Longrightarrow> e2e_sem_take eo q (Ev ev i # sc) s
     = e2e_sem_take eo q sc (net_mgmt_handler eo ev i s)"
  by simp_all

declare e2e_sem_take.simps [simp del]

section \<open>The Wi-Fi thread\<close>

datatype e2e_result =
    E2e_skipped
  | E2e_no_interface
  | E2e_connect_start_failed int
  | E2e_connect_failed int
  | E2e_dhcp_timeout
  | E2e_ok

definition e2e_connect_params :: "'e e2e_ops \<Rightarrow> wifi_connect_req_params" where
  "e2e_connect_params eo = connect_params_zero
     \<lparr>cp_ssid := CONFIG_HOST_TEST_WIFI_SSID eo, cp_psk := Some (CONFIG_HOST_TEST_WIFI_PSK eo),
      cp_security := WIFI_SECURITY_TYPE_PSK, cp_channel := E2E_WIFI_CHANNEL_ANY eo,
      cp_band := WIFI_FREQ_BAND_2_4_GHZ\<rparr>"

definition e2e_scan_phase :: "'e e2e_ops \<Rightarrow> nat \<Rightarrow> e2e_item list \<Rightarrow> 'e e2e \<Rightarrow> e2e_item list \<times> 'e e2e" where
  "e2e_scan_phase eo iface sc s =
     (case e2e_wifi_scan eo iface (e2e_env s) of (rc, e1) \<Rightarrow>
      case deliver eo sc (s\<lparr>e2e_env := e1\<rparr>) of (sc1, s1) \<Rightarrow>
        if rc \<noteq> 0 then (sc1, s1) else snd (e2e_sem_take eo Scan_done_sem sc1 s1))"

definition e2e_connect_phase ::
  "'e e2e_ops \<Rightarrow> nat \<Rightarrow> e2e_item list \<Rightarrow> 'e e2e \<Rightarrow> e2e_result \<times> e2e_item list \<times> 'e e2e" where
  "e2e_connect_phase eo iface sc s =
     (case e2e_wifi_connect eo iface (e2e_connect_params eo) (e2e_env s) of (rc, e1) \<Rightarrow>
      case deliver eo sc (s\<lparr>e2e_env := e1\<rparr>) of (sc1, s1) \<Rightarrow>
        if rc \<noteq> 0 then (E2e_connect_start_failed rc, sc1, s1)
        else (case e2e_sem_take eo Connect_sem sc1 s1 of (r, sc2, s2) \<Rightarrow>
          if r \<noteq> 0 \<or> connect_status s2 \<noteq> 0 then (E2e_connect_failed (connect_status s2), sc2, s2)
          else (case e2e_sem_take eo Dhcp_sem sc2 s2 of (r', sc3, s3) \<Rightarrow>
            if r' \<noteq> 0 then (E2e_dhcp_timeout, sc3, s3) else (E2e_ok, sc3, s3))))"

definition VIRT_WIFI_IFACE_INDEX :: nat where "VIRT_WIFI_IFACE_INDEX = 1"

definition wifi_e2e_thread ::
  "'e e2e_ops \<Rightarrow> e2e_item list \<Rightarrow> 'e e2e \<Rightarrow> e2e_result \<times> e2e_item list \<times> 'e e2e" where
  "wifi_e2e_thread eo sc s =
     (if CONFIG_HOST_TEST_WIFI_SSID eo = [] then (E2e_skipped, sc, s)
      else
        let s1 = s\<lparr>wifi_iface := e2e_net_if_get_by_index eo VIRT_WIFI_IFACE_INDEX (e2e_env s)\<rparr> in
        case wifi_iface s1 of
          None \<Rightarrow> (E2e_no_interface, sc, s1)
        | Some iface \<Rightarrow>
            let s2 = s1\<lparr>e2e_env := e2e_net_if_up eo iface (e2e_env s1)\<rparr> in
            case e2e_scan_phase eo iface sc s2 of (sc3, s3) \<Rightarrow> e2e_connect_phase eo iface sc3 s3)"

section \<open>The Bluetooth thread\<close>

text \<open>One round of its loop, with the advertisements that arrive during the scan window.\<close>

definition bt_adv_cb :: "byte list \<Rightarrow> int \<Rightarrow> 'e e2e \<Rightarrow> 'e e2e" where
  "bt_adv_cb addr rssi s = e2e_log_line (Bt_device addr rssi) (s\<lparr>bt_found_count := bt_found_count s + 1\<rparr>)"

definition bt_e2e_round :: "'e e2e_ops \<Rightarrow> (byte list \<times> int) list \<Rightarrow> 'e e2e \<Rightarrow> 'e e2e" where
  "bt_e2e_round eo advs s =
     (let s0 = s\<lparr>bt_found_count := 0\<rparr> in
      case bt_le_scan_start eo (e2e_env s0) of (rc, e1) \<Rightarrow>
        let s1 = s0\<lparr>e2e_env := e1\<rparr> in
        if rc \<noteq> 0 then e2e_log_line (Bt_scan_failed rc) s1
        else
          let s2 = fold (\<lambda>(addr, rssi). bt_adv_cb addr rssi) advs s1;
              s3 = s2\<lparr>e2e_env := bt_le_scan_stop eo (e2e_env s2)\<rparr>
          in e2e_log_line (Bt_scan_done (bt_found_count s3)) s3)"

section \<open>The entry point\<close>

text \<open>\<open>main\<close>: its result, the type mask it logs, and whether the test threads are started.\<close>

definition host_main ::
  "'w uart_ops \<Rightarrow> dev option \<Rightarrow> bool \<Rightarrow> 'w script \<Rightarrow> ('w, 'h) host
     \<Rightarrow> ((int \<times> u16 option \<times> bool) \<times> 'w script \<times> ('w, 'h) host) option" where
  "host_main os chosen test_enabled sc b =
     (case bus_open os chosen sc b of
        None \<Rightarrow> None
      | Some (rc, sc1, b1) \<Rightarrow>
          Some ((0, (if rc \<noteq> 0 then None else Some (bus_supported_types b1)), test_enabled), sc1, b1))"

section \<open>What the threads report\<close>

text \<open>An address never needs more than the 15 characters its buffer has room for.\<close>

lemma length_dec_digits_byte: "length (dec_digits (unat (b :: byte))) \<le> 3"
proof -
  have "unat b < 256" using unsigned_less [where w = b and ?'a = nat] by simp
  then have "unat b div 10 div 10 < 10" by simp
  then show ?thesis
    by (subst dec_digits.simps, simp, subst dec_digits.simps, simp, subst dec_digits.simps, simp)
qed

lemma sprint_ipv4_complete:
  "sprint_ipv4 addr 16 =
     dec_digits (unat (addr ! 0)) @ ''.'' @ dec_digits (unat (addr ! 1)) @ ''.'' @
     dec_digits (unat (addr ! 2)) @ ''.'' @ dec_digits (unat (addr ! 3))"
  using length_dec_digits_byte [of "addr ! 0"] length_dec_digits_byte [of "addr ! 1"]
    length_dec_digits_byte [of "addr ! 2"] length_dec_digits_byte [of "addr ! 3"]
  unfolding sprint_ipv4_def by (intro take_all) simp

lemma bt_adv_cb_count:
  "bt_found_count (fold (\<lambda>(addr, rssi). bt_adv_cb addr rssi) advs s)
     = bt_found_count s + int (length advs)"
  by (induction advs arbitrary: s) (simp_all add: bt_adv_cb_def e2e_log_line_def split: prod.splits)

lemma bt_e2e_round_reports_count:
  "fst (bt_le_scan_start eo (e2e_env s)) = 0 \<Longrightarrow>
     last (e2e_log (bt_e2e_round eo advs s)) = Bt_scan_done (int (length advs))"
  by (simp add: bt_e2e_round_def Let_def e2e_log_line_def bt_adv_cb_count split: prod.splits)
    auto

text \<open>
  The events a script can deliver account for the state: a successful connect status and a given
  semaphore come from an event of the script, on the thread's interface or on none.
\<close>

definition from_script :: "e2e_item list \<Rightarrow> nat option \<Rightarrow> 'e e2e \<Rightarrow> bool" where
  "from_script sc0 w s \<longleftrightarrow> wifi_iface s = w \<and>
     (connect_status s = 0 \<longrightarrow> (\<exists>i. Ev (E_connect_result (Some 0)) i \<in> set sc0 \<and> (i = None \<or> i = w))) \<and>
     (0 < sems s Dhcp_sem \<longrightarrow> (\<exists>i. Ev E_dhcp_bound i \<in> set sc0 \<and> (i = None \<or> i = w)))"

lemma from_script_handler:
  "from_script sc0 w s \<Longrightarrow> Ev ev i \<in> set sc0 \<Longrightarrow> from_script sc0 w (net_mgmt_handler eo ev i s)"
  by (auto simp: from_script_def net_mgmt_handler.simps Let_def sem_give_def e2e_log_line_def
      split: e2e_event.splits option.splits)

lemma from_script_env: "from_script sc0 w s \<Longrightarrow> from_script sc0 w (s\<lparr>e2e_env := e\<rparr>)"
  by (simp add: from_script_def)

lemma from_script_deliver:
  "deliver eo sc s = (sc', s') \<Longrightarrow> set sc \<subseteq> set sc0 \<Longrightarrow> from_script sc0 w s \<Longrightarrow>
     set sc' \<subseteq> set sc0 \<and> from_script sc0 w s'"
  by (induction eo sc s rule: deliver.induct) (auto intro: from_script_handler)

lemma from_script_take:
  "e2e_sem_take eo q sc s = (r, sc', s') \<Longrightarrow> set sc \<subseteq> set sc0 \<Longrightarrow> from_script sc0 w s \<Longrightarrow>
     set sc' \<subseteq> set sc0 \<and> from_script sc0 w s' \<and>
     (r = 0 \<longrightarrow> q = Dhcp_sem \<longrightarrow> (\<exists>i. Ev E_dhcp_bound i \<in> set sc0 \<and> (i = None \<or> i = w)))"
proof (induction sc arbitrary: s)
  case Nil
  then show ?case
    by (cases "0 < sems s q") (auto simp: from_script_def EAGAIN_def e2e_sem_take_cases split: if_splits)
next
  case (Cons it sc)
  show ?case
  proof (cases "0 < sems s q")
    case True
    with Cons.prems show ?thesis by (auto simp: from_script_def e2e_sem_take_cases split: if_splits)
  next
    case False
    show ?thesis
    proof (cases it)
      case (Ev ev i)
      then have "from_script sc0 w (net_mgmt_handler eo ev i s)"
        using Cons.prems by (intro from_script_handler) auto
      moreover have "e2e_sem_take eo q sc (net_mgmt_handler eo ev i s) = (r, sc', s')"
        using Cons.prems(1) False Ev by (simp add: e2e_sem_take_cases)
      moreover have "set sc \<subseteq> set sc0" using Cons.prems(2) by simp
      ultimately show ?thesis by (intro Cons.IH)
    next
      case Resume
      with Cons.prems False show ?thesis by (auto simp: e2e_sem_take_cases EAGAIN_def)
    qed
  qed
qed

lemma from_script_scan_phase:
  assumes "e2e_scan_phase eo iface sc s = (sc', s')" and "set sc \<subseteq> set sc0" and "from_script sc0 w s"
  shows "set sc' \<subseteq> set sc0 \<and> from_script sc0 w s'"
proof -
  obtain rc e1 where scan: "e2e_wifi_scan eo iface (e2e_env s) = (rc, e1)" by (metis prod.exhaust)
  obtain sc1 s1 where d: "deliver eo sc (s\<lparr>e2e_env := e1\<rparr>) = (sc1, s1)" by (metis prod.exhaust)
  obtain r sc2 s2 where t: "e2e_sem_take eo Scan_done_sem sc1 s1 = (r, sc2, s2)" by (metis prod.exhaust)
  have 1: "set sc1 \<subseteq> set sc0 \<and> from_script sc0 w s1"
    by (rule from_script_deliver [OF d assms(2) from_script_env [OF assms(3)]])
  then have "set sc2 \<subseteq> set sc0 \<and> from_script sc0 w s2" using from_script_take [OF t] by blast
  with 1 assms(1) show ?thesis by (auto simp: e2e_scan_phase_def scan d t split: if_splits)
qed

lemma connect_phase_ok_events:
  assumes "e2e_connect_phase eo iface sc s = (E2e_ok, rest)" and "set sc \<subseteq> set sc0"
    and "from_script sc0 w s"
  shows "fst (e2e_wifi_connect eo iface (e2e_connect_params eo) (e2e_env s)) = 0"
    and "\<exists>i. Ev (E_connect_result (Some 0)) i \<in> set sc0 \<and> (i = None \<or> i = w)"
    and "\<exists>i. Ev E_dhcp_bound i \<in> set sc0 \<and> (i = None \<or> i = w)"
proof -
  obtain rc e1 where c: "e2e_wifi_connect eo iface (e2e_connect_params eo) (e2e_env s) = (rc, e1)"
    by (metis prod.exhaust)
  obtain sc1 s1 where d: "deliver eo sc (s\<lparr>e2e_env := e1\<rparr>) = (sc1, s1)" by (metis prod.exhaust)
  obtain r sc2 s2 where t: "e2e_sem_take eo Connect_sem sc1 s1 = (r, sc2, s2)" by (metis prod.exhaust)
  obtain r' sc3 s3 where u: "e2e_sem_take eo Dhcp_sem sc2 s2 = (r', sc3, s3)" by (metis prod.exhaust)
  have ok: "rc = 0" "r = 0" "connect_status s2 = 0" "r' = 0"
    using assms(1) by (auto simp: e2e_connect_phase_def c d t u split: if_splits)
  have "set sc1 \<subseteq> set sc0 \<and> from_script sc0 w s1"
    by (rule from_script_deliver [OF d assms(2) from_script_env [OF assms(3)]])
  then have 2: "set sc2 \<subseteq> set sc0" "from_script sc0 w s2" using from_script_take [OF t] by blast+
  show "\<exists>i. Ev E_dhcp_bound i \<in> set sc0 \<and> (i = None \<or> i = w)"
    using from_script_take [OF u 2] ok by blast
  show "\<exists>i. Ev (E_connect_result (Some 0)) i \<in> set sc0 \<and> (i = None \<or> i = w)"
    using 2 ok by (simp add: from_script_def)
  show "fst (e2e_wifi_connect eo iface (e2e_connect_params eo) (e2e_env s)) = 0" using c ok by simp
qed

lemma e2e_ok_phases:
  assumes "wifi_e2e_thread eo sc (e2e_boot e) = (E2e_ok, rest)"
  obtains iface sc3 s3 where
    "e2e_net_if_get_by_index eo VIRT_WIFI_IFACE_INDEX e = Some iface"
    "set sc3 \<subseteq> set sc" "from_script sc (Some iface) s3"
    "e2e_connect_phase eo iface sc3 s3 = (E2e_ok, rest)"
proof -
  obtain iface where i: "e2e_net_if_get_by_index eo VIRT_WIFI_IFACE_INDEX e = Some iface"
    using assms by (auto simp: wifi_e2e_thread_def e2e_boot_def Let_def split: if_splits option.splits)
  let ?s2 = "(e2e_boot e)\<lparr>wifi_iface := Some iface, e2e_env := e2e_net_if_up eo iface e\<rparr>"
  obtain sc3 s3 where p: "e2e_scan_phase eo iface sc ?s2 = (sc3, s3)" by (metis prod.exhaust)
  have "from_script sc (Some iface) ?s2" by (simp add: from_script_def e2e_boot_def)
  then have "set sc3 \<subseteq> set sc \<and> from_script sc (Some iface) s3"
    using from_script_scan_phase [OF p subset_refl] by blast
  moreover have "e2e_connect_phase eo iface sc3 s3 = (E2e_ok, rest)"
    using assms p i by (auto simp: wifi_e2e_thread_def e2e_boot_def Let_def split: if_splits)
  ultimately show ?thesis using i that by blast
qed

text \<open>
  C22.  The host's Wi-Fi test reports success only when the stack has delivered, on the virtual
  Wi-Fi interface or without an interface, a connect result with status 0 and an address from the
  DHCP server, and a network name is configured; whatever else is in the script.
\<close>

theorem e2e_ok_sound:
  assumes "wifi_e2e_thread eo sc (e2e_boot e) = (E2e_ok, rest)"
  shows "CONFIG_HOST_TEST_WIFI_SSID eo \<noteq> [] \<and>
    (\<exists>iface i j. e2e_net_if_get_by_index eo VIRT_WIFI_IFACE_INDEX e = Some iface \<and>
       Ev (E_connect_result (Some 0)) i \<in> set sc \<and> i \<in> {None, Some iface} \<and>
       Ev E_dhcp_bound j \<in> set sc \<and> j \<in> {None, Some iface})"
proof -
  obtain iface sc3 s3 where i: "e2e_net_if_get_by_index eo VIRT_WIFI_IFACE_INDEX e = Some iface"
    and p: "set sc3 \<subseteq> set sc" "from_script sc (Some iface) s3"
      "e2e_connect_phase eo iface sc3 s3 = (E2e_ok, rest)"
    using e2e_ok_phases [OF assms] by blast
  have "CONFIG_HOST_TEST_WIFI_SSID eo \<noteq> []"
    using assms by (auto simp: wifi_e2e_thread_def)
  then show ?thesis using connect_phase_ok_events(2,3) [OF p(3,1,2)] i by fast
qed

definition e2e_ops_example :: "unit e2e_ops" where
  "e2e_ops_example =
     \<lparr>e2e_ipv4_config = (\<lambda>i e. Some ([192, 168, 1, 7], [192, 168, 1, 1])),
      e2e_net_if_get_by_index = (\<lambda>n e. Some n), e2e_net_if_up = (\<lambda>i e. e),
      e2e_wifi_scan = (\<lambda>i e. (0, e)), e2e_wifi_connect = (\<lambda>i p e. (0, e)),
      bt_le_scan_start = (\<lambda>e. (0, e)), bt_le_scan_stop = (\<lambda>e. e),
      CONFIG_HOST_TEST_WIFI_SSID = [0x61], CONFIG_HOST_TEST_WIFI_PSK = [0x62],
      E2E_WIFI_CHANNEL_ANY = 255\<rparr>"

definition e2e_script_example :: "e2e_item list" where
  "e2e_script_example =
     [Resume, Ev E_scan_done (Some 1), Resume, Ev (E_connect_result (Some 0)) (Some 1),
      Ev E_dhcp_bound (Some 1)]"

theorem e2e_ok_sound_witness:
  "fst (wifi_e2e_thread e2e_ops_example e2e_script_example (e2e_boot ())) = E2e_ok \<and>
   (\<exists>iface. e2e_net_if_get_by_index e2e_ops_example VIRT_WIFI_IFACE_INDEX () = Some iface)"
proof -
  have ok: "fst (wifi_e2e_thread e2e_ops_example e2e_script_example (e2e_boot ())) = E2e_ok"
    by (simp add: wifi_e2e_thread_def e2e_ops_example_def e2e_script_example_def e2e_boot_def
        e2e_scan_phase_def e2e_connect_phase_def e2e_sem_take_cases net_mgmt_handler.simps
        sem_give_def e2e_log_line_def VIRT_WIFI_IFACE_INDEX_def)
  then obtain rest where
    "wifi_e2e_thread e2e_ops_example e2e_script_example (e2e_boot ()) = (E2e_ok, rest)"
    by (metis prod.collapse)
  from e2e_ok_sound [OF this] ok show ?thesis by blast
qed

end
