(* ===== verification/Link_Events.thy ===== *)
theory Link_Events
  imports Host_Wifi_Service Host_App
begin

text \<open>
  The notifications that cross the link: which of the events that the host's driver can raise the
  device ever sends.
\<close>

fun link_state_event :: "WifiEvent_data \<Rightarrow> bool" where
  "link_state_event (Connect_result_event status) = True"
| "link_state_event (Disconnect_result_event by_user reason) = True"
| "link_state_event (Interface_status_event s) = True"
| "link_state_event _ = False"

text \<open>A device whose encoder may treat the link state events in any way.\<close>

abbreviation with_encoder ::
  "(nat \<Rightarrow> WifiMgmtNotification \<Rightarrow> byte list option) \<Rightarrow> 'e wifi_world \<Rightarrow> 'e wifi_world" where
  "with_encoder enc ww \<equiv> ww\<lparr>ww_ops := (ww_ops ww)\<lparr>WifiMgmtNotification_encode := enc\<rparr>\<rparr>"

lemma send_notification_encoder:
  assumes "\<And>n m. \<not> link_state_event (ev_data m) \<Longrightarrow> enc n m = WifiMgmtNotification_encode (ww_ops ww) n m"
    and "\<not> link_state_event (ev_data m)"
  shows "send_notification os kc (with_encoder enc ww) m s = send_notification os kc ww m s"
  using assms by (simp add: send_notification_def)

lemma event_iface_index_encoder [simp]:
  "event_iface_index (with_encoder enc ww) iface e = event_iface_index ww iface e"
  by (simp add: event_iface_index_def split: option.splits)

lemma handle_wifi_scan_result_encoder [simp]:
  "handle_wifi_scan_result (with_encoder enc ww) entry v = handle_wifi_scan_result ww entry v"
  by (simp add: handle_wifi_scan_result_def)

lemma notifications_encoder:
  assumes "\<And>n m. \<not> link_state_event (ev_data m) \<Longrightarrow> enc n m = WifiMgmtNotification_encode (ww_ops ww) n m"
  shows "wifi_mgmt_net_event_handler os kc (with_encoder enc ww) ev iface (v, s)
      = wifi_mgmt_net_event_handler os kc ww ev iface (v, s)"
    and "raw_rx_notify_cb os kc (with_encoder enc ww) iface frame s = raw_rx_notify_cb os kc ww iface frame s"
proof -
  note send = send_notification_encoder [OF assms]
  show "wifi_mgmt_net_event_handler os kc (with_encoder enc ww) ev iface (v, s)
      = wifi_mgmt_net_event_handler os kc ww ev iface (v, s)"
    by (cases ev)
      (simp_all add: send_scan_done_notification_def scan_done_notification_def send
        send_ap_result_notification_def send_ap_sta_notification_def split: option.splits)
  show "raw_rx_notify_cb os kc (with_encoder enc ww) iface frame s = raw_rx_notify_cb os kc ww iface frame s"
    by (simp add: raw_rx_notify_cb_def send)
qed

lemma virt_wifi_netif_raise [simp]:
  "virt_wifi_netif (ho\<lparr>wifi_mgmt_raise_connect_result_event := f,
      wifi_mgmt_raise_disconnect_result_event := g, wifi_mgmt_raise_iface_status_event := h\<rparr>) e
    = virt_wifi_netif ho e"
  by (simp add: virt_wifi_netif_def split: option.splits)

text \<open>
  C34.  The device never tells the host about the state of its Wi-Fi connection: for every event of
  its network stack, connect and disconnect results included, and every captured frame, what it
  does is the same whatever its encoder makes of connect results, disconnect results and interface states.
  And any other notification leaves these events of the host's network stack unraised: the host
  does the same whatever raising them would do.
\<close>

theorem link_state_never_notified:
  assumes enc: "\<forall>n m. \<not> link_state_event (ev_data m) \<longrightarrow> enc n m = WifiMgmtNotification_encode (ww_ops ww) n m"
    and dec: "WifiMgmtNotification_decode ho (take len payload) = Some m" "\<not> link_state_event (ev_data m)"
  shows "wifi_mgmt_net_event_handler os kc (with_encoder enc ww) ev iface (v, s)
      = wifi_mgmt_net_event_handler os kc ww ev iface (v, s) \<and>
    raw_rx_notify_cb os kc (with_encoder enc ww) iface frame s = raw_rx_notify_cb os kc ww iface frame s \<and>
    wifi_mgmt_notify (ho\<lparr>wifi_mgmt_raise_connect_result_event := f,
        wifi_mgmt_raise_disconnect_result_event := g, wifi_mgmt_raise_iface_status_event := h\<rparr>)
      payload len user a = wifi_mgmt_notify ho payload len user a"
proof -
  have "wifi_mgmt_notify (ho\<lparr>wifi_mgmt_raise_connect_result_event := f,
        wifi_mgmt_raise_disconnect_result_event := g, wifi_mgmt_raise_iface_status_event := h\<rparr>)
      payload len user a = wifi_mgmt_notify ho payload len user a"
    using dec by (cases "ev_data m") (simp_all add: wifi_mgmt_notify_def Let_def)
  then show ?thesis using enc by (simp add: notifications_encoder)
qed

text \<open>With an encoder that has no link state events at all, and a scan report on the host.\<close>

definition sim_no_link_state :: "nat \<Rightarrow> WifiMgmtNotification \<Rightarrow> byte list option" where
  "sim_no_link_state n m =
     (if link_state_event (ev_data m) then None else WifiMgmtNotification_encode (ww_ops sim_ww) n m)"

theorem link_state_never_notified_witness:
  "wifi_mgmt_net_event_handler sim_uart sim_kc (with_encoder sim_no_link_state sim_ww)
      (NET_EVENT_WIFI_SCAN_DONE (Some 0)) (Some 0) (sim_vars, sim_device sim_kc [])
    = wifi_mgmt_net_event_handler sim_uart sim_kc sim_ww
      (NET_EVENT_WIFI_SCAN_DONE (Some 0)) (Some 0) (sim_vars, sim_device sim_kc []) \<and>
   wifi_mgmt_notify (sim_wifi\<lparr>wifi_mgmt_raise_connect_result_event := (\<lambda>i st e. []),
        wifi_mgmt_raise_disconnect_result_event := (\<lambda>i st e. []),
        wifi_mgmt_raise_iface_status_event := (\<lambda>i st e. [])\<rparr>)
      [10, 2, 18, 2] 4 None (app (sim_wifi_host [])) =
    wifi_mgmt_notify sim_wifi [10, 2, 18, 2] 4 None (app (sim_wifi_host []))"
proof -
  have enc: "\<forall>n m. \<not> link_state_event (ev_data m) \<longrightarrow>
      sim_no_link_state n m = WifiMgmtNotification_encode (ww_ops sim_ww) n m"
    by (simp add: sim_no_link_state_def)
  have dec: "WifiMgmtNotification_decode sim_wifi (take 4 [10, 2, 18, 2]) = Some sim_found_report"
    by (simp add: sim_wifi_def)
  have "\<not> link_state_event (ev_data sim_found_report)" by (simp add: sim_found_report_def)
  from link_state_never_notified [OF enc dec this] show ?thesis by blast
qed

end
