(* ===== verification/Spec2Isabelle.thy ===== *)
theory Spec2Isabelle
  imports Link_Ends Bt_Bridge Wifi_Behaviour Host_Wifi_Service Station_App Link_Events
begin

text \<open>
  A model of the embedded80211 link: a host and a radio co-processor, connected by a serial line,
  that carry Wi-Fi, Bluetooth, network interface and virtual serial traffic in frames with a
  four-byte header.  All paths below are relative to \<open>src/embedded80211/zephyr\<close>.

  \<^bold>\<open>The parts and how they interact.\<close>  On the host, drivers (\<open>host/host_bt.c\<close>, \<open>host/host_wifi.c\<close>)
  call the bus client \<open>host/bus.c\<close>, which frames their payloads, numbers them and writes them to a
  UART.  On the device, the interrupt handler of \<open>device/serial/serial.c\<close> parses headers, its work
  handler collects the payload into the buffer of the client that the multiplexer
  (\<open>device/multiplexer.c\<close>) has for the type, acknowledges the frame and tells the client.  The
  clients are the proxies: network interfaces (\<open>net_if_mgmt_proxy.c\<close>), Wi-Fi management
  (\<open>wifi_mgmt_proxy.c\<close>), Wi-Fi data and raw frames (\<open>wifi_data.c\<close>), Bluetooth (\<open>bt_proxy.c\<close>), virtual
  serial port (\<open>vserial.c\<close>) and OpenThread (\<open>ot_proxy.c\<close>).  A management proxy decodes the request
  on its own thread, calls the network stack or the radio driver and sends the encoded response
  back through the multiplexer; events of the radio travel the same way as notifications.  The
  host's receive path acknowledges a frame and gives it to a waiting \<open>bus_request\<close> or to the
  handler registered for its type.

  \<^bold>\<open>Theories.\<close>
  \<^item> \<open>Prelude\<close>: shared types, \<open>errno\<close> values, list and word lemmas, collections of simplification rules.
  \<^item> \<open>Link_Protocol\<close>: \<open>serial.h\<close>, \<open>bus.h\<close> and the header code of both ends; header codecs, validation,
    sequence numbers.
  \<^item> \<open>Uart\<close>: the transmit loops of both ends over an abstract UART, with the locale of its laws.
  \<^item> \<open>Device_State\<close>: the record \<open>device\<close>, the static variables of all device files; the heap of
    receive buffers is \<open>mem\<close>, an access outside a buffer sets \<open>mem_fault\<close>.
  \<^item> \<open>Ot_Proxy\<close>, \<open>Vserial\<close>, \<open>Bt_Proxy\<close>, \<open>Message_Buffers\<close>: the three link callbacks (acquire, commit,
    complete) of every proxy; \<open>Multiplexer\<close>: callback and interface tables.
  \<^item> \<open>Serial\<close>: every function of \<open>serial.c\<close>, \<open>uart.c\<close>, \<open>serial_usb.c\<close>; \<open>Serial_Irq\<close> and \<open>Serial_Work\<close>:
    what the interrupt and work handlers do on every kind of frame.
  \<^item> \<open>Device_Rx\<close>, \<open>Device_Delivery\<close>, \<open>Device_Errors\<close>, \<open>Device_Streams\<close>: one frame from the FIFO to its
    proxy, the error answers, and sequences of frames and fragments.  \<open>Device_Sim\<close>: a concrete UART,
    stacks and device on which the properties are applied.
  \<^item> \<open>Bus\<close>, \<open>Bus_Rx\<close>, \<open>Bus_Inv\<close>, \<open>Bus_Requests\<close>: \<open>host/bus.c\<close>, its reception, its invariant, its requests.
  \<^item> \<open>Net_If_Mgmt\<close>, \<open>Net_If_Service\<close>: the network interface proxy, request by request and on the link.
  \<^item> \<open>Bt_Bridge\<close>: the transmit thread of \<open>bt_proxy.c\<close> and the host's HCI driver \<open>host_bt.c\<close>.
  \<^item> \<open>Wifi_Enums\<close>: the enumeration conversions of both ends.  \<open>Wifi_Raw\<close>: raw frame transmission and
    capture.  \<open>Wifi_Messages\<close>: the messages of \<open>protos/wifi.proto\<close>, Zephyr's structures, the static
    variables of \<open>wifi_mgmt_proxy.c\<close>.  \<open>Wifi_Requests\<close>, \<open>Wifi_Dispatch\<close>: every request handler and the
    switch over them.  \<open>Wifi_Handlers\<close>: the contract the handlers share, as a locale interpreted for
    each of them.  \<open>Wifi_Events\<close>: notifications, threads, and the runs of the proxy as a step
    relation.  \<open>Wifi_Service\<close>, \<open>Wifi_Behaviour\<close>: requests and scans on the link, and the properties of
    single handlers.
  \<^item> \<open>Host_Wifi\<close>: the host's Wi-Fi driver \<open>host_wifi.c\<close>.  \<open>Host_Wifi_Service\<close>: the driver against the
    device's proxy.
  \<^item> \<open>Station_App\<close>: the application on the device, \<open>nrf7002dk/src/main.c\<close>.  \<open>Host_App\<close>: the application on
    the host, \<open>host/src/main.c\<close> and \<open>host/src/e2e_test.c\<close>.  \<open>Link_Events\<close>: which events cross the link.
  \<^item> \<open>Link_Ends\<close>: both ends together; this theory: the properties that span host and device.

  \<^bold>\<open>State and operations.\<close>  Each C function is a definition of the same name; a function with static
  variables takes the record that holds them and returns it.  C integers have their width (\<open>byte\<close>,
  \<open>u16\<close>, \<open>u32\<close>, bit fields as words of their size); \<open>int\<close> results are integers with negative \<open>errno\<close>.
  A null pointer is \<open>None\<close>.  Code outside the sources is a record of functions over an abstract
  state and a parameter of every operation that calls it: \<open>uart_ops\<close> (UART driver and clock),
  \<open>env_ops\<close> (Bluetooth and packet buffers), \<open>net_if_ops\<close> (network stack and its codec), \<open>wifi_ops\<close> and
  \<open>raw_ops\<close> (radio, sockets, codec), \<open>bt_ops\<close> and \<open>host_wifi_ops\<close> (the host's stacks),
  \<open>station_ops\<close> and \<open>e2e_ops\<close> (what the applications call); build options are the record \<open>kconfig\<close>.

  \<^bold>\<open>Hypotheses about that code.\<close>  \<open>link_law\<close> (a FIFO gives the bytes that are pending, in order, takes
  bytes in order and drains), \<open>arrive_law\<close> and \<open>brings\<close> (bytes arrive), \<open>encoder_bounded\<close> and
  \<open>wifi_codec_bounded\<close> (an encoder stays in its buffer), \<open>iface_search_ends\<close> (the stack numbers finitely
  many interfaces), \<open>ps_driver_law\<close> (a driver keeps its power save parameters), \<open>refuses_unterminated\<close>
  (nanopb does not encode a string without its NUL), and for the messages an end-to-end property
  exchanges that the decoder inverts the encoder.  Each is shown to hold for a concrete instance
  by the witness of the property that uses it.

  \<^bold>\<open>Loops and waiting.\<close>  Loops that depend on the hardware or the stack are partial functions into
  \<open>option\<close>: \<open>None\<close> is "does not return", and the properties show \<open>Some\<close> where the code returns.  What
  happens while the host waits is a finite script of arriving bytes and expired time-outs; properties
  quantify over all of them (a device that sends without end is not a script).  No fuel is used.  Concurrency on the device is interleaving at the
  points where another context can run: receive events, rounds of the threads (split at
  \<open>k_event_wait\<close> for the proxies), network events.

  \<^bold>\<open>What is shown.\<close>  Codecs: \<open>Link_Protocol\<close> (both ends agree on every header), \<open>Wifi_Enums\<close> (which
  parameters survive the translation).  Reception: a frame is delivered, acknowledged and counted
  exactly once, in one piece or in fragments; wrong sequence numbers, bad lengths and missing room
  get the answer the protocol defines.  Bus client: requests return for every script, with the
  response of the device or an error.  Proxies: each request is answered once with the result of
  the stack, invalid requests without effect; scan results are collected without overrun in every
  run and reported in order; credentials, country codes, power save parameters and raw frames reach
  the radio checked and complete.  Host driver: a connection with a pre-shared key reaches the radio
  as it was asked for.  Applications: the connection flag follows the stack's results, no wake-up of
  the Wi-Fi library is lost, a key is parsed as it was written, the host's test succeeds only on the
  events it names, which the device does not send.  End to end (this theory): synchronisation, virtual serial data, HCI commands,
  network interface and Wi-Fi management requests from the caller on the host to the stack on the
  device and back, and the results of a scan from the radio to the callback on the host.  Some properties prove behaviour the code does not intend; they carry a finding.

  \<^bold>\<open>Not modelled.\<close>  The tests, the command line tool (Rust), logging (but for the lines that report
  states in the applications), the protobuf codec nanopb generates, the conversion of the float bit
  rate, memory ordering between contexts.
\<close>

section \<open>Virtual serial data, end to end\<close>

text \<open>
  C4. Bytes the host sends as VSERIAL traffic are what an application on the device reads: if the
  two ends are in step and the bytes the host put on the wire are what the device finds in its
  FIFO, the send returns 0, the device appends exactly these bytes to the port's ring, from where
  polling reads them, and answers with one success acknowledgement, and the two ends are in step
  again.
\<close>

theorem vserial_end_to_end:
  assumes law: "link_law os sent pending" and b: "opened b" "uart b = Some hdev"
    and p: "0 < length p" "length p \<le> SERIAL_MAX_PAYLOAD_LEN"
    and send: "bus_send os (uint SERIAL_TYPE_VSERIAL) (Some p) (length p) b = Some (r, b')"
    and mem: "mem_ok kc s" and cfg: "CONFIG_SERIAL_PROXY_VSERIAL kc" and rdy: "rx_ready s c ddev"
    and wire: "pending ddev (world s) = wire sent hdev (bworld b) (bworld b')"
    and step: "in_step b s c" and tx: "length p \<le> CONFIG_VSERIAL_TX_BUF_SIZE kc"
    and rx: "length (vserial_rx_ring s) + length p \<le> CONFIG_VSERIAL_RX_BUF_SIZE kc"
  shows "\<exists>t. r = 0 \<and> rx_event os eo kc ddev c s = Some t \<and>
     vserial_rx_ring t = vserial_rx_ring s @ p \<and>
     fst (vserial_poll_all (length (vserial_rx_ring s) + length p) t) = vserial_rx_ring s @ p \<and>
     in_step b' t c \<and> rx_ready t c ddev \<and>
     wire sent ddev (world s) (world t) =
       bus_header_encode (ack_frame SERIAL_TYPE_VSERIAL (ucast (tx_seq b)) ERROR_TYPE_NO_ERROR)"
proof -
  let ?h = "tx_header 8 (tx_seq b) (length p)"
  have ty8: "0 \<le> (8 :: int)" "(8 :: int) < 9" by simp_all
  obtain w where w: "bus_send os 8 (Some p) (length p) b = Some (0, b\<lparr>tx_seq := bus_seq_next (tx_seq b), bworld := w\<rparr>)"
    "sent hdev w = sent hdev (bworld b) @ bus_header_encode ?h @ p"
    by (rule bus_send_link [OF law b ty8 p])
  have b': "r = 0" "b' = b\<lparr>tx_seq := bus_seq_next (tx_seq b), bworld := w\<rparr>" using w(1) send by simp_all
  have arr: "frame_arrives pending s c ddev ?h p"
    by (rule frame_arrives_sent [OF rdy _ p]) (use wire w(2) b'(2) in simp)
  have ty: "bh_type ?h = 8" by (simp add: tx_header_def)
  obtain t where t: "rx_event os eo kc ddev c s = Some t" "vserial_rx_ring t = vserial_rx_ring s @ p"
    and link: "link_after sent pending s c ddev (success_reply ?h)
       (sequence_number_advance (rx_sequence_number (serial_configs s c))) t"
    using vserial_frame_delivered [OF law mem cfg arr ty in_step_sequence [OF step] tx rx] by blast
  have "in_step b' t c" by (rule in_step_next [OF step]) (use b'(2) link in \<open>simp_all add: link_after_def\<close>)
  moreover have "fst (vserial_poll_all (length (vserial_rx_ring s) + length p) t) = vserial_rx_ring s @ p"
    using vserial_poll_all_ring [of t "vserial_rx_ring s @ p" "[]"] t(2) by simp
  ultimately show ?thesis using t link b'(1)
    by (auto simp: link_after_def success_reply_def tx_header_def)
qed

theorem vserial_end_to_end_witness:
  "\<exists>b' t. bus_send sim_uart 8 (Some [10, 20, 30]) 3 (sim_host []) = Some (0, b') \<and>
     rx_event sim_uart sim_stacks sim_kc 0 Config_serial
       (sim_device sim_kc (bus_header_encode (tx_header 8 0 3) @ [10, 20, 30])) = Some t \<and>
     vserial_rx_ring t = [10, 20, 30] \<and> in_step b' t Config_serial"
proof -
  let ?p = "[10, 20, 30] :: byte list"
  let ?s = "sim_device sim_kc (bus_header_encode (tx_header 8 0 3) @ ?p)"
  have b: "opened (sim_host [])" "uart (sim_host []) = Some 0" by simp_all
  have ty8: "0 \<le> (8 :: int)" "(8 :: int) < 9" by simp_all
  have p: "0 < length ?p" "length ?p \<le> 4096" by simp_all
  obtain w where w: "bus_send sim_uart 8 (Some ?p) (length ?p) (sim_host []) =
      Some (0, (sim_host [])\<lparr>tx_seq := bus_seq_next (tx_seq (sim_host [])), bworld := w\<rparr>)"
    "sim_tx w 0 = sim_tx (bworld (sim_host [])) 0 @ bus_header_encode (tx_header 8 (tx_seq (sim_host [])) (length ?p)) @ ?p"
    by (rule bus_send_link [OF sim_uart_link b ty8 p])
  define b' where "b' = (sim_host [])\<lparr>tx_seq := bus_seq_next (tx_seq (sim_host [])), bworld := w\<rparr>"
  have send: "bus_send sim_uart (uint (8 :: SerialType)) (Some ?p) (length ?p) (sim_host []) = Some (0, b')"
    using w(1) by (simp add: b'_def)
  have wire: "sim_rx (world ?s) 0 = wire (\<lambda>d w. sim_tx w d) 0 (bworld (sim_host [])) (bworld b')"
    using w(2) by (simp add: b'_def wire_def numeral_3_eq_3)
  have step: "in_step (sim_host []) ?s Config_serial" by (simp add: in_step_def sim_config_def)
  show ?thesis
    using vserial_end_to_end [OF sim_uart_link b p send _ _ _ wire step, of sim_kc sim_stacks] send
    by (auto simp: numeral_3_eq_3)
qed

section \<open>Bluetooth commands, end to end\<close>

text \<open>
  C6. An HCI command the host's Bluetooth stack sends through the virtual driver reaches the
  controller: the driver returns 0, the device hands the controller one command buffer with the
  packet, and the two ends stay in step.
\<close>

theorem hci_command_end_to_end:
  assumes law: "link_law os sent pending" and b: "opened b" "uart b = Some hdev"
    and pkt: "p = [1, op0, op1, plen] @ params" "length params = unat plen"
    and send: "virt_bt_send os bo nb p b = Some (r, b')"
    and mem: "mem_ok kc s" and cfg: "CONFIG_SERIAL_PROXY_BT kc" and idle: "hci_rx_buffer_len s = 0"
    and rdy: "rx_ready s c ddev" and wire: "pending ddev (world s) = wire sent hdev (bworld b) (bworld b')"
    and step: "in_step b s c"
    and buf: "bt_buf_get_tx eo BT_BUF_CMD ([op0, op1, plen] @ params) (env s) = (Some cb, e1)"
    and ok: "bt_send eo cb e1 = (0, e2)"
  shows "\<exists>t. r = 0 \<and> rx_event os eo kc ddev c s = Some t \<and> env t = e2 \<and> in_step b' t c \<and>
     rx_ready t c ddev \<and> hci_rx_buffer_len t = 0 \<and>
     wire sent ddev (world s) (world t) =
       bus_header_encode (ack_frame SERIAL_TYPE_HCI (ucast (tx_seq b)) ERROR_TYPE_NO_ERROR)"
proof -
  let ?h = "tx_header 3 (tx_seq b) (length p)"
  have plen: "unat plen < 256" using unsigned_less [of plen] by simp
  have p: "0 < length p" "length p \<le> 4096" using pkt plen by auto
  have ty3: "0 \<le> (3 :: int)" "(3 :: int) < 9" by simp_all
  obtain w where w: "bus_send os 3 (Some p) (length p) b = Some (0, b\<lparr>tx_seq := bus_seq_next (tx_seq b), bworld := w\<rparr>)"
    "sent hdev w = sent hdev (bworld b) @ bus_header_encode ?h @ p"
    by (rule bus_send_link [OF law b ty3 p])
  have b': "r = 0" "bworld b' = w" "tx_seq b' = bus_seq_next (tx_seq b)"
    using w(1) send by (auto simp: virt_bt_send_def)
  have arr: "frame_arrives pending s c ddev ?h p"
    by (rule frame_arrives_sent [OF rdy _ p]) (use wire w(2) b'(2) in simp)
  have ty: "bh_type ?h = 3" by (simp add: tx_header_def)
  obtain t where t: "rx_event os eo kc ddev c s = Some t" "hci_rx_buffer_len t = 0"
    "env t = (if fst (bt_send eo cb e1) \<noteq> 0 then net_buf_unref eo cb (snd (bt_send eo cb e1))
              else snd (bt_send eo cb e1))"
    and link: "link_after sent pending s c ddev (success_reply ?h)
       (sequence_number_advance (rx_sequence_number (serial_configs s c))) t"
    using hci_command_delivered [OF law mem cfg idle arr ty in_step_sequence [OF step] pkt buf] by blast
  have "in_step b' t c" by (rule in_step_next [OF step]) (use b'(3) link in \<open>simp_all add: link_after_def\<close>)
  with t link b'(1) ok show ?thesis
    by (auto simp: link_after_def success_reply_def tx_header_def)
qed

theorem hci_command_end_to_end_witness:
  "\<exists>b' t. virt_bt_send sim_uart sim_bt 0 [1, 3, 12, 0] (sim_bt_host []) = Some (0, b') \<and>
     rx_event sim_uart sim_stacks sim_kc 0 Config_serial
       (sim_device sim_kc (bus_header_encode (tx_header 3 0 4) @ [1, 3, 12, 0])) = Some t \<and>
     se_bufs (env t) = [(BT_BUF_CMD, [3, 12, 0])] \<and> se_bt_sent (env t) = [0] \<and> in_step b' t Config_serial"
proof -
  let ?p = "[1, 3, 12, 0] :: byte list" and ?b = "sim_bt_host []"
  let ?s = "sim_device sim_kc (bus_header_encode (tx_header 3 0 4) @ ?p)"
  have b: "opened ?b" "uart ?b = Some 0" by simp_all
  have ty3: "0 \<le> (3 :: int)" "(3 :: int) < 9" by simp_all
  have p: "0 < length ?p" "length ?p \<le> 4096" by simp_all
  obtain w where w: "bus_send sim_uart 3 (Some ?p) (length ?p) ?b =
      Some (0, ?b\<lparr>tx_seq := bus_seq_next (tx_seq ?b), bworld := w\<rparr>)"
    "sim_tx w 0 = sim_tx (bworld ?b) 0 @ bus_header_encode (tx_header 3 (tx_seq ?b) (length ?p)) @ ?p"
    by (rule bus_send_link [OF sim_uart_link b ty3 p])
  obtain b' where b': "virt_bt_send sim_uart sim_bt 0 ?p ?b = Some (0, b')" "bworld b' = w"
    using w(1) by (simp add: virt_bt_send_def)
  have wire: "sim_rx (world ?s) 0 = wire (\<lambda>d w. sim_tx w d) 0 (bworld ?b) (bworld b')"
    using w(2) b'(2) by (simp add: wire_def eval_nat_numeral)
  have step: "in_step ?b ?s Config_serial" by (simp add: in_step_def sim_config_def)
  have pkt: "?p = [1, 3, 12, 0] @ []" "length ([] :: byte list) = unat (0 :: byte)" by simp_all
  let ?e = "\<lparr>se_bufs = [(BT_BUF_CMD, [3, 12, 0])], se_bt_sent = [], se_pkts = []\<rparr>"
  have buf: "bt_buf_get_tx sim_stacks BT_BUF_CMD ([3, 12, 0] @ []) (env ?s) = (Some 0, ?e)" by simp
  have ok: "bt_send sim_stacks 0 ?e = (0, ?e\<lparr>se_bt_sent := [0]\<rparr>)" by simp
  show ?thesis
    using hci_command_end_to_end [where kc = sim_kc, OF sim_uart_link b pkt b'(1) _ _ _ _ wire step buf ok] b'(1)
    by auto
qed

section \<open>Synchronisation, end to end\<close>

text \<open>
  C1. Synchronising brings the two ends in step, whatever the host's counter was: the device answers
  the host's PROTOCOL_INFO query, and when the host finds that answer \<open>bus_sync\<close> returns 0, the
  host's next number is the one the device expects, and bit \<open>n\<close> of the host's mask of supported
  types is set exactly for PROTOCOL_INFO and the types whose proxy the device is configured with.
\<close>

theorem link_synchronised:
  assumes law: "link_law os sent pending" and b: "bus_ready b hdev" "pending hdev (bworld b) = []"
    and rdy: "rx_ready s c ddev" and rng: "rx_sequence_number (serial_configs s c) \<le> SEQUENCE_NUMBER_MAX"
    and query: "pending ddev (world s) = bus_header_encode (sync_query (tx_seq b))"
    and ev: "rx_event os eo kc ddev c s = Some t"
    and f: "brings sent pending hdev (wire sent ddev (world s) (world t)) f"
  shows "\<exists>b'. bus_sync os (Rx_arrival f # sc) b = Some (0, sc, b') \<and>
     take 4 (wire sent hdev (bworld b) (bworld b')) = bus_header_encode (sync_query (tx_seq b)) \<and>
     in_step b' t c \<and> rx_ready t c ddev \<and>
     (\<forall>n. bit (supported_types b') n \<longleftrightarrow> n = 7 \<or> n < 9 \<and> proxy_enabled kc (word_of_nat n))"
proof -
  have q: "bh_type (sync_query (tx_seq b)) = 7" "bh_length (sync_query (tx_seq b)) = 0"
    by (simp_all add: sync_query_def)
  let ?h = "frame_header 7 0 False (tx_sequence_number (serial_configs s c)) 4"
  obtain mask where mask: "\<forall>n. bit mask n \<longleftrightarrow> n = 7 \<or> n < 9 \<and> proxy_enabled kc (word_of_nat n)"
    and link: "link_after sent pending s c ddev (bus_header_encode ?h @
        [1, lo_byte mask, hi_byte mask, rx_sequence_number (serial_configs s c)])
       (rx_sequence_number (serial_configs s c)) t"
    using protocol_info_answered [OF law rdy query q, of eo kc] ev by auto
  let ?p = "[1, lo_byte mask, hi_byte mask, rx_sequence_number (serial_configs s c)]"
  have f': "brings sent pending hdev (bus_header_encode ?h @ ?p) f"
    using f link by (simp add: link_after_def)
  have val: "valid_frame ?h ?p"
    by (simp add: valid_frame_def bus_validate_rx_iff frame_header_def)
  have ty: "bh_type ?h = 7" by (simp add: frame_header_def)
  obtain w where w: "bus_sync os (Rx_arrival f # sc) b =
       Some (if (1 :: byte) \<noteq> 1 then - ENOTSUP else 0, sc,
         (let b' = (took w ?h ?p b)\<lparr>rx_sem := 0, request_pending := False\<rparr> in
          if (1 :: byte) \<noteq> 1 then b'
          else b'\<lparr>supported_types := mk_u16 (hi_byte mask) (lo_byte mask),
                  tx_seq := rx_sequence_number (serial_configs s c)\<rparr>))"
    "pending hdev w = []"
    "sent hdev w = sent hdev (bworld b) @ bus_header_encode (sync_query (tx_seq b)) @ frame_reply ?h"
    by (rule bus_sync_link [OF law b f' val ty])
  then show ?thesis
    using mask link rng by (auto simp: in_step_def link_after_def Let_def)
qed

theorem link_synchronised_witness:
  "\<exists>t b'. rx_event sim_uart sim_stacks sim_kc 0 Config_serial
        (sim_device sim_kc (bus_header_encode (sync_query 9))) = Some t \<and>
     bus_sync sim_uart [Rx_arrival (sim_bring (wire (\<lambda>d w. sim_tx w d) 0
        (world (sim_device sim_kc (bus_header_encode (sync_query 9)))) (world t)))] ((sim_host [])\<lparr>tx_seq := 9\<rparr>) =
       Some (0, [], b') \<and> in_step b' t Config_serial \<and>
     bit (supported_types b') 8 \<and> \<not> bit (supported_types b') 5"
proof -
  let ?s = "sim_device sim_kc (bus_header_encode (sync_query 9))" and ?b = "(sim_host [])\<lparr>tx_seq := 9\<rparr>"
  have q: "bh_type (sync_query 9) = 7" "bh_length (sync_query 9) = 0" by (simp_all add: sync_query_def)
  have pend: "sim_rx (world ?s) 0 = bus_header_encode (sync_query 9)" by simp
  have rdy: "rx_ready ?s Config_serial 0" by simp
  obtain t where t: "rx_event sim_uart sim_stacks sim_kc 0 Config_serial ?s = Some t"
    using protocol_info_answered [OF sim_uart_link rdy pend q, of sim_stacks sim_kc] by blast
  have rdy_b: "bus_ready ?b 0" "sim_rx (bworld ?b) 0 = []" using sim_host_simps(1) [of "[]"] by (simp_all add: bus_ready_def)
  have rng: "rx_sequence_number (serial_configs ?s Config_serial) \<le> 15" by (simp add: sim_config_def)
  have query: "sim_rx (world ?s) 0 = bus_header_encode (sync_query (tx_seq ?b))" by simp
  have en: "proxy_enabled sim_kc 8" "\<not> proxy_enabled sim_kc 5" by (simp_all add: proxy_enabled_def)
  obtain b' where "bus_sync sim_uart [Rx_arrival (sim_bring (wire (\<lambda>d w. sim_tx w d) 0 (world ?s) (world t)))] ?b =
      Some (0, [], b')" "in_step b' t Config_serial"
    "\<forall>n. bit (supported_types b') n \<longleftrightarrow> n = 7 \<or> n < 9 \<and> proxy_enabled sim_kc (word_of_nat n)"
    using link_synchronised [OF sim_uart_link rdy_b rdy rng query t sim_brings] by blast
  with t en show ?thesis by auto
qed

section \<open>Network interface requests, end to end\<close>

text \<open>
  C5. A request to the network interface proxy, from the caller on the host and back: the host's
  frame reaches the device, its proxy runs it once against the network stack and answers, and
  \<open>bus_request\<close> returns 0 with exactly the bytes of the encoded response.  The two ends are in step
  again, so requests can follow one another.
\<close>

theorem net_if_request_end_to_end:
  assumes law: "link_law os sent pending" and b: "bus_ready b hdev" "opened b" "rx_sem b = 0"
      "pending hdev (bworld b) = []"
    and req: "0 < length req" "length req \<le> 256"
    and mem: "mem_ok kc s" and cfg: "CONFIG_SERIAL_PROXY_NET_IF_MGMT kc"
    and idle: "net_if_mgmt_message_length s = 0" and rdy: "rx_ready s c ddev" and step: "in_step b s c"
    and there: "pending ddev (world s) =
        bus_header_encode (tx_header (uint SERIAL_TYPE_NET_IF_MGMT) (tx_seq b) (length req)) @ req"
    and route: "mux_routes kc s SERIAL_TYPE_NET_IF_MGMT c" and enc: "encoder_bounded no"
    and proc: "process_net_if_request no req 512 (env s) = (out, e1)" "out \<noteq> []"
    and dev: "rx_event os eo kc ddev c s = Some t" "net_if_mgmt_thread_round os kc no t = Some u"
    and ans: "brings sent pending hdev (wire sent ddev (world s) (world t)) f1"
      "brings sent pending hdev (wire sent ddev (world t) (world u)) f2"
  shows "\<exists>b'. bus_request os (uint SERIAL_TYPE_NET_IF_MGMT) (Some req) (length req) True
        (Rx_arrival f1 # Rx_arrival f2 # sc) b = Some ((0, Some out), sc, b') \<and>
     take (4 + length req) (wire sent hdev (bworld b) (bworld b')) = pending ddev (world s) \<and>
     env u = e1 \<and> in_step b' u c \<and> rx_ready u c ddev \<and> bus_ready b' hdev"
proof -
  let ?h = "tx_header 2 (tx_seq b) (length req)"
  have len: "length req \<le> 4096" "length req \<le> 512" using req by simp_all
  have arr: "frame_arrives pending s c ddev ?h req"
    by (rule frame_arrives_sent [OF rdy _ req(1) len(1)]) (use there in simp)
  have ty: "bh_type ?h = 2" "\<not> bh_no_ack ?h" by (simp_all add: tx_header_def)
  let ?q = "tx_sequence_number (serial_configs s c)"
  have sent: "sent ddev (world t) = sent ddev (world s) @ success_reply ?h"
    "sent ddev (world u) = sent ddev (world t) @ response_frame 2 ?q out"
    and u: "env u = e1" "rx_ready u c ddev"
      "rx_sequence_number (serial_configs u c) = sequence_number_advance (rx_sequence_number (serial_configs s c))"
    by (rule net_if_answered [OF law mem cfg idle arr ty(1) in_step_sequence [OF step] len(2) route enc proc(1),
          of eo]; use dev req in simp)+
  let ?a = "ack_frame 2 (bh_seq ?h) 0" and ?r = "frame_header 2 0 False ?q (length out)"
  have out: "length out \<le> 512" using process_net_if_request_bounded [OF enc, of req 512 "env s"] proc(1) by simp
  have f1: "brings sent pending hdev (bus_header_encode ?a) f1"
    using ans(1) sent(1) ty by (simp add: success_reply_def)
  have f2: "brings sent pending hdev (bus_header_encode ?r @ out) f2"
    using ans(2) sent(2) proc(2) by (simp add: response_frame_def)
  have val: "valid_frame ?a []" "valid_frame ?r out"
    using out by (simp_all add: valid_frame_def bus_validate_rx_iff ack_frame_def frame_header_def unat_word_of_nat_16)
  obtain b' where b': "bus_request os 2 (Some req) (length req) True (Rx_arrival f1 # Rx_arrival f2 # sc) b =
       Some ((0, Some out), sc, b')" "tx_seq b' = bus_seq_next (tx_seq b)" "bus_ready b' hdev"
     "sent hdev (bworld b') = sent hdev (bworld b) @ bus_header_encode ?h @ req @
       (if bh_no_ack ?r then [] else bus_header_encode (host_ack (bh_type ?r) (bh_seq ?r) 0))"
    using bus_request_answered [OF law b _ _ req(1) len(1) f1 val(1) _ f2 val(2) _ proc(2), of 2 sc]
    by (auto simp: ack_frame_def frame_header_def)
  have "in_step b' u c" by (rule in_step_next [OF step b'(2) u(3)])
  with b' u there show ?thesis by simp
qed

theorem net_if_request_end_to_end_witness:
  "\<exists>t u b'. rx_event sim_uart sim_stacks sim_kc 0 Config_serial
        (sim_device sim_kc (bus_header_encode (tx_header 2 0 6) @ [8, 5, 90, 2, 8, 1])) = Some t \<and>
     net_if_mgmt_thread_round sim_uart sim_kc sim_net_if t = Some u \<and>
     bus_request sim_uart 2 (Some [8, 5, 90, 2, 8, 1]) (length [8 :: byte, 5, 90, 2, 8, 1]) True
       [Rx_arrival (sim_bring (wire (\<lambda>d w. sim_tx w d) 0
          (world (sim_device sim_kc (bus_header_encode (tx_header 2 0 6) @ [8, 5, 90, 2, 8, 1]))) (world t))),
        Rx_arrival (sim_bring (wire (\<lambda>d w. sim_tx w d) 0 (world t) (world u)))] (sim_host []) =
       Some ((0, Some [8, 5, 58, 3, 8, 220, 11]), [], b') \<and> in_step b' u Config_serial"
proof -
  let ?p = "[8, 5, 90, 2, 8, 1] :: byte list" and ?b = "sim_host []"
  let ?s = "sim_device sim_kc (bus_header_encode (tx_header 2 0 6) @ ?p)"
  have b: "bus_ready ?b 0" "opened ?b" "rx_sem ?b = 0" "sim_rx (bworld ?b) 0 = []" by simp_all
  have step: "in_step ?b ?s Config_serial" by (simp add: in_step_def sim_config_def)
  have six: "(6 :: nat) = length ?p" by simp
  have there: "sim_rx (world ?s) 0 = bus_header_encode (tx_header (uint (2 :: SerialType)) (tx_seq ?b) (length ?p)) @ ?p"
    unfolding six by simp
  have p: "0 < length ?p" "length ?p \<le> 256" "length ?p \<le> 4096" "length ?p \<le> 512" by simp_all
  have dev: "mem_ok sim_kc ?s" "CONFIG_SERIAL_PROXY_NET_IF_MGMT sim_kc" "net_if_mgmt_message_length ?s = 0"
    "rx_ready ?s Config_serial 0" by simp_all
  have route: "mux_routes sim_kc ?s 2 Config_serial" by (simp add: mux_routes_def)
  have arr: "frame_arrives (\<lambda>d w. sim_rx w d) ?s Config_serial 0 (tx_header 2 (tx_seq ?b) (length ?p)) ?p"
    by (rule frame_arrives_sent [OF dev(4) _ p(1,3)]) (use there in simp)
  have ty: "bh_type (tx_header 2 (tx_seq ?b) (length ?p)) = 2" by (simp add: tx_header_def)
  obtain t u where tu: "rx_event sim_uart sim_stacks sim_kc 0 Config_serial ?s = Some t"
    "net_if_mgmt_thread_round sim_uart sim_kc sim_net_if t = Some u"
    by (rule net_if_answered [OF sim_uart_link dev(1-3) arr ty in_step_sequence [OF step] p(4) route
          sim_net_if_bounded sim_net_if_mtu, of sim_stacks])
  have out: "[8, 5, 58, 3, 8, 220, 11] \<noteq> ([] :: byte list)" by simp
  obtain b' where "bus_request sim_uart (uint (2 :: SerialType)) (Some ?p) (length ?p) True
       [Rx_arrival (sim_bring (wire (\<lambda>d w. sim_tx w d) 0 (world ?s) (world t))),
        Rx_arrival (sim_bring (wire (\<lambda>d w. sim_tx w d) 0 (world t) (world u)))] ?b =
       Some ((0, Some [8, 5, 58, 3, 8, 220, 11]), [], b')" "in_step b' u Config_serial"
    using net_if_request_end_to_end [OF sim_uart_link b p(1,2) dev step there route sim_net_if_bounded
        sim_net_if_mtu out tu sim_brings sim_brings] by blast
  with tu show ?thesis by auto
qed

section \<open>Wi-Fi management requests, end to end\<close>

text \<open>
  C2. A management request of the host's Wi-Fi driver, from the driver to the radio and back: when
  the decoders invert the encoders on the two messages exchanged, the driver gets exactly the
  response that the device's proxy has computed for exactly the request that was sent, the radio
  has done the work once, the state of the driver is untouched, and both ends are in step for the
  next request.
\<close>

theorem wifi_request_end_to_end:
  assumes law: "link_law os sent pending" and b: "bus_ready b hdev" "opened b" "rx_sem b = 0"
      "pending hdev (bworld b) = []"
    and enc: "WifiMgmtRequest_encode ho (sizeof_req_buf ho) req = Some bytes"
      "WifiMgmtRequest_decode (ww_ops ww) bytes = Some req"
    and len: "0 < length bytes" "length bytes \<le> SERIAL_MAX_PAYLOAD_LEN"
      "2 * length bytes \<le> unat (sizeof_WifiMgmtRequest kc)"
    and mem: "mem_ok kc s" and cfg: "CONFIG_SERIAL_PROXY_WIFI_MGMT kc"
    and idle: "wifi_mgmt_message_length s = 0" and rdy: "rx_ready s c ddev" and step: "in_step b s c"
    and there: "pending ddev (world s) =
        bus_header_encode (tx_header (uint SERIAL_TYPE_WIFI_MGMT) (tx_seq b) (length bytes)) @ bytes"
    and route: "mux_routes kc s SERIAL_TYPE_WIFI_MGMT c" and cod: "wifi_codec_bounded (ww_ops ww)"
      "sizeof_WifiMgmtResponse (ww_ops ww) \<le> sizeof_resp_buf ho"
    and proc: "wifi_respond ww (wreq_request_id req) (wreq_payload req) v (env s) = Some (p, v1, e1)"
    and resp: "r = \<lparr>wresp_request_id = wreq_request_id req, wresp_payload = p\<rparr>"
      "WifiMgmtResponse_encode (ww_ops ww) (sizeof_WifiMgmtResponse (ww_ops ww)) r = Some out" "out \<noteq> []"
      "WifiMgmtResponse_decode ho out = Some r"
    and dev: "rx_event os eo kc ddev c s = Some t" "wifi_mgmt_thread_round os kc ww (v, t) = Some (v2, u)"
    and ans: "brings sent pending hdev (wire sent ddev (world s) (world t)) f1"
      "brings sent pending hdev (wire sent ddev (world t) (world u)) f2"
  shows "\<exists>b'. mgmt_roundtrip os ho req (Rx_arrival f1 # Rx_arrival f2 # sc) b = Some ((0, Some r), sc, b') \<and>
     app b' = app b \<and> v2 = v1 \<and> env u = e1 \<and> in_step b' u c \<and> rx_ready u c ddev \<and> bus_ready b' hdev \<and>
     rx_sem b' = 0 \<and> pending hdev (bworld b') = []"
proof -
  let ?h = "tx_header 0 (tx_seq b) (length bytes)"
  have arr: "frame_arrives pending s c ddev ?h bytes"
    by (rule frame_arrives_sent [OF rdy _ len(1,2)]) (use there in simp)
  have ty: "bh_type ?h = 0" "\<not> bh_no_ack ?h" by (simp_all add: tx_header_def)
  have fit: "length bytes \<le> unat (sizeof_WifiMgmtRequest kc)" using len(3) by simp
  have pr: "process_wifi_mgmt_request ww bytes (sizeof_WifiMgmtResponse (ww_ops ww)) v (env s) = Some (out, v1, e1)"
    using enc(2) proc resp by (simp add: process_wifi_mgmt_request_def wifi_mgmt_response_def)
  let ?q = "tx_sequence_number (serial_configs s c)"
  obtain t' u' where dev': "rx_event os eo kc ddev c s = Some t'" "wifi_mgmt_thread_round os kc ww (v, t') = Some (v1, u')"
    "env u' = e1"
    and link: "link_after sent pending s c ddev (success_reply ?h @
        (if unat (sizeof_WifiMgmtRequest kc) < 2 * length bytes
         then bus_header_encode (ack_frame 0 (bh_seq ?h) 2) else []) @ response_frame 0 ?q out)
       (sequence_number_advance (rx_sequence_number (serial_configs s c))) u'"
    and sent_t: "sent ddev (world t') = sent ddev (world s) @ success_reply ?h @
        (if unat (sizeof_WifiMgmtRequest kc) < 2 * length bytes
         then bus_header_encode (ack_frame 0 (bh_seq ?h) 2) else [])"
    and sent_u: "sent ddev (world u') = sent ddev (world t') @ response_frame 0 ?q out"
    by (rule wifi_mgmt_answered [OF law mem cfg idle arr ty(1) in_step_sequence [OF step] fit route cod(1) pr, of eo])
  have same: "t' = t" "u' = u" "v2 = v1" using dev dev' by simp_all
  let ?a = "ack_frame 0 (bh_seq ?h) 0" and ?r = "frame_header 0 0 False ?q (length out)"
  have out: "length out \<le> 4096" "length out \<le> sizeof_resp_buf ho"
    using process_wifi_bounded [OF cod(1) pr] cod resp(2) by (fastforce simp: wifi_codec_bounded_def)+
  have f1: "brings sent pending hdev (bus_header_encode ?a) f1"
    using ans(1) sent_t ty len(3) by (simp add: same success_reply_def)
  have f2: "brings sent pending hdev (bus_header_encode ?r @ out) f2"
    using ans(2) sent_u resp(3) by (simp add: same response_frame_def)
  have val: "valid_frame ?a []" "valid_frame ?r out" "bh_error ?a = 0" "bh_type ?r = 0"
    using out by (simp_all add: valid_frame_def bus_validate_rx_iff ack_frame_def frame_header_def unat_word_of_nat_16)
  obtain b' where b': "mgmt_roundtrip os ho req (Rx_arrival f1 # Rx_arrival f2 # sc) b =
       Some ((case WifiMgmtResponse_decode ho out of None \<Rightarrow> (- EBADMSG, None) | Some r \<Rightarrow> (0, Some r)), sc, b')"
    "app b' = app b" "tx_seq b' = bus_seq_next (tx_seq b)" "bus_ready b' hdev" "rx_sem b' = 0"
    "pending hdev (bworld b') = []"
    by (rule mgmt_roundtrip_answered [OF law b enc(1) len(1,2) f1 val(1,3) f2 val(2,4) resp(3) out(2), of sc])
  have rx: "rx_sequence_number (serial_configs u c) = sequence_number_advance (rx_sequence_number (serial_configs s c))"
    "rx_ready u c ddev"
    using link by (simp_all add: link_after_def same)
  have "in_step b' u c" by (rule in_step_next [OF step b'(3) rx(1)])
  with b' same dev'(3) resp(4) rx(2) show ?thesis by simp
qed

theorem wifi_request_end_to_end_witness:
  "\<exists>t u b'. rx_event sim_uart sim_stacks sim_kc 0 Config_serial
        (sim_device sim_kc (bus_header_encode (tx_header 0 0 4) @ [8, 2, 26, 0])) = Some t \<and>
     wifi_mgmt_thread_round sim_uart sim_kc sim_ww (sim_vars, t) = Some (sim_vars, u) \<and> se_pkts (env u) = [[2]] \<and>
     mgmt_roundtrip sim_uart sim_wifi \<lparr>wreq_request_id = 2, wreq_payload = Disconnect_req 0\<rparr>
       [Rx_arrival (sim_bring (wire (\<lambda>d w. sim_tx w d) 0
          (world (sim_device sim_kc (bus_header_encode (tx_header 0 0 4) @ [8, 2, 26, 0]))) (world t))),
        Rx_arrival (sim_bring (wire (\<lambda>d w. sim_tx w d) 0 (world t) (world u)))] (sim_wifi_host []) =
       Some ((0, Some \<lparr>wresp_request_id = 2, wresp_payload = Status_resp (status_ok ''Disconnect initiated'')\<rparr>), [], b') \<and>
     in_step b' u Config_serial"
proof -
  let ?p = "[8, 2, 26, 0] :: byte list" and ?b = "sim_wifi_host []" and ?out = "[8, 2, 18, 2, 8, 1] :: byte list"
  let ?s = "sim_device sim_kc (bus_header_encode (tx_header 0 0 4) @ ?p)"
  let ?req = "\<lparr>wreq_request_id = 2, wreq_payload = Disconnect_req 0\<rparr>"
  let ?st = "Status_resp (status_ok ''Disconnect initiated'')"
  have b: "bus_ready ?b 0" "opened ?b" "rx_sem ?b = 0" "sim_rx (bworld ?b) 0 = []" by simp_all
  have sz: "sizeof_req_buf sim_wifi = 600" "sizeof_resp_buf sim_wifi = 700" by (simp_all add: sim_wifi_def)
  have enc: "WifiMgmtRequest_encode sim_wifi (sizeof_req_buf sim_wifi) ?req = Some ?p"
    "WifiMgmtRequest_decode (ww_ops sim_ww) ?p = Some ?req"
    by (simp_all add: sz) (simp add: sim_radio_defs)
  have len: "0 < length ?p" "length ?p \<le> 4096" "2 * length ?p \<le> unat (sizeof_WifiMgmtRequest sim_kc)"
    "length ?p \<le> unat (sizeof_WifiMgmtRequest sim_kc)" by simp_all
  have dev: "mem_ok sim_kc ?s" "CONFIG_SERIAL_PROXY_WIFI_MGMT sim_kc" "wifi_mgmt_message_length ?s = 0"
    "rx_ready ?s Config_serial 0" by simp_all
  have step: "in_step ?b ?s Config_serial" by (simp add: in_step_def sim_config_def)
  have four: "(4 :: nat) = length ?p" by simp
  have there: "sim_rx (world ?s) 0 = bus_header_encode (tx_header (uint (0 :: SerialType)) (tx_seq ?b) (length ?p)) @ ?p"
    unfolding four by simp
  have route: "mux_routes sim_kc ?s 0 Config_serial" by (simp add: mux_routes_def)
  have cod: "wifi_codec_bounded (ww_ops sim_ww)" "sizeof_WifiMgmtResponse (ww_ops sim_ww) \<le> sizeof_resp_buf sim_wifi"
    by (simp add: sim_radio_bounded) (simp add: sim_radio_defs sz)
  let ?e1 = "(env ?s)\<lparr>se_pkts := se_pkts (env ?s) @ [[2]]\<rparr>"
  have proc: "wifi_respond sim_ww (wreq_request_id ?req) (wreq_payload ?req) sim_vars (env ?s) = Some (?st, sim_vars, ?e1)"
    using sim_disconnect_response by simp
  let ?r = "\<lparr>wresp_request_id = wreq_request_id ?req, wresp_payload = ?st\<rparr>"
  have resp: "WifiMgmtResponse_encode (ww_ops sim_ww) (sizeof_WifiMgmtResponse (ww_ops sim_ww)) ?r = Some ?out" "?out \<noteq> []"
    "WifiMgmtResponse_decode sim_wifi ?out = Some ?r"
    by (simp_all add: sim_radio_defs status_ok_def)
  have arr: "frame_arrives (\<lambda>d w. sim_rx w d) ?s Config_serial 0 (tx_header 0 (tx_seq ?b) (length ?p)) ?p"
    by (rule frame_arrives_sent [OF dev(4) _ len(1,2)]) (use there in simp)
  have ty: "bh_type (tx_header 0 (tx_seq ?b) (length ?p)) = 0" by (simp add: tx_header_def)
  have pr: "process_wifi_mgmt_request sim_ww ?p (sizeof_WifiMgmtResponse (ww_ops sim_ww)) sim_vars (env ?s) =
      Some (?out, sim_vars, ?e1)"
    using sim_disconnect by simp
  obtain t u where tu: "rx_event sim_uart sim_stacks sim_kc 0 Config_serial ?s = Some t"
    "wifi_mgmt_thread_round sim_uart sim_kc sim_ww (sim_vars, t) = Some (sim_vars, u)"
    by (rule wifi_mgmt_answered [OF sim_uart_link dev(1-3) arr ty in_step_sequence [OF step] len(4) route cod(1) pr,
          of sim_stacks])
  show ?thesis
    using wifi_request_end_to_end [OF sim_uart_link b enc len(1-3) dev step there route cod proc refl resp tu
        sim_brings sim_brings, of "[]"] tu
    by auto
qed

section \<open>Scans, end to end\<close>

text \<open>
  C3. What the radio finds is what the host's Wi-Fi layer gets: the results of a scan, collected on
  the device while it also serves requests and link traffic, arrive in the callback of the host's
  driver one by one and in order, up to the number the device keeps, followed by the end of the
  scan with its status; each result has the name, address, channel and signal strength the radio
  reported.
\<close>

theorem scan_end_to_end:
  assumes run: "wifi_run os eo kc ww x ls (v, s)" and ok: "wifi_vars_ok ww (fst x)"
    and empty: "collected (fst x) = []" and nodone: "\<forall>l \<in> set ls. \<not> is_scan_done l"
    and res: "\<forall>r \<in> set (concat (map radio_result ls)). scan_result_ok r"
    and law: "link_law os sent pending" and route: "mux_routes kc s SERIAL_TYPE_WIFI_MGMT c"
    and dev: "serial_dev (serial_configs s c) = Some ddev" and enc: "wifi_codec_bounded (ww_ops ww)"
    and msg: "msg = \<lparr>ev_iface_index = event_iface_index ww iface (env s),
       ev_data = Scan_done_event status (map scan_result_to_proto
         (take (CONFIG_WIFI_MGMT_PROXY_MAX_SCAN_RESULTS (ww_ops ww)) (concat (map radio_result ls))))\<rparr>"
    and out: "WifiMgmtNotification_encode (ww_ops ww) (sizeof_WifiMgmtNotification (ww_ops ww)) msg = Some out"
      "out \<noteq> []" "WifiMgmtNotification_decode ho out = Some msg"
    and fin: "wifi_step os eo kc ww (v, s) (Net_event (NET_EVENT_WIFI_SCAN_DONE (Some status)) iface) (v1, t)"
    and b: "bus_ready b hdev" "\<not> request_pending b"
    and drv: "handler b SERIAL_TYPE_WIFI_MGMT = Some (wifi_mgmt_notify ho)" "scan_cb (app b) = Some cb"
    and there: "pending hdev (bworld b) = wire sent ddev (world s) (world t)"
  shows "collected v1 = [] \<and> (\<exists>b'. bus_rx_event os b = Some b' \<and> bus_ready b' hdev \<and>
     net_stack (app b') =
       (let i = virt_wifi_netif ho (net_stack (app b))
        in cb i status None (foldl (\<lambda>e r. cb i status (Some (scan_result_seen r)) e) (net_stack (app b))
             (take (CONFIG_WIFI_MGMT_PROXY_MAX_SCAN_RESULTS (ww_ops ww)) (concat (map radio_result ls))))))"
proof -
  let ?n = "CONFIG_WIFI_MGMT_PROXY_MAX_SCAN_RESULTS (ww_ops ww)" and ?rs = "concat (map radio_result ls)"
  let ?h = "frame_header 0 0 False (tx_sequence_number (serial_configs s c)) (length out)"
  have enc_out: "WifiMgmtNotification_encode (ww_ops ww) (sizeof_WifiMgmtNotification (ww_ops ww))
      \<lparr>ev_iface_index = event_iface_index ww iface (env s),
       ev_data = Scan_done_event status (take ?n (concat (map scan_report ls)))\<rparr> = Some out"
    using out(1) by (simp add: msg concat_scan_report take_map)
  obtain v' t' where st: "wifi_step os eo kc ww (v, s) (Net_event (NET_EVENT_WIFI_SCAN_DONE (Some status)) iface) (v', t')"
    "collected v' = []" "sent ddev (world t') = sent ddev (world s) @ bus_header_encode ?h @ out"
    using scan_reported_to_host [OF run ok empty nodone law route dev enc enc_out] by blast
  have same: "v' = v1" "t' = t" using st(1) fin by (simp_all add: wifi_step_simps)
  have len: "length out \<le> 4096" using enc out(1) by (fastforce simp: wifi_codec_bounded_def)
  have fr: "device_frame pending b hdev ?h out"
    using there st(3) len by (simp add: same device_frame_def bus_validate_rx_iff frame_header_def unat_word_of_nat_16)
  have ty: "bh_type ?h = 0" by (simp add: frame_header_def)
  have ok': "\<forall>r \<in> set (take ?n ?rs). scan_result_ok r" using res by (meson in_set_takeD)
  obtain b' where "bus_rx_event os b = Some b'" "bus_ready b' hdev" "scan_cb (app b') = Some cb"
    "net_stack (app b') =
       (let i = virt_wifi_netif ho (net_stack (app b))
        in cb i status None (foldl (\<lambda>e r. cb i status (Some (scan_result_seen r)) e) (net_stack (app b)) (take ?n ?rs)))"
    by (rule scan_report_received [OF law b drv fr ty out(2) out(3) [unfolded msg] ok'])
  with st(2) show ?thesis by (auto simp: same)
qed

theorem scan_end_to_end_witness:
  "\<exists>v v1 t b'. wifi_run sim_uart sim_stacks sim_kc sim_ww (sim_vars, sim_device sim_kc [])
       [sim_scan_event, Thread_round, sim_scan_event, sim_scan_event] (v, sim_device sim_kc []) \<and>
     wifi_step sim_uart sim_stacks sim_kc sim_ww (v, sim_device sim_kc [])
       (Net_event (NET_EVENT_WIFI_SCAN_DONE (Some 0)) (Some 0)) (v1, t) \<and>
     bus_rx_event sim_uart (sim_wifi_host (wire (\<lambda>d w. sim_tx w d) 0 (world (sim_device sim_kc [])) (world t))) = Some b' \<and>
     net_stack (app b') =
       [(0, Some (scan_result_seen sim_found)), (0, Some (scan_result_seen sim_found)), (0, None)]"
proof -
  let ?s = "sim_device sim_kc []" and ?ls = "[sim_scan_event, Thread_round, sim_scan_event, sim_scan_event]"
  obtain v where run: "wifi_run sim_uart sim_stacks sim_kc sim_ww (sim_vars, ?s) ?ls (v, ?s)"
    using sim_scan_run by blast
  have route: "mux_routes sim_kc ?s 0 Config_serial" by (simp add: mux_routes_def)
  have dev: "serial_dev (serial_configs ?s Config_serial) = Some 0" by (simp add: sim_config_def)
  have max: "CONFIG_WIFI_MGMT_PROXY_MAX_SCAN_RESULTS (ww_ops sim_ww) = 2" by (simp add: sim_radio_defs)
  have res: "\<forall>r \<in> set (concat (map radio_result ?ls)). scan_result_ok r"
    by (simp add: scan_result_ok_def sim_found_def)
  have msg: "sim_found_report = \<lparr>ev_iface_index = event_iface_index sim_ww (Some 0) (env ?s),
      ev_data = Scan_done_event 0 (map scan_result_to_proto
        (take (CONFIG_WIFI_MGMT_PROXY_MAX_SCAN_RESULTS (ww_ops sim_ww)) (concat (map radio_result ?ls))))\<rparr>"
    unfolding max by (simp add: sim_found_report_def event_iface_index_def sim_net_if_def)
  have out: "WifiMgmtNotification_encode (ww_ops sim_ww) (sizeof_WifiMgmtNotification (ww_ops sim_ww)) sim_found_report =
      Some [10, 2, 18, 2]" "[10, 2, 18, 2] \<noteq> ([] :: byte list)"
    "WifiMgmtNotification_decode sim_wifi [10, 2, 18, 2] = Some sim_found_report"
    by (simp_all add: sim_radio_defs sim_found_report_def sim_wifi_def)
  have vars: "wifi_vars_ok sim_ww (fst (sim_vars, ?s))" "collected (fst (sim_vars, ?s)) = []"
    "\<forall>l \<in> set ?ls. \<not> is_scan_done l" "wifi_codec_bounded (ww_ops sim_ww)"
    by (simp_all add: sim_vars_ok sim_radio_bounded)
  have enc: "WifiMgmtNotification_encode (ww_ops sim_ww) (sizeof_WifiMgmtNotification (ww_ops sim_ww))
      \<lparr>ev_iface_index = event_iface_index sim_ww (Some 0) (env ?s),
       ev_data = Scan_done_event 0 (take (CONFIG_WIFI_MGMT_PROXY_MAX_SCAN_RESULTS (ww_ops sim_ww))
         (concat (map scan_report ?ls)))\<rparr> = Some [10, 2, 18, 2]"
    by (simp add: sim_radio_defs)
  obtain v1 t where st: "wifi_step sim_uart sim_stacks sim_kc sim_ww (v, ?s)
      (Net_event (NET_EVENT_WIFI_SCAN_DONE (Some 0)) (Some 0)) (v1, t)"
    using scan_reported_to_host [OF run vars(1-3) sim_uart_link route dev vars(4) enc] by blast
  let ?b = "sim_wifi_host (wire (\<lambda>d w. sim_tx w d) 0 (world ?s) (world t))"
  have b: "bus_ready ?b 0" "\<not> request_pending ?b" "handler ?b 0 = Some (wifi_mgmt_notify sim_wifi)"
    "scan_cb (app ?b) = Some sim_cb" "sim_rx (bworld ?b) 0 = wire (\<lambda>d w. sim_tx w d) 0 (world ?s) (world t)"
    by simp_all
  have "\<exists>b'. bus_rx_event sim_uart ?b = Some b' \<and> net_stack (app b') =
      [(0, Some (scan_result_seen sim_found)), (0, Some (scan_result_seen sim_found)), (0, None)]"
    using scan_end_to_end [OF run vars(1-3) res sim_uart_link route dev vars(4) msg out st b]
    unfolding max by (auto simp: sim_cb_def Let_def)
  with run st show ?thesis by blast
qed

end
